(* ===== verification/Cell_Prelude.thy ===== *)
theory Cell_Prelude
  imports Main "HOL-Library.Word"
begin

text \<open>
  What the components share: the machine integers of the Rust sources at their width, the
  outcome of a Rust computation (a value, an error of the caller's type, or a panic), state
  passing with Rust's early return and scope exit, and the arithmetic lemmas that move between
  words and integers.
\<close>

named_theorems wrap_simps "reading machine integers that do not wrap"
named_theorems io_simps "running computations in state-passing style"

section \<open>Machine integers\<close>

type_synonym i64 = "64 word"
type_synonym u64 = "64 word"
type_synonym i32 = "32 word"
type_synonym i16 = "16 word"
type_synonym c_int = "32 word"

abbreviation i64_max :: int where "i64_max \<equiv> 9223372036854775807"
abbreviation i64_min :: int where "i64_min \<equiv> - 9223372036854775808"

text \<open>The cast of a wider integer to \<open>i64\<close> keeps the low 64 bits.\<close>

definition as_i64 :: "int \<Rightarrow> i64" where
  "as_i64 n = word_of_int n"

lemma sint_word_of_int_self:
  assumes "- (2 ^ (LENGTH('a) - 1)) \<le> n" and "n < 2 ^ (LENGTH('a) - 1)"
  shows "sint (word_of_int n :: 'a::len word) = n"
  using assms by (simp add: sint_sbintrunc' signed_take_bit_int_eq_self)

lemma sint_as_i64 [wrap_simps]:
  assumes "i64_min \<le> n" and "n \<le> i64_max"
  shows "sint (as_i64 n) = n"
  using assms by (simp add: as_i64_def sint_word_of_int_self)

lemma word_of_int_sint: "(word_of_int (sint w) :: 'a::len word) = w"
  by simp

lemma as_i64_sint [simp]: "as_i64 (sint w) = w"
  by (simp add: as_i64_def)

lemma sint_i64_ge: "i64_min \<le> sint (w :: i64)"
  using sint_ge [of w] by simp

lemma sint_i64_le: "sint (w :: i64) \<le> i64_max"
  using sint_lt [of w] by simp

lemma sint_i64_bounds: "i64_min \<le> sint (w :: i64) \<and> sint w \<le> i64_max"
  using sint_i64_ge sint_i64_le by simp

lemma as_i64_mult: "as_i64 (sint a * sint b) = a * b"
  by (simp add: as_i64_def)

lemma as_i64_add: "as_i64 (sint a + sint b) = a + b"
  by (simp add: as_i64_def)

lemma sint_mult_i64 [wrap_simps]:
  fixes a b :: i64
  assumes "i64_min \<le> sint a * sint b" and "sint a * sint b \<le> i64_max"
  shows "sint (a * b) = sint a * sint b"
  using sint_as_i64 [OF assms] by (simp add: as_i64_mult)

lemma sint_add_i64 [wrap_simps]:
  fixes a b :: i64
  assumes "i64_min \<le> sint a + sint b" and "sint a + sint b \<le> i64_max"
  shows "sint (a + b) = sint a + sint b"
  using sint_as_i64 [OF assms] by (simp add: as_i64_add)

lemma sint_eq_uint_i64:
  fixes w :: u64
  assumes "uint w \<le> i64_max"
  shows "sint w = uint w"
proof -
  have "w = as_i64 (uint w)" by (simp add: as_i64_def)
  moreover have "i64_min \<le> uint w" using uint_ge_0 [of w] by linarith
  ultimately show ?thesis using assms sint_as_i64 [of "uint w"] by simp
qed

lemma uint_u64_self [wrap_simps]: "0 \<le> n \<Longrightarrow> n < 2 ^ 64 \<Longrightarrow> uint (word_of_int n :: u64) = n"
  by (simp add: uint_word_of_int_eq take_bit_int_eq_self)

section \<open>Division towards zero\<close>

text \<open>Rust's integer division and remainder round towards zero.\<close>

definition trunc_div :: "int \<Rightarrow> int \<Rightarrow> int" where
  "trunc_div a b = sgn a * sgn b * (\<bar>a\<bar> div \<bar>b\<bar>)"

definition trunc_mod :: "int \<Rightarrow> int \<Rightarrow> int" where
  "trunc_mod a b = a - b * trunc_div a b"

lemma trunc_div_nonneg [simp]: "0 \<le> a \<Longrightarrow> 0 < b \<Longrightarrow> trunc_div a b = a div b"
  by (cases "a = 0") (simp_all add: trunc_div_def)

lemma trunc_div_neg: "a < 0 \<Longrightarrow> 0 < b \<Longrightarrow> trunc_div a b = - ((- a) div b)"
  by (simp add: trunc_div_def)

lemma trunc_mod_nonneg [simp]: "0 \<le> a \<Longrightarrow> 0 < b \<Longrightarrow> trunc_mod a b = a mod b"
  by (simp add: trunc_mod_def minus_mult_div_eq_mod)

lemma trunc_div_abs_le:
  assumes "0 < b" shows "\<bar>trunc_div a b\<bar> \<le> \<bar>a\<bar>"
proof -
  have "\<bar>a\<bar> div b \<le> \<bar>a\<bar>"
    using assms zdiv_mono2 [of "\<bar>a\<bar>" 1 b] by simp
  moreover have "0 \<le> \<bar>a\<bar> div b" using assms by (simp add: pos_imp_zdiv_nonneg_iff)
  ultimately show ?thesis using assms
    by (cases "0 \<le> a") (auto simp: trunc_div_neg)
qed

lemma div_lessI:
  fixes a b c :: int
  assumes "0 < b" and "a < c * b"
  shows "a div b < c"
proof (rule ccontr)
  assume "\<not> a div b < c"
  then have "c * b \<le> a div b * b" using assms(1) by (intro mult_right_mono) simp_all
  moreover have "a = a div b * b + a mod b" by simp
  moreover have "0 \<le> a mod b" using assms(1) by simp
  ultimately show False using assms(2) by linarith
qed

lemma le_div_iff_int:
  fixes a b c :: int
  assumes "0 < b"
  shows "c \<le> a div b \<longleftrightarrow> b * c \<le> a"
proof
  assume "c \<le> a div b"
  then have "b * c \<le> b * (a div b)" using assms by simp
  moreover have "a = b * (a div b) + a mod b" by simp
  moreover have "0 \<le> a mod b" using assms by simp
  ultimately show "b * c \<le> a" by linarith
next
  assume le: "b * c \<le> a"
  show "c \<le> a div b"
  proof (rule ccontr)
    assume "\<not> c \<le> a div b"
    then have "b * (a div b + 1) \<le> b * c" using assms by simp
    moreover have "a = b * (a div b) + a mod b" by simp
    moreover have "a mod b < b" using assms by simp
    moreover have "b * (a div b + 1) = b * (a div b) + b" by (simp add: distrib_left)
    ultimately show False using le by linarith
  qed
qed

lemma trunc_div_small:
  assumes "\<bar>a\<bar> < c * b" and "0 < b"
  shows "\<bar>trunc_div a b\<bar> < c"
proof -
  have "\<bar>a\<bar> div b < c" by (rule div_lessI [OF assms(2,1)])
  moreover have "0 \<le> \<bar>a\<bar> div b" using assms by (simp add: pos_imp_zdiv_nonneg_iff)
  ultimately show ?thesis using assms(2) by (cases "0 \<le> a") (auto simp: trunc_div_neg)
qed

lemma trunc_mod_small: "0 < b \<Longrightarrow> \<bar>trunc_mod a b\<bar> < b"
proof (cases "0 \<le> a")
  case False
  assume b: "0 < b"
  have "trunc_mod a b = - ((- a) mod b)"
    using False b by (simp add: trunc_mod_def trunc_div_neg minus_mult_div_eq_mod [symmetric])
  then show ?thesis using pos_mod_bound [OF b, of "- a"] pos_mod_sign [OF b, of "- a"] by simp
qed simp

section \<open>Outcomes and state passing\<close>

text \<open>
  A Rust function of type \<open>Result<'a, 'e>\<close> returns a value or an error; it may also panic
  (an \<open>unwrap\<close> of an error, an arithmetic operation of a library out of its range), which no
  caller here catches.
\<close>

datatype ('e, 'a) outcome = Ok 'a | Err 'e | Panic

type_synonym ('s, 'e, 'a) io = "'s \<Rightarrow> ('e, 'a) outcome \<times> 's"

definition io_ret :: "'a \<Rightarrow> ('s, 'e, 'a) io" where
  "io_ret x = (\<lambda>s. (Ok x, s))"

definition io_err :: "'e \<Rightarrow> ('s, 'e, 'a) io" where
  "io_err e = (\<lambda>s. (Err e, s))"

definition io_panic :: "('s, 'e, 'a) io" where
  "io_panic = (\<lambda>s. (Panic, s))"

text \<open>Sequencing with the \<open>?\<close> operator: an error or a panic leaves with the state as it is.\<close>

definition io_bind :: "('s, 'e, 'a) io \<Rightarrow> ('a \<Rightarrow> ('s, 'e, 'b) io) \<Rightarrow> ('s, 'e, 'b) io" where
  "io_bind m k = (\<lambda>s. case m s of
     (Ok x, s') \<Rightarrow> k x s'
   | (Err e, s') \<Rightarrow> (Err e, s')
   | (Panic, s') \<Rightarrow> (Panic, s'))"

text \<open>A call that cannot fail, and an operation of a library that panics out of its range.\<close>

definition io_lift :: "('s \<Rightarrow> 'a \<times> 's) \<Rightarrow> ('s, 'e, 'a) io" where
  "io_lift f = (\<lambda>s. (Ok (fst (f s)), snd (f s)))"

definition io_opt :: "'a option \<Rightarrow> ('s, 'e, 'a) io" where
  "io_opt x = (case x of None \<Rightarrow> io_panic | Some y \<Rightarrow> io_ret y)"

text \<open>
  Leaving a scope runs the destructors of its variables, whichever way it is left (a panic
  unwinds through them).
\<close>

definition io_drop :: "('s, 'e, 'a) io \<Rightarrow> ('s \<Rightarrow> 's) \<Rightarrow> ('s, 'e, 'a) io" where
  "io_drop m d = (\<lambda>s. case m s of (r, s') \<Rightarrow> (r, d s'))"

text \<open>A pure result of another error type, converted by \<open>From\<close> in the \<open>?\<close> operator.\<close>

definition io_try :: "('f \<Rightarrow> 'e) \<Rightarrow> 'f + 'a \<Rightarrow> ('s, 'e, 'a) io" where
  "io_try conv r = (case r of Inl f \<Rightarrow> io_err (conv f) | Inr x \<Rightarrow> io_ret x)"

text \<open>The same error, converted in a computation.\<close>

definition io_map_err :: "('f \<Rightarrow> 'e) \<Rightarrow> ('s, 'f, 'a) io \<Rightarrow> ('s, 'e, 'a) io" where
  "io_map_err conv m = (\<lambda>s. case m s of
     (Ok x, s') \<Rightarrow> (Ok x, s') | (Err f, s') \<Rightarrow> (Err (conv f), s') | (Panic, s') \<Rightarrow> (Panic, s'))"

lemma io_ret_run [io_simps]: "io_ret x s = (Ok x, s)"
  and io_err_run [io_simps]: "io_err e s = (Err e, s)"
  and io_panic_run [io_simps]: "io_panic s = (Panic, s)"
  by (simp_all add: io_ret_def io_err_def io_panic_def)

lemma io_bind_run [io_simps]:
  "m s = (Ok x, s') \<Longrightarrow> io_bind m k s = k x s'"
  "m s = (Err e, s') \<Longrightarrow> io_bind m k s = (Err e, s')"
  "m s = (Panic, s') \<Longrightarrow> io_bind m k s = (Panic, s')"
  by (simp_all add: io_bind_def)

lemma io_bind_cases:
  obtains (ok) x s' where "m s = (Ok x, s')" and "io_bind m k s = k x s'"
  | (err) e s' where "m s = (Err e, s')" and "io_bind m k s = (Err e, s')"
  | (panic) s' where "m s = (Panic, s')" and "io_bind m k s = (Panic, s')"
  by (cases "m s", cases "fst (m s)") (simp_all add: io_bind_def)

lemma io_lift_run [io_simps]: "io_lift f s = (Ok (fst (f s)), snd (f s))"
  by (simp add: io_lift_def)

lemma io_opt_run [io_simps]:
  "io_opt (Some x) s = (Ok x, s)" "io_opt None s = (Panic, s)"
  by (simp_all add: io_opt_def io_simps)

lemma io_drop_run [io_simps]:
  "m s = (r, s') \<Longrightarrow> io_drop m d s = (r, d s')"
  by (simp add: io_drop_def)

lemma io_try_run [io_simps]:
  "io_try conv (Inl f) s = (Err (conv f), s)"
  "io_try conv (Inr x) s = (Ok x, s)"
  by (simp_all add: io_try_def io_simps)

lemma io_map_err_run [io_simps]:
  "m s = (Ok x, s') \<Longrightarrow> io_map_err conv m s = (Ok x, s')"
  "m s = (Err f, s') \<Longrightarrow> io_map_err conv m s = (Err (conv f), s')"
  "m s = (Panic, s') \<Longrightarrow> io_map_err conv m s = (Panic, s')"
  by (simp_all add: io_map_err_def)

end
