(* ===== verification/Binary64.thy ===== *)
theory Binary64
  imports Complex_Main Cell_Prelude
begin

text \<open>
  The part of Rust's \<open>f64\<close> that the sources use: conversion from an integer, division, and the
  saturating cast back to \<open>i64\<close>, with IEEE 754 round-to-nearest-even at 53 bits.  A finite
  value is an integer times a power of two; the sign of a zero is left out, since no operation
  here can observe it (the one division by a zero divides by the cast of the integer 0).
\<close>

section \<open>Values\<close>

datatype f64 = Fin int int | Inf bool | NaN

definition scale :: "int \<Rightarrow> int \<Rightarrow> int" where
  "scale n e = n * 2 ^ nat e"

definition f64_real :: "int \<Rightarrow> int \<Rightarrow> real" where
  "f64_real m e = of_int m * 2 powi e"

lemma scale_nonpos [simp]: "e \<le> 0 \<Longrightarrow> scale n e = n"
  by (simp add: scale_def)

lemma scale_pos: "0 < n \<Longrightarrow> 0 < scale n e"
  by (simp add: scale_def)

lemma scale_nonneg: "0 \<le> n \<Longrightarrow> 0 \<le> scale n e"
  by (simp add: scale_def)

text \<open>Comparing \<open>a * 2 powi k\<close> with \<open>b\<close> needs no fractions.\<close>

lemma scale_powi: "real_of_int (scale n e) = of_int n * 2 powi (max e 0)"
  by (simp add: scale_def power_int_def max_def)

lemma powi_split: "(2::real) powi (max e 0) = 2 powi e * 2 powi (max (- e) 0)"
proof (cases "0 \<le> e")
  case True
  then show ?thesis by (simp add: max_def)
next
  case False
  then have "(2::real) powi e * 2 powi (- e) = 2 powi (e + - e)"
    by (subst power_int_add) simp_all
  then show ?thesis using False by (simp add: max_def)
qed

lemma scale_le_iff: "scale b k \<le> scale a (- k) \<longleftrightarrow> of_int b * (2::real) powi k \<le> of_int a"
proof -
  have "scale b k \<le> scale a (- k) \<longleftrightarrow> real_of_int (scale b k) \<le> of_int (scale a (- k))"
    by simp
  also have "\<dots> \<longleftrightarrow> (of_int b * (2::real) powi k) * 2 powi (max (- k) 0)
      \<le> of_int a * 2 powi (max (- k) 0)"
    by (simp add: scale_powi powi_split [of k] mult.assoc)
  also have "\<dots> \<longleftrightarrow> of_int b * (2::real) powi k \<le> of_int a"
    by (simp add: zero_less_power_int)
  finally show ?thesis .
qed

lemma scale_ratio:
  assumes "0 < b"
  shows "real_of_int (scale a (- e)) / of_int (scale b e) = of_int a / of_int b * 2 powi (- e)"
proof -
  have "(2::real) powi e * 2 powi (- e) = 1"
    by (subst power_int_add [symmetric]) simp_all
  then show ?thesis
    by (simp add: scale_powi powi_split [of e] power_int_minus field_simps)
qed

section \<open>Rounding a ratio to nearest, ties to even\<close>

function bit_width :: "int \<Rightarrow> nat" where
  "bit_width n = (if n \<le> 0 then 0 else Suc (bit_width (n div 2)))"
  by pat_completeness auto
termination
  by (relation "measure nat") auto

declare bit_width.simps [simp del]

lemma bit_width_bounds:
  "0 < n \<Longrightarrow> 0 < bit_width n \<and> 2 ^ (bit_width n - 1) \<le> n \<and> n < 2 ^ bit_width n"
proof (induction n rule: bit_width.induct)
  case (1 n)
  have w: "bit_width n = Suc (bit_width (n div 2))"
    using "1.prems" by (simp add: bit_width.simps [of n])
  show ?case
  proof (cases "n div 2 \<le> 0")
    case True
    then have "n = 1" using "1.prems" by linarith
    then show ?thesis using w by (simp add: bit_width.simps [of 0])
  next
    case False
    then have ih: "0 < bit_width (n div 2)" "2 ^ (bit_width (n div 2) - 1) \<le> n div 2"
      "n div 2 < 2 ^ bit_width (n div 2)"
      using "1.IH" "1.prems" by simp_all
    then obtain k where k: "bit_width (n div 2) = Suc k" by (cases "bit_width (n div 2)") auto
    from ih(2) have "2 * 2 ^ k \<le> n" by (simp add: k)
    moreover from ih(3) have "n < 2 * 2 ^ Suc k" unfolding k by linarith
    ultimately show ?thesis by (simp add: w k)
  qed
qed

text \<open>The exponent of the leading bit of \<open>a / b\<close>.\<close>

definition ratio_exp :: "int \<Rightarrow> int \<Rightarrow> int" where
  "ratio_exp a b =
     (let l = int (bit_width a) - int (bit_width b)
      in if scale b l \<le> scale a (- l) then l else l - 1)"

lemma bit_width_real:
  assumes "0 < a"
  shows "(2::real) powi (int (bit_width a) - 1) \<le> of_int a"
    and "of_int a < (2::real) powi int (bit_width a)"
proof -
  let ?w = "bit_width a"
  note b = bit_width_bounds [OF assms]
  have "int ?w - 1 = int (?w - 1)" using b by simp
  then have "(2::real) powi (int ?w - 1) = of_int (2 ^ (?w - 1))"
    by (simp only: power_int_of_nat) simp
  then show "(2::real) powi (int ?w - 1) \<le> of_int a" using b by (simp only: of_int_le_iff)
  have "of_int a < real_of_int (2 ^ ?w)" using b by (simp only: of_int_less_iff)
  then show "of_int a < (2::real) powi int ?w" by (simp only: power_int_of_nat) simp
qed

lemma ratio_exp_bounds:
  assumes a: "0 < a" and b: "0 < b"
  shows "(2::real) powi ratio_exp a b \<le> of_int a / of_int b"
    and "of_int a / of_int b < (2::real) powi (ratio_exp a b + 1)"
proof -
  let ?wa = "int (bit_width a)" and ?wb = "int (bit_width b)"
  let ?l = "?wa - ?wb"
  have low: "(2::real) powi (?l - 1) \<le> of_int a / of_int b"
  proof -
    have "(2::real) powi (?l - 1) * of_int b \<le> 2 powi (?l - 1) * 2 powi ?wb"
      using bit_width_real(2) [OF b] by (intro mult_left_mono) auto
    also have "\<dots> = 2 powi (?wa - 1)" by (subst power_int_add [symmetric]) simp_all
    also have "\<dots> \<le> of_int a" by (rule bit_width_real(1) [OF a])
    finally show ?thesis using b by (simp add: pos_le_divide_eq)
  qed
  have high: "of_int a / of_int b < (2::real) powi (?l + 1)"
  proof -
    have "of_int a < (2::real) powi ?wa" by (rule bit_width_real(2) [OF a])
    also have "\<dots> = 2 powi (?l + 1) * 2 powi (?wb - 1)" by (subst power_int_add [symmetric]) simp_all
    also have "\<dots> \<le> 2 powi (?l + 1) * of_int b"
      using bit_width_real(1) [OF b] by (intro mult_left_mono) auto
    finally show ?thesis using b by (simp add: pos_divide_less_eq)
  qed
  have split: "scale b ?l \<le> scale a (- ?l) \<longleftrightarrow> (2::real) powi ?l \<le> of_int a / of_int b"
    unfolding scale_le_iff using b by (simp only: pos_le_divide_eq of_int_0_less_iff mult.commute)
  show "(2::real) powi ratio_exp a b \<le> of_int a / of_int b"
    using low split by (simp add: ratio_exp_def Let_def)
  show "of_int a / of_int b < (2::real) powi (ratio_exp a b + 1)"
    using high split by (auto simp: ratio_exp_def Let_def)
qed

definition round_half_even :: "int \<Rightarrow> int \<Rightarrow> int" where
  "round_half_even n d =
     (let q = n div d; r = n mod d
      in if 2 * r < d \<or> (2 * r = d \<and> even q) then q else q + 1)"

lemma round_half_even_error:
  assumes "0 < d"
  shows "2 * \<bar>round_half_even n d * d - n\<bar> \<le> d"
proof -
  define x where "x = round_half_even n d * d - n"
  have n: "n = n div d * d + n mod d" by simp
  have r: "0 \<le> n mod d" "n mod d < d" using assms by simp_all
  have "x = - (n mod d) \<and> 2 * (n mod d) \<le> d \<or> x = d - n mod d \<and> d \<le> 2 * (n mod d)"
    using n by (auto simp: x_def round_half_even_def Let_def algebra_simps)
  then have "2 * \<bar>x\<bar> \<le> d" using r by auto
  then show ?thesis by (simp add: x_def)
qed

lemma round_half_even_exact: "0 < d \<Longrightarrow> round_half_even (q * d) d = q"
  by (simp add: round_half_even_def)

lemma round_half_even_ge: "0 < d \<Longrightarrow> n div d \<le> round_half_even n d"
  by (simp add: round_half_even_def Let_def)

section \<open>The operations\<close>

definition f64_of_ratio :: "int \<Rightarrow> int \<Rightarrow> f64" where
  "f64_of_ratio a b =
     (if a = 0 then Fin 0 0
      else let e = max (- 1074) (ratio_exp \<bar>a\<bar> b - 52);
               m = round_half_even (scale \<bar>a\<bar> (- e)) (scale b e)
           in if 971 < e \<or> (e = 971 \<and> m = 2 ^ 53) then Inf (a < 0) else Fin (sgn a * m) e)"

text \<open>\<open>n as f64\<close>; integers of up to 53 bits are values of the type.\<close>

definition f64_of_int :: "int \<Rightarrow> f64" where
  "f64_of_int n = (if \<bar>n\<bar> \<le> 2 ^ 53 then Fin n 0 else f64_of_ratio n 1)"

fun f64_div :: "f64 \<Rightarrow> f64 \<Rightarrow> f64" where
  "f64_div (Fin m e) (Fin n f) =
     (if n = 0 then (if m = 0 then NaN else Inf (m < 0))
      else f64_of_ratio (scale (sgn n * m) (e - f)) (scale \<bar>n\<bar> (f - e)))"
| "f64_div (Fin m e) (Inf s) = Fin 0 0"
| "f64_div (Inf s) (Fin n f) = Inf (s \<noteq> (n < 0))"
| "f64_div (Inf s) (Inf t) = NaN"
| "f64_div NaN y = NaN"
| "f64_div x NaN = NaN"

text \<open>\<open>x as i64\<close> truncates towards zero, saturates, and sends NaN to 0.\<close>

definition clamp_i64 :: "int \<Rightarrow> i64" where
  "clamp_i64 n = as_i64 (max i64_min (min i64_max n))"

definition f64_trunc :: "int \<Rightarrow> int \<Rightarrow> int" where
  "f64_trunc m e = sgn m * (scale \<bar>m\<bar> e div 2 ^ nat (- e))"

fun f64_to_i64 :: "f64 \<Rightarrow> i64" where
  "f64_to_i64 (Fin m e) = clamp_i64 (f64_trunc m e)"
| "f64_to_i64 (Inf s) = as_i64 (if s then i64_min else i64_max)"
| "f64_to_i64 NaN = 0"

lemma clamp_i64_self: "i64_min \<le> n \<Longrightarrow> n \<le> i64_max \<Longrightarrow> clamp_i64 n = as_i64 n"
  by (simp add: clamp_i64_def)

section \<open>Exactness and accuracy\<close>

text \<open>A value that is the integer \<open>k\<close>, and one within \<open>2 ^ -p\<close>, relatively, of \<open>a / b\<close>.\<close>

fun f64_is :: "f64 \<Rightarrow> int \<Rightarrow> bool" where
  "f64_is (Fin m e) k \<longleftrightarrow> scale m e = k * 2 ^ nat (- e)"
| "f64_is (Inf s) k \<longleftrightarrow> False"
| "f64_is NaN k \<longleftrightarrow> False"

fun f64_near :: "nat \<Rightarrow> f64 \<Rightarrow> int \<Rightarrow> int \<Rightarrow> bool" where
  "f64_near p (Fin m e) a b \<longleftrightarrow>
     2 ^ p * \<bar>scale m e * b - a * 2 ^ nat (- e)\<bar> \<le> \<bar>a\<bar> * 2 ^ nat (- e)"
| "f64_near p (Inf s) a b \<longleftrightarrow> False"
| "f64_near p NaN a b \<longleftrightarrow> False"

lemma f64_near_mono:
  assumes "f64_near (Suc p) x a b"
  shows "f64_near p x a b"
proof (cases x)
  case (Fin m e)
  let ?d = "\<bar>scale m e * b - a * 2 ^ nat (- e)\<bar>"
  have "2 ^ p * ?d \<le> 2 ^ Suc p * ?d" by (intro mult_right_mono) simp_all
  also have "\<dots> \<le> \<bar>a\<bar> * 2 ^ nat (- e)" using assms Fin by simp
  finally show ?thesis using Fin by simp
qed (use assms in simp_all)

lemma sgn_scale [simp]: "sgn (scale m e) = sgn m"
  by (simp add: scale_def sgn_mult)

lemma abs_scale: "\<bar>scale m e\<bar> = scale \<bar>m\<bar> e"
  by (simp add: scale_def abs_mult)

lemma f64_trunc_uminus: "f64_trunc (- m) e = - f64_trunc m e"
  by (simp add: f64_trunc_def)

lemma f64_is_trunc:
  assumes "f64_is (Fin m e) k"
  shows "f64_trunc m e = k"
proof -
  have s: "scale m e = k * 2 ^ nat (- e)" using assms by simp
  then have "scale \<bar>m\<bar> e = \<bar>k\<bar> * 2 ^ nat (- e)"
    by (simp add: abs_scale [symmetric] abs_mult)
  moreover have "sgn m = sgn k"
    using arg_cong [OF s, of sgn] by (simp add: sgn_mult)
  ultimately show ?thesis by (simp add: f64_trunc_def sgn_mult_abs)
qed

lemma f64_is_to_i64: "f64_is x k \<Longrightarrow> f64_to_i64 x = clamp_i64 k"
  by (cases x) (simp_all add: f64_is_trunc del: f64_is.simps(1))

text \<open>
  An accurate quotient of integers below \<open>2 ^ p\<close> truncates to the integer quotient, provided it
  is exact where the division is.
\<close>

lemma f64_near_trunc:
  assumes near: "f64_near w (Fin m e) a b" and a: "0 \<le> a" "a < 2 ^ w" and b: "0 < b"
    and exact: "b dvd a \<Longrightarrow> f64_is (Fin m e) (a div b)"
  shows "f64_trunc m e = a div b"
proof (cases "b dvd a")
  case True
  then show ?thesis using exact by (simp add: f64_is_trunc del: f64_is.simps)
next
  case False
  define p :: int where "p = 2 ^ nat (- e)"
  let ?S = "scale m e" and ?q = "a div b"
  have p: "0 < p" by (simp add: p_def)
  have "2 ^ w * \<bar>?S * b - a * p\<bar> \<le> a * p"
    using near a by (simp add: p_def)
  also have "\<dots> < 2 ^ w * p" using a p by simp
  finally have d: "\<bar>?S * b - a * p\<bar> < p" by simp
  have q: "a = b * ?q + a mod b" by simp
  have r: "1 \<le> a mod b" "a mod b \<le> b - 1"
    using False b pos_mod_bound [of b a] pos_mod_sign [of b a] dvd_eq_mod_eq_0 [of b a] by linarith+
  have "b * ?q \<le> a - 1" and "a + 1 \<le> b * (?q + 1)"
    using q r unfolding distrib_left by linarith+
  then have "b * ?q * p \<le> (a - 1) * p" and "(a + 1) * p \<le> b * (?q + 1) * p"
    using p by (simp_all add: mult_right_mono)
  then have "b * (?q * p) < b * ?S" and "b * ?S < b * ((?q + 1) * p)"
    using d by (simp_all add: algebra_simps)
  then have S: "?q * p < ?S" "?S < (?q + 1) * p" using b by simp_all
  have "0 \<le> ?q" using a b by (simp add: pos_imp_zdiv_nonneg_iff)
  then have "0 < ?S" using S(1) p by (smt (verit) mult_nonneg_nonneg)
  then have m: "0 < m" by (simp add: scale_def zero_less_mult_iff)
  have "?S div p = ?q"
    using S p by (intro int_div_pos_eq [of _ _ _ "?S - ?q * p"]) (simp_all add: algebra_simps)
  then show ?thesis using m by (simp add: f64_trunc_def p_def)
qed

text \<open>The rounded quotient itself, in the range the sources use.\<close>

lemma powi2_less_iff: "(2::real) powi m < 2 powi n \<longleftrightarrow> m < n"
  using power_int_strict_increasing [of m n "2::real"] power_int_strict_increasing [of n m "2::real"]
  by (cases m n rule: linorder_cases) auto

lemma ratio_exp_range:
  assumes a: "0 < a" "a < 2 ^ 63" and b: "0 < b" "b < 2 ^ 64"
  shows "- 65 < ratio_exp a b \<and> ratio_exp a b < 63"
proof -
  let ?L = "ratio_exp a b"
  note L = ratio_exp_bounds [OF a(1) b(1)]
  have "real_of_int b < real_of_int (2 ^ 64)" and "real_of_int a < real_of_int (2 ^ 63)"
    using a(2) b(2) by (simp_all only: of_int_less_iff)
  then have rb: "real_of_int b < 2 ^ 64" and ra: "real_of_int a < 2 ^ 63" by simp_all
  have "(2::real) powi (- 64) < of_int a / of_int b"
  proof -
    note rb
    also have "(2::real) ^ 64 \<le> of_int a * 2 ^ 64" using a(1) by simp
    finally have "real_of_int b < of_int a * 2 ^ 64" .
    then show ?thesis using b(1) by (simp add: field_simps)
  qed
  then have "(2::real) powi (- 64) < 2 powi (?L + 1)" using L(2) by linarith
  then have "- 64 < ?L + 1" by (simp only: powi2_less_iff)
  moreover have "of_int a / of_int b < (2::real) powi 63"
  proof -
    note ra
    also have "(2::real) ^ 63 \<le> 2 ^ 63 * of_int b" using b(1) by simp
    finally have "real_of_int a < 2 ^ 63 * of_int b" .
    then show ?thesis using b(1) by (simp add: field_simps)
  qed
  then have "(2::real) powi ?L < 2 powi 63" using L(1) by linarith
  then have "?L < 63" by (simp only: powi2_less_iff)
  ultimately show ?thesis by simp
qed

lemma ratio_scaled:
  assumes a: "0 < a" and b: "0 < b" and e: "e = ratio_exp a b - 52"
  shows "2 ^ 52 * scale b e \<le> scale a (- e)" and "scale a (- e) < 2 ^ 53 * scale b e"
proof -
  let ?L = "ratio_exp a b"
  note L = ratio_exp_bounds [OF a b]
  have pos: "0 < (2::real) powi (- e)" by simp
  have k: "(2::real) powi (?L) * 2 powi (- e) = 2 ^ 52" "(2::real) powi (?L + 1) * 2 powi (- e) = 2 ^ 53"
    by (simp_all add: e flip: power_int_add)
  have q: "real_of_int (scale a (- e)) / of_int (scale b e) = of_int a / of_int b * 2 powi (- e)"
    by (rule scale_ratio [OF b])
  have sb: "0 < real_of_int (scale b e)" using scale_pos [OF b] by simp
  have "2 ^ 52 \<le> real_of_int (scale a (- e)) / of_int (scale b e)"
    unfolding q k(1) [symmetric] using L(1) pos by (intro mult_right_mono) simp_all
  then have "2 ^ 52 * real_of_int (scale b e) \<le> of_int (scale a (- e))"
    using sb by (simp add: pos_le_divide_eq)
  then have "real_of_int (2 ^ 52 * scale b e) \<le> of_int (scale a (- e))" by simp
  then show "2 ^ 52 * scale b e \<le> scale a (- e)" by (simp only: of_int_le_iff)
  have "real_of_int (scale a (- e)) / of_int (scale b e) < 2 ^ 53"
    unfolding q k(2) [symmetric] using L(2) pos by (intro mult_strict_right_mono)
  then have "real_of_int (scale a (- e)) < 2 ^ 53 * of_int (scale b e)"
    using sb by (simp add: pos_divide_less_eq)
  then have "real_of_int (scale a (- e)) < of_int (2 ^ 53 * scale b e)" by simp
  then show "scale a (- e) < 2 ^ 53 * scale b e" by (simp only: of_int_less_iff)
qed

lemma f64_of_ratio_pos:
  assumes a: "0 < a" "a < 2 ^ 63" and b: "0 < b" "b < 2 ^ 64"
  obtains m e where "f64_of_ratio a b = Fin m e" and "e = ratio_exp a b - 52"
    and "m = round_half_even (scale a (- e)) (scale b e)"
    and "2 ^ 52 * scale b e \<le> scale a (- e)" and "scale a (- e) < 2 ^ 53 * scale b e"
    and "2 ^ 52 \<le> m"
proof -
  define e where "e = ratio_exp a b - 52"
  define m where "m = round_half_even (scale a (- e)) (scale b e)"
  have r: "- 117 < e" "e < 11" using ratio_exp_range [OF assms] by (simp_all add: e_def)
  have "f64_of_ratio a b = Fin m e"
    using a r by (simp add: f64_of_ratio_def Let_def m_def e_def max_def)
  moreover note s = ratio_scaled [OF a(1) b(1) e_def]
  moreover have "2 ^ 52 \<le> m"
  proof -
    have "0 < scale b e" using b(1) by (rule scale_pos)
    then have "2 ^ 52 \<le> scale a (- e) div scale b e"
      using zdiv_mono1 [OF s(1), of "scale b e"] by simp
    also have "\<dots> \<le> m" unfolding m_def by (rule round_half_even_ge [OF \<open>0 < scale b e\<close>])
    finally show ?thesis .
  qed
  ultimately show thesis using that e_def m_def by blast
qed

text \<open>Within half a unit in the last place.\<close>

lemma half_ulp_bound:
  "2 * \<bar>x\<bar> \<le> d \<Longrightarrow> 2 ^ 52 * d \<le> n \<Longrightarrow> 2 ^ 53 * \<bar>x\<bar> \<le> n" for x d n :: int
  by simp

lemma f64_of_ratio_near:
  assumes "0 < a" "a < 2 ^ 63" "0 < b" "b < 2 ^ 64"
  shows "f64_near 53 (f64_of_ratio a b) a b"
proof -
  obtain m e where x: "f64_of_ratio a b = Fin m e"
    and m: "m = round_half_even (scale a (- e)) (scale b e)"
    and s: "2 ^ 52 * scale b e \<le> scale a (- e)"
    using f64_of_ratio_pos [OF assms] by metis
  have "2 * \<bar>m * scale b e - scale a (- e)\<bar> \<le> scale b e"
    unfolding m by (rule round_half_even_error [OF scale_pos [OF assms(3)]])
  then have "2 ^ 53 * \<bar>m * scale b e - scale a (- e)\<bar> \<le> scale a (- e)"
    using s by (rule half_ulp_bound)
  moreover have "m * scale b e = scale m e * b" and "scale a (- e) = a * 2 ^ nat (- e)"
    by (simp_all add: scale_def)
  ultimately show ?thesis using assms(1) by (simp add: x)
qed

lemma f64_of_ratio_exact:
  assumes k: "0 < k" "k < 2 ^ 53" and b: "0 < b" "b < 2 ^ 64" and kb: "k * b < 2 ^ 63"
  shows "f64_is (f64_of_ratio (k * b) b) k"
proof -
  have a: "0 < k * b" using k b by simp
  obtain m e where x: "f64_of_ratio (k * b) b = Fin m e"
    and m: "m = round_half_even (scale (k * b) (- e)) (scale b e)"
    and s: "2 ^ 52 * scale b e \<le> scale (k * b) (- e)"
    using f64_of_ratio_pos [OF a kb b] by metis
  have "e \<le> 0"
  proof (rule ccontr)
    assume e: "\<not> e \<le> 0"
    then obtain j where j: "nat e = Suc j" by (cases "nat e") auto
    have "2 ^ 53 * b \<le> 2 ^ 52 * scale b e"
      using b by (simp add: scale_def j)
    also have "\<dots> \<le> k * b" using s e by simp
    also have "\<dots> < 2 ^ 53 * b" using k b by simp
    finally show False by simp
  qed
  moreover from this have "m = k * 2 ^ nat (- e)"
    using round_half_even_exact [OF b(1), of "k * 2 ^ nat (- e)"] by (simp add: m scale_def ac_simps)
  ultimately show ?thesis by (simp add: x)
qed

lemma f64_of_ratio_uminus:
  assumes "a \<noteq> 0" and "f64_of_ratio a b = Fin m e"
  shows "f64_of_ratio (- a) b = Fin (- m) e"
proof -
  define e' where "e' = max (- 1074) (ratio_exp \<bar>a\<bar> b - 52)"
  define m' where "m' = round_half_even (scale \<bar>a\<bar> (- e')) (scale b e')"
  define big where "big \<longleftrightarrow> 971 < e' \<or> (e' = 971 \<and> m' = 2 ^ 53)"
  have ab: "f64_of_ratio a b = (if big then Inf (a < 0) else Fin (sgn a * m') e')"
    and "f64_of_ratio (- a) b = (if big then Inf (- a < 0) else Fin (sgn (- a) * m') e')"
    using assms(1)
    by (simp_all only: f64_of_ratio_def Let_def e'_def m'_def big_def abs_minus_cancel
      neg_equal_0_iff_equal if_False)
  moreover have "\<not> big" using ab assms(2) by auto
  ultimately show ?thesis using assms(2) by auto
qed

text \<open>
  The cast back of a quotient of integers below \<open>2 ^ 53\<close> is the integer quotient: the rounding
  of the division never reaches the next integer.
\<close>

lemma f64_of_ratio_trunc_pos:
  assumes a: "0 < a" "a < 2 ^ 53" and b: "0 < b" "b < 2 ^ 64"
  obtains m e where "f64_of_ratio a b = Fin m e" and "f64_trunc m e = a div b"
proof -
  have a': "a < 2 ^ 63" using a by simp
  obtain m e where x: "f64_of_ratio a b = Fin m e"
    using f64_of_ratio_pos [OF a(1) a' b] by metis
  have near: "f64_near 53 (Fin m e) a b"
    using f64_of_ratio_near [OF a(1) a' b] by (simp only: x)
  have "f64_is (Fin m e) (a div b)" if d: "b dvd a"
  proof -
    obtain k where k: "a = k * b" using d by (metis dvd_div_mult_self)
    then have "0 < k" using a b by (simp add: zero_less_mult_iff)
    moreover have "k * 1 \<le> k * b" using b \<open>0 < k\<close> by (intro mult_left_mono) auto
    then have "k < 2 ^ 53" using k a by simp
    ultimately show ?thesis using f64_of_ratio_exact [of k b] a' b x k by simp
  qed
  then have "f64_trunc m e = a div b"
    using f64_near_trunc [OF near _ a(2) b(1)] a(1) by simp
  then show thesis by (rule that [OF x])
qed

lemma f64_of_ratio_trunc:
  assumes a: "\<bar>a\<bar> < 2 ^ 53" and b: "0 < b" "b < 2 ^ 64"
  shows "f64_to_i64 (f64_of_ratio a b) = as_i64 (trunc_div a b)"
proof -
  have small: "\<bar>trunc_div a b\<bar> < 2 ^ 53" using trunc_div_abs_le [OF b(1), of a] a by simp
  consider "a = 0" | "0 < a" | "a < 0" by linarith
  then have "f64_to_i64 (f64_of_ratio a b) = clamp_i64 (trunc_div a b)"
  proof cases
    case 1
    then show ?thesis by (simp add: f64_of_ratio_def trunc_div_def f64_trunc_def)
  next
    case 2
    moreover have "a < 2 ^ 53" using a 2 by linarith
    ultimately obtain m e where "f64_of_ratio a b = Fin m e" "f64_trunc m e = a div b"
      using f64_of_ratio_trunc_pos [OF _ _ b, of a] by blast
    then show ?thesis using 2 b by simp
  next
    case 3
    then have "0 < - a" and "- a < 2 ^ 53" using a by linarith+
    then obtain m e where x: "f64_of_ratio (- a) b = Fin m e" "f64_trunc m e = (- a) div b"
      using f64_of_ratio_trunc_pos [OF _ _ b, of "- a"] by blast
    then show ?thesis
      using f64_of_ratio_uminus [OF _ x(1)] 3 b by (simp add: f64_trunc_uminus trunc_div_neg)
  qed
  then show ?thesis using small by (simp add: clamp_i64_self)
qed

lemma f64_quotient_trunc:
  assumes a: "\<bar>a\<bar> < 2 ^ 53" and b: "b \<noteq> 0" "\<bar>b\<bar> \<le> 2 ^ 53"
  shows "f64_to_i64 (f64_div (f64_of_int a) (f64_of_int b)) = as_i64 (trunc_div a b)"
proof -
  have "f64_div (f64_of_int a) (f64_of_int b) = f64_of_ratio (sgn b * a) \<bar>b\<bar>"
    using a b by (simp add: f64_of_int_def)
  moreover have "trunc_div (sgn b * a) \<bar>b\<bar> = trunc_div a b"
    using b(1) by (cases b "0::int" rule: linorder_cases) (simp_all add: trunc_div_def)
  moreover have "\<bar>sgn b * a\<bar> < 2 ^ 53" using a b by (simp add: abs_mult)
  ultimately show ?thesis using f64_of_ratio_trunc [of "sgn b * a" "\<bar>b\<bar>"] b by simp
qed

text \<open>Dividing by the cast of 0 gives an infinity, or NaN for 0; the cast back saturates.\<close>

lemma f64_div_zero:
  assumes "\<bar>a\<bar> \<le> 2 ^ 53"
  shows "f64_to_i64 (f64_div (f64_of_int a) (f64_of_int 0)) =
    (if a = 0 then 0 else as_i64 (if a < 0 then i64_min else i64_max))"
  using assms by (simp add: f64_of_int_def)

end
