(* ===== verification/Time_Api.thy ===== *)
theory Time_Api
  imports Binary64
begin

text \<open>
  The \<open>time\<close> crate is not part of the repository, so what the sources call of it is a
  parameter of the model: a record of its operations over two unknown types, \<open>'d\<close> for
  \<open>Duration\<close> and \<open>'t\<close> for \<open>OffsetDateTime\<close>. The locale \<open>time_laws\<close> states what the
  crate documents of them, through the number of nanoseconds of a duration and of the distance of
  an instant from the Unix epoch. An operation that panics when its result is out of range has
  an \<open>option\<close> result.
\<close>

record ('d, 't) time_crate =
  duration_new :: "i64 \<Rightarrow> i32 \<Rightarrow> 'd"
  duration_days :: "i64 \<Rightarrow> 'd"
  duration_hours :: "i64 \<Rightarrow> 'd"
  duration_minutes :: "i64 \<Rightarrow> 'd"
  duration_seconds :: "i64 \<Rightarrow> 'd"
  duration_nanoseconds :: "i64 \<Rightarrow> 'd"
  duration_zero :: 'd
  whole_seconds :: "'d \<Rightarrow> i64"
  whole_milliseconds :: "'d \<Rightarrow> int"
  whole_microseconds :: "'d \<Rightarrow> int"
  whole_nanoseconds :: "'d \<Rightarrow> int"
  subsec_milliseconds :: "'d \<Rightarrow> i16"
  subsec_nanoseconds :: "'d \<Rightarrow> i32"
  as_seconds_f64 :: "'d \<Rightarrow> f64"
  duration_sub :: "'d \<Rightarrow> 'd \<Rightarrow> 'd option"
  duration_neg :: "'d \<Rightarrow> 'd option"
  duration_eq :: "'d \<Rightarrow> 'd \<Rightarrow> bool"
  duration_lt :: "'d \<Rightarrow> 'd \<Rightarrow> bool"
  duration_le :: "'d \<Rightarrow> 'd \<Rightarrow> bool"
  unix_epoch :: 't
  instant_add :: "'t \<Rightarrow> 'd \<Rightarrow> 't option"
  instant_sub :: "'t \<Rightarrow> 'd \<Rightarrow> 't option"
  instant_diff :: "'t \<Rightarrow> 't \<Rightarrow> 'd"
  instant_gt :: "'t \<Rightarrow> 't \<Rightarrow> bool"

text \<open>The nanoseconds from the epoch to an instant.\<close>

definition epoch_ns :: "('d, 't) time_crate \<Rightarrow> 't \<Rightarrow> int" where
  "epoch_ns tc t = whole_nanoseconds tc (instant_diff tc t (unix_epoch tc))"

text \<open>
  Ranges in which no operation panics: durations whose seconds fit an \<open>i64\<close>, and instants
  from the year -9999 to the year 9999.
\<close>

definition duration_range :: "int \<Rightarrow> bool" where
  "duration_range n \<longleftrightarrow> \<bar>n\<bar> < 2 ^ 63 * 10 ^ 9"

definition instant_range :: "int \<Rightarrow> bool" where
  "instant_range n \<longleftrightarrow> - 377705116800 * 10 ^ 9 \<le> n \<and> n < 253402300800 * 10 ^ 9"

locale time_laws =
  fixes tc :: "('d, 't) time_crate"
  assumes ns_nanoseconds: "whole_nanoseconds tc (duration_nanoseconds tc n) = sint n"
    and ns_seconds: "whole_nanoseconds tc (duration_seconds tc n) = sint n * 10 ^ 9"
    and ns_minutes: "\<bar>sint n\<bar> < 2 ^ 32 \<Longrightarrow>
      whole_nanoseconds tc (duration_minutes tc n) = sint n * 60 * 10 ^ 9"
    and ns_hours: "\<bar>sint n\<bar> < 2 ^ 32 \<Longrightarrow>
      whole_nanoseconds tc (duration_hours tc n) = sint n * 3600 * 10 ^ 9"
    and ns_days: "\<bar>sint n\<bar> < 2 ^ 32 \<Longrightarrow>
      whole_nanoseconds tc (duration_days tc n) = sint n * 86400 * 10 ^ 9"
    and ns_new: "0 \<le> sint s \<Longrightarrow> 0 \<le> sint m \<Longrightarrow> sint m < 10 ^ 9 \<Longrightarrow>
      whole_nanoseconds tc (duration_new tc s m) = sint s * 10 ^ 9 + sint m"
    and ns_zero: "whole_nanoseconds tc (duration_zero tc) = 0"
    and whole_s: "duration_range (whole_nanoseconds tc d) \<Longrightarrow>
      sint (whole_seconds tc d) = trunc_div (whole_nanoseconds tc d) (10 ^ 9)"
    and whole_ms: "whole_milliseconds tc d = trunc_div (whole_nanoseconds tc d) (10 ^ 6)"
    and whole_us: "whole_microseconds tc d = trunc_div (whole_nanoseconds tc d) (10 ^ 3)"
    and subsec_ms: "sint (subsec_milliseconds tc d) =
      trunc_div (trunc_mod (whole_nanoseconds tc d) (10 ^ 9)) (10 ^ 6)"
    and subsec_ns: "sint (subsec_nanoseconds tc d) = trunc_mod (whole_nanoseconds tc d) (10 ^ 9)"
    and seconds_exact: "whole_nanoseconds tc d = k * 10 ^ 9 \<Longrightarrow> \<bar>k\<bar> < 2 ^ 33 \<Longrightarrow>
      f64_is (as_seconds_f64 tc d) k"
    and seconds_near: "0 < whole_nanoseconds tc d \<Longrightarrow> whole_nanoseconds tc d < 2 ^ 63 \<Longrightarrow>
      f64_near 52 (as_seconds_f64 tc d) (whole_nanoseconds tc d) (10 ^ 9)"
    and sub_range: "duration_range (whole_nanoseconds tc d - whole_nanoseconds tc e) \<Longrightarrow>
      \<exists>f. duration_sub tc d e = Some f \<and>
        whole_nanoseconds tc f = whole_nanoseconds tc d - whole_nanoseconds tc e"
    and neg_range: "duration_range (whole_nanoseconds tc d) \<Longrightarrow>
      \<exists>f. duration_neg tc d = Some f \<and> whole_nanoseconds tc f = - whole_nanoseconds tc d"
    and eq_iff: "duration_eq tc d e \<longleftrightarrow> whole_nanoseconds tc d = whole_nanoseconds tc e"
    and lt_iff: "duration_lt tc d e \<longleftrightarrow> whole_nanoseconds tc d < whole_nanoseconds tc e"
    and le_iff: "duration_le tc d e \<longleftrightarrow> whole_nanoseconds tc d \<le> whole_nanoseconds tc e"
    and ns_diff: "whole_nanoseconds tc (instant_diff tc t u) = epoch_ns tc t - epoch_ns tc u"
    and gt_iff: "instant_gt tc t u \<longleftrightarrow> epoch_ns tc u < epoch_ns tc t"
    and add_range: "instant_range (epoch_ns tc t + whole_nanoseconds tc d) \<Longrightarrow>
      \<exists>u. instant_add tc t d = Some u \<and> epoch_ns tc u = epoch_ns tc t + whole_nanoseconds tc d"
    and isub_range: "instant_range (epoch_ns tc t - whole_nanoseconds tc d) \<Longrightarrow>
      \<exists>u. instant_sub tc t d = Some u \<and> epoch_ns tc u = epoch_ns tc t - whole_nanoseconds tc d"
begin

lemma epoch_ns_epoch [simp]: "epoch_ns tc (unix_epoch tc) = 0"
  using ns_diff [of "unix_epoch tc" "unix_epoch tc"] by (simp add: epoch_ns_def)

lemmas ns_simps = ns_nanoseconds ns_seconds ns_zero ns_diff eq_iff lt_iff le_iff gt_iff

text \<open>Truncating the fractional seconds gives the whole seconds, for up to 52 days.\<close>

lemma as_seconds_trunc:
  assumes "0 \<le> whole_nanoseconds tc d" and "whole_nanoseconds tc d < 2 ^ 52"
  shows "f64_to_i64 (as_seconds_f64 tc d) = as_i64 (whole_nanoseconds tc d div 10 ^ 9)"
proof -
  let ?n = "whole_nanoseconds tc d"
  have q: "0 \<le> ?n div 10 ^ 9" "?n div 10 ^ 9 < 2 ^ 33"
    using assms by (simp_all add: pos_imp_zdiv_nonneg_iff div_less_iff_less_mult)
  have exact: "f64_is (as_seconds_f64 tc d) (?n div 10 ^ 9)" if "10 ^ 9 dvd ?n"
    using that q by (intro seconds_exact) simp_all
  have "f64_to_i64 (as_seconds_f64 tc d) = clamp_i64 (?n div 10 ^ 9)"
  proof (cases "?n = 0")
    case True
    then show ?thesis using exact by (simp add: f64_is_to_i64)
  next
    case False
    then have near: "f64_near 52 (as_seconds_f64 tc d) ?n (10 ^ 9)"
      using assms by (intro seconds_near) simp_all
    obtain m e where x: "as_seconds_f64 tc d = Fin m e"
      using near by (cases "as_seconds_f64 tc d") simp_all
    have "f64_trunc m e = ?n div 10 ^ 9"
      by (rule f64_near_trunc [OF near [unfolded x] assms]) (use exact x in simp_all)
    then show ?thesis by (simp add: x)
  qed
  then show ?thesis using q by (simp add: clamp_i64_self)
qed

lemma as_seconds_whole:
  assumes "whole_nanoseconds tc d = k * 10 ^ 9" and "\<bar>k\<bar> < 2 ^ 33"
  shows "f64_to_i64 (as_seconds_f64 tc d) = as_i64 k"
  using f64_is_to_i64 [OF seconds_exact [OF assms]] assms(2) by (simp add: clamp_i64_self)

end

section \<open>An instance\<close>

text \<open>
  Durations and instants as their nanoseconds. The laws hold for it, so a hypothesis
  \<open>time_laws tc\<close> can be met, and it evaluates, so that the witnesses compute.
\<close>

definition ns_time :: "(int, int) time_crate" where
  "ns_time = \<lparr>
     duration_new = (\<lambda>s n. sint s * 10 ^ 9 + sint n),
     duration_days = (\<lambda>n. sint n * 86400 * 10 ^ 9),
     duration_hours = (\<lambda>n. sint n * 3600 * 10 ^ 9),
     duration_minutes = (\<lambda>n. sint n * 60 * 10 ^ 9),
     duration_seconds = (\<lambda>n. sint n * 10 ^ 9),
     duration_nanoseconds = sint,
     duration_zero = 0,
     whole_seconds = (\<lambda>d. as_i64 (trunc_div d (10 ^ 9))),
     whole_milliseconds = (\<lambda>d. trunc_div d (10 ^ 6)),
     whole_microseconds = (\<lambda>d. trunc_div d (10 ^ 3)),
     whole_nanoseconds = (\<lambda>d. d),
     subsec_milliseconds = (\<lambda>d. word_of_int (trunc_div (trunc_mod d (10 ^ 9)) (10 ^ 6))),
     subsec_nanoseconds = (\<lambda>d. word_of_int (trunc_mod d (10 ^ 9))),
     as_seconds_f64 = (\<lambda>d. f64_of_ratio d (10 ^ 9)),
     duration_sub = (\<lambda>d e. if duration_range (d - e) then Some (d - e) else None),
     duration_neg = (\<lambda>d. if duration_range d then Some (- d) else None),
     duration_eq = (=), duration_lt = (<), duration_le = (\<le>),
     unix_epoch = 0,
     instant_add = (\<lambda>t d. if instant_range (t + d) then Some (t + d) else None),
     instant_sub = (\<lambda>t d. if instant_range (t - d) then Some (t - d) else None),
     instant_diff = (-),
     instant_gt = (\<lambda>t u. u < t)\<rparr>"

lemma ns_time_simps [simp]:
  "duration_new ns_time s n = sint s * 10 ^ 9 + sint n"
  "duration_days ns_time k = sint k * 86400 * 10 ^ 9"
  "duration_hours ns_time k = sint k * 3600 * 10 ^ 9"
  "duration_minutes ns_time k = sint k * 60 * 10 ^ 9"
  "duration_seconds ns_time k = sint k * 10 ^ 9"
  "duration_nanoseconds ns_time k = sint k"
  "duration_zero ns_time = 0"
  "whole_seconds ns_time d = as_i64 (trunc_div d (10 ^ 9))"
  "whole_milliseconds ns_time d = trunc_div d (10 ^ 6)"
  "whole_microseconds ns_time d = trunc_div d (10 ^ 3)"
  "whole_nanoseconds ns_time d = d"
  "subsec_milliseconds ns_time d = word_of_int (trunc_div (trunc_mod d (10 ^ 9)) (10 ^ 6))"
  "subsec_nanoseconds ns_time d = word_of_int (trunc_mod d (10 ^ 9))"
  "as_seconds_f64 ns_time d = f64_of_ratio d (10 ^ 9)"
  "duration_sub ns_time d e = (if duration_range (d - e) then Some (d - e) else None)"
  "duration_neg ns_time d = (if duration_range d then Some (- d) else None)"
  "duration_eq ns_time d e \<longleftrightarrow> d = e"
  "duration_lt ns_time d e \<longleftrightarrow> d < e"
  "duration_le ns_time d e \<longleftrightarrow> d \<le> e"
  "unix_epoch ns_time = 0"
  "instant_add ns_time t d = (if instant_range (t + d) then Some (t + d) else None)"
  "instant_sub ns_time t d = (if instant_range (t - d) then Some (t - d) else None)"
  "instant_diff ns_time t u = t - u"
  "instant_gt ns_time t u \<longleftrightarrow> u < t"
  by (simp_all add: ns_time_def)

lemma epoch_ns_time [simp]: "epoch_ns ns_time t = t"
  by (simp add: epoch_ns_def)

lemma ns_time_seconds_exact:
  assumes "\<bar>k\<bar> < 2 ^ 33"
  shows "f64_is (f64_of_ratio (k * 10 ^ 9) (10 ^ 9)) k"
proof -
  consider "k = 0" | "0 < k" | "k < 0" by linarith
  then show ?thesis
  proof cases
    case 1
    then show ?thesis by (simp add: f64_of_ratio_def)
  next
    case 2
    then show ?thesis using assms by (intro f64_of_ratio_exact) simp_all
  next
    case 3
    then have neg: "f64_is (f64_of_ratio (- k * 10 ^ 9) (10 ^ 9)) (- k)"
      using assms by (intro f64_of_ratio_exact) simp_all
    then obtain m e where x: "f64_of_ratio (- k * 10 ^ 9) (10 ^ 9) = Fin m e"
      by (cases "f64_of_ratio (- k * 10 ^ 9) (10 ^ 9)") simp_all
    have "f64_of_ratio (k * 10 ^ 9) (10 ^ 9) = Fin (- m) e"
      using f64_of_ratio_uminus [OF _ x] 3 by simp
    then show ?thesis using neg [unfolded x] by (simp add: scale_def)
  qed
qed

interpretation ref_time: time_laws ns_time
proof (unfold_locales, goal_cases)
  case (8 d)
  then have "\<bar>trunc_div d (10 ^ 9)\<bar> < 2 ^ 63" by (intro trunc_div_small) (simp_all add: duration_range_def)
  then show ?case by (simp add: sint_as_i64)
next
  case (11 d)
  have "\<bar>trunc_mod d (10 ^ 9)\<bar> < 10 ^ 9" by (rule trunc_mod_small) simp
  then have "\<bar>trunc_div (trunc_mod d (10 ^ 9)) (10 ^ 6)\<bar> < 1000" by (intro trunc_div_small) simp_all
  then show ?case by (simp add: sint_word_of_int_self)
next
  case (12 d)
  have "\<bar>trunc_mod d (10 ^ 9)\<bar> < 10 ^ 9" by (rule trunc_mod_small) simp
  then show ?case by (simp add: sint_word_of_int_self)
next
  case (13 d k)
  then show ?case using ns_time_seconds_exact [of k] by simp
next
  case (14 d)
  then have "f64_near 53 (f64_of_ratio d (10 ^ 9)) d (10 ^ 9)" by (intro f64_of_ratio_near) simp_all
  then have "f64_near 52 (f64_of_ratio d (10 ^ 9)) d (10 ^ 9)" by (rule f64_near_mono [of 52, simplified])
  then show ?case by simp
qed simp_all

end
