(* ===== verification/Rust_Std.thy ===== *)
theory Rust_Std
  imports Cell_Prelude
begin

text \<open>
  What the sources use of Rust's standard library on text: parsing and printing integers,
  checking UTF-8, and handing a string to C. A \<open>str\<close> or \<open>String\<close> is its UTF-8 bytes, and a
  \<open>char\<close> of HOL is one byte.
\<close>

section \<open>Parsing integers: \<open>str::parse\<close>\<close>

datatype parse_int_error = EmptyInt | InvalidDigit | PosOverflow | NegOverflow

definition to_digit :: "char \<Rightarrow> int option" where
  "to_digit c = (let n = int (of_char c) in if 48 \<le> n \<and> n \<le> 57 then Some (n - 48) else None)"

text \<open>The digits are read left to right; each multiplication and addition is checked.\<close>

fun parse_digits :: "int \<Rightarrow> int \<Rightarrow> bool \<Rightarrow> int \<Rightarrow> string \<Rightarrow> parse_int_error + int" where
  "parse_digits lo hi pos acc [] = Inr acc"
| "parse_digits lo hi pos acc (c # cs) =
     (case to_digit c of
        None \<Rightarrow> Inl InvalidDigit
      | Some x \<Rightarrow>
          let m = acc * 10; n = (if pos then m + x else m - x); over = (if pos then PosOverflow else NegOverflow)
          in if m < lo \<or> hi < m \<or> n < lo \<or> hi < n then Inl over
             else parse_digits lo hi pos n cs)"

definition parse_int :: "int \<Rightarrow> int \<Rightarrow> string \<Rightarrow> parse_int_error + int" where
  "parse_int lo hi s =
     (if s = [] then Inl EmptyInt
      else if s = ''+'' \<or> s = ''-'' then Inl InvalidDigit
      else if hd s = CHR ''+'' then parse_digits lo hi True 0 (tl s)
      else if hd s = CHR ''-'' \<and> lo < 0 then parse_digits lo hi False 0 (tl s)
      else parse_digits lo hi True 0 s)"

definition i64_from_str :: "string \<Rightarrow> parse_int_error + i64" where
  "i64_from_str s = map_sum id as_i64 (parse_int i64_min i64_max s)"

abbreviation u64_max :: int where "u64_max \<equiv> 18446744073709551615"

definition u64_from_str :: "string \<Rightarrow> parse_int_error + u64" where
  "u64_from_str s = map_sum id word_of_int (parse_int 0 u64_max s)"

section \<open>Printing integers: \<open>to_string\<close>\<close>

definition digit_char :: "int \<Rightarrow> char" where
  "digit_char d = char_of (48 + nat d)"

function dec_string :: "int \<Rightarrow> string" where
  "dec_string n = (if n < 10 then [digit_char n] else dec_string (n div 10) @ [digit_char (n mod 10)])"
  by pat_completeness auto
termination
  by (relation "measure nat") auto

declare dec_string.simps [simp del]

definition u64_to_string :: "u64 \<Rightarrow> string" where
  "u64_to_string w = dec_string (uint w)"

lemma of_char_digit_char: "0 \<le> d \<Longrightarrow> d < 10 \<Longrightarrow> of_char (digit_char d) = 48 + nat d"
  by (simp add: digit_char_def of_char_of)

lemma to_digit_char [simp]: "0 \<le> d \<Longrightarrow> d < 10 \<Longrightarrow> to_digit (digit_char d) = Some d"
  by (simp add: to_digit_def of_char_digit_char Let_def)

lemma dec_string_nonempty [simp]: "dec_string n \<noteq> []"
  by (subst dec_string.simps) simp

lemma parse_digits_append:
  "parse_digits lo hi pos acc (xs @ ys) =
     (case parse_digits lo hi pos acc xs of Inl e \<Rightarrow> Inl e | Inr n \<Rightarrow> parse_digits lo hi pos n ys)"
  by (induction xs arbitrary: acc) (auto simp: Let_def split: option.splits)

lemma parse_digits_dec_string:
  assumes "0 \<le> n" and "n \<le> hi"
  shows "parse_digits 0 hi True 0 (dec_string n) = Inr n"
  using assms
proof (induction n rule: dec_string.induct)
  case (1 n)
  show ?case
  proof (cases "n < 10")
    case True
    then show ?thesis using "1.prems" by (simp add: dec_string.simps [of n])
  next
    case False
    have "n = n div 10 * 10 + n mod 10" by simp
    moreover have "parse_digits 0 hi True 0 (dec_string (n div 10)) = Inr (n div 10)"
      using False "1.IH" "1.prems" by simp
    moreover have "0 \<le> n div 10" "n div 10 * 10 \<le> hi" using "1.prems" False by linarith+
    ultimately show ?thesis using False "1.prems"
      by (simp add: dec_string.simps [of n] parse_digits_append Let_def)
  qed
qed

text \<open>A parsed integer is in the range of its type.\<close>

lemma parse_digits_range:
  "parse_digits lo hi pos acc s = Inr n \<Longrightarrow> lo \<le> acc \<Longrightarrow> acc \<le> hi \<Longrightarrow> lo \<le> n \<and> n \<le> hi"
  by (induction s arbitrary: acc) (auto simp: Let_def split: option.splits if_splits)

lemma parse_int_range:
  "parse_int lo hi s = Inr n \<Longrightarrow> lo \<le> 0 \<Longrightarrow> 0 \<le> hi \<Longrightarrow> lo \<le> n \<and> n \<le> hi"
  by (auto simp: parse_int_def split: if_splits dest: parse_digits_range)

text \<open>A printed integer has digits only, so it never starts with a sign.\<close>

definition is_digit :: "char \<Rightarrow> bool" where
  "is_digit c \<longleftrightarrow> to_digit c \<noteq> None"

lemma dec_string_digits: "0 \<le> n \<Longrightarrow> list_all is_digit (dec_string n)"
proof (induction n rule: dec_string.induct)
  case (1 n)
  then show ?case
    by (cases "n < 10") (simp_all add: dec_string.simps [of n] is_digit_def)
qed

lemma digit_not_sign: "is_digit c \<Longrightarrow> c \<noteq> CHR ''+'' \<and> c \<noteq> CHR ''-''"
  by (auto simp: is_digit_def to_digit_def Let_def)

lemma parse_int_dec_string:
  assumes "0 \<le> n" and "n \<le> hi"
  shows "parse_int 0 hi (dec_string n) = Inr n"
proof -
  obtain c cs where s: "dec_string n = c # cs" by (cases "dec_string n") simp_all
  then have "c \<noteq> CHR ''+'' \<and> c \<noteq> CHR ''-''"
    using dec_string_digits [OF assms(1)] digit_not_sign [of c] by simp
  then show ?thesis using parse_digits_dec_string [OF assms] by (simp add: parse_int_def s)
qed

lemma u64_parse_print: "u64_from_str (u64_to_string w) = Inr w"
proof -
  have "uint w \<le> u64_max" using uint_bounded [of w] by simp
  then show ?thesis
    by (simp add: u64_from_str_def u64_to_string_def parse_int_dec_string)
qed

lemma u64_to_string_nonempty [simp]: "u64_to_string w \<noteq> []"
  by (simp add: u64_to_string_def)

section \<open>UTF-8: \<open>String::from_utf8\<close>\<close>

text \<open>
  The error holds the length of the valid prefix and, unless the text ends inside a sequence,
  the length of the invalid sequence.
\<close>

datatype utf8_error = Utf8Error (valid_up_to: nat) (error_len: "nat option")

abbreviation code :: "char \<Rightarrow> nat" where "code c \<equiv> of_char c"

definition utf8_width :: "char \<Rightarrow> nat" where
  "utf8_width b =
     (if code b < 128 then 1
      else if 194 \<le> code b \<and> code b \<le> 223 then 2
      else if 224 \<le> code b \<and> code b \<le> 239 then 3
      else if 240 \<le> code b \<and> code b \<le> 244 then 4 else 0)"

definition utf8_cont :: "char \<Rightarrow> bool" where
  "utf8_cont c \<longleftrightarrow> 128 \<le> code c \<and> code c \<le> 191"

text \<open>The second byte's range rules out overlong forms, surrogates and code points past the last.\<close>

definition utf8_second :: "char \<Rightarrow> char \<Rightarrow> bool" where
  "utf8_second b c \<longleftrightarrow>
     (if code b = 224 then 160 \<le> code c \<and> code c \<le> 191
      else if code b = 237 then 128 \<le> code c \<and> code c \<le> 159
      else if code b = 240 then 144 \<le> code c \<and> code c \<le> 191
      else if code b = 244 then 128 \<le> code c \<and> code c \<le> 143
      else utf8_cont c)"

fun utf8_check :: "nat \<Rightarrow> string \<Rightarrow> utf8_error option" where
  "utf8_check i [] = None"
| "utf8_check i (b # bs) =
     (if utf8_width b = 1 then utf8_check (i + 1) bs
      else if utf8_width b = 0 then Some (Utf8Error i (Some 1))
      else case bs of
        [] \<Rightarrow> Some (Utf8Error i None)
      | c # cs \<Rightarrow>
          if \<not> utf8_second b c then Some (Utf8Error i (Some 1))
          else if utf8_width b = 2 then utf8_check (i + 2) cs
          else case cs of
            [] \<Rightarrow> Some (Utf8Error i None)
          | d # ds \<Rightarrow>
              if \<not> utf8_cont d then Some (Utf8Error i (Some 2))
              else if utf8_width b = 3 then utf8_check (i + 3) ds
              else case ds of
                [] \<Rightarrow> Some (Utf8Error i None)
              | e # es \<Rightarrow>
                  if \<not> utf8_cont e then Some (Utf8Error i (Some 3)) else utf8_check (i + 4) es)"

definition string_from_utf8 :: "string \<Rightarrow> utf8_error + string" where
  "string_from_utf8 s = (case utf8_check 0 s of None \<Rightarrow> Inr s | Some e \<Rightarrow> Inl e)"

lemma utf8_check_ascii: "list_all (\<lambda>c. code c < 128) s \<Longrightarrow> utf8_check i s = None"
  by (induction s arbitrary: i) (simp_all add: utf8_width_def)

lemma string_from_utf8_ascii: "list_all (\<lambda>c. code c < 128) s \<Longrightarrow> string_from_utf8 s = Inr s"
  by (simp add: string_from_utf8_def utf8_check_ascii)

lemma string_from_utf8_Inr: "string_from_utf8 s = Inr t \<Longrightarrow> t = s"
  by (simp add: string_from_utf8_def split: option.splits)

lemma digit_ascii: "is_digit c \<Longrightarrow> code c < 128"
  by (auto simp: is_digit_def to_digit_def Let_def split: if_splits)

lemma u64_to_string_utf8: "string_from_utf8 (u64_to_string w) = Inr (u64_to_string w)"
proof (rule string_from_utf8_ascii)
  have "list_all is_digit (u64_to_string w)"
    unfolding u64_to_string_def by (rule dec_string_digits) simp
  then show "list_all (\<lambda>c. code c < 128) (u64_to_string w)"
    by (rule list.pred_mono_strong) (simp add: digit_ascii)
qed

text \<open>Text that parses as an integer is ASCII.\<close>

lemma to_digit_ascii: "to_digit c = Some n \<Longrightarrow> code c < 128"
  by (auto simp: to_digit_def Let_def split: if_splits)

lemma parse_digits_ascii: "parse_digits lo hi pos acc s = Inr n \<Longrightarrow> list_all (\<lambda>c. code c < 128) s"
  by (induction s arbitrary: acc) (auto simp: Let_def to_digit_ascii split: option.splits if_splits)

lemma parse_int_ascii: "parse_int lo hi s = Inr n \<Longrightarrow> list_all (\<lambda>c. code c < 128) s"
  by (cases s) (auto simp: parse_int_def simp del: parse_digits.simps split: if_splits dest!: parse_digits_ascii)

lemma u64_from_str_ascii: "u64_from_str s = Inr v \<Longrightarrow> string_from_utf8 s = Inr s"
  by (cases "parse_int 0 u64_max s")
    (auto simp: u64_from_str_def intro: string_from_utf8_ascii parse_int_ascii)

lemma u64_from_str_nonempty: "u64_from_str s = Inr v \<Longrightarrow> s \<noteq> []"
  by (auto simp: u64_from_str_def parse_int_def)

section \<open>Strings for C\<close>

text \<open>
  A pointer to the bytes of a string with \<open>\0\<close> appended, read by C as a string: the bytes
  up to the first zero byte.
\<close>

definition nul :: char where "nul = char_of (0::nat)"

definition c_str :: "string \<Rightarrow> string" where
  "c_str s = takeWhile (\<lambda>c. c \<noteq> nul) s"

lemma c_str_nul: "list_all (\<lambda>c. c \<noteq> nul) s \<Longrightarrow> c_str (s @ [nul]) = s"
  by (induction s) (simp_all add: c_str_def)

text \<open>\<open>to_lowercase\<close> on ASCII text.\<close>

definition ascii_lower :: "string \<Rightarrow> string" where
  "ascii_lower = map (\<lambda>c. if 65 \<le> code c \<and> code c \<le> 90 then char_of (code c + 32) else c)"

section \<open>The texts of the errors\<close>

fun display_parse_int_error :: "parse_int_error \<Rightarrow> string" where
  "display_parse_int_error EmptyInt = ''cannot parse integer from empty string''"
| "display_parse_int_error InvalidDigit = ''invalid digit found in string''"
| "display_parse_int_error PosOverflow = ''number too large to fit in target type''"
| "display_parse_int_error NegOverflow = ''number too small to fit in target type''"

fun display_utf8_error :: "utf8_error \<Rightarrow> string" where
  "display_utf8_error (Utf8Error i (Some n)) =
     ''invalid utf-8 sequence of '' @ dec_string (int n) @ '' bytes from index '' @ dec_string (int i)"
| "display_utf8_error (Utf8Error i None) =
     ''incomplete utf-8 byte sequence from index '' @ dec_string (int i)"

end
