(* ===== verification/Cell_Error.thy ===== *)
theory Cell_Error
  imports Rust_Std
begin

text \<open>
  \<^verbatim>\<open>src/error.rs\<close> and the \<open>error!\<close> macro of \<^verbatim>\<open>src/macros.rs\<close>: the one
  error type of the crate and how it prints.
\<close>

record generic_error =
  message :: string

datatype cell_error = Generic generic_error | FromUtf8 utf8_error | ParseInt parse_int_error

definition generic_error_new :: "string \<Rightarrow> generic_error" where
  "generic_error_new msg = \<lparr>message = msg\<rparr>"

definition cell_error_generic :: "string \<Rightarrow> cell_error" where
  "cell_error_generic msg = Generic (generic_error_new msg)"

text \<open>The conversions of the \<open>?\<close> operator.\<close>

definition cell_error_from_utf8 :: "utf8_error \<Rightarrow> cell_error" where
  "cell_error_from_utf8 e = FromUtf8 e"

definition cell_error_from_parse_int :: "parse_int_error \<Rightarrow> cell_error" where
  "cell_error_from_parse_int e = ParseInt e"

text \<open>\<open>error!(message)\<close>; the caller formats the message.\<close>

definition error_macro :: "string \<Rightarrow> cell_error" where
  "error_macro msg = cell_error_generic msg"

definition display_generic_error :: "generic_error \<Rightarrow> string" where
  "display_generic_error e = ''Store error: '' @ message e"

fun display_cell_error :: "cell_error \<Rightarrow> string" where
  "display_cell_error (Generic e) = display_generic_error e"
| "display_cell_error (FromUtf8 e) = display_utf8_error e"
| "display_cell_error (ParseInt e) = display_parse_int_error e"

definition generic_error_description :: "generic_error \<Rightarrow> string" where
  "generic_error_description e = message e"

text \<open>\<open>cause\<close>: the underlying error, as a trait object.\<close>

datatype error_object =
  Generic_Object generic_error | Utf8_Object utf8_error | Parse_Int_Object parse_int_error

fun cell_error_cause :: "cell_error \<Rightarrow> error_object option" where
  "cell_error_cause (Generic e) = Some (Generic_Object e)"
| "cell_error_cause (FromUtf8 e) = Some (Utf8_Object e)"
| "cell_error_cause (ParseInt e) = Some (Parse_Int_Object e)"

definition generic_error_cause :: "generic_error \<Rightarrow> error_object option" where
  "generic_error_cause e = None"

lemma display_error_macro: "display_cell_error (error_macro msg) = ''Store error: '' @ msg"
  by (simp add: error_macro_def cell_error_generic_def generic_error_new_def display_generic_error_def)

lemma error_macro_inject [simp]: "error_macro a = error_macro b \<longleftrightarrow> a = b"
  by (simp add: error_macro_def cell_error_generic_def generic_error_new_def)

end
