(* ===== verification/Store.thy ===== *)
theory Store
  imports Cell_Error
begin

text \<open>
  \<^verbatim>\<open>src/cell/store.rs\<close>: the trait \<open>Store\<close> as the record of its methods over a state
  \<open>'s\<close>, its implementation for a mutable reference, \<open>MemoryStore\<close>, and \<open>TestStore\<close> of
  the tests of \<^verbatim>\<open>src/cell/mod.rs\<close>. The locale \<open>cell_store\<close> is the contract the
  rate limiter relies on. (\<open>InternalRedisStore\<close> is in \<open>Redis_Store\<close>.)
\<close>

section \<open>The trait\<close>

record ('s, 'd, 't) store_ops =
  compare_and_swap_with_ttl :: "string \<Rightarrow> u64 \<Rightarrow> u64 \<Rightarrow> 'd \<Rightarrow> ('s, cell_error, bool) io"
  get_with_time :: "string \<Rightarrow> ('s, cell_error, u64 option \<times> 't) io"
  log_debug :: "string \<Rightarrow> 's \<Rightarrow> 's"
  set_if_not_exists_with_ttl :: "string \<Rightarrow> u64 \<Rightarrow> 'd \<Rightarrow> ('s, cell_error, bool) io"

text \<open>\<open>impl Store for &mut T\<close> calls the methods of \<open>T\<close> on the value referred to.\<close>

definition mut_ref_store :: "('s, 'd, 't) store_ops \<Rightarrow> ('s, 'd, 't) store_ops" where
  "mut_ref_store ops = \<lparr>
     compare_and_swap_with_ttl = (\<lambda>key old new ttl. compare_and_swap_with_ttl ops key old new ttl),
     get_with_time = (\<lambda>key. get_with_time ops key),
     log_debug = (\<lambda>msg. log_debug ops msg),
     set_if_not_exists_with_ttl = (\<lambda>key v ttl. set_if_not_exists_with_ttl ops key v ttl)\<rparr>"

lemma mut_ref_store_id [simp]: "mut_ref_store ops = ops"
  by (simp add: mut_ref_store_def)

section \<open>The contract\<close>

text \<open>
  \<open>view\<close> is what the store holds, \<open>clk\<close> the time it would report now, \<open>key_ok\<close> a key's
  well-formedness, \<open>ttl_ok\<close> the times to live with which a written key is still there
  afterwards, \<open>due\<close> what the store keeps of a key's time to live, and \<open>due_in\<close> what it will
  keep of one that it is given now. A swap or a set that is refused leaves the values alone, though
  a refused set gives the key a new time to live, as the trait says; what a swap of a missing key
  does is left open, since the implementations differ.
\<close>

locale cell_store =
  fixes ops :: "('s, 'd, 't) store_ops"
    and view :: "'s \<Rightarrow> string \<Rightarrow> u64 option"
    and clk :: "'s \<Rightarrow> 't"
    and key_ok :: "'s \<Rightarrow> string \<Rightarrow> bool"
    and ttl_ok :: "'d \<Rightarrow> bool"
    and due :: "'s \<Rightarrow> string \<Rightarrow> 'x"
    and due_in :: "'s \<Rightarrow> 'd \<Rightarrow> 'x"
  assumes get: "key_ok s key \<Longrightarrow> \<exists>s'. get_with_time ops key s = (Ok (view s key, clk s), s') \<and>
      key_ok s' key \<and> view s' = view s \<and> due s' = due s \<and> due_in s' = due_in s"
    and swap: "key_ok s key \<Longrightarrow> view s key = Some old \<Longrightarrow> ttl_ok ttl \<Longrightarrow>
      \<exists>s'. compare_and_swap_with_ttl ops key old new ttl s = (Ok True, s') \<and>
        key_ok s' key \<and> view s' = (view s)(key \<mapsto> new) \<and> due s' = (due s)(key := due_in s ttl)"
    and swap_other: "key_ok s key \<Longrightarrow> view s key = Some v \<Longrightarrow> v \<noteq> old \<Longrightarrow>
      \<exists>s'. compare_and_swap_with_ttl ops key old new ttl s = (Ok False, s') \<and>
        key_ok s' key \<and> view s' = view s \<and> due s' = due s"
    and set_new: "key_ok s key \<Longrightarrow> view s key = None \<Longrightarrow> ttl_ok ttl \<Longrightarrow>
      \<exists>s'. set_if_not_exists_with_ttl ops key new ttl s = (Ok True, s') \<and>
        key_ok s' key \<and> view s' = (view s)(key \<mapsto> new) \<and> due s' = (due s)(key := due_in s ttl)"
    and set_old: "key_ok s key \<Longrightarrow> view s key = Some v \<Longrightarrow> ttl_ok ttl \<Longrightarrow>
      \<exists>s'. set_if_not_exists_with_ttl ops key new ttl s = (Ok False, s') \<and>
        key_ok s' key \<and> view s' = view s \<and> due s' = (due s)(key := due_in s ttl)"
begin

text \<open>
  The write that follows a read: whether the key was there or not, it succeeds when nothing
  happened in between.
\<close>

lemma write_after_read:
  assumes "key_ok s key" and "ttl_ok ttl"
  shows "\<exists>s'. (case view s key of
        Some old \<Rightarrow> compare_and_swap_with_ttl ops key old new ttl
      | None \<Rightarrow> set_if_not_exists_with_ttl ops key new ttl) s = (Ok True, s') \<and>
    key_ok s' key \<and> view s' = (view s)(key \<mapsto> new) \<and> due s' = (due s)(key := due_in s ttl)"
  using assms swap set_new by (cases "view s key") simp_all

text \<open>The write after a read fails, and changes nothing, when another writer came first.\<close>

lemma write_after_other_write:
  assumes "key_ok s key" and "ttl_ok ttl" and "view s key = Some v" and "seen \<noteq> Some v"
  shows "\<exists>s'. (case seen of
        Some old \<Rightarrow> compare_and_swap_with_ttl ops key old new ttl
      | None \<Rightarrow> set_if_not_exists_with_ttl ops key new ttl) s = (Ok False, s') \<and>
    key_ok s' key \<and> view s' = view s"
  using assms swap_other [of s key v] set_old [of s key v] by (cases seen) fastforce+

end

section \<open>\<open>MemoryStore\<close>\<close>

record memory_store =
  mem_map :: "string \<rightharpoonup> u64"
  verbose :: bool

definition memory_store_new :: memory_store where
  "memory_store_new = \<lparr>mem_map = Map.empty, verbose = False\<rparr>"

definition memory_store_new_verbose :: memory_store where
  "memory_store_new_verbose = \<lparr>mem_map = Map.empty, verbose = True\<rparr>"

text \<open>
  The system clock and standard output are outside the program: a world \<open>'w\<close> with the two
  operations the store calls.
\<close>

record ('w, 't) world =
  now_utc :: "'w \<Rightarrow> 't \<times> 'w"
  println :: "string \<Rightarrow> 'w \<Rightarrow> 'w"

definition memory_compare_and_swap ::
    "string \<Rightarrow> u64 \<Rightarrow> u64 \<Rightarrow> 'd \<Rightarrow> (memory_store \<times> 'w, cell_error, bool) io" where
  "memory_compare_and_swap key old new ttl = (\<lambda>(m, w).
     case mem_map m key of
       Some n \<Rightarrow> if n \<noteq> old then (Ok False, (m, w))
                 else (Ok True, (m\<lparr>mem_map := (mem_map m)(key \<mapsto> new)\<rparr>, w))
     | None \<Rightarrow> (Ok True, (m\<lparr>mem_map := (mem_map m)(key \<mapsto> new)\<rparr>, w)))"

definition memory_get_with_time ::
    "('w, 't) world \<Rightarrow> string \<Rightarrow> (memory_store \<times> 'w, cell_error, u64 option \<times> 't) io" where
  "memory_get_with_time wd key = (\<lambda>(m, w).
     (Ok (mem_map m key, fst (now_utc wd w)), (m, snd (now_utc wd w))))"

definition memory_log_debug ::
    "('w, 't) world \<Rightarrow> string \<Rightarrow> memory_store \<times> 'w \<Rightarrow> memory_store \<times> 'w" where
  "memory_log_debug wd msg = (\<lambda>(m, w).
     if verbose m then (m, println wd (''memory_store: '' @ msg) w) else (m, w))"

definition memory_set_if_not_exists ::
    "string \<Rightarrow> u64 \<Rightarrow> 'd \<Rightarrow> (memory_store \<times> 'w, cell_error, bool) io" where
  "memory_set_if_not_exists key v ttl = (\<lambda>(m, w).
     case mem_map m key of
       Some n \<Rightarrow> (Ok False, (m, w))
     | None \<Rightarrow> (Ok True, (m\<lparr>mem_map := (mem_map m)(key \<mapsto> v)\<rparr>, w)))"

definition memory_ops :: "('w, 't) world \<Rightarrow> (memory_store \<times> 'w, 'd, 't) store_ops" where
  "memory_ops wd = \<lparr>
     compare_and_swap_with_ttl = memory_compare_and_swap,
     get_with_time = memory_get_with_time wd,
     log_debug = memory_log_debug wd,
     set_if_not_exists_with_ttl = memory_set_if_not_exists\<rparr>"

lemmas memory_defs = memory_compare_and_swap_def memory_get_with_time_def
  memory_set_if_not_exists_def

lemma memory_ops_simps [simp]:
  "compare_and_swap_with_ttl (memory_ops wd) = memory_compare_and_swap"
  "get_with_time (memory_ops wd) = memory_get_with_time wd"
  "set_if_not_exists_with_ttl (memory_ops wd) = memory_set_if_not_exists"
  "log_debug (memory_ops wd) = memory_log_debug wd"
  by (simp_all add: memory_ops_def)

definition memory_view :: "memory_store \<times> 'w \<Rightarrow> string \<Rightarrow> u64 option" where
  "memory_view s = mem_map (fst s)"

definition memory_clock :: "('w, 't) world \<Rightarrow> memory_store \<times> 'w \<Rightarrow> 't" where
  "memory_clock wd s = fst (now_utc wd (snd s))"

text \<open>
  The memory stores keep no times to live: what they keep of one is the one value of \<open>unit\<close>, so the laws
  on times to live say nothing of them, and a key stays until it is written again. They are for
  tests; the Redis store is the one that has to let keys expire.
\<close>

lemma fun_upd_unit [simp]: "f(x := u) = (f :: 'a \<Rightarrow> unit)"
  by (simp add: fun_eq_iff)

interpretation memory: cell_store "memory_ops wd" memory_view "memory_clock wd"
    "\<lambda>s key. True" "\<lambda>ttl. True" "\<lambda>s key. ()" "\<lambda>s ttl. ()" for wd :: "('w, 't) world"
  by unfold_locales (auto simp: memory_defs memory_view_def memory_clock_def split: prod.splits)

section \<open>\<open>TestStore\<close>\<close>

text \<open>A memory store whose clock the caller sets, and whose updates can be made to fail.\<close>

record 't test_store =
  clock :: 't
  fail_updates :: bool
  inner :: memory_store

definition test_store_new :: "('w, 't) world \<Rightarrow> memory_store \<Rightarrow> 'w \<Rightarrow> 't test_store \<times> 'w" where
  "test_store_new wd m w =
     (\<lparr>clock = fst (now_utc wd w), fail_updates = False, inner = m\<rparr>, snd (now_utc wd w))"

text \<open>A call of the inner store's method, in the state of the test store.\<close>

definition on_inner :: "(memory_store \<times> 'w, 'e, 'a) io \<Rightarrow> ('t test_store \<times> 'w, 'e, 'a) io" where
  "on_inner m = (\<lambda>(ts, w). case m (inner ts, w) of (r, (ms, w')) \<Rightarrow> (r, (ts\<lparr>inner := ms\<rparr>, w')))"

definition test_compare_and_swap ::
    "string \<Rightarrow> u64 \<Rightarrow> u64 \<Rightarrow> 'd \<Rightarrow> ('t test_store \<times> 'w, cell_error, bool) io" where
  "test_compare_and_swap key old new ttl = (\<lambda>s.
     if fail_updates (fst s) then (Ok False, s)
     else on_inner (memory_compare_and_swap key old new ttl) s)"

definition test_get_with_time ::
    "('w, 't) world \<Rightarrow> string \<Rightarrow> ('t test_store \<times> 'w, cell_error, u64 option \<times> 't) io" where
  "test_get_with_time wd key =
     io_bind (on_inner (memory_get_with_time wd key)) (\<lambda>tup s. (Ok (fst tup, clock (fst s)), s))"

definition test_log_debug ::
    "('w, 't) world \<Rightarrow> string \<Rightarrow> 't test_store \<times> 'w \<Rightarrow> 't test_store \<times> 'w" where
  "test_log_debug wd msg = (\<lambda>(ts, w).
     case memory_log_debug wd msg (inner ts, w) of (ms, w') \<Rightarrow> (ts\<lparr>inner := ms\<rparr>, w'))"

definition test_set_if_not_exists ::
    "string \<Rightarrow> u64 \<Rightarrow> 'd \<Rightarrow> ('t test_store \<times> 'w, cell_error, bool) io" where
  "test_set_if_not_exists key v ttl = (\<lambda>s.
     if fail_updates (fst s) then (Ok False, s)
     else on_inner (memory_set_if_not_exists key v ttl) s)"

definition test_ops :: "('w, 't) world \<Rightarrow> ('t test_store \<times> 'w, 'd, 't) store_ops" where
  "test_ops wd = \<lparr>
     compare_and_swap_with_ttl = test_compare_and_swap,
     get_with_time = test_get_with_time wd,
     log_debug = test_log_debug wd,
     set_if_not_exists_with_ttl = test_set_if_not_exists\<rparr>"

lemmas test_defs = test_compare_and_swap_def test_get_with_time_def test_set_if_not_exists_def
  on_inner_def

lemma test_ops_simps [simp]:
  "compare_and_swap_with_ttl (test_ops wd) = test_compare_and_swap"
  "get_with_time (test_ops wd) = test_get_with_time wd"
  "set_if_not_exists_with_ttl (test_ops wd) = test_set_if_not_exists"
  "log_debug (test_ops wd) = test_log_debug wd"
  by (simp_all add: test_ops_def)

definition test_view :: "'t test_store \<times> 'w \<Rightarrow> string \<Rightarrow> u64 option" where
  "test_view s = mem_map (inner (fst s))"

definition test_clock :: "'t test_store \<times> 'w \<Rightarrow> 't" where
  "test_clock s = clock (fst s)"

definition test_working :: "'t test_store \<times> 'w \<Rightarrow> string \<Rightarrow> bool" where
  "test_working s key \<longleftrightarrow> \<not> fail_updates (fst s)"

interpretation testing: cell_store "test_ops wd" test_view test_clock test_working "\<lambda>ttl. True"
    "\<lambda>s key. ()" "\<lambda>s ttl. ()" for wd :: "('w, 't) world"
  by unfold_locales
    (auto simp: test_defs memory_defs test_view_def test_clock_def test_working_def io_bind_def
      split: prod.splits)

end
