(* ===== verification/Limiter.thy ===== *)
theory Limiter
  imports Time_Api Store
begin

text \<open>
  \<^verbatim>\<open>src/cell/mod.rs\<close>: rates, quotas, and the rate limiter with its bounded retry loop.
  The model is of a release build: \<open>log_debug!\<close> expands to nothing there and the arithmetic of
  \<open>i64\<close> and \<open>u64\<close> wraps.
\<close>

section \<open>Rates\<close>

record 'd rate =
  period :: 'd

definition rate_per_period :: "('d, 't) time_crate \<Rightarrow> i64 \<Rightarrow> 'd \<Rightarrow> 'd rate" where
  "rate_per_period tc n p =
     (let ns = whole_nanoseconds tc p
      in if n = 0 \<or> ns = 0 then \<lparr>period = duration_nanoseconds tc 0\<rparr>
         else \<lparr>period = duration_nanoseconds tc
                (f64_to_i64 (f64_div (f64_of_int ns) (f64_of_int (sint n))))\<rparr>)"

definition rate_per_day :: "('d, 't) time_crate \<Rightarrow> i64 \<Rightarrow> 'd rate" where
  "rate_per_day tc n = rate_per_period tc n (duration_days tc 1)"

definition rate_per_hour :: "('d, 't) time_crate \<Rightarrow> i64 \<Rightarrow> 'd rate" where
  "rate_per_hour tc n = rate_per_period tc n (duration_hours tc 1)"

definition rate_per_minute :: "('d, 't) time_crate \<Rightarrow> i64 \<Rightarrow> 'd rate" where
  "rate_per_minute tc n = rate_per_period tc n (duration_minutes tc 1)"

definition rate_per_second :: "('d, 't) time_crate \<Rightarrow> i64 \<Rightarrow> 'd rate" where
  "rate_per_second tc n = rate_per_period tc n (duration_seconds tc 1)"

section \<open>Stored times\<close>

text \<open>
  The store holds a time as nanoseconds since the epoch. The casts between \<open>u64\<close> and \<open>i64\<close>
  keep the bits; the one from \<open>i32\<close> extends the sign.
\<close>

definition from_nanoseconds :: "('d, 't) time_crate \<Rightarrow> u64 \<Rightarrow> 't option" where
  "from_nanoseconds tc x =
     instant_add tc (unix_epoch tc) (duration_new tc (x div 1000000000) (ucast (x mod 1000000000)))"

definition nanoseconds :: "('d, 't) time_crate \<Rightarrow> 't \<Rightarrow> u64" where
  "nanoseconds tc x =
     (let since_epoch = instant_diff tc x (unix_epoch tc)
      in whole_seconds tc since_epoch * 1000000000 + scast (subsec_nanoseconds tc since_epoch))"

section \<open>The limiter\<close>

record 'd rate_limit_result =
  limit :: i64
  remaining :: i64
  reset_after :: 'd
  retry_after :: 'd

record 'd rate_quota =
  max_burst :: i64
  max_rate :: "'d rate"

record ('s, 'd) rate_limiter =
  store :: 's
  delay_variation_tolerance :: 'd
  emission_interval :: 'd
  limiter_limit :: i64

definition max_cas_attempts :: int where
  "max_cas_attempts = 5"

definition rate_limiter_new ::
    "('d, 't) time_crate \<Rightarrow> 's \<Rightarrow> 'd rate_quota \<Rightarrow> ('s, 'd) rate_limiter" where
  "rate_limiter_new tc st quota = \<lparr>
     store = st,
     delay_variation_tolerance = duration_nanoseconds tc
       (as_i64 (whole_nanoseconds tc (period (max_rate quota))) * (max_burst quota + 1)),
     emission_interval = period (max_rate quota),
     limiter_limit = max_burst quota + 1\<rparr>"

text \<open>
  One pass of the loop. It leaves the loop with whether the request is limited, the time to live
  and the result so far, or asks for another pass when the write lost a race.
\<close>

datatype 'a loop_step = Break 'a | Continue

text \<open>What a pass does with the value and the time it has read.\<close>

definition rate_limit_after_read ::
    "('d, 't) time_crate \<Rightarrow> ('s, 'd, 't) store_ops \<Rightarrow> ('s, 'd) rate_limiter \<Rightarrow> string \<Rightarrow> 'd
     \<Rightarrow> 'd rate_limit_result \<Rightarrow> u64 option \<Rightarrow> 't
     \<Rightarrow> ('s, cell_error, (bool \<times> 'd \<times> 'd rate_limit_result) loop_step) io" where
  "rate_limit_after_read tc ops rl key increment rlc tat_val now =
     io_bind (case tat_val of None \<Rightarrow> io_ret now | Some v \<Rightarrow> io_opt (from_nanoseconds tc v)) (\<lambda>tat.
     io_bind (io_opt (if instant_gt tc now tat then instant_add tc now increment
                      else instant_add tc tat increment)) (\<lambda>new_tat.
     io_bind (io_opt (instant_sub tc new_tat (delay_variation_tolerance rl))) (\<lambda>allow_at.
     let diff = instant_diff tc now allow_at
     in if duration_lt tc diff (duration_zero tc) then
          (if duration_le tc increment (delay_variation_tolerance rl) then
             io_bind (io_opt (duration_neg tc diff)) (\<lambda>retry.
             io_ret (Break (True, instant_diff tc tat now, rlc\<lparr>retry_after := retry\<rparr>)))
           else io_ret (Break (True, instant_diff tc tat now, rlc)))
        else
          (let new_tat_ns = nanoseconds tc new_tat; ttl = instant_diff tc new_tat now
           in io_bind (case tat_val of
                  Some some_tat_val \<Rightarrow> compare_and_swap_with_ttl ops key some_tat_val new_tat_ns ttl
                | None \<Rightarrow> set_if_not_exists_with_ttl ops key new_tat_ns ttl) (\<lambda>updated.
              if updated then io_ret (Break (False, ttl, rlc)) else io_ret Continue)))))"

definition rate_limit_iter ::
    "('d, 't) time_crate \<Rightarrow> ('s, 'd, 't) store_ops \<Rightarrow> ('s, 'd) rate_limiter \<Rightarrow> string \<Rightarrow> 'd
     \<Rightarrow> 'd rate_limit_result
     \<Rightarrow> ('s, cell_error, (bool \<times> 'd \<times> 'd rate_limit_result) loop_step) io" where
  "rate_limit_iter tc ops rl key increment rlc =
     io_bind (get_with_time ops key) (\<lambda>(tat_val, now).
     rate_limit_after_read tc ops rl key increment rlc tat_val now)"

text \<open>The loop; \<open>i\<close> counts the passes whose write was refused.\<close>

definition update_failed :: cell_error where
  "update_failed = error_macro
     (''Failed to update rate limit after '' @ dec_string max_cas_attempts @ '' attempts'')"

function rate_limit_loop ::
    "('d, 't) time_crate \<Rightarrow> ('s, 'd, 't) store_ops \<Rightarrow> ('s, 'd) rate_limiter \<Rightarrow> string \<Rightarrow> 'd
     \<Rightarrow> 'd rate_limit_result \<Rightarrow> int
     \<Rightarrow> ('s, cell_error, bool \<times> 'd \<times> 'd rate_limit_result) io" where
  "rate_limit_loop tc ops rl key increment rlc i s =
     (case rate_limit_iter tc ops rl key increment rlc s of
        (Ok (Break r), s') \<Rightarrow> (Ok r, s')
      | (Ok Continue, s') \<Rightarrow>
          if i + 1 > max_cas_attempts then (Err update_failed, s')
          else rate_limit_loop tc ops rl key increment rlc (i + 1) s'
      | (Err e, s') \<Rightarrow> (Err e, s')
      | (Panic, s') \<Rightarrow> (Panic, s'))"
  by pat_completeness auto
termination
  by (relation "measure (\<lambda>(tc, ops, rl, key, increment, rlc, i, s). nat (max_cas_attempts + 1 - i))") auto

declare rate_limit_loop.simps [simp del]

definition rate_limit_remaining :: "('d, 't) time_crate \<Rightarrow> ('s, 'd) rate_limiter \<Rightarrow> 'd \<Rightarrow> i64" where
  "rate_limit_remaining tc rl next =
     f64_to_i64 (f64_div (f64_of_int (whole_microseconds tc next))
       (f64_of_int (whole_microseconds tc (emission_interval rl))))"

definition zero_rates :: cell_error where
  "zero_rates = error_macro ''Zero rates are not supported''"

text \<open>The result before the loop has run, and the whole call.\<close>

definition rlc_start :: "('d, 't) time_crate \<Rightarrow> ('s, 'd) rate_limiter \<Rightarrow> 'd rate_limit_result" where
  "rlc_start tc rl = \<lparr>limit = limiter_limit rl, remaining = 0,
     reset_after = duration_seconds tc (- 1), retry_after = duration_seconds tc (- 1)\<rparr>"

definition rate_limit_increment :: "('d, 't) time_crate \<Rightarrow> ('s, 'd) rate_limiter \<Rightarrow> i64 \<Rightarrow> 'd" where
  "rate_limit_increment tc rl quantity =
     duration_nanoseconds tc (as_i64 (whole_nanoseconds tc (emission_interval rl)) * quantity)"

definition rate_limit_body ::
    "('d, 't) time_crate \<Rightarrow> ('s, 'd, 't) store_ops \<Rightarrow> ('s, 'd) rate_limiter \<Rightarrow> string \<Rightarrow> i64
     \<Rightarrow> ('s, cell_error, bool \<times> 'd rate_limit_result) io" where
  "rate_limit_body tc ops rl key quantity =
     (let rlc = rlc_start tc rl
      in if duration_eq tc (emission_interval rl) (duration_nanoseconds tc 0) then io_err zero_rates
         else
           (let increment = rate_limit_increment tc rl quantity
            in io_bind (rate_limit_loop tc ops rl key increment rlc 0) (\<lambda>(limited, ttl, rlc).
               io_bind (io_opt (duration_sub tc (delay_variation_tolerance rl) ttl)) (\<lambda>next.
               io_bind (io_opt (duration_neg tc (emission_interval rl))) (\<lambda>low.
               let rlc = (if duration_lt tc low next
                          then rlc\<lparr>remaining := rate_limit_remaining tc rl next\<rparr> else rlc)
               in io_ret (limited, rlc\<lparr>reset_after := ttl\<rparr>))))))"

text \<open>\<open>rate_limit\<close> takes the limiter by mutable reference, but changes its store only.\<close>

definition rate_limit ::
    "('d, 't) time_crate \<Rightarrow> ('s, 'd, 't) store_ops \<Rightarrow> string \<Rightarrow> i64
     \<Rightarrow> (('s, 'd) rate_limiter, cell_error, bool \<times> 'd rate_limit_result) io" where
  "rate_limit tc ops key quantity = (\<lambda>rl.
     case rate_limit_body tc ops rl key quantity (store rl) of (r, s') \<Rightarrow> (r, rl\<lparr>store := s'\<rparr>))"

section \<open>Lemmas on rates\<close>

context time_laws begin

lemma ns_rate_per_period:
  assumes "n \<noteq> 0" and "\<bar>sint n\<bar> \<le> 2 ^ 53" and "\<bar>whole_nanoseconds tc p\<bar> < 2 ^ 53"
  shows "whole_nanoseconds tc (period (rate_per_period tc n p)) =
    trunc_div (whole_nanoseconds tc p) (sint n)"
proof (cases "whole_nanoseconds tc p = 0")
  case True
  then show ?thesis by (simp add: rate_per_period_def ns_nanoseconds trunc_div_def)
next
  case False
  let ?p = "whole_nanoseconds tc p"
  have n0: "sint n \<noteq> 0" using assms(1) by (simp add: signed_eq_0_iff)
  have "f64_to_i64 (f64_div (f64_of_int ?p) (f64_of_int (sint n))) = as_i64 (trunc_div ?p (sint n))"
    by (rule f64_quotient_trunc [OF assms(3) n0 assms(2)])
  moreover have "\<bar>trunc_div ?p (sint n)\<bar> \<le> \<bar>?p\<bar>"
  proof -
    have "trunc_div ?p (sint n) = sgn (sint n) * trunc_div ?p \<bar>sint n\<bar>"
      using n0 by (cases "sint n" "0::int" rule: linorder_cases) (simp_all add: trunc_div_def)
    then show ?thesis using trunc_div_abs_le [of "\<bar>sint n\<bar>" ?p] n0 by (simp add: abs_mult)
  qed
  ultimately show ?thesis using False assms
    by (simp add: rate_per_period_def ns_nanoseconds sint_as_i64)
qed

text \<open>A rate of 0 is found out before the store is touched.\<close>

lemma rate_limit_zero:
  assumes "n = 0 \<or> whole_nanoseconds tc p = 0"
  shows "rate_limit tc ops key q
      (rate_limiter_new tc st \<lparr>max_burst = b, max_rate = rate_per_period tc n p\<rparr>) =
    (Err zero_rates, rate_limiter_new tc st \<lparr>max_burst = b, max_rate = rate_per_period tc n p\<rparr>)"
proof -
  have "emission_interval (rate_limiter_new tc st \<lparr>max_burst = b, max_rate = rate_per_period tc n p\<rparr>) =
      duration_nanoseconds tc 0"
    using assms by (auto simp: rate_limiter_new_def rate_per_period_def Let_def)
  then show ?thesis by (simp add: rate_limit_def rate_limit_body_def io_err_def eq_iff)
qed

section \<open>Lemmas on stored times\<close>

text \<open>Every stored value up to the year 9999 reads back as that many nanoseconds.\<close>

lemma from_nanoseconds_ns: "\<exists>t. from_nanoseconds tc v = Some t \<and> epoch_ns tc t = uint v"
proof -
  let ?s = "v div 1000000000" and ?n = "ucast (v mod 1000000000) :: i32"
  have v: "uint v < 2 ^ 64" using uint_bounded [of v] by simp
  have us: "uint ?s = uint v div 10 ^ 9" by (simp add: uint_div)
  have "uint v div 10 ^ 9 < 2 ^ 35" by (rule div_lessI) (use v in simp_all)
  then have s: "sint ?s = uint v div 10 ^ 9" using us sint_eq_uint_i64 [of ?s] by simp
  have m: "uint (v mod 1000000000) = uint v mod 10 ^ 9" by (simp add: uint_mod)
  have ml: "uint v mod 10 ^ 9 < 10 ^ 9" "0 \<le> uint v mod 10 ^ 9" by simp_all
  have n: "sint ?n = uint v mod 10 ^ 9"
  proof -
    have "?n = word_of_int (uint v mod 10 ^ 9)" using m by (simp add: ucast_eq)
    then show ?thesis using ml sint_word_of_int_self [of "uint v mod 10 ^ 9", where 'a = 32] by simp
  qed
  have d: "whole_nanoseconds tc (duration_new tc ?s ?n) = uint v"
    using s n ml by (subst ns_new) (simp_all add: pos_imp_zdiv_nonneg_iff)
  then have "instant_range (epoch_ns tc (unix_epoch tc) + whole_nanoseconds tc (duration_new tc ?s ?n))"
    using v by (simp add: instant_range_def order_trans [OF _ uint_ge_0])
  then show ?thesis using add_range [of "unix_epoch tc"] d by (fastforce simp: from_nanoseconds_def)
qed

text \<open>Writing an instant keeps its nanoseconds modulo \<open>2 ^ 64\<close>.\<close>

lemma nanoseconds_ns:
  assumes "instant_range (epoch_ns tc t)"
  shows "nanoseconds tc t = word_of_int (epoch_ns tc t)"
proof -
  let ?d = "instant_diff tc t (unix_epoch tc)"
  let ?e = "epoch_ns tc t"
  have e: "whole_nanoseconds tc ?d = ?e" by (simp add: epoch_ns_def)
  have "duration_range ?e" using assms unfolding duration_range_def instant_range_def by auto
  then have s: "sint (whole_seconds tc ?d) = trunc_div ?e (10 ^ 9)" using whole_s [of ?d] e by simp
  have n: "sint (subsec_nanoseconds tc ?d) = trunc_mod ?e (10 ^ 9)" using subsec_ns [of ?d] e by simp
  have "whole_seconds tc ?d = word_of_int (trunc_div ?e (10 ^ 9))" using s by (metis word_of_int_sint)
  moreover have "(scast (subsec_nanoseconds tc ?d) :: u64) = word_of_int (trunc_mod ?e (10 ^ 9))"
    using n by (simp add: scast_eq)
  ultimately have "nanoseconds tc t =
      word_of_int (trunc_div ?e (10 ^ 9) * 10 ^ 9 + trunc_mod ?e (10 ^ 9))"
    by (simp add: nanoseconds_def Let_def)
  then show ?thesis by (simp add: trunc_mod_def)
qed

lemma uint_nanoseconds:
  assumes "0 \<le> epoch_ns tc t" and "epoch_ns tc t < 2 ^ 64"
  shows "uint (nanoseconds tc t) = epoch_ns tc t"
proof -
  have "nanoseconds tc t = word_of_int (epoch_ns tc t)"
    using assms by (intro nanoseconds_ns) (simp add: instant_range_def)
  then show ?thesis using assms by (simp add: uint_word_of_int_eq take_bit_int_eq_self)
qed

end

end
