(* ===== verification/Gcra.thy ===== *)
theory Gcra
  imports Limiter
begin

text \<open>
  The generic cell rate algorithm on integers (nanoseconds), as the specification of
  \<^verbatim>\<open>src/cell/mod.rs\<close>'s limiter, its theory, and the refinement: a call of \<open>rate_limit\<close>
  over any store that meets the contract is one step of the algorithm.
\<close>

section \<open>The algorithm\<close>

text \<open>
  \<open>tau\<close> is the delay variation tolerance, \<open>inc\<close> the cost of the request, \<open>tat\<close> the
  theoretical arrival time. A blocked request may carry the time to wait; an allowed one carries
  the new arrival time.
\<close>

datatype gcra_decision = Blocked "int option" | Allowed int

definition gcra :: "int \<Rightarrow> int \<Rightarrow> int \<Rightarrow> int \<Rightarrow> gcra_decision" where
  "gcra tau inc tat now =
     (let new = max now tat + inc; wait = new - tau - now
      in if 0 < wait then Blocked (if inc \<le> tau then Some wait else None) else Allowed new)"

definition gcra_ttl :: "gcra_decision \<Rightarrow> int \<Rightarrow> int \<Rightarrow> int" where
  "gcra_ttl d tat now = (case d of Blocked w \<Rightarrow> tat - now | Allowed new \<Rightarrow> new - now)"

definition gcra_remaining :: "int \<Rightarrow> int \<Rightarrow> int \<Rightarrow> int" where
  "gcra_remaining e tau ttl =
     (if - e < tau - ttl then trunc_div (trunc_div (tau - ttl) 1000) (trunc_div e 1000) else 0)"

definition gcra_retry :: "gcra_decision \<Rightarrow> int" where
  "gcra_retry d = (case d of Blocked (Some w) \<Rightarrow> w | _ \<Rightarrow> - (10 ^ 9))"

lemma gcra_Allowed_iff: "gcra tau inc tat now = Allowed n \<longleftrightarrow> n = max now tat + inc \<and> n \<le> now + tau"
  by (auto simp: gcra_def Let_def)

lemma gcra_Blocked_iff: "gcra tau inc tat now = Blocked w \<longleftrightarrow>
    now + tau < max now tat + inc \<and>
    w = (if inc \<le> tau then Some (max now tat + inc - tau - now) else None)"
  by (auto simp: gcra_def Let_def)

lemma gcra_cases:
  obtains (blocked) w where "gcra tau inc tat now = Blocked w"
  | (allowed) n where "gcra tau inc tat now = Allowed n"
  by (cases "gcra tau inc tat now") auto

text \<open>The wait is exact: the same request is allowed from that moment on, and never before.\<close>

lemma gcra_wait_exact:
  assumes "gcra tau inc tat now = Blocked (Some w)" and "now \<le> t"
  shows "(\<exists>n. gcra tau inc tat t = Allowed n) \<longleftrightarrow> now + w \<le> t"
  using assms by (auto simp: gcra_Blocked_iff gcra_Allowed_iff split: if_splits)

text \<open>A request that costs more than the tolerance is never allowed.\<close>

lemma gcra_never:
  assumes "gcra tau inc tat now = Blocked None"
  shows "\<exists>w. gcra tau inc tat' t = Blocked w"
  using assms by (auto simp: gcra_Blocked_iff split: if_splits)

text \<open>After a call, the remaining quantity is the largest that the same instant still allows.\<close>

lemma gcra_remaining_exact:
  assumes e: "0 < e" "e mod 1000 = 0" and ttl: "ttl \<le> tau"
  shows "gcra_remaining e tau ttl = (tau - ttl) div e"
proof -
  obtain k where k: "e = 1000 * k" using e(2) by (metis dvd_def mod_0_imp_dvd)
  then have "0 < k" using e(1) by simp
  moreover have "0 \<le> (tau - ttl) div 1000" using ttl by (simp add: pos_imp_zdiv_nonneg_iff)
  ultimately show ?thesis using e ttl
    by (simp add: gcra_remaining_def k zdiv_zmult2_eq)
qed

lemma gcra_remaining_allows:
  assumes e: "0 < e" and tat: "now \<le> tat" "tat - now \<le> tau"
  shows "(\<exists>n. gcra tau (e * q) tat now = Allowed n) \<longleftrightarrow> q \<le> (tau - (tat - now)) div e"
proof -
  have "(\<exists>n. gcra tau (e * q) tat now = Allowed n) \<longleftrightarrow> e * q \<le> tau - (tat - now)"
    using tat by (auto simp: gcra_Allowed_iff max_def)
  also have "\<dots> \<longleftrightarrow> q \<le> (tau - (tat - now)) div e"
    using e by (simp add: le_div_iff_int)
  finally show ?thesis .
qed

section \<open>Refinement\<close>

text \<open>The arrival time a stored value stands for, and the ranges in which nothing wraps.\<close>

definition stored_tat :: "u64 option \<Rightarrow> int \<Rightarrow> int" where
  "stored_tat v now = (case v of None \<Rightarrow> now | Some x \<Rightarrow> uint x)"

definition gcra_bounds :: "int \<Rightarrow> int \<Rightarrow> int \<Rightarrow> int \<Rightarrow> int \<Rightarrow> bool" where
  "gcra_bounds e tau inc tat now \<longleftrightarrow>
     0 < e \<and> e \<le> 2 ^ 61 \<and> 0 \<le> tau \<and> tau \<le> 2 ^ 61 \<and> \<bar>inc\<bar> \<le> 2 ^ 61 \<and>
     0 \<le> now \<and> now < 2 ^ 62 \<and> 0 \<le> tat \<and> tat < 2 ^ 62"

context time_laws begin

lemma rate_limit_after_read_gcra:
  fixes ops :: "('s, 'd, 't) store_ops" and rl :: "('s, 'd) rate_limiter"
  assumes now: "epoch_ns tc t = now" and tau: "whole_nanoseconds tc (delay_variation_tolerance rl) = tau"
    and inc: "whole_nanoseconds tc increment = inc"
    and tat: "stored_tat v now = tat" and bounds: "gcra_bounds e tau inc tat now"
  shows "case gcra tau inc tat now of
      Blocked w \<Rightarrow> \<exists>ttl rlc'.
        rate_limit_after_read tc ops rl key increment rlc v t s = (Ok (Break (True, ttl, rlc')), s) \<and>
        whole_nanoseconds tc ttl = tat - now \<and>
        (case w of None \<Rightarrow> rlc' = rlc
         | Some x \<Rightarrow> \<exists>d. rlc' = rlc\<lparr>retry_after := d\<rparr> \<and> whole_nanoseconds tc d = x)
    | Allowed n \<Rightarrow> \<exists>ttl. whole_nanoseconds tc ttl = n - now \<and>
        rate_limit_after_read tc ops rl key increment rlc v t s =
          io_bind (case v of
              Some old \<Rightarrow> compare_and_swap_with_ttl ops key old (word_of_int n) ttl
            | None \<Rightarrow> set_if_not_exists_with_ttl ops key (word_of_int n) ttl)
            (\<lambda>updated. if updated then io_ret (Break (False, ttl, rlc)) else io_ret Continue) s"
proof -
  obtain u where u: "(case v of None \<Rightarrow> io_ret t | Some x \<Rightarrow> io_opt (from_nanoseconds tc x)) s =
      ((Ok u, s) :: (cell_error, 't) outcome \<times> 's)"
    and tat': "epoch_ns tc u = tat"
  proof (cases v)
    case None
    then show ?thesis using that [of t] now tat by (simp add: io_simps stored_tat_def)
  next
    case (Some x)
    obtain u where "from_nanoseconds tc x = Some u" "epoch_ns tc u = uint x"
      using from_nanoseconds_ns by blast
    then show ?thesis using that [of u] Some tat by (simp add: io_simps stored_tat_def)
  qed
  define new where "new = max now tat + inc"
  note b = bounds [unfolded gcra_bounds_def]
  have "instant_range new" unfolding instant_range_def new_def using b by auto
  then obtain nt where nt: "(if instant_gt tc t u then instant_add tc t increment
      else instant_add tc u increment) = Some nt" and nt': "epoch_ns tc nt = new"
    using add_range [of t increment] add_range [of u increment] now tat' inc
    by (cases "tat < now") (auto simp: gt_iff new_def max_def)
  have "instant_range (new - tau)" unfolding instant_range_def new_def using b by auto
  then obtain al where al: "instant_sub tc nt (delay_variation_tolerance rl) = Some al"
    and al': "epoch_ns tc al = new - tau"
    using isub_range [of nt "delay_variation_tolerance rl"] nt' tau by auto
  define diff where "diff = instant_diff tc t al"
  have diff': "whole_nanoseconds tc diff = now - (new - tau)" by (simp add: diff_def ns_diff now al')
  have "duration_range (now - (new - tau))" unfolding duration_range_def new_def using b by auto
  then obtain neg where neg: "duration_neg tc diff = Some neg" "whole_nanoseconds tc neg = new - tau - now"
    using neg_range [of diff] diff' by auto
  have new_ns: "nanoseconds tc nt = word_of_int new"
    using nanoseconds_ns [of nt] nt' \<open>instant_range new\<close> by simp
  note run = rate_limit_after_read_def
    io_bind_run(1) [where m = "case v of None \<Rightarrow> io_ret t | Some x \<Rightarrow> io_opt (from_nanoseconds tc x)",
      OF u]
  show ?thesis
  proof (cases "now - (new - tau) < 0")
    case True
    then have g: "gcra tau inc tat now = Blocked (if inc \<le> tau then Some (new - tau - now) else None)"
      by (simp add: gcra_def new_def)
    show ?thesis
      using True by (simp add: g run nt al io_simps Let_def lt_iff le_iff diff_def [symmetric] diff'
          ns_zero inc tau neg ns_diff now tat' al') (use neg(2) in \<open>blast 4\<close>)
  next
    case False
    then have g: "gcra tau inc tat now = Allowed new" by (simp add: gcra_def new_def Let_def)
    have w: "whole_nanoseconds tc (instant_diff tc nt t) = new - now" by (simp add: ns_diff nt' now)
    show ?thesis
      using False w by (simp add: g run nt al io_simps Let_def lt_iff diff_def [symmetric] diff'
          ns_zero new_ns now al') (use w in \<open>blast 4\<close>)
  qed
qed

end

text \<open>What a call reports of a decision, and what it leaves in the store.\<close>

definition reports ::
    "('d, 't) time_crate \<Rightarrow> i64 \<Rightarrow> int \<Rightarrow> int \<Rightarrow> gcra_decision \<Rightarrow> int \<Rightarrow> int \<Rightarrow> bool
     \<Rightarrow> 'd rate_limit_result \<Rightarrow> bool" where
  "reports tc lmt e tau d tat now limited res \<longleftrightarrow>
     limited = (case d of Blocked w \<Rightarrow> True | Allowed n \<Rightarrow> False) \<and>
     limit res = lmt \<and>
     whole_nanoseconds tc (reset_after res) = gcra_ttl d tat now \<and>
     whole_nanoseconds tc (retry_after res) = gcra_retry d \<and>
     (1000 \<le> e \<longrightarrow> sint (remaining res) = gcra_remaining e tau (gcra_ttl d tat now))"

definition gcra_write :: "gcra_decision \<Rightarrow> u64 option \<Rightarrow> u64 option" where
  "gcra_write d v = (case d of Blocked w \<Rightarrow> v | Allowed n \<Rightarrow> Some (word_of_int n))"

text \<open>What a store keeps of the key's time to live, where \<open>stamp\<close> is what it makes of one.\<close>

definition gcra_due :: "gcra_decision \<Rightarrow> int \<Rightarrow> (int \<Rightarrow> 'x) \<Rightarrow> 'x \<Rightarrow> 'x" where
  "gcra_due d now stamp old = (case d of Blocked w \<Rightarrow> old | Allowed n \<Rightarrow> stamp (n - now))"

lemma gcra_ttl_abs:
  assumes "gcra_bounds e tau inc tat now"
  shows "\<bar>gcra_ttl (gcra tau inc tat now) tat now\<bar> < 2 ^ 62"
  using assms by (auto simp: gcra_bounds_def gcra_ttl_def gcra_def Let_def)

lemma gcra_remaining_i64:
  assumes e: "1000 \<le> e" and bound: "\<bar>tau - ttl\<bar> < 2 ^ 63"
  shows "i64_min \<le> gcra_remaining e tau ttl \<and> gcra_remaining e tau ttl \<le> i64_max"
proof -
  have "0 < e div 1000" using e by (simp add: pos_imp_zdiv_pos_iff)
  then have "\<bar>trunc_div (trunc_div (tau - ttl) 1000) (trunc_div e 1000)\<bar> \<le> \<bar>trunc_div (tau - ttl) 1000\<bar>"
    using e by (simp add: trunc_div_abs_le)
  also have "\<dots> \<le> \<bar>tau - ttl\<bar>" by (rule trunc_div_abs_le) simp
  finally show ?thesis using bound by (simp add: gcra_remaining_def abs_le_iff)
qed

context time_laws begin

text \<open>The reported quantity: the quotient of floating-point numbers is the integer quotient.\<close>

lemma rate_limit_remaining_ns:
  assumes e: "1000 \<le> whole_nanoseconds tc (emission_interval rl)"
      "whole_nanoseconds tc (emission_interval rl) \<le> 2 ^ 61"
    and bound: "\<bar>whole_nanoseconds tc d\<bar> < 2 ^ 62 + 2 ^ 61"
  shows "rate_limit_remaining tc rl d =
    as_i64 (trunc_div (trunc_div (whole_nanoseconds tc d) 1000)
      (trunc_div (whole_nanoseconds tc (emission_interval rl)) 1000))"
proof -
  let ?e = "whole_nanoseconds tc (emission_interval rl)" and ?n = "whole_nanoseconds tc d"
  have "\<bar>trunc_div ?n 1000\<bar> < 2 ^ 53" using bound by (intro trunc_div_small) simp_all
  moreover have "trunc_div ?e 1000 \<noteq> 0" "\<bar>trunc_div ?e 1000\<bar> \<le> 2 ^ 53"
    using e by (simp_all add: pos_imp_zdiv_nonneg_iff)
  ultimately show ?thesis
    unfolding rate_limit_remaining_def by (simp add: whole_us f64_quotient_trunc)
qed

text \<open>The cost of a request.\<close>

lemma ns_rate_limit_increment:
  assumes "whole_nanoseconds tc (emission_interval rl) = e" "0 < e" "e \<le> 2 ^ 61" "\<bar>e * sint q\<bar> \<le> 2 ^ 61"
  shows "whole_nanoseconds tc (rate_limit_increment tc rl q) = e * sint q"
proof -
  have "sint (as_i64 e) = e" using assms by (simp add: sint_as_i64)
  then show ?thesis
    using assms by (simp add: rate_limit_increment_def ns_nanoseconds sint_mult_i64 abs_le_iff)
qed

text \<open>What is left to do after the loop.\<close>

lemma rate_limit_body_loop:
  fixes rl :: "('s, 'd) rate_limiter"
  assumes e: "whole_nanoseconds tc (emission_interval rl) = e" "0 < e" "e \<le> 2 ^ 61"
    and tau: "whole_nanoseconds tc (delay_variation_tolerance rl) = tau" "0 \<le> tau" "tau \<le> 2 ^ 61"
    and loop: "rate_limit_loop tc ops rl key (rate_limit_increment tc rl quantity)
      (rlc_start tc rl) 0 s = (Ok (limited, ttl, rlc), s')"
    and ttl: "whole_nanoseconds tc ttl = n" "\<bar>n\<bar> < 2 ^ 62"
    and rem: "remaining rlc = 0"
  shows "\<exists>res. rate_limit_body tc ops rl key quantity s = (Ok (limited, res), s') \<and>
    limit res = limit rlc \<and> whole_nanoseconds tc (reset_after res) = n \<and>
    retry_after res = retry_after rlc \<and>
    (1000 \<le> e \<longrightarrow> sint (remaining res) = gcra_remaining e tau n)"
proof -
  have "duration_range (tau - n)" unfolding duration_range_def using ttl tau by auto
  then obtain d where d: "duration_sub tc (delay_variation_tolerance rl) ttl = Some d"
      "whole_nanoseconds tc d = tau - n"
    using sub_range [of "delay_variation_tolerance rl" ttl] tau ttl by auto
  have "duration_range e" unfolding duration_range_def using e by auto
  then obtain low where low: "duration_neg tc (emission_interval rl) = Some low"
      "whole_nanoseconds tc low = - e"
    using neg_range [of "emission_interval rl"] e by auto
  have nz: "\<not> duration_eq tc (emission_interval rl) (duration_nanoseconds tc 0)"
    using e by (simp add: eq_iff ns_nanoseconds)
  let ?res = "(if - e < tau - n then rlc\<lparr>remaining := rate_limit_remaining tc rl d\<rparr> else rlc)\<lparr>reset_after := ttl\<rparr>"
  have run: "rate_limit_body tc ops rl key quantity s = (Ok (limited, ?res), s')"
    using nz e(1) by (simp add: rate_limit_body_def Let_def
        loop d low io_simps lt_iff)
  have "sint (remaining ?res) = gcra_remaining e tau n" if ge: "1000 \<le> e"
  proof (cases "- e < tau - n")
    case True
    have "\<bar>tau - n\<bar> < 2 ^ 62 + 2 ^ 61" using ttl tau by auto
    then have "rate_limit_remaining tc rl d = as_i64 (gcra_remaining e tau n)"
      using rate_limit_remaining_ns [of rl d] True e d ge by (simp add: gcra_remaining_def)
    moreover have "\<bar>tau - n\<bar> < 2 ^ 63" using ttl tau by auto
    then have "i64_min \<le> gcra_remaining e tau n \<and> gcra_remaining e tau n \<le> i64_max"
      by (rule gcra_remaining_i64 [OF ge])
    ultimately show ?thesis using True by (simp add: sint_as_i64)
  next
    case False
    then show ?thesis using rem by (simp add: gcra_remaining_def)
  qed
  then show ?thesis using run ttl(1) by simp
qed

end

end
