(* ===== verification/Limiter_Tests.thy ===== *)
theory Limiter_Tests
  imports Limiter
begin

text \<open>
  The unit tests of \<^verbatim>\<open>src/cell/mod.rs\<close> as executable definitions over the model: the
  table of \<open>it_rate_limits\<close> and the set-up of the error tests. They run on the instance of the
  \<open>time\<close> crate in \<open>Time_Api\<close>, and serve as the concrete inputs of witnesses.
\<close>

section \<open>The set-up\<close>

text \<open>A world whose clock stands still and which ignores what is printed.\<close>

definition still_world :: "'t \<Rightarrow> (unit, 't) world" where
  "still_world t = \<lparr>now_utc = (\<lambda>w. (t, w)), println = (\<lambda>msg w. w)\<rparr>"

lemma still_world_simps [simp]:
  "now_utc (still_world t) w = (t, w)" "println (still_world t) msg w = w"
  by (simp_all add: still_world_def)

type_synonym test_state = "int test_store \<times> unit"
type_synonym test_limiter = "(test_state, int) rate_limiter"

text \<open>Five requests at once, one more each second.\<close>

definition test_quota :: "int rate_quota" where
  "test_quota = \<lparr>max_burst = 5 - 1, max_rate = rate_per_second ns_time 1\<rparr>"

definition it_rate_limits_limiter :: "int \<Rightarrow> test_limiter" where
  "it_rate_limits_limiter start =
     rate_limiter_new ns_time (test_store_new (still_world start) memory_store_new_verbose ()) test_quota"

definition set_clock :: "int \<Rightarrow> test_limiter \<Rightarrow> test_limiter" where
  "set_clock now rl = rl\<lparr>store := (fst (store rl)\<lparr>clock := now\<rparr>, snd (store rl))\<rparr>"

section \<open>The table\<close>

record rate_limit_case =
  case_num :: i64
  case_now :: int
  case_volume :: i64
  case_remaining :: i64
  case_reset_after :: int
  case_retry_after :: int
  case_limited :: bool

definition rate_limit_case_new ::
    "i64 \<Rightarrow> int \<Rightarrow> i64 \<Rightarrow> i64 \<Rightarrow> int \<Rightarrow> int \<Rightarrow> bool \<Rightarrow> rate_limit_case" where
  "rate_limit_case_new num now v rm rs rt lmt =
     \<lparr>case_num = num, case_now = now, case_volume = v, case_remaining = rm,
      case_reset_after = rs, case_retry_after = rt, case_limited = lmt\<rparr>"

abbreviation secs :: "int \<Rightarrow> int" where "secs n \<equiv> n * 1000000000"
abbreviation millis :: "int \<Rightarrow> int" where "millis n \<equiv> n * 1000000"

definition it_rate_limits_cases :: "int \<Rightarrow> rate_limit_case list" where
  "it_rate_limits_cases start = [
     rate_limit_case_new 0 start 6 5 (secs 0) (secs (- 1)) True,
     rate_limit_case_new 1 start 1 4 (secs 1) (secs (- 1)) False,
     rate_limit_case_new 2 start 1 3 (secs 2) (secs (- 1)) False,
     rate_limit_case_new 3 start 1 2 (secs 3) (secs (- 1)) False,
     rate_limit_case_new 4 start 1 1 (secs 4) (secs (- 1)) False,
     rate_limit_case_new 5 start 1 0 (secs 5) (secs (- 1)) False,
     rate_limit_case_new 6 start 1 0 (secs 5) (secs 1) True,
     rate_limit_case_new 7 (start + millis 3000) 1 2 (millis 3000) (secs (- 1)) False,
     rate_limit_case_new 8 (start + millis 3100) 1 1 (millis 3900) (secs (- 1)) False,
     rate_limit_case_new 9 (start + millis 4000) 1 1 (millis 4000) (secs (- 1)) False,
     rate_limit_case_new 10 (start + millis 8000) 1 4 (millis 1000) (secs (- 1)) False,
     rate_limit_case_new 11 (start + millis 9500) 1 4 (millis 1000) (secs (- 1)) False,
     rate_limit_case_new 12 (start + millis 9500) 0 4 (secs 1) (secs (- 1)) False,
     rate_limit_case_new 13 (start + millis 9500) 2 2 (secs 3) (secs (- 1)) False,
     rate_limit_case_new 14 (start + millis 9500) 5 2 (secs 3) (secs 3) True]"

definition case_passes :: "i64 \<Rightarrow> rate_limit_case \<Rightarrow> bool \<times> int rate_limit_result \<Rightarrow> bool" where
  "case_passes lmt c r \<longleftrightarrow>
     case_limited c = fst r \<and> limit (snd r) = lmt \<and> case_remaining c = remaining (snd r) \<and>
     case_reset_after c = reset_after (snd r) \<and> case_retry_after c = retry_after (snd r)"

fun run_cases :: "i64 \<Rightarrow> rate_limit_case list \<Rightarrow> test_limiter \<Rightarrow> bool" where
  "run_cases lmt [] rl = True"
| "run_cases lmt (c # cs) rl =
     (case rate_limit ns_time (test_ops (still_world 0)) ''foo'' (case_volume c) (set_clock (case_now c) rl) of
        (Ok r, rl') \<Rightarrow> case_passes lmt c r \<and> run_cases lmt cs rl'
      | _ \<Rightarrow> False)"

definition it_rate_limits :: "int \<Rightarrow> bool" where
  "it_rate_limits start = run_cases 5 (it_rate_limits_cases start) (it_rate_limits_limiter start)"

section \<open>The other tests\<close>

text \<open>Each test is the conjunction of its assertions.\<close>

definition it_creates_rates_from_days :: bool where
  "it_creates_rates_from_days \<longleftrightarrow> \<lparr>period = duration_hours ns_time 1\<rparr> = rate_per_day ns_time 24"

definition it_creates_rates_from_hours :: bool where
  "it_creates_rates_from_hours \<longleftrightarrow> \<lparr>period = duration_minutes ns_time 10\<rparr> = rate_per_hour ns_time 6"

definition it_creates_rates_from_minutes :: bool where
  "it_creates_rates_from_minutes \<longleftrightarrow> \<lparr>period = duration_seconds ns_time 10\<rparr> = rate_per_minute ns_time 6"

definition it_creates_rates_from_periods :: bool where
  "it_creates_rates_from_periods \<longleftrightarrow>
     \<lparr>period = duration_seconds ns_time 20\<rparr> = rate_per_period ns_time 6 (duration_minutes ns_time 2)"

definition it_creates_rates_from_seconds :: bool where
  "it_creates_rates_from_seconds \<longleftrightarrow> \<lparr>period = millis 200\<rparr> = rate_per_second ns_time 5"

definition it_supports_zero_rates :: bool where
  "it_supports_zero_rates \<longleftrightarrow>
     \<lparr>period = duration_nanoseconds ns_time 0\<rparr> = rate_per_period ns_time 0 (duration_nanoseconds ns_time 1) \<and>
     \<lparr>period = duration_nanoseconds ns_time 0\<rparr> = rate_per_period ns_time 1 (duration_nanoseconds ns_time 0)"

definition it_round_trips_nanoseconds :: "int \<Rightarrow> bool" where
  "it_round_trips_nanoseconds now \<longleftrightarrow>
     Some now = from_nanoseconds ns_time (nanoseconds ns_time now)"

text \<open>The text of the error that a call fails with.\<close>

definition error_text :: "(cell_error, 'a) outcome \<Rightarrow> string option" where
  "error_text r = (case r of Err e \<Rightarrow> Some (display_cell_error e) | _ \<Rightarrow> None)"

definition it_does_not_support_zero_rates :: bool where
  "it_does_not_support_zero_rates \<longleftrightarrow>
     (let quota = \<lparr>max_burst = 10, max_rate = rate_per_period ns_time 0 (duration_seconds ns_time 0)\<rparr>;
          limiter = rate_limiter_new ns_time (memory_store_new_verbose, ()) quota
      in Some (display_cell_error (error_macro ''Zero rates are not supported'')) =
           error_text (fst (rate_limit ns_time (memory_ops (still_world 0)) ''foo'' 1 limiter)))"

definition it_handles_rate_limit_update_failures :: bool where
  "it_handles_rate_limit_update_failures \<longleftrightarrow>
     (let quota = \<lparr>max_burst = 1, max_rate = rate_per_second ns_time 1\<rparr>;
          (ts, w) = test_store_new (still_world 0) memory_store_new_verbose ();
          limiter = rate_limiter_new ns_time (ts\<lparr>fail_updates := True\<rparr>, w) quota
      in Some (display_cell_error (error_macro ''Failed to update rate limit after 5 attempts'')) =
           error_text (fst (rate_limit ns_time (test_ops (still_world 0)) ''foo'' 1 limiter)))"

text \<open>The tests of \<^verbatim>\<open>src/cell/store.rs\<close>.\<close>

type_synonym memory_io = "(memory_store \<times> unit, cell_error, bool) io"

definition it_performs_compare_and_swap_with_ttl :: bool where
  "it_performs_compare_and_swap_with_ttl \<longleftrightarrow>
     (let swap = (\<lambda>old new. memory_compare_and_swap ''foo'' old new (0 :: int) :: memory_io);
          (r1, s1) = swap 123 124 (memory_store_new, ());
          (r2, s2) = swap 124 125 s1;
          (r3, s3) = swap 123 126 s2
      in r1 = Ok True \<and> r2 = Ok True \<and> r3 = Ok False)"

definition it_performs_get_with_time :: bool where
  "it_performs_get_with_time \<longleftrightarrow>
     (let get = (memory_get_with_time (still_world (0 :: int)) ''foo'' :: (memory_store \<times> unit, cell_error, _) io);
          (r1, s1) = get (memory_store_new, ());
          (_, s2) = (memory_set_if_not_exists ''foo'' 123 (0 :: int) :: memory_io) s1;
          (r2, s3) = get s2
      in r1 = Ok (None, 0) \<and> r2 = Ok (Some 123, 0))"

definition it_performs_set_if_not_exists_with_ttl :: bool where
  "it_performs_set_if_not_exists_with_ttl \<longleftrightarrow>
     (let set = (memory_set_if_not_exists ''foo'' 123 (0 :: int) :: memory_io);
          (r1, s1) = set (memory_store_new, ());
          (r2, s2) = set s1
      in r1 = Ok True \<and> r2 = Ok False)"

end
