(* ===== verification/Rate_Limit.thy ===== *)
theory Rate_Limit
  imports Gcra Limiter_Tests
begin

text \<open>
  The rate limiter over any store that meets the contract: one call is one step of the generic
  cell rate algorithm, and over any run of calls the admitted cost is bounded. The laws are met
  by the stores of \<open>Store\<close> here, and by the Redis store in \<open>Redis_Store\<close>.
\<close>

section \<open>One call\<close>

text \<open>
  A limiter needs the documented clock and a store that keeps its contract; a key written with a
  time to live of at least \<open>min_ttl\<close> nanoseconds stays, and \<open>stamp\<close> is what the store keeps of
  such a time.
\<close>

locale gcra_limiter = time_laws tc + cell_store ops view clk key_ok ttl_ok
    due due_in
  for tc :: "('d, 't) time_crate" and ops :: "('s, 'd, 't) store_ops"
    and view :: "'s \<Rightarrow> string \<Rightarrow> u64 option" and clk :: "'s \<Rightarrow> 't"
    and key_ok :: "'s \<Rightarrow> string \<Rightarrow> bool" and ttl_ok :: "'d \<Rightarrow> bool"
    and due :: "'s \<Rightarrow> string \<Rightarrow> 'x" and due_in :: "'s \<Rightarrow> 'd \<Rightarrow> 'x" +
  fixes min_ttl :: int and stamp :: "'s \<Rightarrow> int \<Rightarrow> 'x"
  assumes ttl_enough: "min_ttl \<le> whole_nanoseconds tc d \<Longrightarrow> whole_nanoseconds tc d < 2 ^ 63 \<Longrightarrow> ttl_ok d"
    and stamp: "min_ttl \<le> whole_nanoseconds tc d \<Longrightarrow> whole_nanoseconds tc d < 2 ^ 63 \<Longrightarrow>
      due_in s d = stamp s (whole_nanoseconds tc d)"
begin

lemma rate_limit_loop_gcra:
  fixes rl :: "('s, 'd) rate_limiter"
  assumes key_ok: "key_ok s key" and now: "epoch_ns tc (clk s) = now"
    and tau: "whole_nanoseconds tc (delay_variation_tolerance rl) = tau"
    and inc: "whole_nanoseconds tc increment = c"
    and tat: "stored_tat (view s key) now = tat" and bounds: "gcra_bounds e tau c tat now"
    and d: "gcra tau c tat now = d"
    and min: "\<And>n. d = Allowed n \<Longrightarrow> min_ttl \<le> n - now"
    and rlc: "whole_nanoseconds tc (retry_after rlc) = - (10 ^ 9)"
  shows "\<exists>ttl rlc' s'. rate_limit_loop tc ops rl key increment rlc i s =
      (Ok (case d of Blocked w \<Rightarrow> True | Allowed n \<Rightarrow> False, ttl, rlc'), s') \<and>
    whole_nanoseconds tc ttl = gcra_ttl d tat now \<and>
    whole_nanoseconds tc (retry_after rlc') = gcra_retry d \<and>
    limit rlc' = limit rlc \<and> remaining rlc' = remaining rlc \<and>
    key_ok s' key \<and> view s' = (view s)(key := gcra_write d (view s key)) \<and>
    due s' = (due s)(key := gcra_due d now (stamp s) (due s key))"
proof -
  obtain s1 where read: "get_with_time ops key s = (Ok (view s key, clk s), s1)"
    and s1: "key_ok s1 key" "view s1 = view s" "due s1 = due s" "due_in s1 = due_in s"
    using get [OF key_ok] by blast
  note iter = rate_limit_after_read_gcra [OF now tau inc tat bounds,
      where ops = ops and key = key and rlc = rlc and s = s1]
  have it: "rate_limit_iter tc ops rl key increment rlc s =
      rate_limit_after_read tc ops rl key increment rlc (view s key) (clk s) s1"
    by (simp add: rate_limit_iter_def io_simps read)
  show ?thesis
  proof (cases d)
    case (Blocked w)
    obtain ttl rlc' where 1: "rate_limit_after_read tc ops rl key increment rlc (view s key) (clk s) s1 = (Ok (Break (True, ttl, rlc')), s1)"
      "whole_nanoseconds tc ttl = tat - now"
      "case w of None \<Rightarrow> rlc' = rlc
         | Some x \<Rightarrow> \<exists>d. rlc' = rlc\<lparr>retry_after := d\<rparr> \<and> whole_nanoseconds tc d = x"
      using iter d Blocked by auto
    then have "whole_nanoseconds tc (retry_after rlc') = gcra_retry d \<and>
        limit rlc' = limit rlc \<and> remaining rlc' = remaining rlc"
      using rlc Blocked by (auto simp: gcra_retry_def split: option.splits)
    then show ?thesis
      using it 1 s1 Blocked by (simp add: rate_limit_loop.simps [of tc ops] gcra_ttl_def gcra_write_def gcra_due_def)
  next
    case (Allowed n)
    obtain ttl where ttl: "whole_nanoseconds tc ttl = n - now"
      and 1: "rate_limit_after_read tc ops rl key increment rlc (view s key) (clk s) s1 =
          io_bind (case view s key of
              Some old \<Rightarrow> compare_and_swap_with_ttl ops key old (word_of_int n) ttl
            | None \<Rightarrow> set_if_not_exists_with_ttl ops key (word_of_int n) ttl)
            (\<lambda>updated. if updated then io_ret (Break (False, ttl, rlc)) else io_ret Continue) s1"
      using iter d Allowed by auto
    have "n - now < 2 ^ 63"
      using d bounds unfolding Allowed by (auto simp: gcra_Allowed_iff gcra_bounds_def)
    then have "ttl_ok ttl" and due: "due_in s ttl = stamp s (n - now)"
      using ttl_enough [of ttl] stamp [of ttl s] ttl min Allowed by simp_all
    then obtain s2 where w: "(case view s1 key of
              Some old \<Rightarrow> compare_and_swap_with_ttl ops key old (word_of_int n) ttl
            | None \<Rightarrow> set_if_not_exists_with_ttl ops key (word_of_int n) ttl) s1 = (Ok True, s2)"
      and s2: "key_ok s2 key" "view s2 = (view s1)(key \<mapsto> word_of_int n)" "due s2 = (due s1)(key := due_in s1 ttl)"
      using write_after_read [OF s1(1)] by blast
    then show ?thesis
      using it 1 s1 Allowed ttl rlc due
      by (simp add: rate_limit_loop.simps [of tc ops] gcra_ttl_def gcra_retry_def gcra_write_def gcra_due_def io_simps)
  qed
qed

lemma rate_limit_call:
  fixes rl :: "('s, 'd) rate_limiter"
  assumes key_ok: "key_ok (store rl) key" and now: "epoch_ns tc (clk (store rl)) = now"
    and tau: "whole_nanoseconds tc (delay_variation_tolerance rl) = tau"
    and e: "whole_nanoseconds tc (emission_interval rl) = e"
    and tat: "stored_tat (view (store rl) key) now = tat"
    and bounds: "gcra_bounds e tau (e * sint q) tat now"
    and d: "gcra tau (e * sint q) tat now = d"
    and min: "\<And>n. d = Allowed n \<Longrightarrow> min_ttl \<le> n - now"
  shows "\<exists>limited res s'. rate_limit tc ops key q rl = (Ok (limited, res), rl\<lparr>store := s'\<rparr>) \<and>
    reports tc (limiter_limit rl) e tau d tat now limited res \<and>
    key_ok s' key \<and> view s' = (view (store rl))(key := gcra_write d (view (store rl) key)) \<and>
    due s' = (due (store rl))(key := gcra_due d now (stamp (store rl)) (due (store rl) key))"
proof -
  let ?inc = "rate_limit_increment tc rl q"
  have b: "0 < e" "e \<le> 2 ^ 61" "0 \<le> tau" "tau \<le> 2 ^ 61" "\<bar>e * sint q\<bar> \<le> 2 ^ 61"
    using bounds by (simp_all add: gcra_bounds_def)
  have inc: "whole_nanoseconds tc ?inc = e * sint q" by (rule ns_rate_limit_increment [OF e b(1,2,5)])
  have start: "whole_nanoseconds tc (retry_after (rlc_start tc rl)) = - (10 ^ 9)"
    by (simp add: rlc_start_def ns_seconds)
  obtain ttl rlc' s' where
    loop: "rate_limit_loop tc ops rl key ?inc (rlc_start tc rl) 0 (store rl) =
      (Ok (case d of Blocked w \<Rightarrow> True | Allowed n \<Rightarrow> False, ttl, rlc'), s')"
    and ttl: "whole_nanoseconds tc ttl = gcra_ttl d tat now"
    and retry: "whole_nanoseconds tc (retry_after rlc') = gcra_retry d"
    and rlc: "limit rlc' = limit (rlc_start tc rl)" "remaining rlc' = remaining (rlc_start tc rl)"
    and s': "key_ok s' key" "view s' = (view (store rl))(key := gcra_write d (view (store rl) key))"
      "due s' = (due (store rl))(key := gcra_due d now (stamp (store rl)) (due (store rl) key))"
    using rate_limit_loop_gcra [OF key_ok now tau inc tat bounds d min start, where i = 0] by blast
  have "\<bar>gcra_ttl d tat now\<bar> < 2 ^ 62" using gcra_ttl_abs [OF bounds] d by simp
  moreover have "remaining rlc' = 0" using rlc by (simp add: rlc_start_def)
  ultimately obtain res where body: "rate_limit_body tc ops rl key q (store rl) =
      (Ok (case d of Blocked w \<Rightarrow> True | Allowed n \<Rightarrow> False, res), s')"
    and res: "limit res = limit rlc'" "whole_nanoseconds tc (reset_after res) = gcra_ttl d tat now"
      "retry_after res = retry_after rlc'"
      "1000 \<le> e \<longrightarrow> sint (remaining res) = gcra_remaining e tau (gcra_ttl d tat now)"
    using rate_limit_body_loop [OF e b(1,2) tau b(3,4) loop ttl] by blast
  have "reports tc (limiter_limit rl) e tau d tat now (case d of Blocked w \<Rightarrow> True | Allowed n \<Rightarrow> False) res"
    using res rlc retry e tau by (simp add: reports_def rlc_start_def)
  then show ?thesis using body s' by (auto simp: rate_limit_def)
qed

end

interpretation memory_limiter: gcra_limiter ns_time "memory_ops wd" memory_view "memory_clock wd"
    "\<lambda>s key. True" "\<lambda>ttl. True" "\<lambda>s key. ()" "\<lambda>s ttl. ()" 0 "\<lambda>s ttl. ()" for wd :: "('w, int) world"
  by unfold_locales simp_all

interpretation test_limiter: gcra_limiter ns_time "test_ops wd" test_view test_clock test_working
    "\<lambda>ttl. True" "\<lambda>s key. ()" "\<lambda>s ttl. ()" 0 "\<lambda>s ttl. ()" for wd :: "('w, int) world"
  by unfold_locales simp_all

section \<open>Over the trait\<close>

text \<open>C1: A call of \<open>rate_limit\<close> over any store that keeps the trait's contract is one step of
  the generic cell rate algorithm on nanoseconds: it succeeds, it reports the algorithm's decision,
  limit, remaining quantity, time to reset and time to retry, and it writes the new arrival time
  exactly when the request is let through, with a time to live up to that arrival time, leaving
  every other key alone. The bounds say that no
  product leaves 64 bits and no time leaves the year 2116.\<close>

theorem rate_limit_refines_gcra:
  fixes rl :: "('s, 'd) rate_limiter"
  assumes "gcra_limiter tc ops view clk key_ok ttl_ok due due_in min_ttl stamp" and "key_ok (store rl) key"
    and "epoch_ns tc (clk (store rl)) = now"
    and "whole_nanoseconds tc (delay_variation_tolerance rl) = tau"
    and "whole_nanoseconds tc (emission_interval rl) = e"
    and "stored_tat (view (store rl) key) now = tat"
    and "gcra_bounds e tau (e * sint q) tat now"
    and "gcra tau (e * sint q) tat now = d"
    and "\<And>n. d = Allowed n \<Longrightarrow> min_ttl \<le> n - now"
  shows "\<exists>limited res s'. rate_limit tc ops key q rl = (Ok (limited, res), rl\<lparr>store := s'\<rparr>) \<and>
    reports tc (limiter_limit rl) e tau d tat now limited res \<and>
    key_ok s' key \<and> view s' = (view (store rl))(key := gcra_write d (view (store rl) key)) \<and>
    due s' = (due (store rl))(key := gcra_due d now (stamp (store rl)) (due (store rl) key))"
  by (rule gcra_limiter.rate_limit_call [OF assms])

lemma it_rate_limits_simps:
  "emission_interval (it_rate_limits_limiter t) = 1000000000"
  "delay_variation_tolerance (it_rate_limits_limiter t) = 5000000000"
  "limiter_limit (it_rate_limits_limiter t) = 5"
  "store (it_rate_limits_limiter t) = (\<lparr>clock = t, fail_updates = False, inner = memory_store_new_verbose\<rparr>, ())"
  by (simp_all add: it_rate_limits_limiter_def rate_limiter_new_def test_quota_def test_store_new_def
      rate_per_second_def rate_per_period_def) code_simp+

lemma rate_limit_refines_gcra_witness:
  "\<exists>limited res s'. rate_limit ns_time (test_ops (still_world 0)) ''foo'' 2 (it_rate_limits_limiter (10 ^ 18)) =
      (Ok (limited, res), (it_rate_limits_limiter (10 ^ 18))\<lparr>store := s'\<rparr>) \<and>
    reports ns_time 5 (10 ^ 9) (5 * 10 ^ 9) (Allowed (10 ^ 18 + 2 * 10 ^ 9)) (10 ^ 18) (10 ^ 18) limited res \<and>
    test_working s' ''foo'' \<and>
    test_view s' = Map.empty(''foo'' := gcra_write (Allowed (10 ^ 18 + 2 * 10 ^ 9)) None)"
  using rate_limit_refines_gcra [OF test_limiter.gcra_limiter_axioms [where wd = "still_world 0"], of
      "it_rate_limits_limiter (10 ^ 18)" "''foo''" "10 ^ 18" "5 * 10 ^ 9" "10 ^ 9" "10 ^ 18" 2
      "Allowed (10 ^ 18 + 2 * 10 ^ 9)"]
  by (simp add: it_rate_limits_simps test_view_def memory_store_new_verbose_def test_working_def
      test_clock_def stored_tat_def gcra_bounds_def gcra_def)

end
