(* ===== verification/Conformance.thy ===== *)
theory Conformance
  imports Rate_Limit
begin

text \<open>
  Runs of one limiter on one key: calls of \<open>rate_limit\<close>, with anything in between that keeps the
  key, and the key expiring. Whatever the run, the cost of the requests let through is bounded
  by the burst and the time that passed.
\<close>

section \<open>Runs\<close>

text \<open>
  A run lists its calls, each with the quantity asked for and whether it was limited, and counts
  the times the key expired. The clock does not go back. A key may expire up to \<open>slack\<close>
  nanoseconds before the time it holds, since a store may keep times to live less finely.
\<close>

inductive limiter_run ::
    "('d, 't) time_crate \<Rightarrow> ('s, 'd, 't) store_ops \<Rightarrow> ('s \<Rightarrow> string \<Rightarrow> u64 option) \<Rightarrow> ('s \<Rightarrow> 't)
     \<Rightarrow> ('s \<Rightarrow> string \<Rightarrow> bool) \<Rightarrow> int \<Rightarrow> string \<Rightarrow> ('s, 'd) rate_limiter
     \<Rightarrow> (i64 \<times> bool) list \<Rightarrow> nat \<Rightarrow> ('s, 'd) rate_limiter \<Rightarrow> bool"
  for tc ops view clk key_ok slack key rl0
where
  start: "limiter_run tc ops view clk key_ok slack key rl0 [] 0 rl0"
| call: "limiter_run tc ops view clk key_ok slack key rl0 cs k rl \<Longrightarrow>
    rate_limit tc ops key q rl = (Ok (limited, res), rl') \<Longrightarrow>
    epoch_ns tc (clk (store rl)) \<le> epoch_ns tc (clk (store rl')) \<Longrightarrow>
    limiter_run tc ops view clk key_ok slack key rl0 (cs @ [(q, limited)]) k rl'"
| pass: "limiter_run tc ops view clk key_ok slack key rl0 cs k rl \<Longrightarrow>
    key_ok s' key \<Longrightarrow> view s' key = view (store rl) key \<Longrightarrow>
    epoch_ns tc (clk (store rl)) \<le> epoch_ns tc (clk s') \<Longrightarrow>
    limiter_run tc ops view clk key_ok slack key rl0 cs k (rl\<lparr>store := s'\<rparr>)"
| expire: "limiter_run tc ops view clk key_ok slack key rl0 cs k rl \<Longrightarrow>
    view (store rl) key = Some v \<Longrightarrow> key_ok s' key \<Longrightarrow> view s' key = None \<Longrightarrow>
    uint v \<le> epoch_ns tc (clk s') + slack \<Longrightarrow>
    epoch_ns tc (clk (store rl)) \<le> epoch_ns tc (clk s') \<Longrightarrow>
    limiter_run tc ops view clk key_ok slack key rl0 cs (Suc k) (rl\<lparr>store := s'\<rparr>)"

text \<open>The quantity let through by a list of calls, and the quantities a bound is proved for.\<close>

definition admitted :: "(i64 \<times> bool) list \<Rightarrow> int" where
  "admitted cs = (\<Sum>(q, limited) \<leftarrow> cs. if limited then 0 else sint q)"

definition quantities_ok :: "int \<Rightarrow> int \<Rightarrow> (i64 \<times> bool) list \<Rightarrow> bool" where
  "quantities_ok min_ttl e cs \<longleftrightarrow>
     list_all (\<lambda>(q, limited). 0 \<le> sint q \<and> min_ttl \<le> e * sint q \<and> e * sint q \<le> 2 ^ 61) cs"

lemma admitted_simps [simp]:
  "admitted [] = 0"
  "admitted (cs @ [(q, limited)]) = admitted cs + (if limited then 0 else sint q)"
  by (simp_all add: admitted_def)

lemma quantities_ok_simps [simp]:
  "quantities_ok min_ttl e []"
  "quantities_ok min_ttl e (cs @ [(q, limited)]) \<longleftrightarrow>
     quantities_ok min_ttl e cs \<and> 0 \<le> sint q \<and> min_ttl \<le> e * sint q \<and> e * sint q \<le> 2 ^ 61"
  by (simp_all add: quantities_ok_def)

text \<open>The time up to which the key's quota is used, and the limiter's parameters in range.\<close>

definition used_until :: "u64 option \<Rightarrow> int \<Rightarrow> int" where
  "used_until v now = max now (stored_tat v now)"

definition params_ok :: "int \<Rightarrow> int \<Rightarrow> bool" where
  "params_ok e tau \<longleftrightarrow> 0 < e \<and> e \<le> 2 ^ 61 \<and> 0 \<le> tau \<and> tau \<le> 2 ^ 61"

lemma used_until_Some: "used_until (Some v) now = max now (uint v)"
  and used_until_None: "used_until None now = now"
  by (simp_all add: used_until_def stored_tat_def)

lemma used_until_mono: "now \<le> now' \<Longrightarrow> used_until v now \<le> used_until v now'"
  by (cases v) (auto simp: used_until_Some used_until_None)

lemma stored_tat_le: "stored_tat v now \<le> used_until v now"
  by (simp add: used_until_def)

lemma stored_tat_nonneg: "0 \<le> now \<Longrightarrow> 0 \<le> stored_tat v now"
  by (simp add: stored_tat_def split: option.split)

section \<open>The bound\<close>

text \<open>What holds along a run: the cost let through has moved the used time that far.\<close>

definition run_inv ::
    "int \<Rightarrow> int \<Rightarrow> int \<Rightarrow> int \<Rightarrow> int \<Rightarrow> nat \<Rightarrow> int \<Rightarrow> u64 option \<Rightarrow> bool" where
  "run_inv e tau slack used0 sm k now v \<longleftrightarrow>
     e * sm \<le> used_until v now - used0 + slack * int k \<and>
     e * sm \<le> max 0 (now + tau - used0 + slack * int k) \<and>
     0 \<le> now \<and> used_until v now < 2 ^ 62"

lemma run_inv_pass:
  assumes "run_inv e tau slack used0 sm k now v" and "now \<le> now'" and "now' < 2 ^ 62"
  shows "run_inv e tau slack used0 sm k now' v"
  using assms used_until_mono [OF assms(2), of v]
  by (cases v) (auto simp: run_inv_def used_until_Some used_until_None)

lemma run_inv_expire:
  assumes "run_inv e tau slack used0 sm k now (Some v)" and "now \<le> now'" and "now' < 2 ^ 62"
    and "uint v \<le> now' + slack" and "0 \<le> slack"
  shows "run_inv e tau slack used0 sm (Suc k) now' None"
  using assms by (auto simp: run_inv_def used_until_Some used_until_None distrib_left max_def split: if_splits)

lemma run_inv_call:
  assumes "run_inv e tau slack used0 sm k now v" and "now \<le> now'" and "now' < 2 ^ 61"
    and "0 \<le> e * q" and "params_ok e tau" and d: "gcra tau (e * q) (stored_tat v now) now = d"
  shows "run_inv e tau slack used0 (sm + (case d of Blocked w \<Rightarrow> 0 | Allowed n \<Rightarrow> q)) k now'
    (gcra_write d v)"
proof (cases d)
  case (Blocked w)
  then show ?thesis using run_inv_pass [OF assms(1,2)] assms(3) by (simp add: gcra_write_def)
next
  case (Allowed n)
  then have n: "n = used_until v now + e * q" "n \<le> now + tau"
    using d by (simp_all add: gcra_Allowed_iff used_until_def)
  have r: "e * sm \<le> used_until v now - used0 + slack * int k" "0 \<le> now" "now \<le> used_until v now"
    using assms(1) by (simp_all add: run_inv_def used_until_def)
  have lt: "n < 2 ^ 62" using n(2) assms(2,3,5) by (auto simp: params_ok_def)
  moreover have "0 \<le> n" using n r assms(4) by linarith
  ultimately have "uint (word_of_int n :: u64) = n" by (intro uint_u64_self) simp_all
  then have v: "used_until (gcra_write d v) now' = max now' n"
    by (simp add: Allowed gcra_write_def used_until_Some)
  have t: "e * (sm + q) \<le> n - used0 + slack * int k" using r n by (simp add: distrib_left)
  moreover have "e * (sm + q) \<le> now' + tau - used0 + slack * int k" using t n assms(2) by linarith
  ultimately show ?thesis using v lt assms(2,3) r by (auto simp: Allowed run_inv_def max_def)
qed

context gcra_limiter begin

text \<open>A run keeps the limiter's parameters and the store's contract.\<close>

lemma limiter_run_inv:
  fixes rl0 :: "('s, 'd) rate_limiter"
  assumes "limiter_run tc ops view clk key_ok slack key rl0 cs k rl"
    and "key_ok (store rl0) key"
    and e: "whole_nanoseconds tc (emission_interval rl0) = e"
    and tau: "whole_nanoseconds tc (delay_variation_tolerance rl0) = tau"
    and p: "params_ok e tau" and slack: "0 \<le> slack"
    and q: "quantities_ok min_ttl e cs"
    and n0: "0 \<le> epoch_ns tc (clk (store rl0))"
    and u0: "used_until (view (store rl0) key) (epoch_ns tc (clk (store rl0))) = used0" "used0 < 2 ^ 62"
    and n: "epoch_ns tc (clk (store rl)) < 2 ^ 61"
  shows "emission_interval rl = emission_interval rl0 \<and>
    delay_variation_tolerance rl = delay_variation_tolerance rl0 \<and>
    limiter_limit rl = limiter_limit rl0 \<and>
    key_ok (store rl) key \<and>
    run_inv e tau slack used0 (admitted cs) k (epoch_ns tc (clk (store rl))) (view (store rl) key)"
  using assms(1) q n
proof (induction rule: limiter_run.induct)
  case start
  then show ?case using assms(2) n0 u0 by (simp add: run_inv_def)
next
  case (call cs k rl q limited res rl')
  let ?now = "epoch_ns tc (clk (store rl))" and ?v = "view (store rl) key"
  have ih: "emission_interval rl = emission_interval rl0"
      "delay_variation_tolerance rl = delay_variation_tolerance rl0"
      "limiter_limit rl = limiter_limit rl0" "key_ok (store rl) key"
      "run_inv e tau slack used0 (admitted cs) k ?now ?v"
    using call.IH call.prems call.hyps by simp_all
  have q: "0 \<le> e * sint q" "e * sint q \<le> 2 ^ 61" "min_ttl \<le> e * sint q"
    using call.prems p by (simp_all add: params_ok_def)
  have bounds: "gcra_bounds e tau (e * sint q) (stored_tat ?v ?now) ?now"
    using ih(5) q p call.prems call.hyps stored_tat_le [of ?v ?now]
      stored_tat_nonneg [of ?now ?v]
    by (auto simp: gcra_bounds_def run_inv_def params_ok_def)
  define d where "d = gcra tau (e * sint q) (stored_tat ?v ?now) ?now"
  have min: "min_ttl \<le> n - ?now" if "d = Allowed n" for n
    using that q unfolding d_def by (auto simp: gcra_Allowed_iff)
  have params: "whole_nanoseconds tc (delay_variation_tolerance rl) = tau"
      "whole_nanoseconds tc (emission_interval rl) = e"
    using ih e tau by simp_all
  obtain s' where rl': "rl' = rl\<lparr>store := s'\<rparr>" and rep: "reports tc (limiter_limit rl) e tau d (stored_tat ?v ?now) ?now limited res"
    and s': "key_ok s' key" "view s' = (view (store rl))(key := gcra_write d ?v)"
    using rate_limit_call [OF ih(4) refl params refl bounds d_def [symmetric] min] call.hyps(2) by auto
  have lim: "limited = (case d of Blocked w \<Rightarrow> True | Allowed n \<Rightarrow> False)"
    using rep by (simp add: reports_def)
  have "run_inv e tau slack used0 (admitted cs + (case d of Blocked w \<Rightarrow> 0 | Allowed n \<Rightarrow> sint q)) k
      (epoch_ns tc (clk s')) (gcra_write d ?v)"
    using run_inv_call [OF ih(5) _ _ q(1) p d_def [symmetric]] call.hyps(3) call.prems rl' by simp
  then show ?case using ih rl' s' lim by (cases d) simp_all
next
  case (pass cs k rl s')
  then show ?case
    using run_inv_pass [of e tau slack used0 "admitted cs" k "epoch_ns tc (clk (store rl))"
        "view (store rl) key" "epoch_ns tc (clk s')"] by simp
next
  case (expire cs k rl v s')
  then show ?case
    using run_inv_expire [of e tau slack used0 "admitted cs" k "epoch_ns tc (clk (store rl))" v
        "epoch_ns tc (clk s')"] slack by simp
qed

lemma limiter_run_conforms:
  fixes rl0 :: "('s, 'd) rate_limiter"
  assumes "limiter_run tc ops view clk key_ok slack key rl0 cs k rl"
    and "key_ok (store rl0) key"
    and "whole_nanoseconds tc (emission_interval rl0) = e"
    and "whole_nanoseconds tc (delay_variation_tolerance rl0) = tau"
    and "params_ok e tau" and "0 \<le> slack" and "quantities_ok min_ttl e cs"
    and "0 \<le> epoch_ns tc (clk (store rl0))"
    and "used_until (view (store rl0) key) (epoch_ns tc (clk (store rl0))) = used0" and "used0 < 2 ^ 62"
    and "epoch_ns tc (clk (store rl)) < 2 ^ 61"
  shows "e * admitted cs \<le> max 0 (tau + (epoch_ns tc (clk (store rl)) - used0) + slack * int k)"
  using limiter_run_inv [OF assms] by (simp add: run_inv_def algebra_simps)

end

end
