(* ===== verification/Concurrent.thy ===== *)
theory Concurrent
  imports Conformance
begin

text \<open>
  Several limiters of one quota on one key of one store, interleaved between the read and the
  write of a pass. The loop's comment says that only one of two racing limiters should win: here
  the bound on the cost let through is the same as for a single limiter.
\<close>

section \<open>The interleaving\<close>

text \<open>
  A limiter that has read holds the quantity asked for, the value and the time. It finishes, or
  loses the race and reads again. \<open>Q\<close> are the quantities that are asked for.
\<close>

inductive concurrent_run ::
    "('d, 't) time_crate \<Rightarrow> ('s, 'd, 't) store_ops \<Rightarrow> ('s \<Rightarrow> string \<Rightarrow> u64 option) \<Rightarrow> ('s \<Rightarrow> 't)
     \<Rightarrow> ('s \<Rightarrow> string \<Rightarrow> bool) \<Rightarrow> i64 set \<Rightarrow> ('s, 'd) rate_limiter \<Rightarrow> string \<Rightarrow> 's
     \<Rightarrow> (i64 \<times> bool) list \<Rightarrow> (nat \<rightharpoonup> i64 \<times> u64 option \<times> 't) \<Rightarrow> 's \<Rightarrow> bool"
  for tc ops view clk key_ok Q rl key s0
where
  start: "concurrent_run tc ops view clk key_ok Q rl key s0 [] Map.empty s0"
| read: "concurrent_run tc ops view clk key_ok Q rl key s0 cs pend s \<Longrightarrow>
    q \<in> Q \<Longrightarrow> get_with_time ops key s = (Ok (v, t), s') \<Longrightarrow>
    epoch_ns tc (clk s) \<le> epoch_ns tc (clk s') \<Longrightarrow>
    concurrent_run tc ops view clk key_ok Q rl key s0 cs (pend(c \<mapsto> (q, v, t))) s'"
| finish: "concurrent_run tc ops view clk key_ok Q rl key s0 cs pend s \<Longrightarrow>
    pend c = Some (q, v, t) \<Longrightarrow>
    rate_limit_after_read tc ops rl key (rate_limit_increment tc rl q) rlc v t s =
      (Ok (Break (limited, ttl, rlc')), s') \<Longrightarrow>
    epoch_ns tc (clk s) \<le> epoch_ns tc (clk s') \<Longrightarrow>
    concurrent_run tc ops view clk key_ok Q rl key s0 (cs @ [(q, limited)]) (pend(c := None)) s'"
| lose: "concurrent_run tc ops view clk key_ok Q rl key s0 cs pend s \<Longrightarrow>
    pend c = Some (q, v, t) \<Longrightarrow>
    rate_limit_after_read tc ops rl key (rate_limit_increment tc rl q) rlc v t s = (Ok Continue, s') \<Longrightarrow>
    epoch_ns tc (clk s) \<le> epoch_ns tc (clk s') \<Longrightarrow>
    concurrent_run tc ops view clk key_ok Q rl key s0 cs (pend(c := None)) s'"
| pass: "concurrent_run tc ops view clk key_ok Q rl key s0 cs pend s \<Longrightarrow>
    key_ok s' key \<Longrightarrow> view s' key = view s key \<Longrightarrow>
    epoch_ns tc (clk s) \<le> epoch_ns tc (clk s') \<Longrightarrow>
    concurrent_run tc ops view clk key_ok Q rl key s0 cs pend s'"

definition costs_ok :: "int \<Rightarrow> int \<Rightarrow> i64 set \<Rightarrow> bool" where
  "costs_ok min_ttl e Q \<longleftrightarrow> (\<forall>q \<in> Q. 0 \<le> sint q \<and> min_ttl \<le> e * sint q \<and> e * sint q \<le> 2 ^ 61)"

section \<open>The invariant\<close>

text \<open>
  A stored value never goes away, and has moved on by the cost let through; whatever a limiter
  has read was there once.
\<close>

definition read_ok :: "i64 set \<Rightarrow> int \<Rightarrow> int \<Rightarrow> u64 option \<Rightarrow> i64 \<times> u64 option \<times> int \<Rightarrow> bool" where
  "read_ok Q n0 now cur r \<longleftrightarrow> (case r of (q, v, n) \<Rightarrow>
     q \<in> Q \<and> n0 \<le> n \<and> n \<le> now \<and> (v = None \<or> cur \<noteq> None) \<and> stored_tat v 0 < 2 ^ 62)"

definition shared_inv :: "int \<Rightarrow> int \<Rightarrow> int \<Rightarrow> int \<Rightarrow> int \<Rightarrow> int \<Rightarrow> u64 option \<Rightarrow> bool" where
  "shared_inv e tau n0 used0 sm now cur \<longleftrightarrow>
     n0 \<le> now \<and> e * sm \<le> used_until cur n0 - used0 \<and> e * sm \<le> max 0 (now + tau - used0) \<and>
     stored_tat cur 0 < 2 ^ 62"

lemma shared_inv_later:
  assumes "shared_inv e tau n0 used0 sm now cur" and "now \<le> now'"
  shows "shared_inv e tau n0 used0 sm now' cur"
  using assms by (auto simp: shared_inv_def)

lemma read_ok_later:
  assumes "read_ok Q n0 now cur r" and "now \<le> now'" and "cur = None \<or> cur' \<noteq> None"
  shows "read_ok Q n0 now' cur' r"
  using assms by (auto simp: read_ok_def split: prod.splits)

definition pend_ok ::
    "i64 set \<Rightarrow> int \<Rightarrow> int \<Rightarrow> u64 option \<Rightarrow> ('t \<Rightarrow> int) \<Rightarrow> (nat \<rightharpoonup> i64 \<times> u64 option \<times> 't) \<Rightarrow> bool" where
  "pend_ok Q n0 now cur ns pend \<longleftrightarrow>
     (\<forall>c q v t. pend c = Some (q, v, t) \<longrightarrow> read_ok Q n0 now cur (q, v, ns t))"

lemma pend_ok_empty: "pend_ok Q n0 now cur ns Map.empty"
  by (simp add: pend_ok_def)

lemma pend_okD: "pend_ok Q n0 now cur ns pend \<Longrightarrow> pend c = Some (q, v, t) \<Longrightarrow> read_ok Q n0 now cur (q, v, ns t)"
  by (simp add: pend_ok_def)

lemma pend_ok_later:
  assumes "pend_ok Q n0 now cur ns pend" and "now \<le> now'" and "cur = None \<or> cur' \<noteq> None"
  shows "pend_ok Q n0 now' cur' ns pend"
  using assms(1) read_ok_later [OF _ assms(2,3)] unfolding pend_ok_def by blast

lemma pend_ok_remove: "pend_ok Q n0 now cur ns pend \<Longrightarrow> pend_ok Q n0 now cur ns (pend(c := None))"
  by (auto simp: pend_ok_def)

lemma pend_ok_add:
  "pend_ok Q n0 now cur ns pend \<Longrightarrow> read_ok Q n0 now cur (q, v, ns t) \<Longrightarrow>
    pend_ok Q n0 now cur ns (pend(c \<mapsto> (q, v, t)))"
  by (auto simp: pend_ok_def)

lemma shared_inv_write:
  assumes i: "shared_inv e tau n0 used0 sm now cur" and r: "read_ok Q n0 now cur (q, cur, t)"
    and d: "gcra tau (e * sint q) (stored_tat cur t) t = Allowed n"
    and p: "params_ok e tau" "0 \<le> n0" "now < 2 ^ 61" "0 \<le> e * sint q" and now: "now \<le> now'"
  shows "shared_inv e tau n0 used0 (sm + sint q) now' (Some (word_of_int n))"
proof -
  have n: "n = max t (stored_tat cur t) + e * sint q" "n \<le> t + tau" using d by (simp_all add: gcra_Allowed_iff)
  have t: "n0 \<le> t" "t \<le> now" using r by (simp_all add: read_ok_def)
  have "used_until cur n0 \<le> max t (stored_tat cur t)"
    using t by (cases cur) (auto simp: used_until_Some used_until_None stored_tat_def)
  then have sum: "e * (sm + sint q) \<le> n - used0"
    using i n by (auto simp: shared_inv_def distrib_left)
  have lt: "0 \<le> n" "n < 2 ^ 62" using n t p by (auto simp: params_ok_def max_def split: if_splits)
  then have u: "uint (word_of_int n :: u64) = n" by (intro uint_u64_self) simp_all
  show ?thesis
    using sum n t now i u lt by (auto simp: shared_inv_def used_until_Some stored_tat_def max_def)
qed

context gcra_limiter begin

lemma after_read_cases:
  fixes rl :: "('s, 'd) rate_limiter"
  assumes ok: "key_ok s key" and e: "whole_nanoseconds tc (emission_interval rl) = e"
    and tau: "whole_nanoseconds tc (delay_variation_tolerance rl) = tau"
    and bounds: "gcra_bounds e tau (e * sint q) (stored_tat v (epoch_ns tc t)) (epoch_ns tc t)"
    and min: "min_ttl \<le> e * sint q" and v: "v = None \<or> view s key \<noteq> None"
    and run: "rate_limit_after_read tc ops rl key (rate_limit_increment tc rl q) rlc v t s = (Ok r, s')"
  shows "key_ok s' key \<and> (case r of
      Continue \<Rightarrow> view s' = view s
    | Break (limited, ttl, rlc') \<Rightarrow>
        if limited then view s' = view s
        else view s key = v \<and>
          (\<exists>n. gcra tau (e * sint q) (stored_tat v (epoch_ns tc t)) (epoch_ns tc t) = Allowed n \<and>
            view s' = (view s)(key \<mapsto> word_of_int n)))"
proof -
  let ?now = "epoch_ns tc t"
  let ?d = "gcra tau (e * sint q) (stored_tat v ?now) ?now"
  have b: "0 < e" "e \<le> 2 ^ 61" "\<bar>e * sint q\<bar> \<le> 2 ^ 61" using bounds by (simp_all add: gcra_bounds_def)
  note iter = rate_limit_after_read_gcra [OF refl tau ns_rate_limit_increment [OF e b] refl bounds,
      where ops = ops and key = key and rlc = rlc and s = s]
  show ?thesis
  proof (cases ?d)
    case (Blocked w)
    then show ?thesis using iter run ok by auto
  next
    case (Allowed n)
    define wr where "wr = (\<lambda>ttl. case v of
        Some old \<Rightarrow> compare_and_swap_with_ttl ops key old (word_of_int n) ttl
      | None \<Rightarrow> set_if_not_exists_with_ttl ops key (word_of_int n) ttl)"
    obtain ttl where ttl: "whole_nanoseconds tc ttl = n - ?now"
      and run': "rate_limit_after_read tc ops rl key (rate_limit_increment tc rl q) rlc v t s =
        io_bind (wr ttl) (\<lambda>updated. if updated then io_ret (Break (False, ttl, rlc)) else io_ret Continue) s"
      using iter Allowed by (auto simp: wr_def)
    have n: "n = max ?now (stored_tat v ?now) + e * sint q" "n \<le> ?now + tau"
      using Allowed by (simp_all add: gcra_Allowed_iff)
    then have "min_ttl \<le> n - ?now" "n - ?now < 2 ^ 63" using min bounds by (auto simp: gcra_bounds_def)
    then have ok_ttl: "ttl_ok ttl" using ttl_enough ttl by simp
    show ?thesis
    proof (cases "view s key = v")
      case True
      then obtain s2 where "wr ttl s = (Ok True, s2)" "key_ok s2 key" "view s2 = (view s)(key \<mapsto> word_of_int n)"
        using write_after_read [OF ok ok_ttl] by (auto simp: wr_def)
      then show ?thesis using run run' True Allowed by (auto simp: io_simps)
    next
      case False
      then obtain w where w: "view s key = Some w" using v by auto
      then obtain s2 where "wr ttl s = (Ok False, s2)" "key_ok s2 key" "view s2 = view s"
        using write_after_other_write [OF ok ok_ttl w, of v "word_of_int n"] False w by (auto simp: wr_def)
      then have "rate_limit_after_read tc ops rl key (rate_limit_increment tc rl q) rlc v t s = (Ok Continue, s2)"
        unfolding run' by (simp add: io_bind_def io_ret_run)
      then show ?thesis using run \<open>key_ok s2 key\<close> \<open>view s2 = view s\<close> by auto
    qed
  qed
qed

lemma concurrent_run_inv:
  fixes rl :: "('s, 'd) rate_limiter"
  assumes "concurrent_run tc ops view clk key_ok Q rl key s0 cs pend s"
    and "key_ok s0 key"
    and e: "whole_nanoseconds tc (emission_interval rl) = e"
    and tau: "whole_nanoseconds tc (delay_variation_tolerance rl) = tau"
    and p: "params_ok e tau" and Q: "costs_ok min_ttl e Q"
    and n0: "epoch_ns tc (clk s0) = n0" "0 \<le> n0"
    and u0: "used_until (view s0 key) n0 = used0" "used0 < 2 ^ 62"
    and n: "epoch_ns tc (clk s) < 2 ^ 61"
  shows "key_ok s key \<and> shared_inv e tau n0 used0 (admitted cs) (epoch_ns tc (clk s)) (view s key) \<and>
    pend_ok Q n0 (epoch_ns tc (clk s)) (view s key) (epoch_ns tc) pend"
  using assms(1) n
proof (induction rule: concurrent_run.induct)
  case start
  have "stored_tat (view s0 key) 0 < 2 ^ 62"
    using u0 by (cases "view s0 key") (auto simp: used_until_Some stored_tat_def)
  then show ?case using assms(2) n0 u0 by (auto simp: shared_inv_def pend_ok_empty)
next
  case (read cs pend s q v t s' c)
  note ih = read.IH [OF order.strict_trans1 [OF read.hyps(4) read.prems]]
  have s': "v = view s key" "t = clk s" "key_ok s' key" "view s' = view s"
    using get [of s key] ih read.hyps(3) by auto
  have "stored_tat (view s key) 0 < 2 ^ 62" "n0 \<le> epoch_ns tc (clk s)" using ih by (simp_all add: shared_inv_def)
  then have "read_ok Q n0 (epoch_ns tc (clk s')) (view s key) (q, v, epoch_ns tc t)"
    using read.hyps s' by (auto simp: read_ok_def)
  then show ?case using ih s' read.hyps(4)
    by (auto simp del: fun_upd_apply intro: shared_inv_later pend_ok_add pend_ok_later [where cur = "view s key"])
next
  case (finish cs pend s c q v t rlc limited ttl rlc' s')
  note ih = finish.IH [OF order.strict_trans1 [OF finish.hyps(4) finish.prems]]
  have r: "read_ok Q n0 (epoch_ns tc (clk s)) (view s key) (q, v, epoch_ns tc t)"
    using ih finish.hyps(2) by (blast intro: pend_okD)
  have q: "0 \<le> e * sint q" "e * sint q \<le> 2 ^ 61" "min_ttl \<le> e * sint q"
    using Q r p by (auto simp: costs_ok_def read_ok_def params_ok_def)
  have v: "v = None \<or> view s key \<noteq> None" using r by (simp add: read_ok_def)
  have now: "epoch_ns tc (clk s) < 2 ^ 61" using finish.hyps(4) finish.prems by linarith
  have bounds: "gcra_bounds e tau (e * sint q) (stored_tat v (epoch_ns tc t)) (epoch_ns tc t)"
    using r q p n0 now
    by (auto simp: gcra_bounds_def read_ok_def params_ok_def stored_tat_def split: option.splits)
  note step = after_read_cases [OF conjunct1 [OF ih] e tau bounds q(3) v finish.hyps(3)]
  show ?case
  proof (cases limited)
    case True
    then show ?thesis using step ih finish.hyps(4)
      by (auto simp del: fun_upd_apply intro: shared_inv_later pend_ok_remove pend_ok_later [where cur = "view s key"])
  next
    case False
    then obtain n where d: "view s key = v"
      "gcra tau (e * sint q) (stored_tat v (epoch_ns tc t)) (epoch_ns tc t) = Allowed n"
      "view s' = (view s)(key \<mapsto> word_of_int n)" "key_ok s' key"
      using step by auto
    have "shared_inv e tau n0 used0 (admitted cs + sint q) (epoch_ns tc (clk s')) (Some (word_of_int n))"
      using shared_inv_write [OF conjunct1 [OF conjunct2 [OF ih]] _ _ p n0(2) now q(1) finish.hyps(4)] r d by blast
    then show ?thesis using ih d False finish.hyps(4)
      by (auto simp del: fun_upd_apply simp: fun_upd_same intro: pend_ok_remove pend_ok_later [where cur = "view s key"])
  qed
next
  case (lose cs pend s c q v t rlc s')
  note ih = lose.IH [OF order.strict_trans1 [OF lose.hyps(4) lose.prems]]
  have r: "read_ok Q n0 (epoch_ns tc (clk s)) (view s key) (q, v, epoch_ns tc t)"
    using ih lose.hyps(2) by (blast intro: pend_okD)
  have q: "0 \<le> e * sint q" "e * sint q \<le> 2 ^ 61" "min_ttl \<le> e * sint q"
    using Q r p by (auto simp: costs_ok_def read_ok_def params_ok_def)
  have v: "v = None \<or> view s key \<noteq> None" using r by (simp add: read_ok_def)
  have now: "epoch_ns tc (clk s) < 2 ^ 61" using lose.hyps(4) lose.prems by linarith
  have bounds: "gcra_bounds e tau (e * sint q) (stored_tat v (epoch_ns tc t)) (epoch_ns tc t)"
    using r q p n0 now
    by (auto simp: gcra_bounds_def read_ok_def params_ok_def stored_tat_def split: option.splits)
  note step = after_read_cases [OF conjunct1 [OF ih] e tau bounds q(3) v lose.hyps(3)]
  then show ?case using ih lose.hyps(4)
    by (auto simp del: fun_upd_apply intro: shared_inv_later pend_ok_remove pend_ok_later [where cur = "view s key"])
next
  case (pass cs pend s s')
  note ih = pass.IH [OF order.strict_trans1 [OF pass.hyps(4) pass.prems]]
  show ?case using ih pass.hyps
    by (auto simp del: fun_upd_apply intro: shared_inv_later pend_ok_remove pend_ok_later [where cur = "view s key"])
qed

end

end
