(* ===== verification/Limiter_Facts.thy ===== *)
theory Limiter_Facts
  imports Concurrent
begin

text \<open>
  What a caller of the limiter can rely on: the properties of \<^verbatim>\<open>src/cell/mod.rs\<close> and
  of the stores of \<^verbatim>\<open>src/cell/store.rs\<close> that need no server.
\<close>

section \<open>Two calls in a row\<close>

context gcra_limiter begin

text \<open>The decision of a call, read off its result.\<close>

lemma rate_limit_decides:
  fixes rl :: "('s, 'd) rate_limiter"
  assumes "key_ok (store rl) key" and "epoch_ns tc (clk (store rl)) = now"
    and "whole_nanoseconds tc (delay_variation_tolerance rl) = tau"
    and "whole_nanoseconds tc (emission_interval rl) = e"
    and "gcra_bounds e tau (e * sint q) (stored_tat (view (store rl) key) now) now"
    and "min_ttl \<le> e * sint q"
  shows "\<exists>limited res s'. rate_limit tc ops key q rl = (Ok (limited, res), rl\<lparr>store := s'\<rparr>) \<and>
    reports tc (limiter_limit rl) e tau
      (gcra tau (e * sint q) (stored_tat (view (store rl) key) now) now)
      (stored_tat (view (store rl) key) now) now limited res \<and>
    key_ok s' key \<and> view s' key =
      gcra_write (gcra tau (e * sint q) (stored_tat (view (store rl) key) now) now) (view (store rl) key)"
proof -
  let ?tat = "stored_tat (view (store rl) key) now"
  have min: "min_ttl \<le> n - now" if "gcra tau (e * sint q) ?tat now = Allowed n" for n
    using that assms(6) by (auto simp: gcra_Allowed_iff)
  show ?thesis using rate_limit_call [OF assms(1-4) refl assms(5) refl min] by (metis fun_upd_same)
qed

lemma retry_after_exact:
  fixes rl rl2 :: "('s, 'd) rate_limiter"
  assumes ok: "key_ok (store rl) key" "key_ok (store rl2) key"
    and v: "view (store rl2) key = view (store rl) key"
    and now: "epoch_ns tc (clk (store rl)) = now" "epoch_ns tc (clk (store rl2)) = t" "now \<le> t"
    and same: "delay_variation_tolerance rl2 = delay_variation_tolerance rl"
      "emission_interval rl2 = emission_interval rl"
    and tau: "whole_nanoseconds tc (delay_variation_tolerance rl) = tau"
    and e: "whole_nanoseconds tc (emission_interval rl) = e"
    and bounds: "gcra_bounds e tau (e * sint q) (stored_tat (view (store rl) key) now) now"
      "gcra_bounds e tau (e * sint q) (stored_tat (view (store rl) key) t) t"
    and min: "min_ttl \<le> e * sint q"
    and run: "rate_limit tc ops key q rl = (Ok (True, res), rl')"
    and w: "0 \<le> whole_nanoseconds tc (retry_after res)"
  shows "\<exists>limited res2 rl2'. rate_limit tc ops key q rl2 = (Ok (limited, res2), rl2') \<and>
    (limited \<longleftrightarrow> t < now + whole_nanoseconds tc (retry_after res))"
proof -
  let ?v = "view (store rl) key" and ?i = "e * sint q" and ?w = "whole_nanoseconds tc (retry_after res)"
  have rep: "reports tc (limiter_limit rl) e tau (gcra tau ?i (stored_tat ?v now) now) (stored_tat ?v now) now True res"
    using rate_limit_decides [OF ok(1) now(1) tau e bounds(1) min] run by auto
  have d: "gcra tau ?i (stored_tat ?v now) now = Blocked (Some ?w)"
  proof (cases "gcra tau ?i (stored_tat ?v now) now")
    case (Blocked x)
    then show ?thesis using rep w by (cases x) (simp_all add: reports_def gcra_retry_def)
  qed (use rep in \<open>simp add: reports_def\<close>)
  then obtain x where x: "?v = Some x"
    by (cases ?v) (auto simp: gcra_Blocked_iff stored_tat_def split: if_splits)
  obtain limited res2 s2 where 2: "rate_limit tc ops key q rl2 = (Ok (limited, res2), rl2\<lparr>store := s2\<rparr>)"
    "reports tc (limiter_limit rl2) e tau (gcra tau ?i (stored_tat ?v t) t) (stored_tat ?v t) t limited res2"
    using rate_limit_decides [of rl2 key t tau e q] ok(2) now(2) tau e bounds(2) min same v by auto
  have "limited \<longleftrightarrow> \<not> (\<exists>n. gcra tau ?i (uint x) t = Allowed n)"
    using 2(2) x by (cases "gcra tau ?i (uint x) t") (simp_all add: reports_def stored_tat_def)
  moreover have "(\<exists>n. gcra tau ?i (uint x) t = Allowed n) \<longleftrightarrow> now + ?w \<le> t"
    using gcra_wait_exact [OF d now(3)] x by (simp add: stored_tat_def)
  ultimately show ?thesis using 2(1) by auto
qed

lemma remaining_exact:
  fixes rl :: "('s, 'd) rate_limiter"
  assumes ok: "key_ok (store rl) key" and now: "epoch_ns tc (clk (store rl)) = now"
      "epoch_ns tc (clk (store rl')) = now"
    and tau: "whole_nanoseconds tc (delay_variation_tolerance rl) = tau"
    and e: "whole_nanoseconds tc (emission_interval rl) = e" "e mod 1000 = 0"
    and bounds: "gcra_bounds e tau (e * sint q) (stored_tat (view (store rl) key) now) now"
    and q: "0 \<le> sint q" "min_ttl \<le> e * sint q"
    and run: "rate_limit tc ops key q rl = (Ok (False, res), rl')"
    and q2: "\<bar>e * sint q2\<bar> \<le> 2 ^ 61" "min_ttl \<le> e * sint q2" "now < 2 ^ 61"
  shows "\<exists>limited res2 rl2. rate_limit tc ops key q2 rl' = (Ok (limited, res2), rl2) \<and>
    (limited \<longleftrightarrow> sint (remaining res) < sint q2)"
proof -
  let ?v = "view (store rl) key" and ?i = "e * sint q"
  obtain s' where s': "rl' = rl\<lparr>store := s'\<rparr>"
    and rep: "reports tc (limiter_limit rl) e tau (gcra tau ?i (stored_tat ?v now) now) (stored_tat ?v now) now False res"
    and ok': "key_ok s' key" "view s' key = gcra_write (gcra tau ?i (stored_tat ?v now) now) ?v"
    using rate_limit_decides [OF ok now(1) tau e(1) bounds q(2)] run by auto
  then obtain n where d: "gcra tau ?i (stored_tat ?v now) now = Allowed n"
    by (cases "gcra tau ?i (stored_tat ?v now) now") (simp_all add: reports_def)
  have b: "0 < e" "0 \<le> now" "tau \<le> 2 ^ 61" "0 \<le> ?i" using bounds q by (simp_all add: gcra_bounds_def)
  then have e1: "1000 \<le> e" using zdvd_imp_le [of 1000 e] e(2) by (simp add: dvd_eq_mod_eq_0)
  have n: "now \<le> n" "n - now \<le> tau" using d b by (auto simp: gcra_Allowed_iff)
  then have "0 \<le> n" "n < 2 ^ 62" using b q2(3) by simp_all
  then have tat': "stored_tat (view s' key) now = n"
    using ok'(2) d by (simp add: gcra_write_def stored_tat_def uint_u64_self)
  have rem: "sint (remaining res) = (tau - (n - now)) div e"
    using rep e1 gcra_remaining_exact [OF b(1) e(2) n(2)] d by (simp add: reports_def gcra_ttl_def)
  have bounds2: "gcra_bounds e tau (e * sint q2) (stored_tat (view (store rl') key) now) now"
    using bounds q2 n tat' s' b by (simp add: gcra_bounds_def)
  have p: "key_ok (store rl') key" "whole_nanoseconds tc (delay_variation_tolerance rl') = tau"
    "whole_nanoseconds tc (emission_interval rl') = e"
    using s' ok' tau e by simp_all
  obtain limited res2 s2 where 2: "rate_limit tc ops key q2 rl' = (Ok (limited, res2), rl'\<lparr>store := s2\<rparr>)"
    "reports tc (limiter_limit rl') e tau (gcra tau (e * sint q2) n now) n now limited res2"
    using rate_limit_decides [OF p(1) now(2) p(2,3) bounds2 q2(2)] tat' s' by auto
  have "limited \<longleftrightarrow> \<not> (\<exists>m. gcra tau (e * sint q2) n now = Allowed m)"
    using 2(2) by (cases "gcra tau (e * sint q2) n now") (simp_all add: reports_def)
  then show ?thesis using 2(1) gcra_remaining_allows [OF b(1) n, of "sint q2"] rem by auto
qed

end

section \<open>Concrete runs\<close>

text \<open>The first request of the table test, and what the next reading of the clock is after it.\<close>

definition first_request :: "(test_limiter, cell_error, bool \<times> int rate_limit_result) io" where
  "first_request = rate_limit ns_time (test_ops (still_world 0)) ''foo'' 2"

lemma first_request_runs:
  "\<exists>res rl'. first_request (it_rate_limits_limiter (10 ^ 18)) = (Ok (False, res), rl') \<and>
    test_clock (store rl') = 10 ^ 18 \<and> remaining res = 3"
proof -
  have "case first_request (it_rate_limits_limiter 1000000000000000000) of
      (Ok (limited, res), rl') \<Rightarrow> \<not> limited \<and> test_clock (store rl') = 1000000000000000000 \<and> remaining res = 3
    | _ \<Rightarrow> False" by code_simp
  then show ?thesis by (auto split: prod.splits outcome.splits)
qed

section \<open>Conformance\<close>

text \<open>C4: However a limiter's calls on a key are spaced, and whatever else happens to the store
  as long as the key keeps its value or expires when it may, the cost of all requests let through
  up to a moment is at most the tolerance plus the time since the key's quota was last used up,
  plus the slack for each early expiry.\<close>

theorem limiter_conforms:
  fixes rl0 :: "('s, 'd) rate_limiter"
  assumes "gcra_limiter tc ops view clk key_ok ttl_ok due due_in min_ttl stamp"
    and "limiter_run tc ops view clk key_ok slack key rl0 cs k rl"
    and "key_ok (store rl0) key"
    and "whole_nanoseconds tc (emission_interval rl0) = e"
    and "whole_nanoseconds tc (delay_variation_tolerance rl0) = tau"
    and "params_ok e tau" and "0 \<le> slack" and "quantities_ok min_ttl e cs"
    and "0 \<le> epoch_ns tc (clk (store rl0))"
    and "used_until (view (store rl0) key) (epoch_ns tc (clk (store rl0))) = used0" and "used0 < 2 ^ 62"
    and "epoch_ns tc (clk (store rl)) < 2 ^ 61"
  shows "e * admitted cs \<le> max 0 (tau + (epoch_ns tc (clk (store rl)) - used0) + slack * int k)"
  by (rule gcra_limiter.limiter_run_conforms [OF assms])

lemma limiter_conforms_witness:
  "\<exists>rl. limiter_run ns_time (test_ops (still_world 0)) test_view test_clock test_working 0 ''foo''
      (it_rate_limits_limiter (10 ^ 18)) [(2, False)] 0 rl \<and>
    10 ^ 9 * admitted [(2, False)] \<le> max 0 (5 * 10 ^ 9 + (test_clock (store rl) - 10 ^ 18) + 0 * int 0)"
proof -
  let ?rl0 = "it_rate_limits_limiter (10 ^ 18)"
  obtain res rl' where 1: "first_request ?rl0 = (Ok (False, res), rl')" "test_clock (store rl') = 10 ^ 18"
    using first_request_runs by blast
  have s: "test_clock (store ?rl0) = 10 ^ 18" by (simp add: it_rate_limits_simps test_clock_def)
  have run: "limiter_run ns_time (test_ops (still_world 0)) test_view test_clock test_working 0 ''foo''
      ?rl0 [(2, False)] 0 rl'"
    using limiter_run.call [OF limiter_run.start, of ns_time "test_ops (still_world 0)" "''foo''" 2 ?rl0
        False res rl' test_clock test_view test_working 0] 1 s by (simp add: first_request_def)
  then show ?thesis
    using limiter_conforms [OF test_limiter.gcra_limiter_axioms [where wd = "still_world 0"] run,
        of "10 ^ 9" "5 * 10 ^ 9" "10 ^ 18"] 1 s
    by (auto simp: it_rate_limits_simps test_view_def memory_store_new_verbose_def test_working_def
        test_clock_def params_ok_def used_until_None quantities_ok_def)
qed

text \<open>A limiter of the table test that has read the missing key at the start finishes its pass.\<close>

definition late_pass ::
    "(test_state, cell_error, (bool \<times> int \<times> int rate_limit_result) loop_step) io" where
  "late_pass = (let rl = it_rate_limits_limiter 1000000000000000000
     in rate_limit_after_read ns_time (test_ops (still_world 0)) rl ''foo'' (rate_limit_increment ns_time rl 2)
          (rlc_start ns_time rl) None 1000000000000000000)"

lemma late_pass_twice:
  "\<exists>ttl rlc' s1 s2. late_pass (store (it_rate_limits_limiter (10 ^ 18))) = (Ok (Break (False, ttl, rlc')), s1) \<and>
    late_pass s1 = (Ok Continue, s2) \<and> test_clock s1 = 10 ^ 18 \<and> test_clock s2 = 10 ^ 18"
proof -
  have "case late_pass (store (it_rate_limits_limiter 1000000000000000000)) of
      (Ok (Break (limited, ttl, rlc')), s1) \<Rightarrow> \<not> limited \<and> test_clock s1 = 1000000000000000000 \<and>
        (case late_pass s1 of (Ok Continue, s2) \<Rightarrow> test_clock s2 = 1000000000000000000 | _ \<Rightarrow> False)
    | _ \<Rightarrow> False" by code_simp
  then show ?thesis by (auto split: prod.splits outcome.splits loop_step.splits)
qed

text \<open>C5: However the reads and writes of several limiters with one quota on one key are
  interleaved, the cost let through by all of them together stays within the bound for a single
  one: of two that have read the same value only one gets its write through.\<close>

theorem concurrent_limiters_conform:
  fixes rl :: "('s, 'd) rate_limiter"
  assumes "gcra_limiter tc ops view clk key_ok ttl_ok due due_in min_ttl stamp"
    and "concurrent_run tc ops view clk key_ok Q rl key s0 cs pend s"
    and "key_ok s0 key"
    and "whole_nanoseconds tc (emission_interval rl) = e"
    and "whole_nanoseconds tc (delay_variation_tolerance rl) = tau"
    and "params_ok e tau" and "costs_ok min_ttl e Q"
    and "epoch_ns tc (clk s0) = n0" and "0 \<le> n0"
    and "used_until (view s0 key) n0 = used0" and "used0 < 2 ^ 62"
    and "epoch_ns tc (clk s) < 2 ^ 61"
  shows "e * admitted cs \<le> max 0 (epoch_ns tc (clk s) + tau - used0)"
  using gcra_limiter.concurrent_run_inv [OF assms] by (simp add: shared_inv_def)

lemma concurrent_limiters_conform_witness:
  "\<exists>pend s. concurrent_run ns_time (test_ops (still_world 0)) test_view test_clock test_working {2}
      (it_rate_limits_limiter (10 ^ 18)) ''foo'' (store (it_rate_limits_limiter (10 ^ 18))) [(2, False)] pend s \<and>
    10 ^ 9 * admitted [(2, False)] \<le> max 0 (test_clock s + 5 * 10 ^ 9 - 10 ^ 18)"
proof -
  let ?rl = "it_rate_limits_limiter (10 ^ 18)"
  let ?s = "store ?rl"
  let ?run = "concurrent_run ns_time (test_ops (still_world 0)) test_view test_clock test_working {2} ?rl ''foo'' ?s"
  let ?r = "(2 :: i64, None :: u64 option, 10 ^ 18 :: int)"
  obtain ttl rlc' s1 s2 where 1: "late_pass ?s = (Ok (Break (False, ttl, rlc')), s1)"
    "late_pass s1 = (Ok Continue, s2)" "test_clock s1 = 10 ^ 18" "test_clock s2 = 10 ^ 18"
    using late_pass_twice by blast
  have s: "test_clock ?s = 10 ^ 18" by (simp add: it_rate_limits_simps test_clock_def)
  have get: "get_with_time (test_ops (still_world 0)) ''foo'' ?s = (Ok (None, 10 ^ 18), ?s)"
    by (simp add: it_rate_limits_simps test_defs memory_defs io_bind_def memory_store_new_verbose_def)
  have "?run [] Map.empty ?s" by (rule concurrent_run.start)
  then have "?run [] [0 \<mapsto> ?r] ?s" by (rule concurrent_run.read [OF _ _ get]) simp_all
  then have "?run [] [0 \<mapsto> ?r, 1 \<mapsto> ?r] ?s" by (rule concurrent_run.read [OF _ _ get]) simp_all
  then have "?run ([] @ [(2, False)]) ([0 \<mapsto> ?r, 1 \<mapsto> ?r](0 := None)) s1"
    by (rule concurrent_run.finish [where rlc = "rlc_start ns_time ?rl"])
      (use 1 s in \<open>simp_all add: late_pass_def Let_def\<close>)
  then have "?run ([] @ [(2, False)]) ([0 \<mapsto> ?r, 1 \<mapsto> ?r](0 := None, 1 := None)) s2"
    by (rule concurrent_run.lose [where rlc = "rlc_start ns_time ?rl" and q = 2 and v = None and t = "10 ^ 18"])
      (use 1 s in \<open>simp_all add: late_pass_def Let_def\<close>)
  then have run: "?run [(2, False)] ([0 \<mapsto> ?r, 1 \<mapsto> ?r](0 := None, 1 := None)) s2" by simp
  moreover have "10 ^ 9 * admitted [(2, False)] \<le> max 0 (test_clock s2 + 5 * 10 ^ 9 - 10 ^ 18)"
    using concurrent_limiters_conform [OF test_limiter.gcra_limiter_axioms [where wd = "still_world 0"] run,
        of "10 ^ 9" "5 * 10 ^ 9" "10 ^ 18" "10 ^ 18"] 1 s
    by (simp add: it_rate_limits_simps test_view_def memory_store_new_verbose_def test_working_def
        params_ok_def costs_ok_def used_until_None)
  ultimately show ?thesis by blast
qed

section \<open>What a result tells\<close>

text \<open>C6: The time to retry that a blocked call reports is exact: a limiter of the same quota that
  sees the same stored value later is blocked for the same quantity before that time and let
  through from then on.\<close>

theorem retry_after_is_exact:
  fixes rl rl2 :: "('s, 'd) rate_limiter"
  assumes "gcra_limiter tc ops view clk key_ok ttl_ok due due_in min_ttl stamp"
    and "key_ok (store rl) key" and "key_ok (store rl2) key"
    and "view (store rl2) key = view (store rl) key"
    and "epoch_ns tc (clk (store rl)) = now" and "epoch_ns tc (clk (store rl2)) = t" and "now \<le> t"
    and "delay_variation_tolerance rl2 = delay_variation_tolerance rl"
    and "emission_interval rl2 = emission_interval rl"
    and "whole_nanoseconds tc (delay_variation_tolerance rl) = tau"
    and "whole_nanoseconds tc (emission_interval rl) = e"
    and "gcra_bounds e tau (e * sint q) (stored_tat (view (store rl) key) now) now"
    and "gcra_bounds e tau (e * sint q) (stored_tat (view (store rl) key) t) t"
    and "min_ttl \<le> e * sint q"
    and "rate_limit tc ops key q rl = (Ok (True, res), rl')"
    and "0 \<le> whole_nanoseconds tc (retry_after res)"
  shows "\<exists>limited res2 rl2'. rate_limit tc ops key q rl2 = (Ok (limited, res2), rl2') \<and>
    (limited \<longleftrightarrow> t < now + whole_nanoseconds tc (retry_after res))"
  by (rule gcra_limiter.retry_after_exact [OF assms])

text \<open>A limiter whose key's quota is used up until five seconds from now.\<close>

definition used_up :: "int \<Rightarrow> test_limiter" where
  "used_up now = (it_rate_limits_limiter now)\<lparr>store :=
     (\<lparr>clock = now, fail_updates = False,
        inner = \<lparr>mem_map = [''foo'' \<mapsto> 1000000005000000000], verbose = False\<rparr>\<rparr>, ())\<rparr>"

lemma used_up_blocked:
  "\<exists>res rl'. rate_limit ns_time (test_ops (still_world 0)) ''foo'' 1 (used_up 1000000000000000000) =
    (Ok (True, res), rl') \<and> retry_after res = 1000000000"
proof -
  have "case rate_limit ns_time (test_ops (still_world 0)) ''foo'' 1 (used_up 1000000000000000000) of
      (Ok (limited, res), rl') \<Rightarrow> limited \<and> retry_after res = 1000000000 | _ \<Rightarrow> False" by code_simp
  then show ?thesis by (auto split: prod.splits outcome.splits)
qed

lemma retry_after_is_exact_witness:
  "\<exists>limited res2 rl2'. rate_limit ns_time (test_ops (still_world 0)) ''foo'' 1 (used_up 1000000000999999999) =
      (Ok (limited, res2), rl2') \<and>
    (limited \<longleftrightarrow> (1000000000999999999 :: int) < 1000000000000000000 + 1000000000)"
proof -
  obtain res rl' where 1: "rate_limit ns_time (test_ops (still_world 0)) ''foo'' 1 (used_up 1000000000000000000) =
    (Ok (True, res), rl')" "retry_after res = 1000000000"
    using used_up_blocked by blast
  show ?thesis
    using retry_after_is_exact [OF test_limiter.gcra_limiter_axioms [where wd = "still_world 0"] _ _ _ _ _ _ _ _ _ _ _ _ _ 1(1),
        of "used_up 1000000000999999999" "1000000000000000000" "1000000000999999999" "5000000000" "1000000000"] 1(2)
    by (simp add: used_up_def it_rate_limits_simps test_view_def test_working_def test_clock_def
        stored_tat_def gcra_bounds_def)
qed

text \<open>C7: The remaining quantity that an allowed call reports is exact when the emission interval
  is a whole number of microseconds: at the same instant, the next call is limited if it asks for
  more, and let through if it does not.\<close>

theorem remaining_is_exact:
  fixes rl :: "('s, 'd) rate_limiter"
  assumes "gcra_limiter tc ops view clk key_ok ttl_ok due due_in min_ttl stamp"
    and "key_ok (store rl) key" and "epoch_ns tc (clk (store rl)) = now"
    and "epoch_ns tc (clk (store rl')) = now"
    and "whole_nanoseconds tc (delay_variation_tolerance rl) = tau"
    and "whole_nanoseconds tc (emission_interval rl) = e" and "e mod 1000 = 0"
    and "gcra_bounds e tau (e * sint q) (stored_tat (view (store rl) key) now) now"
    and "0 \<le> sint q" and "min_ttl \<le> e * sint q"
    and "rate_limit tc ops key q rl = (Ok (False, res), rl')"
    and "\<bar>e * sint q2\<bar> \<le> 2 ^ 61" and "min_ttl \<le> e * sint q2" and "now < 2 ^ 61"
  shows "\<exists>limited res2 rl2. rate_limit tc ops key q2 rl' = (Ok (limited, res2), rl2) \<and>
    (limited \<longleftrightarrow> sint (remaining res) < sint q2)"
  by (rule gcra_limiter.remaining_exact [OF assms])

lemma remaining_is_exact_witness:
  "\<exists>res rl' limited res2 rl2. first_request (it_rate_limits_limiter (10 ^ 18)) = (Ok (False, res), rl') \<and>
    rate_limit ns_time (test_ops (still_world 0)) ''foo'' 4 rl' = (Ok (limited, res2), rl2) \<and>
    (limited \<longleftrightarrow> sint (3 :: i64) < 4)"
proof -
  obtain res rl' where 1: "first_request (it_rate_limits_limiter (10 ^ 18)) = (Ok (False, res), rl')"
    "test_clock (store rl') = 10 ^ 18" "remaining res = 3"
    using first_request_runs by blast
  have "\<exists>limited res2 rl2. rate_limit ns_time (test_ops (still_world 0)) ''foo'' 4 rl' = (Ok (limited, res2), rl2) \<and>
    (limited \<longleftrightarrow> sint (remaining res) < sint (4 :: i64))"
    by (rule remaining_is_exact [OF test_limiter.gcra_limiter_axioms [where wd = "still_world 0"], of
        "it_rate_limits_limiter (10 ^ 18)" "''foo''" "10 ^ 18" rl' "5 * 10 ^ 9" "10 ^ 9" 2 res 4])
      (use 1 in \<open>simp_all add: first_request_def it_rate_limits_simps test_view_def test_working_def
        test_clock_def stored_tat_def gcra_bounds_def memory_store_new_verbose_def\<close>)
  then show ?thesis using 1 by auto
qed

end
