(* ===== verification/Limiter_Edges.thy ===== *)
theory Limiter_Edges
  imports Limiter_Facts
begin

text \<open>
  The limiter's edges: rates and quotas at the limits of their types, stored times, the bounded
  retry loop, and the table test of \<^verbatim>\<open>src/cell/mod.rs\<close>.
\<close>

section \<open>Rates and quotas\<close>

text \<open>C18: A rate's emission interval is the period divided by the count, truncated to whole
  nanoseconds, for counts up to \<open>2 ^ 53\<close> and periods below 104 days, although the code divides in
  floating point.\<close>

theorem rate_period_exact:
  assumes "time_laws tc" and "n \<noteq> 0" and "\<bar>sint n\<bar> \<le> 2 ^ 53" and "\<bar>whole_nanoseconds tc p\<bar> < 2 ^ 53"
  shows "whole_nanoseconds tc (period (rate_per_period tc n p)) =
    trunc_div (whole_nanoseconds tc p) (sint n)"
  by (rule time_laws.ns_rate_per_period [OF assms])

lemma rate_period_exact_witness:
  "whole_nanoseconds ns_time (period (rate_per_period ns_time 7 60000000000)) = 8571428571"
  using rate_period_exact [OF ref_time.time_laws_axioms, of 7 60000000000] by simp

text \<open>A quota of no requests, or over an empty period, makes every call fail with an error
  that leaves the limiter and its store as they were.\<close>

lemma zero_rate_refused:
  assumes "time_laws tc" and "n = 0 \<or> whole_nanoseconds tc p = 0"
  shows "rate_limit tc ops key q
      (rate_limiter_new tc st \<lparr>max_burst = b, max_rate = rate_per_period tc n p\<rparr>) =
    (Err zero_rates, rate_limiter_new tc st \<lparr>max_burst = b, max_rate = rate_per_period tc n p\<rparr>)"
  by (rule time_laws.rate_limit_zero [OF assms])

lemma zero_rate_refused_witness:
  "rate_limit ns_time (test_ops (still_world 0)) ''foo'' 1
      (rate_limiter_new ns_time (store (used_up 0)) \<lparr>max_burst = 4, max_rate = rate_per_period ns_time 0 60000000000\<rparr>) =
    (Err zero_rates,
      rate_limiter_new ns_time (store (used_up 0)) \<lparr>max_burst = 4, max_rate = rate_per_period ns_time 0 60000000000\<rparr>)"
  by (rule zero_rate_refused [OF ref_time.time_laws_axioms, of 0 60000000000]) simp

text \<open>The limit a call reports is the burst plus one in 64 bits: for every burst but the
  largest it is the burst plus one, and the largest burst wraps to the smallest number.\<close>

lemma limit_wraps:
  "sint (limiter_limit (rate_limiter_new tc st quota)) =
    (if sint (max_burst quota) = i64_max then i64_min else sint (max_burst quota) + 1)"
proof (cases "sint (max_burst quota) = i64_max")
  case True
  then have "max_burst quota = as_i64 i64_max" by (metis as_i64_sint)
  then show ?thesis using True by (simp add: rate_limiter_new_def as_i64_def)
next
  case False
  then have "sint (max_burst quota) < i64_max" using sint_i64_le [of "max_burst quota"] by simp
  then have "sint (max_burst quota + 1) = sint (max_burst quota) + 1"
    using sint_i64_ge [of "max_burst quota"] by (intro sint_add_i64 [of "max_burst quota" 1, simplified]) simp_all
  then show ?thesis using False by (simp add: rate_limiter_new_def)
qed

text \<open>C31: With an emission interval of less than a microsecond the reported remaining quantity is
  the largest number as soon as a microsecond of tolerance is left, and 0 below: the code divides
  by the interval in whole microseconds.\<close>

theorem remaining_saturates:
  assumes "time_laws tc" and "0 < whole_nanoseconds tc (emission_interval rl)"
    and "whole_nanoseconds tc (emission_interval rl) < 1000"
    and "0 \<le> whole_nanoseconds tc d" and "whole_nanoseconds tc d < 2 ^ 62"
  shows "rate_limit_remaining tc rl d = as_i64 (if whole_nanoseconds tc d < 1000 then 0 else i64_max)"
proof -
  let ?n = "whole_nanoseconds tc d"
  have us: "whole_microseconds tc d = ?n div 1000" "whole_microseconds tc (emission_interval rl) = 0"
    using assms by (simp_all add: time_laws.whole_us)
  have "0 \<le> ?n div 1000" "?n div 1000 \<le> 2 ^ 53"
    using assms(4,5) by (simp_all add: pos_imp_zdiv_nonneg_iff)
  moreover have "?n div 1000 = 0 \<longleftrightarrow> ?n < 1000"
    using assms(4) by (auto simp: zdiv_eq_0_iff)
  ultimately show ?thesis using f64_div_zero [of "?n div 1000"]
    by (simp add: rate_limit_remaining_def us as_i64_def)
qed

lemma remaining_saturates_witness:
  "rate_limit_remaining ns_time ((it_rate_limits_limiter 0)\<lparr>emission_interval := 999\<rparr>) 2000 = as_i64 i64_max"
  using remaining_saturates [OF ref_time.time_laws_axioms,
      of "(it_rate_limits_limiter 0)\<lparr>emission_interval := 999\<rparr>" 2000] by simp

section \<open>Stored times\<close>

text \<open>C19: Every number that a store can hold reads back as an instant, and that instant is stored
  as the same number.\<close>

theorem stored_time_round_trip:
  assumes "time_laws tc"
  shows "\<exists>t. from_nanoseconds tc v = Some t \<and> nanoseconds tc t = v"
proof -
  obtain t where t: "from_nanoseconds tc v = Some t" "epoch_ns tc t = uint v"
    using time_laws.from_nanoseconds_ns [OF assms] by blast
  have "uint (nanoseconds tc t) = uint v"
    using time_laws.uint_nanoseconds [OF assms, of t] t uint_bounded [of v] by simp
  then show ?thesis using t by (auto intro: word_uint_eqI)
qed

lemma stored_time_round_trip_witness:
  "\<exists>t. from_nanoseconds ns_time 1600000000123456789 = Some t \<and> nanoseconds ns_time t = 1600000000123456789"
  by (rule stored_time_round_trip [OF ref_time.time_laws_axioms])

section \<open>The retry loop\<close>

text \<open>The state after a number of passes of the loop whose write is refused.\<close>

fun refused_passes ::
    "('d, 't) time_crate \<Rightarrow> ('s, 'd, 't) store_ops \<Rightarrow> ('s, 'd) rate_limiter \<Rightarrow> string \<Rightarrow> 'd
     \<Rightarrow> 'd rate_limit_result \<Rightarrow> nat \<Rightarrow> 's \<Rightarrow> 's option" where
  "refused_passes tc ops rl key inc rlc 0 s = Some s"
| "refused_passes tc ops rl key inc rlc (Suc n) s =
     (case rate_limit_iter tc ops rl key inc rlc s of
        (Ok Continue, s') \<Rightarrow> refused_passes tc ops rl key inc rlc n s'
      | _ \<Rightarrow> None)"

lemma rate_limit_loop_refused:
  assumes "refused_passes tc ops rl key inc rlc n s = Some s'" and "i + int n \<le> max_cas_attempts"
  shows "rate_limit_loop tc ops rl key inc rlc i s = rate_limit_loop tc ops rl key inc rlc (i + int n) s'"
  using assms
proof (induction n arbitrary: i s)
  case (Suc n)
  obtain s1 where 1: "rate_limit_iter tc ops rl key inc rlc s = (Ok Continue, s1)"
    "refused_passes tc ops rl key inc rlc n s1 = Some s'"
    using Suc.prems(1) by (auto split: prod.splits outcome.splits loop_step.splits)
  then have "rate_limit_loop tc ops rl key inc rlc i s = rate_limit_loop tc ops rl key inc rlc (i + 1) s1"
    using Suc.prems(2) by (subst rate_limit_loop.simps) simp
  then show ?case using Suc.IH [OF 1(2), of "i + 1"] Suc.prems(2) by (simp add: ac_simps)
qed simp

text \<open>A store in which a missing key's first writes fail, as if others wrote and their keys expired.\<close>

definition flaky_ops :: "(nat, int, int) store_ops" where
  "flaky_ops = \<lparr>
     compare_and_swap_with_ttl = (\<lambda>key old new ttl n. (Ok (n = 0), n - 1)),
     get_with_time = (\<lambda>key n. (Ok (None, 1000000000000000000), n)),
     log_debug = (\<lambda>msg n. n),
     set_if_not_exists_with_ttl = (\<lambda>key v ttl n. (Ok (n = 0), n - 1))\<rparr>"

definition flaky_limiter :: "(nat, int) rate_limiter" where
  "flaky_limiter = rate_limiter_new ns_time 0 test_quota"

abbreviation (input) flaky where
  "flaky f \<equiv> f ns_time flaky_ops flaky_limiter ''foo'' (rate_limit_increment ns_time flaky_limiter 1)
     (rlc_start ns_time flaky_limiter)"

text \<open>C14: A call whose first writes are refused, up to five of them, succeeds with the next pass
  that does not lose a race.\<close>

theorem loop_retries:
  assumes "refused_passes tc ops rl key inc rlc n s = Some s1" and "n \<le> 5"
    and "rate_limit_iter tc ops rl key inc rlc s1 = (Ok (Break r), s2)"
  shows "rate_limit_loop tc ops rl key inc rlc 0 s = (Ok r, s2)"
  using rate_limit_loop_refused [OF assms(1), of 0] assms(2,3)
  by (simp add: max_cas_attempts_def rate_limit_loop.simps [of _ _ _ _ _ _ "int n"])

lemma loop_retries_witness:
  "\<exists>r. flaky rate_limit_loop 0 5 = (Ok r, 0)"
proof -
  have "flaky refused_passes 5 5 = Some 0" by code_simp
  have "case flaky rate_limit_iter 0 of (Ok (Break r), n) \<Rightarrow> n = 0 | _ \<Rightarrow> False" by code_simp
  then obtain r where "flaky rate_limit_iter 0 = (Ok (Break r), 0)"
    by (auto split: prod.splits outcome.splits loop_step.splits)
  with \<open>flaky refused_passes 5 5 = Some 0\<close> have "flaky rate_limit_loop 0 5 = (Ok r, 0)"
    by (intro loop_retries [where n = 5]) simp_all
  then show ?thesis by blast
qed

text \<open>C28: A request of quantity 0 on a missing key is let through and writes the key: the comment
  on \<open>rate_limit\<close> says that no update is performed then.\<close>

theorem zero_quantity_writes:
  fixes rl :: "('s, 'd) rate_limiter"
  assumes "gcra_limiter tc ops view clk key_ok ttl_ok due due_in min_ttl stamp" and "min_ttl \<le> 0"
    and "key_ok (store rl) key" and "view (store rl) key = None"
    and "epoch_ns tc (clk (store rl)) = now" and "0 \<le> now" and "now < 2 ^ 61"
    and "whole_nanoseconds tc (delay_variation_tolerance rl) = tau" and "0 \<le> tau" and "tau \<le> 2 ^ 61"
    and "whole_nanoseconds tc (emission_interval rl) = e" and "0 < e" and "e \<le> 2 ^ 61"
  shows "\<exists>res s'. rate_limit tc ops key 0 rl = (Ok (False, res), rl\<lparr>store := s'\<rparr>) \<and>
    view s' = (view (store rl))(key \<mapsto> word_of_int now)"
proof -
  have d: "gcra tau (e * sint (0 :: i64)) now now = Allowed now" using assms(9) by (simp add: gcra_def)
  have "gcra_bounds e tau (e * sint (0 :: i64)) now now" using assms by (simp add: gcra_bounds_def)
  then obtain limited res s' where
    "rate_limit tc ops key 0 rl = (Ok (limited, res), rl\<lparr>store := s'\<rparr>)"
    "reports tc (limiter_limit rl) e tau (Allowed now) now now limited res"
    "view s' = (view (store rl))(key := gcra_write (Allowed now) None)"
    using gcra_limiter.rate_limit_call [OF assms(1,3,5,8,11) _ _ d] assms(2,4) by (auto simp: stored_tat_def)
  then show ?thesis by (auto simp: reports_def gcra_write_def)
qed

lemma zero_quantity_writes_witness:
  "\<exists>res s'. rate_limit ns_time (test_ops (still_world 0)) ''foo'' 0 (it_rate_limits_limiter (10 ^ 18)) =
      (Ok (False, res), (it_rate_limits_limiter (10 ^ 18))\<lparr>store := s'\<rparr>) \<and>
    test_view s' = Map.empty(''foo'' \<mapsto> word_of_int (10 ^ 18))"
  using zero_quantity_writes [OF test_limiter.gcra_limiter_axioms [where wd = "still_world 0"], of
      "it_rate_limits_limiter (10 ^ 18)" "''foo''" "10 ^ 18" "5 * 10 ^ 9" "10 ^ 9"]
  by (simp add: it_rate_limits_simps test_view_def memory_store_new_verbose_def test_working_def test_clock_def)

text \<open>C13: A call gives up with an error after six refused writes, one more than the maximum of
  attempts that its text names.\<close>

theorem loop_gives_up:
  assumes "refused_passes tc ops rl key inc rlc 6 s = Some s2"
  shows "rate_limit_loop tc ops rl key inc rlc 0 s = (Err update_failed, s2)"
proof -
  obtain s1 where 1: "refused_passes tc ops rl key inc rlc 5 s = Some s1"
    "rate_limit_iter tc ops rl key inc rlc s1 = (Ok Continue, s2)"
    using assms by (simp add: numeral_eq_Suc split: prod.splits outcome.splits loop_step.splits)
  have "rate_limit_loop tc ops rl key inc rlc 0 s = rate_limit_loop tc ops rl key inc rlc 5 s1"
    using rate_limit_loop_refused [OF 1(1), of 0] by (simp add: max_cas_attempts_def)
  also have "\<dots> = (Err update_failed, s2)"
    using 1(2) by (subst rate_limit_loop.simps) (simp add: max_cas_attempts_def)
  finally show ?thesis .
qed

lemma loop_gives_up_witness: "flaky rate_limit_loop 0 6 = (Err update_failed, 0)"
  by (rule loop_gives_up) code_simp

section \<open>The unit tests\<close>

text \<open>A limiter of the test over a store that has a time or none.\<close>

definition table_state :: "int option \<Rightarrow> test_limiter \<Rightarrow> bool" where
  "table_state m rl \<longleftrightarrow> emission_interval rl = 10 ^ 9 \<and> delay_variation_tolerance rl = 5 * 10 ^ 9 \<and>
     limiter_limit rl = 5 \<and> test_working (store rl) ''foo'' \<and>
     test_view (store rl) ''foo'' = map_option word_of_int m"

text \<open>The table on integers: what the algorithm decides, with times counted from the test's start.\<close>

fun gcra_passes :: "int option \<Rightarrow> rate_limit_case list \<Rightarrow> bool" where
  "gcra_passes m [] = True"
| "gcra_passes m (c # cs) =
     (let now = case_now c; tat = (case m of None \<Rightarrow> now | Some t \<Rightarrow> t);
          d = gcra 5000000000 (1000000000 * sint (case_volume c)) tat now; ttl = gcra_ttl d tat now
      in 0 \<le> now \<and> now < 2 ^ 60 \<and> 0 \<le> tat \<and> tat < 2 ^ 60 \<and> \<bar>sint (case_volume c)\<bar> \<le> 2 ^ 31 \<and>
         (case d of Blocked w \<Rightarrow> True | Allowed n \<Rightarrow> now \<le> n) \<and>
         case_limited c = (case d of Blocked w \<Rightarrow> True | Allowed n \<Rightarrow> False) \<and>
         sint (case_remaining c) = gcra_remaining 1000000000 5000000000 ttl \<and>
         case_reset_after c = ttl \<and> case_retry_after c = gcra_retry d \<and>
         gcra_passes (case d of Blocked w \<Rightarrow> m | Allowed n \<Rightarrow> Some n) cs)"

definition later :: "int \<Rightarrow> rate_limit_case \<Rightarrow> rate_limit_case" where
  "later k c = c\<lparr>case_now := case_now c + k\<rparr>"

lemma later_simps [simp]:
  "case_now (later k c) = case_now c + k" "case_volume (later k c) = case_volume c"
  by (simp_all add: later_def)

lemma case_passes_later [simp]: "case_passes lmt (later k c) r = case_passes lmt c r"
  by (simp add: later_def case_passes_def)

lemma gcra_later: "gcra tau inc (tat + k) (now + k) =
    (case gcra tau inc tat now of Blocked w \<Rightarrow> Blocked w | Allowed n \<Rightarrow> Allowed (n + k))"
  by (auto simp: gcra_def Let_def max_def)

lemma run_cases_gcra:
  assumes "gcra_passes m cs" and "table_state (map_option ((+) k) m) rl" and "0 \<le> k" "k < 2 ^ 61"
  shows "run_cases 5 (map (later k) cs) rl"
  using assms(1,2)
proof (induction cs arbitrary: m rl)
  case (Cons c cs)
  let ?now = "case_now c" and ?q = "case_volume c"
  let ?rl = "set_clock (?now + k) rl" and ?tat = "case m of None \<Rightarrow> case_now c | Some t \<Rightarrow> t"
  let ?d = "gcra 5000000000 (1000000000 * sint ?q) ?tat ?now"
  let ?e = "case ?d of Blocked w \<Rightarrow> Blocked w | Allowed n \<Rightarrow> Allowed (n + k)"
  have p: "0 \<le> ?now" "?now < 2 ^ 60" "0 \<le> ?tat" "?tat < 2 ^ 60" "\<bar>sint ?q\<bar> \<le> 2 ^ 31"
      "case ?d of Blocked w \<Rightarrow> True | Allowed n \<Rightarrow> ?now \<le> n"
      "case_limited c = (case ?d of Blocked w \<Rightarrow> True | Allowed n \<Rightarrow> False)"
      "sint (case_remaining c) = gcra_remaining 1000000000 5000000000 (gcra_ttl ?d ?tat ?now)"
      "case_reset_after c = gcra_ttl ?d ?tat ?now" "case_retry_after c = gcra_retry ?d"
      "gcra_passes (case ?d of Blocked w \<Rightarrow> m | Allowed n \<Rightarrow> Some n) cs"
    using Cons.prems(1) unfolding gcra_passes.simps Let_def by blast+
  have rl: "emission_interval ?rl = 1000000000" "delay_variation_tolerance ?rl = 5000000000" "limiter_limit ?rl = 5"
    "test_working (store ?rl) ''foo''" "test_view (store ?rl) ''foo'' = map_option (\<lambda>t. word_of_int (k + t)) m"
    "test_clock (store ?rl) = ?now + k"
    using Cons.prems(2)
    by (simp_all add: table_state_def set_clock_def test_working_def test_view_def test_clock_def option.map_comp comp_def)
  have stored: "uint (word_of_int (k + t) :: u64) = k + t" if "0 \<le> t" "t < 2 ^ 60" for t
    using that assms(3,4) by (subst uint_word_of_int_eq, intro take_bit_int_eq_self) simp_all
  have tat: "stored_tat (test_view (store ?rl) ''foo'') (?now + k) = ?tat + k"
    using p(3,4) stored unfolding rl(5) by (cases m) (simp_all add: stored_tat_def del: wi_hom_syms of_int_add)
  have bounds: "gcra_bounds 1000000000 5000000000 (1000000000 * sint ?q) (?tat + k) (?now + k)"
    using p(1-5) assms(3,4) by (simp add: gcra_bounds_def abs_mult)
  have min: "0 \<le> n - (?now + k)" if "?e = Allowed n" for n
    using that p(6) by (simp split: gcra_decision.splits)
  obtain limited res s' where run: "rate_limit ns_time (test_ops (still_world 0)) ''foo'' ?q ?rl = (Ok (limited, res), ?rl\<lparr>store := s'\<rparr>)"
    and rep: "reports ns_time 5 1000000000 5000000000 ?e (?tat + k) (?now + k) limited res"
    and s': "test_working s' ''foo''" "test_view s' = (test_view (store ?rl))(''foo'' := gcra_write ?e (test_view (store ?rl) ''foo''))"
    using test_limiter.rate_limit_call [OF rl(4) _ _ _ tat bounds gcra_later min, of "still_world 0"] rl by auto
  have "sint (remaining res) = gcra_remaining 1000000000 5000000000 (gcra_ttl ?d ?tat ?now)"
    using rep by (simp add: reports_def gcra_ttl_def split: gcra_decision.splits)
  then have "case_remaining c = remaining res" using p(8) by (metis as_i64_sint)
  then have "case_passes 5 c (limited, res)"
    using rep p(7,9,10) by (simp add: reports_def case_passes_def gcra_ttl_def gcra_retry_def split: gcra_decision.splits)
  moreover have "table_state (map_option ((+) k) (case ?d of Blocked w \<Rightarrow> m | Allowed n \<Rightarrow> Some n)) (?rl\<lparr>store := s'\<rparr>)"
    using rl s' by (auto simp: table_state_def gcra_write_def add.commute option.map_comp comp_def split: gcra_decision.split)
  ultimately show ?case using Cons.IH [OF p(11)] run by simp
qed simp

lemma table_from_0: "it_rate_limits_cases start = map (later start) (it_rate_limits_cases 0)"
  by (simp add: it_rate_limits_cases_def rate_limit_case_new_def later_def add.commute)

lemma gcra_table: "gcra_passes None (it_rate_limits_cases 0)"
  by code_simp

text \<open>C38: The table test of the limiter passes at whatever time it is started (until the year 2043): its
  fifteen calls on one limiter, of five requests at once and one a second, are each answered as the
  table says, in decision, limit, remaining quantity and both times.\<close>

theorem table_test_passes:
  assumes "0 \<le> start" and "start < 2 ^ 61"
  shows "it_rate_limits start"
proof -
  have "table_state None (it_rate_limits_limiter start)"
    by (simp add: table_state_def it_rate_limits_simps test_working_def test_view_def memory_store_new_verbose_def)
  then show ?thesis
    unfolding it_rate_limits_def table_from_0 [of start]
    by (intro run_cases_gcra [OF gcra_table _ assms]) simp
qed

lemma table_test_passes_witness: "it_rate_limits 1600000000123456789"
  by (rule table_test_passes) simp_all

text \<open>The other unit tests are about fixed values.\<close>

lemma unit_tests:
  "it_creates_rates_from_days \<and> it_creates_rates_from_hours \<and> it_creates_rates_from_minutes \<and>
   it_creates_rates_from_periods \<and> it_creates_rates_from_seconds \<and> it_supports_zero_rates \<and>
   it_round_trips_nanoseconds 1600000000000000000 \<and> it_does_not_support_zero_rates \<and>
   it_handles_rate_limit_update_failures \<and>
   it_performs_compare_and_swap_with_ttl \<and> it_performs_get_with_time \<and>
   it_performs_set_if_not_exists_with_ttl"
  by (intro conjI) code_simp+

end
