(* ===== verification/Raw_Api.thy ===== *)
theory Raw_Api
  imports Cell_Prelude
begin

unbundle bit_operations_syntax

text \<open>
  \<^verbatim>\<open>src/redis/raw.rs\<close>: the types shared with C, the functions of the server that the
  module links to, once under the names of Redis and once under those of Valkey, and the thin
  wrappers that the rest of the crate calls. The functions are the server's, so they are fields of
  a record over the server's state \<open>'h\<close>.
\<close>

section \<open>Types shared with C\<close>

text \<open>
  Pointers to the server's objects are addresses, 0 the null pointer. A pointer to bytes that the
  module reads is the bytes by offset. A string passed to C is the bytes the pointer leads to.
\<close>

type_synonym ptr = int
type_synonym byte_ptr = "nat \<Rightarrow> char"
type_synonym size_t = nat
type_synonym key_mode = c_int

definition null_ptr :: ptr where
  "null_ptr = 0"

definition redismodule_apiver_1 :: c_int where
  "redismodule_apiver_1 = 1"

definition key_mode_read :: key_mode where
  "key_mode_read = 1"

definition key_mode_write :: key_mode where
  "key_mode_write = push_bit 1 1"

datatype status = Status_Ok | Status_Err

datatype reply_type =
  Reply_Type_Unknown | Reply_Type_String | Reply_Type_Error | Reply_Type_Integer
| Reply_Type_Array | Reply_Type_Nil

text \<open>The discriminants, which C sees.\<close>

fun status_code :: "status \<Rightarrow> int" where
  "status_code Status_Ok = 0"
| "status_code Status_Err = 1"

fun reply_type_code :: "reply_type \<Rightarrow> int" where
  "reply_type_code Reply_Type_Unknown = - 1"
| "reply_type_code Reply_Type_String = 0"
| "reply_type_code Reply_Type_Error = 1"
| "reply_type_code Reply_Type_Integer = 2"
| "reply_type_code Reply_Type_Array = 3"
| "reply_type_code Reply_Type_Nil = 4"

text \<open>A command gets its context and arguments; \<open>None\<close> is a panic, which aborts the process.\<close>

type_synonym 'h cmd_func = "ptr \<Rightarrow> (nat \<Rightarrow> ptr) \<Rightarrow> c_int \<Rightarrow> 'h \<Rightarrow> status option \<times> 'h"

section \<open>The server's functions\<close>

record 'h redis_statics =
  Export_RedisModule_Init :: "ptr \<Rightarrow> string \<Rightarrow> c_int \<Rightarrow> c_int \<Rightarrow> 'h \<Rightarrow> status \<times> 'h"
  RedisModule_Call :: "ptr \<Rightarrow> string \<Rightarrow> string \<Rightarrow> ptr list \<Rightarrow> 'h \<Rightarrow> ptr \<times> 'h"
  RedisModule_CallReplyInteger :: "ptr \<Rightarrow> 'h \<Rightarrow> i64 \<times> 'h"
  RedisModule_CallReplyStringPtr :: "ptr \<Rightarrow> size_t \<Rightarrow> 'h \<Rightarrow> (byte_ptr \<times> size_t) \<times> 'h"
  RedisModule_CallReplyType :: "ptr \<Rightarrow> 'h \<Rightarrow> reply_type \<times> 'h"
  RedisModule_CloseKey :: "ptr \<Rightarrow> 'h \<Rightarrow> 'h"
  RedisModule_CreateCommand :: "ptr \<Rightarrow> string \<Rightarrow> 'h cmd_func option \<Rightarrow> string \<Rightarrow> c_int \<Rightarrow> c_int \<Rightarrow> c_int
    \<Rightarrow> 'h \<Rightarrow> status \<times> 'h"
  RedisModule_CreateString :: "ptr \<Rightarrow> string \<Rightarrow> size_t \<Rightarrow> 'h \<Rightarrow> ptr \<times> 'h"
  RedisModule_FreeCallReply :: "ptr \<Rightarrow> 'h \<Rightarrow> 'h"
  RedisModule_FreeString :: "ptr \<Rightarrow> ptr \<Rightarrow> 'h \<Rightarrow> 'h"
  RedisModule_GetSelectedDb :: "ptr \<Rightarrow> 'h \<Rightarrow> c_int \<times> 'h"
  RedisModule_Log :: "ptr \<Rightarrow> string \<Rightarrow> string \<Rightarrow> 'h \<Rightarrow> 'h"
  RedisModule_OpenKey :: "ptr \<Rightarrow> ptr \<Rightarrow> key_mode \<Rightarrow> 'h \<Rightarrow> ptr \<times> 'h"
  RedisModule_ReplicateVerbatim :: "ptr \<Rightarrow> 'h \<Rightarrow> status \<times> 'h"
  RedisModule_ReplyWithArray :: "ptr \<Rightarrow> i64 \<Rightarrow> 'h \<Rightarrow> status \<times> 'h"
  RedisModule_ReplyWithError :: "ptr \<Rightarrow> string \<Rightarrow> 'h \<Rightarrow> 'h"
  RedisModule_ReplyWithLongLong :: "ptr \<Rightarrow> i64 \<Rightarrow> 'h \<Rightarrow> status \<times> 'h"
  RedisModule_ReplyWithString :: "ptr \<Rightarrow> ptr \<Rightarrow> 'h \<Rightarrow> status \<times> 'h"
  RedisModule_SetExpire :: "ptr \<Rightarrow> i64 \<Rightarrow> 'h \<Rightarrow> status \<times> 'h"
  RedisModule_StringDMA :: "ptr \<Rightarrow> size_t \<Rightarrow> key_mode \<Rightarrow> 'h \<Rightarrow> (byte_ptr \<times> size_t) \<times> 'h"
  RedisModule_StringPtrLen :: "ptr \<Rightarrow> size_t \<Rightarrow> 'h \<Rightarrow> (byte_ptr \<times> size_t) \<times> 'h"
  RedisModule_StringSet :: "ptr \<Rightarrow> ptr \<Rightarrow> 'h \<Rightarrow> status \<times> 'h"

record 'h valkey_statics =
  Export_ValkeyModule_Init :: "ptr \<Rightarrow> string \<Rightarrow> c_int \<Rightarrow> c_int \<Rightarrow> 'h \<Rightarrow> status \<times> 'h"
  ValkeyModule_Call :: "ptr \<Rightarrow> string \<Rightarrow> string \<Rightarrow> ptr list \<Rightarrow> 'h \<Rightarrow> ptr \<times> 'h"
  ValkeyModule_CallReplyInteger :: "ptr \<Rightarrow> 'h \<Rightarrow> i64 \<times> 'h"
  ValkeyModule_CallReplyStringPtr :: "ptr \<Rightarrow> size_t \<Rightarrow> 'h \<Rightarrow> (byte_ptr \<times> size_t) \<times> 'h"
  ValkeyModule_CallReplyType :: "ptr \<Rightarrow> 'h \<Rightarrow> reply_type \<times> 'h"
  ValkeyModule_CloseKey :: "ptr \<Rightarrow> 'h \<Rightarrow> 'h"
  ValkeyModule_CreateCommand :: "ptr \<Rightarrow> string \<Rightarrow> 'h cmd_func option \<Rightarrow> string \<Rightarrow> c_int \<Rightarrow> c_int \<Rightarrow> c_int
    \<Rightarrow> 'h \<Rightarrow> status \<times> 'h"
  ValkeyModule_CreateString :: "ptr \<Rightarrow> string \<Rightarrow> size_t \<Rightarrow> 'h \<Rightarrow> ptr \<times> 'h"
  ValkeyModule_FreeCallReply :: "ptr \<Rightarrow> 'h \<Rightarrow> 'h"
  ValkeyModule_FreeString :: "ptr \<Rightarrow> ptr \<Rightarrow> 'h \<Rightarrow> 'h"
  ValkeyModule_GetSelectedDb :: "ptr \<Rightarrow> 'h \<Rightarrow> c_int \<times> 'h"
  ValkeyModule_Log :: "ptr \<Rightarrow> string \<Rightarrow> string \<Rightarrow> 'h \<Rightarrow> 'h"
  ValkeyModule_OpenKey :: "ptr \<Rightarrow> ptr \<Rightarrow> key_mode \<Rightarrow> 'h \<Rightarrow> ptr \<times> 'h"
  ValkeyModule_ReplicateVerbatim :: "ptr \<Rightarrow> 'h \<Rightarrow> status \<times> 'h"
  ValkeyModule_ReplyWithArray :: "ptr \<Rightarrow> i64 \<Rightarrow> 'h \<Rightarrow> status \<times> 'h"
  ValkeyModule_ReplyWithError :: "ptr \<Rightarrow> string \<Rightarrow> 'h \<Rightarrow> 'h"
  ValkeyModule_ReplyWithLongLong :: "ptr \<Rightarrow> i64 \<Rightarrow> 'h \<Rightarrow> status \<times> 'h"
  ValkeyModule_ReplyWithString :: "ptr \<Rightarrow> ptr \<Rightarrow> 'h \<Rightarrow> status \<times> 'h"
  ValkeyModule_SetExpire :: "ptr \<Rightarrow> i64 \<Rightarrow> 'h \<Rightarrow> status \<times> 'h"
  ValkeyModule_StringDMA :: "ptr \<Rightarrow> size_t \<Rightarrow> key_mode \<Rightarrow> 'h \<Rightarrow> (byte_ptr \<times> size_t) \<times> 'h"
  ValkeyModule_StringPtrLen :: "ptr \<Rightarrow> size_t \<Rightarrow> 'h \<Rightarrow> (byte_ptr \<times> size_t) \<times> 'h"
  ValkeyModule_StringSet :: "ptr \<Rightarrow> ptr \<Rightarrow> 'h \<Rightarrow> status \<times> 'h"

section \<open>The wrappers\<close>

text \<open>What \<open>raw\<close> offers to the crate; the variadic call is there for one, two and three arguments.\<close>

record 'h raw =
  raw_init :: "ptr \<Rightarrow> string \<Rightarrow> c_int \<Rightarrow> c_int \<Rightarrow> 'h \<Rightarrow> status \<times> 'h"
  raw_call_reply_type :: "ptr \<Rightarrow> 'h \<Rightarrow> reply_type \<times> 'h"
  raw_free_call_reply :: "ptr \<Rightarrow> 'h \<Rightarrow> 'h"
  raw_call_reply_integer :: "ptr \<Rightarrow> 'h \<Rightarrow> i64 \<times> 'h"
  raw_call_reply_string_ptr :: "ptr \<Rightarrow> size_t \<Rightarrow> 'h \<Rightarrow> (byte_ptr \<times> size_t) \<times> 'h"
  raw_close_key :: "ptr \<Rightarrow> 'h \<Rightarrow> 'h"
  raw_create_command :: "ptr \<Rightarrow> string \<Rightarrow> 'h cmd_func option \<Rightarrow> string \<Rightarrow> c_int \<Rightarrow> c_int \<Rightarrow> c_int
    \<Rightarrow> 'h \<Rightarrow> status \<times> 'h"
  raw_create_string :: "ptr \<Rightarrow> string \<Rightarrow> size_t \<Rightarrow> 'h \<Rightarrow> ptr \<times> 'h"
  raw_free_string :: "ptr \<Rightarrow> ptr \<Rightarrow> 'h \<Rightarrow> 'h"
  raw_get_selected_db :: "ptr \<Rightarrow> 'h \<Rightarrow> c_int \<times> 'h"
  raw_log :: "ptr \<Rightarrow> string \<Rightarrow> string \<Rightarrow> 'h \<Rightarrow> 'h"
  raw_open_key :: "ptr \<Rightarrow> ptr \<Rightarrow> key_mode \<Rightarrow> 'h \<Rightarrow> ptr \<times> 'h"
  raw_replicate_verbatim :: "ptr \<Rightarrow> 'h \<Rightarrow> status \<times> 'h"
  raw_reply_with_array :: "ptr \<Rightarrow> i64 \<Rightarrow> 'h \<Rightarrow> status \<times> 'h"
  raw_reply_with_error :: "ptr \<Rightarrow> string \<Rightarrow> 'h \<Rightarrow> 'h"
  raw_reply_with_long_long :: "ptr \<Rightarrow> i64 \<Rightarrow> 'h \<Rightarrow> status \<times> 'h"
  raw_reply_with_string :: "ptr \<Rightarrow> ptr \<Rightarrow> 'h \<Rightarrow> status \<times> 'h"
  raw_set_expire :: "ptr \<Rightarrow> i64 \<Rightarrow> 'h \<Rightarrow> status \<times> 'h"
  raw_string_dma :: "ptr \<Rightarrow> size_t \<Rightarrow> key_mode \<Rightarrow> 'h \<Rightarrow> (byte_ptr \<times> size_t) \<times> 'h"
  raw_string_ptr_len :: "ptr \<Rightarrow> size_t \<Rightarrow> 'h \<Rightarrow> (byte_ptr \<times> size_t) \<times> 'h"
  raw_string_set :: "ptr \<Rightarrow> ptr \<Rightarrow> 'h \<Rightarrow> status \<times> 'h"
  raw_call1 :: "ptr \<Rightarrow> string \<Rightarrow> string \<Rightarrow> ptr \<Rightarrow> 'h \<Rightarrow> ptr \<times> 'h"
  raw_call2 :: "ptr \<Rightarrow> string \<Rightarrow> string \<Rightarrow> ptr \<Rightarrow> ptr \<Rightarrow> 'h \<Rightarrow> ptr \<times> 'h"
  raw_call3 :: "ptr \<Rightarrow> string \<Rightarrow> string \<Rightarrow> ptr \<Rightarrow> ptr \<Rightarrow> ptr \<Rightarrow> 'h \<Rightarrow> ptr \<times> 'h"

definition redis_call1 ::
    "'h redis_statics \<Rightarrow> ptr \<Rightarrow> string \<Rightarrow> string \<Rightarrow> ptr \<Rightarrow> 'h \<Rightarrow> ptr \<times> 'h" where
  "redis_call1 st ctx cmdname fmt arg0 = RedisModule_Call st ctx cmdname fmt [arg0]"

definition redis_call2 ::
    "'h redis_statics \<Rightarrow> ptr \<Rightarrow> string \<Rightarrow> string \<Rightarrow> ptr \<Rightarrow> ptr \<Rightarrow> 'h \<Rightarrow> ptr \<times> 'h" where
  "redis_call2 st ctx cmdname fmt arg0 arg1 = RedisModule_Call st ctx cmdname fmt [arg0, arg1]"

definition redis_call3 ::
    "'h redis_statics \<Rightarrow> ptr \<Rightarrow> string \<Rightarrow> string \<Rightarrow> ptr \<Rightarrow> ptr \<Rightarrow> ptr \<Rightarrow> 'h \<Rightarrow> ptr \<times> 'h" where
  "redis_call3 st ctx cmdname fmt arg0 arg1 arg2 = RedisModule_Call st ctx cmdname fmt [arg0, arg1, arg2]"

definition redis_inner :: "'h redis_statics \<Rightarrow> 'h raw" where
  "redis_inner st = \<lparr>
     raw_init = (\<lambda>ctx modulename module_version api_version. Export_RedisModule_Init st ctx modulename module_version api_version),
     raw_call_reply_type = (\<lambda>rp. RedisModule_CallReplyType st rp),
     raw_free_call_reply = (\<lambda>rp. RedisModule_FreeCallReply st rp),
     raw_call_reply_integer = (\<lambda>rp. RedisModule_CallReplyInteger st rp),
     raw_call_reply_string_ptr = (\<lambda>s n. RedisModule_CallReplyStringPtr st s n),
     raw_close_key = (\<lambda>kp. RedisModule_CloseKey st kp),
     raw_create_command = (\<lambda>ctx nm cmdfunc strflags firstkey lastkey keystep. RedisModule_CreateCommand st ctx nm cmdfunc strflags firstkey lastkey keystep),
     raw_create_string = (\<lambda>ctx p n. RedisModule_CreateString st ctx p n),
     raw_free_string = (\<lambda>ctx s. RedisModule_FreeString st ctx s),
     raw_get_selected_db = (\<lambda>ctx. RedisModule_GetSelectedDb st ctx),
     raw_log = (\<lambda>ctx level fmt. RedisModule_Log st ctx level fmt),
     raw_open_key = (\<lambda>ctx keyname m. RedisModule_OpenKey st ctx keyname m),
     raw_replicate_verbatim = (\<lambda>ctx. RedisModule_ReplicateVerbatim st ctx),
     raw_reply_with_array = (\<lambda>ctx n. RedisModule_ReplyWithArray st ctx n),
     raw_reply_with_error = (\<lambda>ctx e. RedisModule_ReplyWithError st ctx e),
     raw_reply_with_long_long = (\<lambda>ctx ll. RedisModule_ReplyWithLongLong st ctx ll),
     raw_reply_with_string = (\<lambda>ctx s. RedisModule_ReplyWithString st ctx s),
     raw_set_expire = (\<lambda>kp expire. RedisModule_SetExpire st kp expire),
     raw_string_dma = (\<lambda>kp n m. RedisModule_StringDMA st kp n m),
     raw_string_ptr_len = (\<lambda>s n. RedisModule_StringPtrLen st s n),
     raw_string_set = (\<lambda>kp s. RedisModule_StringSet st kp s),
     raw_call1 = redis_call1 st,
     raw_call2 = redis_call2 st,
     raw_call3 = redis_call3 st\<rparr>"

definition valkey_call1 ::
    "'h valkey_statics \<Rightarrow> ptr \<Rightarrow> string \<Rightarrow> string \<Rightarrow> ptr \<Rightarrow> 'h \<Rightarrow> ptr \<times> 'h" where
  "valkey_call1 st ctx cmdname fmt arg0 = ValkeyModule_Call st ctx cmdname fmt [arg0]"

definition valkey_call2 ::
    "'h valkey_statics \<Rightarrow> ptr \<Rightarrow> string \<Rightarrow> string \<Rightarrow> ptr \<Rightarrow> ptr \<Rightarrow> 'h \<Rightarrow> ptr \<times> 'h" where
  "valkey_call2 st ctx cmdname fmt arg0 arg1 = ValkeyModule_Call st ctx cmdname fmt [arg0, arg1]"

definition valkey_call3 ::
    "'h valkey_statics \<Rightarrow> ptr \<Rightarrow> string \<Rightarrow> string \<Rightarrow> ptr \<Rightarrow> ptr \<Rightarrow> ptr \<Rightarrow> 'h \<Rightarrow> ptr \<times> 'h" where
  "valkey_call3 st ctx cmdname fmt arg0 arg1 arg2 = ValkeyModule_Call st ctx cmdname fmt [arg0, arg1, arg2]"

definition valkey_inner :: "'h valkey_statics \<Rightarrow> 'h raw" where
  "valkey_inner st = \<lparr>
     raw_init = (\<lambda>ctx modulename module_version api_version. Export_ValkeyModule_Init st ctx modulename module_version api_version),
     raw_call_reply_type = (\<lambda>rp. ValkeyModule_CallReplyType st rp),
     raw_free_call_reply = (\<lambda>rp. ValkeyModule_FreeCallReply st rp),
     raw_call_reply_integer = (\<lambda>rp. ValkeyModule_CallReplyInteger st rp),
     raw_call_reply_string_ptr = (\<lambda>s n. ValkeyModule_CallReplyStringPtr st s n),
     raw_close_key = (\<lambda>kp. ValkeyModule_CloseKey st kp),
     raw_create_command = (\<lambda>ctx nm cmdfunc strflags firstkey lastkey keystep. ValkeyModule_CreateCommand st ctx nm cmdfunc strflags firstkey lastkey keystep),
     raw_create_string = (\<lambda>ctx p n. ValkeyModule_CreateString st ctx p n),
     raw_free_string = (\<lambda>ctx s. ValkeyModule_FreeString st ctx s),
     raw_get_selected_db = (\<lambda>ctx. ValkeyModule_GetSelectedDb st ctx),
     raw_log = (\<lambda>ctx level fmt. ValkeyModule_Log st ctx level fmt),
     raw_open_key = (\<lambda>ctx keyname m. ValkeyModule_OpenKey st ctx keyname m),
     raw_replicate_verbatim = (\<lambda>ctx. ValkeyModule_ReplicateVerbatim st ctx),
     raw_reply_with_array = (\<lambda>ctx n. ValkeyModule_ReplyWithArray st ctx n),
     raw_reply_with_error = (\<lambda>ctx e. ValkeyModule_ReplyWithError st ctx e),
     raw_reply_with_long_long = (\<lambda>ctx ll. ValkeyModule_ReplyWithLongLong st ctx ll),
     raw_reply_with_string = (\<lambda>ctx s. ValkeyModule_ReplyWithString st ctx s),
     raw_set_expire = (\<lambda>kp expire. ValkeyModule_SetExpire st kp expire),
     raw_string_dma = (\<lambda>kp n m. ValkeyModule_StringDMA st kp n m),
     raw_string_ptr_len = (\<lambda>s n. ValkeyModule_StringPtrLen st s n),
     raw_string_set = (\<lambda>kp s. ValkeyModule_StringSet st kp s),
     raw_call1 = valkey_call1 st,
     raw_call2 = valkey_call2 st,
     raw_call3 = valkey_call3 st\<rparr>"

text \<open>\<open>pub use inner::*\<close>: the feature \<open>valkey\<close> chooses which of the two is compiled in.\<close>

definition inner_raw :: "bool \<Rightarrow> 'h redis_statics \<Rightarrow> 'h valkey_statics \<Rightarrow> 'h raw" where
  "inner_raw valkey rs vs = (if valkey then valkey_inner vs else redis_inner rs)"

text \<open>The same server under either set of names.\<close>

definition valkey_names :: "'h redis_statics \<Rightarrow> 'h valkey_statics" where
  "valkey_names st = \<lparr>
     Export_ValkeyModule_Init = Export_RedisModule_Init st,
     ValkeyModule_Call = RedisModule_Call st,
     ValkeyModule_CallReplyInteger = RedisModule_CallReplyInteger st,
     ValkeyModule_CallReplyStringPtr = RedisModule_CallReplyStringPtr st,
     ValkeyModule_CallReplyType = RedisModule_CallReplyType st,
     ValkeyModule_CloseKey = RedisModule_CloseKey st,
     ValkeyModule_CreateCommand = RedisModule_CreateCommand st,
     ValkeyModule_CreateString = RedisModule_CreateString st,
     ValkeyModule_FreeCallReply = RedisModule_FreeCallReply st,
     ValkeyModule_FreeString = RedisModule_FreeString st,
     ValkeyModule_GetSelectedDb = RedisModule_GetSelectedDb st,
     ValkeyModule_Log = RedisModule_Log st,
     ValkeyModule_OpenKey = RedisModule_OpenKey st,
     ValkeyModule_ReplicateVerbatim = RedisModule_ReplicateVerbatim st,
     ValkeyModule_ReplyWithArray = RedisModule_ReplyWithArray st,
     ValkeyModule_ReplyWithError = RedisModule_ReplyWithError st,
     ValkeyModule_ReplyWithLongLong = RedisModule_ReplyWithLongLong st,
     ValkeyModule_ReplyWithString = RedisModule_ReplyWithString st,
     ValkeyModule_SetExpire = RedisModule_SetExpire st,
     ValkeyModule_StringDMA = RedisModule_StringDMA st,
     ValkeyModule_StringPtrLen = RedisModule_StringPtrLen st,
     ValkeyModule_StringSet = RedisModule_StringSet st\<rparr>"

lemma inner_raw_feature: "inner_raw True rs (valkey_names rs) = inner_raw False rs vs"
  by (simp add: inner_raw_def redis_inner_def valkey_inner_def valkey_names_def fun_eq_iff
      redis_call1_def redis_call2_def redis_call3_def valkey_call1_def valkey_call2_def valkey_call3_def)

text \<open>The bits of the two access modes are apart.\<close>

lemma key_mode_bits: "key_mode_read AND key_mode_write = 0" "key_mode_read OR key_mode_write = 3"
  by (simp_all add: key_mode_read_def key_mode_write_def)

end
