(* ===== verification/Redis_Api.thy ===== *)
theory Redis_Api
  imports Raw_Api Cell_Error Time_Api
begin

text \<open>
  \<^verbatim>\<open>src/redis/mod.rs\<close>: the safe interface over the raw functions. Strings and keys
  are handles that their destructors give back on every way out of a scope, so a scope is a
  computation under \<open>io_drop\<close>.
\<close>

section \<open>Data\<close>

datatype log_level = Log_Debug | Log_Notice | Log_Verbose | Log_Warning

datatype reply =
  Reply_Array | Reply_Error | Reply_Integer i64 | Reply_Nil | Reply_String string | Reply_Unknown

datatype key_access = Access_Read | Access_Read_Write

definition to_raw_mode :: "key_access \<Rightarrow> key_mode" where
  "to_raw_mode m = (case m of
     Access_Read \<Rightarrow> key_mode_read | Access_Read_Write \<Rightarrow> key_mode_read OR key_mode_write)"

record redis =
  redis_ctx :: ptr

record redis_string =
  string_ctx :: ptr
  str_inner :: ptr

record redis_key =
  key_inner :: ptr

record redis_key_writable =
  writable_ctx :: ptr
  writable_inner :: ptr
  key_str :: redis_string

section \<open>Bytes and strings\<close>

definition from_byte_string :: "byte_ptr \<Rightarrow> size_t \<Rightarrow> utf8_error + string" where
  "from_byte_string bytes n = string_from_utf8 (map bytes [0..<n])"

definition read_key :: "'h raw \<Rightarrow> ptr \<Rightarrow> ('h, utf8_error, string) io" where
  "read_key raw key =
     io_bind (io_lift (raw_string_dma raw key 0 key_mode_read)) (\<lambda>(bytes, n).
     io_try id (from_byte_string bytes n))"

definition manifest_redis_string :: "'h raw \<Rightarrow> ptr \<Rightarrow> ('h, utf8_error, string) io" where
  "manifest_redis_string raw s =
     io_bind (io_lift (raw_string_ptr_len raw s 0)) (\<lambda>(bytes, n).
     io_try id (from_byte_string bytes n))"

fun manifest_redis_strings :: "'h raw \<Rightarrow> ptr list \<Rightarrow> ('h, utf8_error, string list) io" where
  "manifest_redis_strings raw [] = io_ret []"
| "manifest_redis_strings raw (s # ss) =
     io_bind (manifest_redis_string raw s) (\<lambda>arg.
     io_bind (manifest_redis_strings raw ss) (\<lambda>args. io_ret (arg # args)))"

text \<open>A negative count, cast to \<open>usize\<close>, is more than a vector can hold.\<close>

definition parse_args :: "'h raw \<Rightarrow> (nat \<Rightarrow> ptr) \<Rightarrow> c_int \<Rightarrow> ('h, utf8_error, string list) io" where
  "parse_args raw argv argc =
     (if sint argc < 0 then io_panic
      else manifest_redis_strings raw (map argv [0..<nat (sint argc)]))"

definition redis_string_create :: "'h raw \<Rightarrow> ptr \<Rightarrow> string \<Rightarrow> ('h, 'e, redis_string) io" where
  "redis_string_create raw ctx s =
     io_bind (io_lift (raw_create_string raw ctx (s @ [nul]) (length s))) (\<lambda>p.
     io_ret \<lparr>string_ctx = ctx, str_inner = p\<rparr>)"

definition redis_string_drop :: "'h raw \<Rightarrow> redis_string \<Rightarrow> 'h \<Rightarrow> 'h" where
  "redis_string_drop raw s = raw_free_string raw (string_ctx s) (str_inner s)"

text \<open>A statement's result as the \<open>Result\<close> of a reply or a replication.\<close>

definition handle_status :: "status \<Rightarrow> string \<Rightarrow> cell_error + unit" where
  "handle_status st msg = (case st of Status_Ok \<Rightarrow> Inr () | Status_Err \<Rightarrow> Inl (error_macro msg))"

section \<open>Keys\<close>

definition redis_key_open :: "'h raw \<Rightarrow> ptr \<Rightarrow> string \<Rightarrow> ('h, cell_error, redis_key) io" where
  "redis_key_open raw ctx key =
     io_bind (redis_string_create raw ctx key) (\<lambda>ks.
     io_drop
       (io_bind (io_lift (raw_open_key raw ctx (str_inner ks) (to_raw_mode Access_Read))) (\<lambda>p.
        io_ret \<lparr>key_inner = p\<rparr>))
       (redis_string_drop raw ks))"

definition redis_key_is_null :: "redis_key \<Rightarrow> bool" where
  "redis_key_is_null k \<longleftrightarrow> key_inner k = null_ptr"

definition redis_key_read :: "'h raw \<Rightarrow> redis_key \<Rightarrow> ('h, cell_error, string option) io" where
  "redis_key_read raw k =
     (if redis_key_is_null k then io_ret None
      else io_bind (io_map_err cell_error_from_utf8 (read_key raw (key_inner k))) (\<lambda>s. io_ret (Some s)))"

definition redis_key_drop :: "'h raw \<Rightarrow> redis_key \<Rightarrow> 'h \<Rightarrow> 'h" where
  "redis_key_drop raw k = raw_close_key raw (key_inner k)"

definition key_writable_open :: "'h raw \<Rightarrow> ptr \<Rightarrow> string \<Rightarrow> ('h, cell_error, redis_key_writable) io" where
  "key_writable_open raw ctx key =
     io_bind (redis_string_create raw ctx key) (\<lambda>ks.
     io_bind (io_lift (raw_open_key raw ctx (str_inner ks) (to_raw_mode Access_Read_Write))) (\<lambda>p.
     io_ret \<lparr>writable_ctx = ctx, writable_inner = p, key_str = ks\<rparr>))"

definition key_writable_read ::
    "'h raw \<Rightarrow> redis_key_writable \<Rightarrow> ('h, cell_error, string option) io" where
  "key_writable_read raw k =
     io_bind (io_map_err cell_error_from_utf8 (read_key raw (writable_inner k))) (\<lambda>s. io_ret (Some s))"

definition key_writable_is_empty :: "'h raw \<Rightarrow> redis_key_writable \<Rightarrow> ('h, cell_error, bool) io" where
  "key_writable_is_empty raw k =
     io_bind (key_writable_read raw k) (\<lambda>v. io_ret (case v of Some s \<Rightarrow> s = [] | None \<Rightarrow> False))"

definition key_writable_set_expire ::
    "'h raw \<Rightarrow> ('d, 't) time_crate \<Rightarrow> redis_key_writable \<Rightarrow> 'd \<Rightarrow> ('h, cell_error, unit) io" where
  "key_writable_set_expire raw tc k expire =
     io_bind (io_lift (raw_set_expire raw (writable_inner k) (as_i64 (whole_milliseconds tc expire)))) (\<lambda>st.
     case st of Status_Ok \<Rightarrow> io_ret ()
     | Status_Err \<Rightarrow> io_err (error_macro ''Error while setting key expire''))"

definition key_writable_write ::
    "'h raw \<Rightarrow> redis_key_writable \<Rightarrow> string \<Rightarrow> ('h, cell_error, unit) io" where
  "key_writable_write raw k val =
     io_bind (redis_string_create raw (writable_ctx k) val) (\<lambda>vs.
     io_drop
       (io_bind (io_lift (raw_string_set raw (writable_inner k) (str_inner vs))) (\<lambda>st.
        case st of Status_Ok \<Rightarrow> io_ret ()
        | Status_Err \<Rightarrow> io_err (error_macro ''Error while setting key'')))
       (redis_string_drop raw vs))"

text \<open>The value's own destructor runs before those of its fields.\<close>

definition key_writable_drop :: "'h raw \<Rightarrow> redis_key_writable \<Rightarrow> 'h \<Rightarrow> 'h" where
  "key_writable_drop raw k h = redis_string_drop raw (key_str k) (raw_close_key raw (writable_inner k) h)"

section \<open>The interface \<open>Redis\<close>\<close>

definition redis_create_string :: "'h raw \<Rightarrow> redis \<Rightarrow> string \<Rightarrow> ('h, 'e, redis_string) io" where
  "redis_create_string raw r s = redis_string_create raw (redis_ctx r) s"

definition redis_open_key :: "'h raw \<Rightarrow> redis \<Rightarrow> string \<Rightarrow> ('h, cell_error, redis_key) io" where
  "redis_open_key raw r key = redis_key_open raw (redis_ctx r) key"

definition redis_open_key_writable ::
    "'h raw \<Rightarrow> redis \<Rightarrow> string \<Rightarrow> ('h, cell_error, redis_key_writable) io" where
  "redis_open_key_writable raw r key = key_writable_open raw (redis_ctx r) key"

fun log_level_name :: "log_level \<Rightarrow> string" where
  "log_level_name Log_Debug = ''Debug''"
| "log_level_name Log_Notice = ''Notice''"
| "log_level_name Log_Verbose = ''Verbose''"
| "log_level_name Log_Warning = ''Warning''"

definition redis_log :: "'h raw \<Rightarrow> redis \<Rightarrow> log_level \<Rightarrow> string \<Rightarrow> 'h \<Rightarrow> 'h" where
  "redis_log raw r level msg =
     raw_log raw (redis_ctx r) (ascii_lower (log_level_name level @ [nul])) (msg @ [nul])"

definition redis_log_debug :: "'h raw \<Rightarrow> redis \<Rightarrow> string \<Rightarrow> 'h \<Rightarrow> 'h" where
  "redis_log_debug raw r msg = redis_log raw r Log_Notice msg"

definition redis_replicate_verbatim :: "'h raw \<Rightarrow> redis \<Rightarrow> ('h, cell_error, unit) io" where
  "redis_replicate_verbatim raw r =
     io_bind (io_lift (raw_replicate_verbatim raw (redis_ctx r))) (\<lambda>st.
     io_try id (handle_status st ''Could not replicate verbatim''))"

definition redis_reply_array :: "'h raw \<Rightarrow> redis \<Rightarrow> i64 \<Rightarrow> ('h, cell_error, unit) io" where
  "redis_reply_array raw r n =
     io_bind (io_lift (raw_reply_with_array raw (redis_ctx r) n)) (\<lambda>st.
     io_try id (handle_status st ''Could not reply with long''))"

definition redis_reply_integer :: "'h raw \<Rightarrow> redis \<Rightarrow> i64 \<Rightarrow> ('h, cell_error, unit) io" where
  "redis_reply_integer raw r n =
     io_bind (io_lift (raw_reply_with_long_long raw (redis_ctx r) n)) (\<lambda>st.
     io_try id (handle_status st ''Could not reply with longlong''))"

definition redis_reply_string :: "'h raw \<Rightarrow> redis \<Rightarrow> string \<Rightarrow> ('h, cell_error, unit) io" where
  "redis_reply_string raw r msg =
     io_bind (redis_create_string raw r msg) (\<lambda>s.
     io_drop
       (io_bind (io_lift (raw_reply_with_string raw (redis_ctx r) (str_inner s))) (\<lambda>st.
        io_try id (handle_status st ''Could not reply with string'')))
       (redis_string_drop raw s))"

section \<open>Calls of other commands\<close>

fun reply_type_debug :: "reply_type \<Rightarrow> string" where
  "reply_type_debug Reply_Type_Unknown = ''Unknown''"
| "reply_type_debug Reply_Type_String = ''String''"
| "reply_type_debug Reply_Type_Error = ''Error''"
| "reply_type_debug Reply_Type_Integer = ''Integer''"
| "reply_type_debug Reply_Type_Array = ''Array''"
| "reply_type_debug Reply_Type_Nil = ''Nil''"

definition manifest_redis_reply :: "'h raw \<Rightarrow> ptr \<Rightarrow> ('h, cell_error, reply) io" where
  "manifest_redis_reply raw rp =
     io_bind (io_lift (raw_call_reply_type raw rp)) (\<lambda>ty. case ty of
       Reply_Type_Integer \<Rightarrow>
         io_bind (io_lift (raw_call_reply_integer raw rp)) (\<lambda>n. io_ret (Reply_Integer n))
     | Reply_Type_Nil \<Rightarrow> io_ret Reply_Nil
     | Reply_Type_String \<Rightarrow>
         io_bind (io_lift (raw_call_reply_string_ptr raw rp 0)) (\<lambda>(bytes, n).
         io_try cell_error_from_utf8 (map_sum id Reply_String (from_byte_string bytes n)))
     | Reply_Type_Unknown \<Rightarrow> io_ret Reply_Unknown
     | Reply_Type_Error \<Rightarrow> io_err (error_macro ''Redis replied with an error.'')
     | other \<Rightarrow> io_err (error_macro (''Don't yet handle Redis type: '' @ reply_type_debug other)))"

fun create_strings :: "'h raw \<Rightarrow> redis \<Rightarrow> string list \<Rightarrow> ('h, 'e, redis_string list) io" where
  "create_strings raw r [] = io_ret []"
| "create_strings raw r (s # ss) =
     io_bind (redis_create_string raw r s) (\<lambda>x.
     io_bind (create_strings raw r ss) (\<lambda>xs. io_ret (x # xs)))"

definition call_with :: "'h raw \<Rightarrow> ptr \<Rightarrow> string \<Rightarrow> string \<Rightarrow> ptr list \<Rightarrow> ('h, cell_error, ptr) io" where
  "call_with raw ctx cmd fmt args = (case args of
       [a] \<Rightarrow> io_lift (raw_call1 raw ctx cmd fmt a)
     | [a, b] \<Rightarrow> io_lift (raw_call2 raw ctx cmd fmt a b)
     | [a, b, c] \<Rightarrow> io_lift (raw_call3 raw ctx cmd fmt a b c)
     | _ \<Rightarrow> io_err (error_macro ''Can't support that many CALL arguments''))"

definition redis_call :: "'h raw \<Rightarrow> redis \<Rightarrow> string \<Rightarrow> string list \<Rightarrow> ('h, cell_error, reply) io" where
  "redis_call raw r command args =
     (let format = replicate (length args) CHR ''s''; ctx = redis_ctx r
      in io_bind (create_strings raw r args) (\<lambda>terminated_args.
         io_drop
           (io_bind (call_with raw ctx (command @ [nul]) (format @ [nul]) (map str_inner terminated_args)) (\<lambda>raw_reply.
            io_bind (\<lambda>h. case manifest_redis_reply raw raw_reply h of
                (Panic, h') \<Rightarrow> (Panic, h') | (reply_res, h') \<Rightarrow> (Ok reply_res, h')) (\<lambda>reply_res.
            io_bind (io_lift (\<lambda>h. ((), raw_free_call_reply raw raw_reply h))) (\<lambda>_.
            io_bind (io_lift (raw_replicate_verbatim raw ctx)) (\<lambda>st. case st of
                Status_Err \<Rightarrow> io_err (error_macro ''Unexpected replication response'')
              | Status_Ok \<Rightarrow> (\<lambda>h. (reply_res, h)))))))
           (\<lambda>h. fold (redis_string_drop raw) terminated_args h)))"

definition coerce_integer :: "cell_error + reply \<Rightarrow> cell_error + reply" where
  "coerce_integer reply_res = (case reply_res of
     Inr (Reply_String s) \<Rightarrow>
       (case i64_from_str s of Inr n \<Rightarrow> Inr (Reply_Integer n) | Inl e \<Rightarrow> Inr (Reply_String s))
   | _ \<Rightarrow> reply_res)"

section \<open>Commands\<close>

record 'h command =
  command_name :: string
  command_run :: "redis \<Rightarrow> string list \<Rightarrow> ('h, cell_error, unit) io"
  command_str_flags :: string

definition harness ::
    "'h raw \<Rightarrow> 'h command \<Rightarrow> ptr \<Rightarrow> (nat \<Rightarrow> ptr) \<Rightarrow> c_int \<Rightarrow> ('h, cell_error, status) io" where
  "harness raw command ctx argv argc = (\<lambda>h.
     case parse_args raw argv argc h of
       (Ok args, h1) \<Rightarrow>
         (case command_run command \<lparr>redis_ctx = ctx\<rparr> args h1 of
            (Ok u, h2) \<Rightarrow> (Ok Status_Ok, h2)
          | (Err e, h2) \<Rightarrow>
              (Ok Status_Err,
               raw_reply_with_error raw ctx (''Cell error: '' @ display_cell_error e @ [nul]) h2)
          | (Panic, h2) \<Rightarrow> (Panic, h2))
     | (Err e, h1) \<Rightarrow> (Panic, h1)
     | (Panic, h1) \<Rightarrow> (Panic, h1))"

end
