(* ===== verification/Redis_Host.thy ===== *)
theory Redis_Host
  imports Redis_Api Store
begin

text \<open>
  What the module relies on of the server: the documented behaviour of the API functions it
  calls, on an abstract view of the server's state, and a small keyspace that has it.
\<close>

section \<open>The view\<close>

text \<open>
  Live strings and open keys by handle, the values by key, the times in milliseconds at which keys
  expire, the time from which the server counts a time to live (it stands still while a command
  runs), the reading of the clock that comes next, and what the running command has replied and
  replicated.
\<close>

datatype redis_value = String_Value string | Other_Value

datatype reply_event = Array_Reply i64 | Integer_Reply i64 | String_Reply string | Error_Reply string

text \<open>What a command that a module calls replies, as far as the module tells replies apart.\<close>

datatype call_reply =
  Call_Integer i64 | Call_String string | Call_Nil | Call_Array | Call_Error | Call_Unknown

fun call_reply_type :: "call_reply \<Rightarrow> reply_type" where
  "call_reply_type (Call_Integer n) = Reply_Type_Integer"
| "call_reply_type (Call_String s) = Reply_Type_String"
| "call_reply_type Call_Nil = Reply_Type_Nil"
| "call_reply_type Call_Array = Reply_Type_Array"
| "call_reply_type Call_Error = Reply_Type_Error"
| "call_reply_type Call_Unknown = Reply_Type_Unknown"

record 't host_view =
  hv_strings :: "ptr \<rightharpoonup> string"
  hv_keys :: "ptr \<rightharpoonup> string \<times> key_mode"
  hv_db :: "string \<rightharpoonup> redis_value"
  hv_expiry :: "string \<rightharpoonup> int"
  hv_mstime :: int
  hv_clock :: 't
  hv_replies :: "reply_event list"
  hv_replicated :: bool

text \<open>What \<open>StringDMA\<close> exposes when the length starts at 0.\<close>

fun dma_bytes :: "redis_value option \<Rightarrow> string" where
  "dma_bytes (Some (String_Value s)) = s"
| "dma_bytes (Some Other_Value) = []"
| "dma_bytes None = []"

definition writable :: "key_mode \<Rightarrow> bool" where
  "writable m \<longleftrightarrow> m AND key_mode_write \<noteq> 0"

lemma writable_simps [simp]:
  "writable (to_raw_mode Access_Read_Write)" "\<not> writable (to_raw_mode Access_Read)"
  by (simp_all add: writable_def to_raw_mode_def key_mode_read_def key_mode_write_def)

text \<open>The effects of a write, which makes a value that does not expire, and of a time to live.\<close>

definition put_value :: "string \<Rightarrow> string \<Rightarrow> 't host_view \<Rightarrow> 't host_view" where
  "put_value key s v = v\<lparr>hv_db := (hv_db v)(key \<mapsto> String_Value s), hv_expiry := (hv_expiry v)(key := None)\<rparr>"

definition put_expiry :: "string \<Rightarrow> i64 \<Rightarrow> 't host_view \<Rightarrow> 't host_view" where
  "put_expiry key ms v = v\<lparr>hv_expiry := (hv_expiry v)(key \<mapsto> hv_mstime v + sint ms)\<rparr>"

text \<open>A view in which a key is open to write, its name a live string.\<close>

definition opened :: "'t host_view \<Rightarrow> redis_key_writable \<Rightarrow> string \<Rightarrow> 't host_view" where
  "opened v k key = v\<lparr>hv_strings := (hv_strings v)(str_inner (key_str k) \<mapsto> key),
     hv_keys := (hv_keys v)(writable_inner k \<mapsto> (key, to_raw_mode Access_Read_Write))\<rparr>"

lemma opened_simps [simp]:
  "hv_db (opened v k key) = hv_db v" "hv_expiry (opened v k key) = hv_expiry v"
  "hv_mstime (opened v k key) = hv_mstime v"
  "hv_keys (opened v k key) (writable_inner k) = Some (key, to_raw_mode Access_Read_Write)"
  by (simp_all add: opened_def)

section \<open>The documented behaviour\<close>

locale redis_host =
  fixes raw :: "'h raw" and wd :: "('h, 't) world" and hv :: "'h \<Rightarrow> 't host_view"
  assumes create_string: "n \<le> length b \<Longrightarrow> \<exists>p h'. raw_create_string raw ctx b n h = (p, h') \<and>
      p \<noteq> null_ptr \<and> hv_strings (hv h) p = None \<and>
      hv h' = (hv h)\<lparr>hv_strings := (hv_strings (hv h))(p \<mapsto> take n b)\<rparr>"
    and free_string: "hv_strings (hv h) p \<noteq> None \<Longrightarrow>
      hv (raw_free_string raw ctx p h) = (hv h)\<lparr>hv_strings := (hv_strings (hv h))(p := None)\<rparr>"
    and string_ptr_len: "hv_strings (hv h) p = Some s \<Longrightarrow>
      \<exists>bytes k h'. raw_string_ptr_len raw p n h = ((bytes, k), h') \<and>
        map bytes [0..<k] = s \<and> hv h' = hv h"
    and open_missing: "hv_strings (hv h) p = Some name \<Longrightarrow> \<not> writable m \<Longrightarrow> hv_db (hv h) name = None \<Longrightarrow>
      \<exists>h'. raw_open_key raw ctx p m h = (null_ptr, h') \<and> hv h' = hv h"
    and open_key: "hv_strings (hv h) p = Some name \<Longrightarrow> writable m \<or> hv_db (hv h) name \<noteq> None \<Longrightarrow>
      \<exists>kp h'. raw_open_key raw ctx p m h = (kp, h') \<and> kp \<noteq> null_ptr \<and> hv_keys (hv h) kp = None \<and>
        hv h' = (hv h)\<lparr>hv_keys := (hv_keys (hv h))(kp \<mapsto> (name, m))\<rparr>"
    and close_null: "hv (raw_close_key raw null_ptr h) = hv h"
    and close_key: "hv_keys (hv h) kp \<noteq> None \<Longrightarrow>
      hv (raw_close_key raw kp h) = (hv h)\<lparr>hv_keys := (hv_keys (hv h))(kp := None)\<rparr>"
    and string_dma: "hv_keys (hv h) kp = Some (name, m) \<Longrightarrow>
      \<exists>bytes k h'. raw_string_dma raw kp 0 key_mode_read h = ((bytes, k), h') \<and>
        map bytes [0..<k] = dma_bytes (hv_db (hv h) name) \<and> hv h' = hv h"
    and string_set: "hv_keys (hv h) kp = Some (name, m) \<Longrightarrow> writable m \<Longrightarrow> hv_strings (hv h) p = Some v \<Longrightarrow>
      \<exists>h'. raw_string_set raw kp p h = (Status_Ok, h') \<and> hv h' = put_value name v (hv h)"
    and set_expire: "hv_keys (hv h) kp = Some (name, m) \<Longrightarrow> writable m \<Longrightarrow> hv_db (hv h) name \<noteq> None \<Longrightarrow>
      0 < sint ms \<Longrightarrow> \<exists>h'. raw_set_expire raw kp ms h = (Status_Ok, h') \<and> hv h' = put_expiry name ms (hv h)"
    and reply_array: "\<exists>h'. raw_reply_with_array raw ctx i h = (Status_Ok, h') \<and>
      hv h' = (hv h)\<lparr>hv_replies := hv_replies (hv h) @ [Array_Reply i]\<rparr>"
    and reply_long_long: "\<exists>h'. raw_reply_with_long_long raw ctx i h = (Status_Ok, h') \<and>
      hv h' = (hv h)\<lparr>hv_replies := hv_replies (hv h) @ [Integer_Reply i]\<rparr>"
    and reply_string: "hv_strings (hv h) p = Some s \<Longrightarrow>
      \<exists>h'. raw_reply_with_string raw ctx p h = (Status_Ok, h') \<and>
        hv h' = (hv h)\<lparr>hv_replies := hv_replies (hv h) @ [String_Reply s]\<rparr>"
    and reply_error: "hv (raw_reply_with_error raw ctx e h) =
      (hv h)\<lparr>hv_replies := hv_replies (hv h) @ [Error_Reply (c_str e)]\<rparr>"
    and replicate_verbatim: "\<exists>h'. raw_replicate_verbatim raw ctx h = (Status_Ok, h') \<and>
      hv h' = (hv h)\<lparr>hv_replicated := True\<rparr>"
    and now_utc: "\<exists>c h'. now_utc wd h = (hv_clock (hv h), h') \<and> hv h' = (hv h)\<lparr>hv_clock := c\<rparr>"
begin

text \<open>Strings: a created string holds its bytes until its destructor runs.\<close>

lemma string_create:
  "\<exists>rs h'. redis_string_create raw ctx s h = (Ok rs, h') \<and> string_ctx rs = ctx \<and>
    hv_strings (hv h) (str_inner rs) = None \<and>
    hv h' = (hv h)\<lparr>hv_strings := (hv_strings (hv h))(str_inner rs \<mapsto> s)\<rparr>"
proof -
  obtain p h' where "raw_create_string raw ctx (s @ [nul]) (length s) h = (p, h')"
    "hv_strings (hv h) p = None"
    "hv h' = (hv h)\<lparr>hv_strings := (hv_strings (hv h))(p \<mapsto> s)\<rparr>"
    using create_string [of "length s" "s @ [nul]" ctx h] by auto
  then show ?thesis by (simp add: redis_string_create_def io_simps)
qed

lemma string_drop:
  assumes "hv h' = v\<lparr>hv_strings := (hv_strings v)(str_inner rs \<mapsto> s)\<rparr>" and "hv_strings v (str_inner rs) = None"
  shows "hv (redis_string_drop raw rs h') = v"
  using free_string [of h' "str_inner rs"] assms
  by (simp add: redis_string_drop_def fun_upd_idem)

text \<open>Keys opened to read.\<close>

lemma key_open:
  "\<exists>k h'. redis_key_open raw ctx key h = (Ok k, h') \<and>
    (if hv_db (hv h) key = None then redis_key_is_null k \<and> hv h' = hv h
     else \<not> redis_key_is_null k \<and> hv_keys (hv h) (key_inner k) = None \<and>
       hv h' = (hv h)\<lparr>hv_keys := (hv_keys (hv h))(key_inner k \<mapsto> (key, to_raw_mode Access_Read))\<rparr>)"
proof -
  obtain rs h1 where rs: "(redis_string_create raw ctx key :: ('h, cell_error, redis_string) io) h = (Ok rs, h1)"
    "hv_strings (hv h) (str_inner rs) = None"
    and h1: "hv h1 = (hv h)\<lparr>hv_strings := (hv_strings (hv h))(str_inner rs \<mapsto> key)\<rparr>"
    using string_create by blast
  have s: "hv_strings (hv h1) (str_inner rs) = Some key" "hv_db (hv h1) = hv_db (hv h)"
    "hv_keys (hv h1) = hv_keys (hv h)"
    by (simp_all add: h1)
  show ?thesis
  proof (cases "hv_db (hv h) key = None")
    case True
    then obtain h2 where h2: "raw_open_key raw ctx (str_inner rs) (to_raw_mode Access_Read) h1 = (null_ptr, h2)"
      "hv h2 = hv h1"
      using open_missing [OF s(1), of "to_raw_mode Access_Read" ctx] s by auto
    then have "hv (redis_string_drop raw rs h2) = hv h" using h1 rs by (intro string_drop [where s = key]) simp_all
    then show ?thesis using True rs h2
      by (simp add: redis_key_open_def io_simps io_drop_def redis_key_is_null_def)
  next
    case False
    then obtain kp h2 where h2: "raw_open_key raw ctx (str_inner rs) (to_raw_mode Access_Read) h1 = (kp, h2)"
      "kp \<noteq> null_ptr" "hv_keys (hv h) kp = None"
      "hv h2 = (hv h1)\<lparr>hv_keys := (hv_keys (hv h))(kp \<mapsto> (key, to_raw_mode Access_Read))\<rparr>"
      using open_key [OF s(1), of "to_raw_mode Access_Read" ctx] s by auto
    let ?v = "(hv h)\<lparr>hv_keys := (hv_keys (hv h))(kp \<mapsto> (key, to_raw_mode Access_Read))\<rparr>"
    have "hv (redis_string_drop raw rs h2) = ?v"
      by (rule string_drop [where s = key]) (use h1 h2 rs in simp_all)
    then show ?thesis using False rs h2
      by (simp add: redis_key_open_def io_simps io_drop_def redis_key_is_null_def)
  qed
qed

lemma key_drop_null: "redis_key_is_null k \<Longrightarrow> hv (redis_key_drop raw k h) = hv h"
  using close_null by (simp add: redis_key_drop_def redis_key_is_null_def)

lemma key_drop:
  assumes "hv h' = v\<lparr>hv_keys := (hv_keys v)(key_inner k \<mapsto> e)\<rparr>" and "hv_keys v (key_inner k) = None"
  shows "hv (redis_key_drop raw k h') = v"
  using close_key [of h' "key_inner k"] assms by (simp add: redis_key_drop_def fun_upd_idem)

text \<open>Reading an open key, whichever way it was opened.\<close>

lemma read_open_key:
  assumes "hv_keys (hv h) kp = Some (name, m)"
  shows "\<exists>h'. hv h' = hv h \<and>
    read_key raw kp h = (case string_from_utf8 (dma_bytes (hv_db (hv h) name)) of
      Inl e \<Rightarrow> (Err e, h') | Inr s \<Rightarrow> (Ok s, h'))"
proof -
  obtain bytes k h' where "raw_string_dma raw kp 0 key_mode_read h = ((bytes, k), h')"
    "map bytes [0..<k] = dma_bytes (hv_db (hv h) name)" "hv h' = hv h"
    using string_dma [OF assms] by blast
  then show ?thesis
    by (auto simp: read_key_def from_byte_string_def io_simps split: sum.split intro!: exI [of _ h'])
qed

text \<open>Keys opened to write.\<close>

lemma writable_open:
  "\<exists>k h'. key_writable_open raw ctx key h = (Ok k, h') \<and>
    hv_strings (hv h) (str_inner (key_str k)) = None \<and> hv_keys (hv h) (writable_inner k) = None \<and>
    writable_ctx k = ctx \<and> hv h' = opened (hv h) k key"
proof -
  obtain rs h1 where rs: "(redis_string_create raw ctx key :: ('h, cell_error, redis_string) io) h = (Ok rs, h1)"
    "hv_strings (hv h) (str_inner rs) = None"
    and h1: "hv h1 = (hv h)\<lparr>hv_strings := (hv_strings (hv h))(str_inner rs \<mapsto> key)\<rparr>"
    using string_create by blast
  have s: "hv_strings (hv h1) (str_inner rs) = Some key" by (simp add: h1)
  obtain kp h2 where "raw_open_key raw ctx (str_inner rs) (to_raw_mode Access_Read_Write) h1 = (kp, h2)"
      "hv_keys (hv h1) kp = None"
      "hv h2 = (hv h1)\<lparr>hv_keys := (hv_keys (hv h1))(kp \<mapsto> (key, to_raw_mode Access_Read_Write))\<rparr>"
    using open_key [OF s, of "to_raw_mode Access_Read_Write" ctx] by auto
  then show ?thesis using rs h1 by (simp add: key_writable_open_def io_simps opened_def)
qed

lemma writable_drop:
  assumes "hv h' = opened v k key"
    and "hv_strings v (str_inner (key_str k)) = None" and "hv_keys v (writable_inner k) = None"
  shows "hv (key_writable_drop raw k h') = v"
proof -
  let ?h = "raw_close_key raw (writable_inner k) h'"
  have "hv ?h = v\<lparr>hv_strings := (hv_strings v)(str_inner (key_str k) \<mapsto> key)\<rparr>"
    using close_key [of h' "writable_inner k"] assms by (simp add: opened_def fun_upd_idem)
  then have "hv (redis_string_drop raw (key_str k) ?h) = v"
    by (rule string_drop) (rule assms)
  then show ?thesis by (simp add: key_writable_drop_def)
qed

lemma writable_write:
  assumes "hv h = opened v k key"
  shows "\<exists>h'. key_writable_write raw k val h = (Ok (), h') \<and>
    hv h' = opened (put_value key val v) k key"
proof -
  let ?v = "put_value key val (hv h)"
  obtain rs h1 where rs: "(redis_string_create raw (writable_ctx k) val :: ('h, cell_error, redis_string) io) h = (Ok rs, h1)"
    "hv_strings (hv h) (str_inner rs) = None"
    and h1: "hv h1 = (hv h)\<lparr>hv_strings := (hv_strings (hv h))(str_inner rs \<mapsto> val)\<rparr>"
    using string_create by blast
  have "hv_keys (hv h1) (writable_inner k) = Some (key, to_raw_mode Access_Read_Write)"
    "hv_strings (hv h1) (str_inner rs) = Some val"
    by (simp_all add: h1 assms)
  then obtain h2 where h2: "raw_string_set raw (writable_inner k) (str_inner rs) h1 = (Status_Ok, h2)"
    "hv h2 = put_value key val (hv h1)"
    using string_set by fastforce
  have "hv (redis_string_drop raw rs h2) = ?v"
    by (rule string_drop [where s = val]) (use h1 h2 rs in \<open>simp_all add: put_value_def\<close>)
  moreover have "?v = opened (put_value key val v) k key"
    by (simp add: assms opened_def put_value_def)
  ultimately show ?thesis using rs h2
    by (simp add: key_writable_write_def io_simps io_drop_def)
qed

lemma writable_set_expire:
  assumes "hv h = opened v k key" and "hv_db v key \<noteq> None"
    and "0 < sint (as_i64 (whole_milliseconds tc ttl))"
  shows "\<exists>h'. key_writable_set_expire raw tc k ttl h = (Ok (), h') \<and>
    hv h' = opened (put_expiry key (as_i64 (whole_milliseconds tc ttl)) v) k key"
proof -
  have "hv_keys (hv h) (writable_inner k) = Some (key, to_raw_mode Access_Read_Write)"
    by (simp add: assms(1))
  then obtain h' where "raw_set_expire raw (writable_inner k) (as_i64 (whole_milliseconds tc ttl)) h = (Status_Ok, h')"
    "hv h' = put_expiry key (as_i64 (whole_milliseconds tc ttl)) (hv h)"
    using set_expire [of h "writable_inner k" key "to_raw_mode Access_Read_Write"] assms by auto
  then show ?thesis using assms
    by (simp add: key_writable_set_expire_def io_simps opened_def put_expiry_def)
qed

lemma writable_read:
  assumes "hv h = opened v k key"
    and "string_from_utf8 (dma_bytes (hv_db v key)) = Inr s"
  shows "\<exists>h'. key_writable_read raw k h = (Ok (Some s), h') \<and> hv h' = opened v k key"
proof -
  have "hv_keys (hv h) (writable_inner k) = Some (key, to_raw_mode Access_Read_Write)"
    by (simp add: assms(1))
  then obtain h' where "read_key raw (writable_inner k) h = (Ok s, h')" "hv h' = hv h"
    using read_open_key assms by fastforce
  then show ?thesis using assms by (simp add: key_writable_read_def io_simps)
qed

lemma replicates:
  "\<exists>h'. redis_replicate_verbatim raw r h = (Ok (), h') \<and> hv h' = (hv h)\<lparr>hv_replicated := True\<rparr>"
  using replicate_verbatim [of "redis_ctx r" h]
  by (auto simp: redis_replicate_verbatim_def handle_status_def io_simps)

lemma replies_array:
  "\<exists>h'. redis_reply_array raw r n h = (Ok (), h') \<and>
    hv h' = (hv h)\<lparr>hv_replies := hv_replies (hv h) @ [Array_Reply n]\<rparr>"
  using reply_array [of "redis_ctx r" n h]
  by (auto simp: redis_reply_array_def handle_status_def io_simps)

lemma replies_integer:
  "\<exists>h'. redis_reply_integer raw r n h = (Ok (), h') \<and>
    hv h' = (hv h)\<lparr>hv_replies := hv_replies (hv h) @ [Integer_Reply n]\<rparr>"
  using reply_long_long [of "redis_ctx r" n h]
  by (auto simp: redis_reply_integer_def handle_status_def io_simps)

text \<open>The string of a string reply is given back after it was sent.\<close>

lemma replies_string:
  "\<exists>h'. redis_reply_string raw r s h = (Ok (), h') \<and>
    hv h' = (hv h)\<lparr>hv_replies := hv_replies (hv h) @ [String_Reply s]\<rparr>"
proof -
  obtain rs h1 where rs: "(redis_string_create raw (redis_ctx r) s :: ('h, cell_error, redis_string) io) h = (Ok rs, h1)"
    "hv_strings (hv h) (str_inner rs) = None"
    and h1: "hv h1 = (hv h)\<lparr>hv_strings := (hv_strings (hv h))(str_inner rs \<mapsto> s)\<rparr>"
    using string_create by blast
  then obtain h2 where h2: "raw_reply_with_string raw (redis_ctx r) (str_inner rs) h1 = (Status_Ok, h2)"
    "hv h2 = (hv h1)\<lparr>hv_replies := hv_replies (hv h1) @ [String_Reply s]\<rparr>"
    using reply_string [of h1 "str_inner rs" s "redis_ctx r"] by auto
  have "hv (redis_string_drop raw rs h2) = (hv h)\<lparr>hv_replies := hv_replies (hv h) @ [String_Reply s]\<rparr>"
    by (rule string_drop [where s = s]) (use h1 h2 rs in simp_all)
  then show ?thesis using rs h2
    by (simp add: redis_reply_string_def redis_create_string_def handle_status_def io_simps io_drop_def)
qed

lemma manifest_args:
  assumes "list_all2 (\<lambda>p s. hv_strings (hv h) p = Some s \<and> string_from_utf8 s = Inr s) ps ss"
  shows "\<exists>h'. manifest_redis_strings raw ps h = (Ok ss, h') \<and> hv h' = hv h"
  using assms
proof (induction ps arbitrary: ss h)
  case Nil
  then show ?case by (simp add: io_simps)
next
  case (Cons p ps)
  then obtain s ss' where ss: "ss = s # ss'" "hv_strings (hv h) p = Some s" "string_from_utf8 s = Inr s"
    "list_all2 (\<lambda>p s. hv_strings (hv h) p = Some s \<and> string_from_utf8 s = Inr s) ps ss'"
    by (auto simp: list_all2_Cons1)
  obtain bytes k h1 where h1: "raw_string_ptr_len raw p 0 h = ((bytes, k), h1)"
    "map bytes [0..<k] = s" "hv h1 = hv h"
    using string_ptr_len [OF ss(2)] by blast
  obtain h2 where h2: "manifest_redis_strings raw ps h1 = (Ok ss', h2)" "hv h2 = hv h1"
    using Cons.IH [of h1 ss'] ss h1 by auto
  then show ?case using ss h1
    by (simp add: manifest_redis_string_def from_byte_string_def io_simps)
qed

end

end
