(* ===== verification/Ref_Host.thy ===== *)
theory Ref_Host
  imports Redis_Host
begin

text \<open>
  A server small enough to evaluate: a keyspace with expiry, handles numbered from 1, and a clock.
  It behaves as \<open>redis_host\<close> says, so those hypotheses can be met, and the witnesses run on
  it. Of the commands that a module may call it knows two, and answers
  any other with a null pointer.
\<close>

section \<open>The server\<close>

record ref_host =
  rh_strings :: "ptr \<rightharpoonup> string"
  rh_keys :: "ptr \<rightharpoonup> string \<times> key_mode"
  rh_next :: ptr
  rh_db :: "string \<rightharpoonup> redis_value \<times> int option"
  rh_now :: int
  rh_replies :: "reply_event list"
  rh_replicated :: bool
  rh_calls :: "ptr \<rightharpoonup> call_reply"
  rh_next_call :: ptr

definition next_handle :: "ref_host \<Rightarrow> ptr" where
  "next_handle h = max 1 (rh_next h)"

definition live :: "ref_host \<Rightarrow> (ptr \<rightharpoonup> 'a) \<Rightarrow> ptr \<rightharpoonup> 'a" where
  "live h f = (\<lambda>p. if 1 \<le> p \<and> p < next_handle h then f p else None)"

definition ref_expiry :: "ref_host \<Rightarrow> string \<rightharpoonup> int" where
  "ref_expiry h name = (case rh_db h name of Some (v, x) \<Rightarrow> x | None \<Rightarrow> None)"

definition ref_abs :: "ref_host \<Rightarrow> int host_view" where
  "ref_abs h = \<lparr>hv_strings = live h (rh_strings h), hv_keys = live h (rh_keys h),
     hv_db = map_option fst \<circ> rh_db h, hv_expiry = ref_expiry h, hv_mstime = rh_now h div 1000000,
     hv_clock = rh_now h, hv_replies = rh_replies h,
     hv_replicated = rh_replicated h\<rparr>"

definition ref_bytes :: "string \<Rightarrow> byte_ptr \<times> size_t" where
  "ref_bytes s = ((\<lambda>i. s ! i), length s)"

definition ref_create_string :: "ptr \<Rightarrow> string \<Rightarrow> size_t \<Rightarrow> ref_host \<Rightarrow> ptr \<times> ref_host" where
  "ref_create_string ctx b n h =
     (next_handle h, h\<lparr>rh_strings := (live h (rh_strings h))(next_handle h \<mapsto> take n b),
       rh_keys := live h (rh_keys h), rh_next := next_handle h + 1\<rparr>)"

definition ref_open_key :: "ptr \<Rightarrow> ptr \<Rightarrow> key_mode \<Rightarrow> ref_host \<Rightarrow> ptr \<times> ref_host" where
  "ref_open_key ctx p m h = (case live h (rh_strings h) p of
     None \<Rightarrow> (null_ptr, h)
   | Some name \<Rightarrow>
       if \<not> writable m \<and> rh_db h name = None then (null_ptr, h)
       else (next_handle h, h\<lparr>rh_strings := live h (rh_strings h),
         rh_keys := (live h (rh_keys h))(next_handle h \<mapsto> (name, m)), rh_next := next_handle h + 1\<rparr>))"

definition ref_string_dma :: "ptr \<Rightarrow> size_t \<Rightarrow> key_mode \<Rightarrow> ref_host \<Rightarrow> (byte_ptr \<times> size_t) \<times> ref_host" where
  "ref_string_dma kp n m h = (case live h (rh_keys h) kp of
     None \<Rightarrow> (ref_bytes [], h)
   | Some (name, _) \<Rightarrow> (ref_bytes (dma_bytes (map_option fst (rh_db h name))), h))"

definition ref_string_set :: "ptr \<Rightarrow> ptr \<Rightarrow> ref_host \<Rightarrow> status \<times> ref_host" where
  "ref_string_set kp p h = (case (live h (rh_keys h) kp, live h (rh_strings h) p) of
     (Some (name, m), Some v) \<Rightarrow>
       if writable m then (Status_Ok, h\<lparr>rh_db := (rh_db h)(name \<mapsto> (String_Value v, None))\<rparr>)
       else (Status_Err, h)
   | _ \<Rightarrow> (Status_Err, h))"

definition ref_set_expire :: "ptr \<Rightarrow> i64 \<Rightarrow> ref_host \<Rightarrow> status \<times> ref_host" where
  "ref_set_expire kp ms h = (case live h (rh_keys h) kp of
     None \<Rightarrow> (Status_Err, h)
   | Some (name, m) \<Rightarrow>
       (case rh_db h name of
          None \<Rightarrow> (Status_Err, h)
        | Some (v, x) \<Rightarrow>
            if \<not> writable m \<or> sint ms < - 1 then (Status_Err, h)
            else (Status_Ok, h\<lparr>rh_db := (rh_db h)(name \<mapsto>
              (v, if sint ms = - 1 then None else Some (rh_now h div 1000000 + sint ms)))\<rparr>)))"

definition ref_reply :: "reply_event \<Rightarrow> ref_host \<Rightarrow> ref_host" where
  "ref_reply e h = h\<lparr>rh_replies := rh_replies h @ [e]\<rparr>"

text \<open>Calls of commands: replies are numbered from 1 too, and live until they are freed.\<close>

definition next_call :: "ref_host \<Rightarrow> ptr" where
  "next_call h = max 1 (rh_next_call h)"

definition ref_calls :: "ref_host \<Rightarrow> ptr \<rightharpoonup> call_reply" where
  "ref_calls h = (\<lambda>p. if 1 \<le> p \<and> p < next_call h then rh_calls h p else None)"

definition ref_answer :: "(string \<rightharpoonup> redis_value) \<Rightarrow> string \<Rightarrow> string list \<Rightarrow> call_reply option" where
  "ref_answer db cmd args =
     (if cmd = ''GET'' \<and> length args = 1
      then Some (case db (hd args) of
          None \<Rightarrow> Call_Nil | Some (String_Value s) \<Rightarrow> Call_String s | Some Other_Value \<Rightarrow> Call_Error)
      else if cmd = ''EXISTS''
      then Some (Call_Integer (of_nat (length (filter (\<lambda>k. db k \<noteq> None) args))))
      else None)"

definition ref_call :: "ptr \<Rightarrow> string \<Rightarrow> string \<Rightarrow> ptr list \<Rightarrow> ref_host \<Rightarrow> ptr \<times> ref_host" where
  "ref_call ctx cmd fmt args h = (case ref_answer (map_option fst \<circ> rh_db h) (c_str cmd)
       (map (\<lambda>p. case live h (rh_strings h) p of None \<Rightarrow> [] | Some s \<Rightarrow> s) args) of
     None \<Rightarrow> (null_ptr, h)
   | Some x \<Rightarrow> (next_call h,
       h\<lparr>rh_next_call := next_call h + 1, rh_calls := (ref_calls h)(next_call h \<mapsto> x)\<rparr>))"

definition ref_statics :: "ref_host redis_statics" where
  "ref_statics = \<lparr>
     Export_RedisModule_Init = (\<lambda>ctx name ver apiver h. (Status_Ok, h)),
     RedisModule_Call = ref_call,
     RedisModule_CallReplyInteger = (\<lambda>rp h. (case ref_calls h rp of Some (Call_Integer n) \<Rightarrow> n | _ \<Rightarrow> 0, h)),
     RedisModule_CallReplyStringPtr = (\<lambda>rp n h.
       (ref_bytes (case ref_calls h rp of Some (Call_String s) \<Rightarrow> s | _ \<Rightarrow> []), h)),
     RedisModule_CallReplyType = (\<lambda>rp h. (case ref_calls h rp of
       Some x \<Rightarrow> call_reply_type x | None \<Rightarrow> Reply_Type_Unknown, h)),
     RedisModule_CloseKey = (\<lambda>kp h. h\<lparr>rh_keys := (rh_keys h)(kp := None)\<rparr>),
     RedisModule_CreateCommand = (\<lambda>ctx nm f flags a b c h. (Status_Ok, h)),
     RedisModule_CreateString = ref_create_string,
     RedisModule_FreeCallReply = (\<lambda>rp h. h\<lparr>rh_calls := (rh_calls h)(rp := None)\<rparr>),
     RedisModule_FreeString = (\<lambda>ctx p h. h\<lparr>rh_strings := (rh_strings h)(p := None)\<rparr>),
     RedisModule_GetSelectedDb = (\<lambda>ctx h. (0, h)),
     RedisModule_Log = (\<lambda>ctx level msg h. h),
     RedisModule_OpenKey = ref_open_key,
     RedisModule_ReplicateVerbatim = (\<lambda>ctx h. (Status_Ok, h\<lparr>rh_replicated := True\<rparr>)),
     RedisModule_ReplyWithArray = (\<lambda>ctx n h. (Status_Ok, ref_reply (Array_Reply n) h)),
     RedisModule_ReplyWithError = (\<lambda>ctx e h. ref_reply (Error_Reply (c_str e)) h),
     RedisModule_ReplyWithLongLong = (\<lambda>ctx n h. (Status_Ok, ref_reply (Integer_Reply n) h)),
     RedisModule_ReplyWithString = (\<lambda>ctx p h. case live h (rh_strings h) p of
       None \<Rightarrow> (Status_Err, h) | Some s \<Rightarrow> (Status_Ok, ref_reply (String_Reply s) h)),
     RedisModule_SetExpire = ref_set_expire,
     RedisModule_StringDMA = ref_string_dma,
     RedisModule_StringPtrLen = (\<lambda>p n h. case live h (rh_strings h) p of
       None \<Rightarrow> (ref_bytes [], h) | Some s \<Rightarrow> (ref_bytes s, h)),
     RedisModule_StringSet = ref_string_set\<rparr>"

definition ref_raw :: "ref_host raw" where
  "ref_raw = redis_inner ref_statics"

definition ref_world :: "(ref_host, int) world" where
  "ref_world = \<lparr>now_utc = (\<lambda>h. (rh_now h, h)), println = (\<lambda>msg h. h)\<rparr>"

text \<open>Time passes between commands, and takes the keys that are due with it.\<close>

definition ref_due :: "int \<Rightarrow> int option \<Rightarrow> bool" where
  "ref_due now x = (case x of None \<Rightarrow> False | Some ms \<Rightarrow> ms < now div 1000000)"

definition ref_tick :: "int \<Rightarrow> ref_host \<Rightarrow> ref_host" where
  "ref_tick now h = h\<lparr>rh_now := now,
     rh_db := (\<lambda>name. case rh_db h name of
       None \<Rightarrow> None | Some (v, x) \<Rightarrow> if ref_due now x then None else Some (v, x))\<rparr>"

definition ref_start :: "int \<Rightarrow> ref_host" where
  "ref_start now = \<lparr>rh_strings = Map.empty, rh_keys = Map.empty, rh_next = 1, rh_db = Map.empty,
     rh_now = now, rh_replies = [], rh_replicated = False, rh_calls = Map.empty, rh_next_call = 1\<rparr>"

section \<open>It is a host\<close>

lemma ref_raw_simps [simp]:
  "raw_create_string ref_raw = ref_create_string"
  "raw_free_string ref_raw ctx p h = h\<lparr>rh_strings := (rh_strings h)(p := None)\<rparr>"
  "raw_string_ptr_len ref_raw p n h = (case live h (rh_strings h) p of
       None \<Rightarrow> (ref_bytes [], h) | Some s \<Rightarrow> (ref_bytes s, h))"
  "raw_open_key ref_raw = ref_open_key"
  "raw_close_key ref_raw kp h = h\<lparr>rh_keys := (rh_keys h)(kp := None)\<rparr>"
  "raw_string_dma ref_raw = ref_string_dma"
  "raw_string_set ref_raw = ref_string_set"
  "raw_set_expire ref_raw = ref_set_expire"
  "raw_reply_with_array ref_raw ctx i h = (Status_Ok, ref_reply (Array_Reply i) h)"
  "raw_reply_with_long_long ref_raw ctx i h = (Status_Ok, ref_reply (Integer_Reply i) h)"
  "raw_reply_with_string ref_raw ctx p h = (case live h (rh_strings h) p of
       None \<Rightarrow> (Status_Err, h) | Some s \<Rightarrow> (Status_Ok, ref_reply (String_Reply s) h))"
  "raw_reply_with_error ref_raw ctx e h = ref_reply (Error_Reply (c_str e)) h"
  "raw_replicate_verbatim ref_raw ctx h = (Status_Ok, h\<lparr>rh_replicated := True\<rparr>)"
  by (simp_all add: ref_raw_def redis_inner_def ref_statics_def)

lemma live_update [simp]:
  "live (h\<lparr>rh_strings := f\<rparr>) = live h" "live (h\<lparr>rh_keys := g\<rparr>) = live h"
  "live (h\<lparr>rh_db := d\<rparr>) = live h" "live (h\<lparr>rh_now := t\<rparr>) = live h"
  "live (h\<lparr>rh_replies := r\<rparr>) = live h" "live (h\<lparr>rh_replicated := b\<rparr>) = live h"
  by (simp_all add: live_def next_handle_def fun_eq_iff)

lemma live_None: "live h (f(p := None)) = (live h f)(p := None)"
  by (simp add: live_def fun_eq_iff)

lemma live_next: "live h f (next_handle h) = None"
  by (simp add: live_def)

lemma live_null [simp]: "live h f 0 = None"
  by (simp add: live_def)

lemma live_grow [simp]:
  "live (h\<lparr>rh_strings := x, rh_keys := y, rh_next := next_handle h + 1\<rparr>) (live h f) = live h f"
  "live (h\<lparr>rh_strings := x, rh_keys := y, rh_next := next_handle h + 1\<rparr>) ((live h f)(next_handle h \<mapsto> v)) =
     (live h f)(next_handle h \<mapsto> v)"
  by (auto simp: live_def next_handle_def fun_eq_iff)

lemma next_handle_pos [simp]: "next_handle h \<noteq> null_ptr"
  by (simp add: next_handle_def null_ptr_def)

lemma ref_bytes_map: "map (fst (ref_bytes s)) [0..<snd (ref_bytes s)] = s"
  by (simp add: ref_bytes_def map_nth)

lemma ref_abs_simps [simp]:
  "hv_strings (ref_abs h) = live h (rh_strings h)" "hv_keys (ref_abs h) = live h (rh_keys h)"
  "hv_db (ref_abs h) = map_option fst \<circ> rh_db h" "hv_expiry (ref_abs h) = ref_expiry h"
  "hv_mstime (ref_abs h) = rh_now h div 1000000" "hv_clock (ref_abs h) = rh_now h"
  "hv_replies (ref_abs h) = rh_replies h" "hv_replicated (ref_abs h) = rh_replicated h"
  by (simp_all add: ref_abs_def)

lemma ref_expiry_update [simp]:
  "ref_expiry (h\<lparr>rh_strings := f\<rparr>) = ref_expiry h" "ref_expiry (h\<lparr>rh_keys := g\<rparr>) = ref_expiry h"
  "ref_expiry (h\<lparr>rh_next := n\<rparr>) = ref_expiry h" "ref_expiry (h\<lparr>rh_now := t\<rparr>) = ref_expiry h"
  "ref_expiry (h\<lparr>rh_replies := r\<rparr>) = ref_expiry h" "ref_expiry (h\<lparr>rh_replicated := b\<rparr>) = ref_expiry h"
  "ref_expiry (h\<lparr>rh_db := (rh_db h)(name \<mapsto> (v, x))\<rparr>) = (ref_expiry h)(name := x)"
  by (simp_all add: ref_expiry_def fun_eq_iff)

lemma ref_abs_eqI:
  assumes "hv_strings v = live h (rh_strings h)" "hv_keys v = live h (rh_keys h)"
    "hv_db v = map_option fst \<circ> rh_db h" "hv_expiry v = ref_expiry h"
    "hv_mstime v = rh_now h div 1000000" "hv_clock v = rh_now h"
    "hv_replies v = rh_replies h" "hv_replicated v = rh_replicated h"
  shows "ref_abs h = v"
  using assms by (simp add: ref_abs_def)

interpretation ref_server: redis_host ref_raw ref_world ref_abs
proof (unfold_locales, goal_cases)
  case (1 n b ctx h)
  then show ?case
    by (auto simp: ref_create_string_def live_next intro!: ref_abs_eqI)
next
  case (2 h p ctx)
  then show ?case by (auto simp: live_None intro!: ref_abs_eqI)
next
  case (3 h p s n)
  then show ?case using ref_bytes_map [of s]
    by (auto simp: split: prod.split intro!: exI [of _ "fst (ref_bytes s)"] exI [of _ "snd (ref_bytes s)"])
next
  case (4 h p name m ctx)
  then show ?case by (simp add: ref_open_key_def)
next
  case (5 h p name m ctx)
  then show ?case by (auto simp: ref_open_key_def live_next intro!: ref_abs_eqI)
next
  case (6 h)
  then show ?case by (auto simp: live_None null_ptr_def fun_upd_idem intro!: ref_abs_eqI)
next
  case (7 h kp)
  then show ?case by (auto simp: live_None intro!: ref_abs_eqI)
next
  case (8 h kp name m)
  then show ?case using ref_bytes_map [of "dma_bytes (hv_db (ref_abs h) name)"]
    by (auto simp: ref_string_dma_def intro!: exI [of _ "fst (ref_bytes (dma_bytes (hv_db (ref_abs h) name)))"]
        exI [of _ "snd (ref_bytes (dma_bytes (hv_db (ref_abs h) name)))"])
next
  case (9 h kp name m p v)
  then show ?case by (auto simp: ref_string_set_def put_value_def fun_eq_iff intro!: ref_abs_eqI)
next
  case (10 h kp name m ms)
  then show ?case by (auto simp: ref_set_expire_def put_expiry_def fun_eq_iff intro!: ref_abs_eqI)
next
  case (11 ctx i h)
  then show ?case by (auto simp: ref_reply_def intro!: ref_abs_eqI)
next
  case (12 ctx i h)
  then show ?case by (auto simp: ref_reply_def intro!: ref_abs_eqI)
next
  case (13 h p s ctx)
  then show ?case by (auto simp: ref_reply_def intro!: ref_abs_eqI)
next
  case (14 ctx e h)
  then show ?case by (auto simp: ref_reply_def intro!: ref_abs_eqI)
next
  case (15 ctx h)
  then show ?case by (auto intro!: ref_abs_eqI)
next
  case (16 h)
  then show ?case by (auto simp: ref_world_def intro!: exI [of _ "rh_now h"] ref_abs_eqI)
qed

end
