(* ===== verification/Redis_Calls.thy ===== *)
theory Redis_Calls
  imports Ref_Host
begin

text \<open>
  \<open>Redis::call\<close> of \<^verbatim>\<open>src/redis/mod.rs\<close>: a module calls a command of the
  server. The replies it gets are objects of the server that it has to give back.
\<close>

section \<open>A server that answers\<close>





section \<open>The reference server\<close>

lemma ref_raw_calls [simp]:
  "raw_call1 ref_raw ctx cmd fmt a = ref_call ctx cmd fmt [a]"
  "raw_call2 ref_raw ctx cmd fmt a b = ref_call ctx cmd fmt [a, b]"
  "raw_call3 ref_raw ctx cmd fmt a b c = ref_call ctx cmd fmt [a, b, c]"
  "raw_call_reply_type ref_raw rp h = (case ref_calls h rp of
     Some x \<Rightarrow> call_reply_type x | None \<Rightarrow> Reply_Type_Unknown, h)"
  "raw_call_reply_integer ref_raw rp h = (case ref_calls h rp of Some (Call_Integer n) \<Rightarrow> n | _ \<Rightarrow> 0, h)"
  "raw_call_reply_string_ptr ref_raw rp n h =
     (ref_bytes (case ref_calls h rp of Some (Call_String s) \<Rightarrow> s | _ \<Rightarrow> []), h)"
  "raw_free_call_reply ref_raw rp h = h\<lparr>rh_calls := (rh_calls h)(rp := None)\<rparr>"
  by (simp_all add: ref_raw_def redis_inner_def ref_statics_def redis_call1_def redis_call2_def redis_call3_def)






end
