(* ===== verification/Redis_Store.thy ===== *)
theory Redis_Store
  imports Redis_Host Ref_Host
begin

text \<open>
  \<open>InternalRedisStore\<close> of \<^verbatim>\<open>src/cell/store.rs\<close>: the store over the server's
  keyspace. Its state is the server's.
\<close>

section \<open>The operations\<close>

definition redis_compare_and_swap ::
    "'h raw \<Rightarrow> ('d, 't) time_crate \<Rightarrow> redis \<Rightarrow> string \<Rightarrow> u64 \<Rightarrow> u64 \<Rightarrow> 'd \<Rightarrow> ('h, cell_error, bool) io" where
  "redis_compare_and_swap raw tc r name old new ttl =
     io_bind (redis_open_key_writable raw r name) (\<lambda>key.
     io_drop
       (io_bind (key_writable_read raw key) (\<lambda>v. case v of
          Some s \<Rightarrow>
            io_bind (if s \<noteq> [] then
                io_bind (io_try cell_error_from_parse_int (u64_from_str s)) (\<lambda>n. io_ret (n = old))
              else io_ret False) (\<lambda>same.
            if same then
              io_bind (key_writable_write raw key (u64_to_string new)) (\<lambda>_.
              io_bind (key_writable_set_expire raw tc key ttl) (\<lambda>_. io_ret True))
            else io_ret False)
        | None \<Rightarrow> io_ret False))
       (key_writable_drop raw key))"

definition redis_get_with_time ::
    "'h raw \<Rightarrow> ('h, 't) world \<Rightarrow> redis \<Rightarrow> string \<Rightarrow> ('h, cell_error, u64 option \<times> 't) io" where
  "redis_get_with_time raw wd r name =
     io_bind (redis_open_key raw r name) (\<lambda>key.
     io_drop
       (io_bind (redis_key_read raw key) (\<lambda>v.
        io_bind (case v of
            None \<Rightarrow> io_ret None
          | Some s \<Rightarrow> (case u64_from_str s of Inr n \<Rightarrow> io_ret (Some n) | Inl e \<Rightarrow> io_panic)) (\<lambda>val.
        io_bind (io_lift (now_utc wd)) (\<lambda>now. io_ret (val, now)))))
       (redis_key_drop raw key))"

definition redis_set_if_not_exists ::
    "'h raw \<Rightarrow> ('d, 't) time_crate \<Rightarrow> redis \<Rightarrow> string \<Rightarrow> u64 \<Rightarrow> 'd \<Rightarrow> ('h, cell_error, bool) io" where
  "redis_set_if_not_exists raw tc r name v ttl =
     io_bind (redis_open_key_writable raw r name) (\<lambda>key.
     io_drop
       (io_bind (key_writable_is_empty raw key) (\<lambda>empty.
        io_bind (if empty then
            io_bind (key_writable_write raw key (u64_to_string v)) (\<lambda>_. io_ret True)
          else io_ret False) (\<lambda>res.
        io_bind (key_writable_set_expire raw tc key ttl) (\<lambda>_. io_ret res))))
       (key_writable_drop raw key))"

definition redis_store_ops ::
    "'h raw \<Rightarrow> ('d, 't) time_crate \<Rightarrow> ('h, 't) world \<Rightarrow> redis \<Rightarrow> ('h, 'd, 't) store_ops" where
  "redis_store_ops raw tc wd r = \<lparr>
     compare_and_swap_with_ttl = redis_compare_and_swap raw tc r,
     get_with_time = redis_get_with_time raw wd r,
     log_debug = redis_log_debug raw r,
     set_if_not_exists_with_ttl = redis_set_if_not_exists raw tc r\<rparr>"

lemma redis_store_ops_simps [simp]:
  "compare_and_swap_with_ttl (redis_store_ops raw tc wd r) = redis_compare_and_swap raw tc r"
  "get_with_time (redis_store_ops raw tc wd r) = redis_get_with_time raw wd r"
  "log_debug (redis_store_ops raw tc wd r) = redis_log_debug raw r"
  "set_if_not_exists_with_ttl (redis_store_ops raw tc wd r) = redis_set_if_not_exists raw tc r"
  by (simp_all add: redis_store_ops_def)

section \<open>The contract\<close>

text \<open>
  What the store holds is the decimal number in a string key; a key is well formed when it is
  missing or holds such a string. A write stays when its time to live is at least a millisecond.
\<close>

definition redis_view :: "('h \<Rightarrow> 't host_view) \<Rightarrow> 'h \<Rightarrow> string \<Rightarrow> u64 option" where
  "redis_view hv h key = (case hv_db (hv h) key of
     Some (String_Value s) \<Rightarrow> (case u64_from_str s of Inr v \<Rightarrow> Some v | Inl e \<Rightarrow> None)
   | _ \<Rightarrow> None)"

definition redis_key_ok :: "('h \<Rightarrow> 't host_view) \<Rightarrow> 'h \<Rightarrow> string \<Rightarrow> bool" where
  "redis_key_ok hv h key \<longleftrightarrow> (case hv_db (hv h) key of
     None \<Rightarrow> True
   | Some (String_Value s) \<Rightarrow> (case u64_from_str s of Inr v \<Rightarrow> True | Inl e \<Rightarrow> False)
   | Some Other_Value \<Rightarrow> False)"

definition redis_due :: "('h \<Rightarrow> 't host_view) \<Rightarrow> 'h \<Rightarrow> string \<Rightarrow> int option" where
  "redis_due hv h key = hv_expiry (hv h) key"

definition redis_due_in :: "('d, 'u) time_crate \<Rightarrow> ('h \<Rightarrow> 't host_view) \<Rightarrow> 'h \<Rightarrow> 'd \<Rightarrow> int option" where
  "redis_due_in tc hv h d = Some (hv_mstime (hv h) + sint (as_i64 (whole_milliseconds tc d)))"

text \<open>The server after a write with a time to live, and after a time to live alone.\<close>

definition given_ttl :: "('d, 'u) time_crate \<Rightarrow> string \<Rightarrow> 'd \<Rightarrow> 't host_view \<Rightarrow> 't host_view" where
  "given_ttl tc key ttl = put_expiry key (as_i64 (whole_milliseconds tc ttl))"

definition redis_written ::
    "('d, 'u) time_crate \<Rightarrow> string \<Rightarrow> u64 \<Rightarrow> 'd \<Rightarrow> 't host_view \<Rightarrow> 't host_view" where
  "redis_written tc key new ttl v = given_ttl tc key ttl (put_value key (u64_to_string new) v)"

lemmas redis_effects = redis_written_def given_ttl_def put_value_def put_expiry_def

definition redis_ttl_ok :: "('d, 't) time_crate \<Rightarrow> 'd \<Rightarrow> bool" where
  "redis_ttl_ok tc d \<longleftrightarrow> 0 < sint (as_i64 (whole_milliseconds tc d))"

lemma redis_key_cases:
  assumes "redis_key_ok hv h key"
  obtains (missing) "hv_db (hv h) key = None" and "redis_view hv h key = None"
  | (present) s v where "hv_db (hv h) key = Some (String_Value s)" and "u64_from_str s = Inr v"
      and "string_from_utf8 s = Inr s" and "s \<noteq> []" and "redis_view hv h key = Some v"
  using assms
  by (auto simp: redis_key_ok_def redis_view_def split: option.splits redis_value.splits sum.splits
      dest: u64_from_str_ascii u64_from_str_nonempty)

lemma redis_view_write:
  assumes "hv h' = redis_written tc key new ttl (hv h)"
  shows "redis_view hv h' = (redis_view hv h)(key \<mapsto> new)" and "redis_key_ok hv h' key"
    and "redis_due hv h' = (redis_due hv h)(key := redis_due_in tc hv h ttl)"
  using assms
  by (auto simp: redis_view_def redis_key_ok_def redis_due_def redis_due_in_def redis_effects
      u64_parse_print fun_eq_iff)

lemma redis_view_same:
  assumes "hv_db (hv h') = hv_db (hv h)"
  shows "redis_view hv h' = redis_view hv h" and "redis_key_ok hv h' = redis_key_ok hv h"
  using assms by (auto simp: redis_view_def redis_key_ok_def fun_eq_iff)

lemma redis_due_same:
  "hv_expiry (hv h') = hv_expiry (hv h) \<Longrightarrow> redis_due hv h' = redis_due hv h"
  "hv_mstime (hv h') = hv_mstime (hv h) \<Longrightarrow> redis_due_in tc hv h' = redis_due_in tc hv h"
  by (simp_all add: redis_due_def redis_due_in_def fun_eq_iff)

lemma redis_given_ttl:
  assumes "hv h' = given_ttl tc key ttl (hv h)"
  shows "redis_view hv h' = redis_view hv h" and "redis_key_ok hv h' = redis_key_ok hv h"
    and "redis_due hv h' = (redis_due hv h)(key := redis_due_in tc hv h ttl)"
  using assms
  by (auto simp: redis_view_def redis_key_ok_def redis_due_def redis_due_in_def redis_effects fun_eq_iff)

text \<open>
  The rest of the server: other keys, the handles that are live, and what the command has replied.
\<close>

definition redis_rest :: "'t host_view \<Rightarrow> string \<Rightarrow> 't host_view \<Rightarrow> bool" where
  "redis_rest v0 key v \<longleftrightarrow>
     hv_strings v = hv_strings v0 \<and> hv_keys v = hv_keys v0 \<and> hv_replies v = hv_replies v0 \<and>
     hv_replicated v = hv_replicated v0 \<and> hv_mstime v = hv_mstime v0 \<and>
     (\<forall>name. name \<noteq> key \<longrightarrow> hv_db v name = hv_db v0 name \<and> hv_expiry v name = hv_expiry v0 name)"

definition redis_kept :: "('h \<Rightarrow> 't host_view) \<Rightarrow> 't host_view \<Rightarrow> 'h \<Rightarrow> string \<Rightarrow> bool" where
  "redis_kept hv v0 h key \<longleftrightarrow> redis_key_ok hv h key \<and> redis_rest v0 key (hv h)"

lemma redis_kept_write:
  assumes "redis_kept hv v0 h key"
    and "hv h' = redis_written tc key new ttl (hv h)"
  shows "redis_kept hv v0 h' key"
  using assms redis_view_write(2) [of hv h' tc key new ttl h] by (simp add: redis_kept_def redis_rest_def redis_effects)

lemma redis_kept_given_ttl:
  assumes "redis_kept hv v0 h key" and "hv h' = given_ttl tc key ttl (hv h)"
  shows "redis_kept hv v0 h' key"
  using assms redis_given_ttl(2) [of hv h' tc key ttl h] by (simp add: redis_kept_def redis_rest_def redis_effects)

lemma redis_kept_clock:
  assumes "redis_kept hv v0 h key" and "hv h' = (hv h)\<lparr>hv_clock := c\<rparr>"
  shows "redis_kept hv v0 h' key"
  using assms redis_view_same(2) [of hv h' h] by (simp add: redis_kept_def redis_rest_def)

lemma redis_kept_same: "redis_kept hv v0 h key \<Longrightarrow> hv h' = hv h \<Longrightarrow> redis_kept hv v0 h' key"
  using redis_kept_clock [of hv v0 h key h' "hv_clock (hv h)"] by simp

lemma redis_kept_key_ok: "redis_kept hv v0 h key \<Longrightarrow> redis_key_ok hv h key"
  by (simp add: redis_kept_def)

lemma redis_rest_self [simp]: "redis_rest v key v"
  by (simp add: redis_rest_def)

context redis_host begin

lemma redis_get:
  assumes "redis_key_ok hv h key"
  shows "\<exists>c h'. redis_get_with_time raw wd r key h = (Ok (redis_view hv h key, hv_clock (hv h)), h') \<and>
    hv h' = (hv h)\<lparr>hv_clock := c\<rparr>"
proof -
  obtain k h1 where k: "redis_key_open raw (redis_ctx r) key h = (Ok k, h1)"
    and h1: "if hv_db (hv h) key = None then redis_key_is_null k \<and> hv h1 = hv h
     else \<not> redis_key_is_null k \<and> hv_keys (hv h) (key_inner k) = None \<and>
       hv h1 = (hv h)\<lparr>hv_keys := (hv_keys (hv h))(key_inner k \<mapsto> (key, to_raw_mode Access_Read))\<rparr>"
    using key_open by blast
  from assms show ?thesis
  proof (cases rule: redis_key_cases)
    case missing
    obtain c h2 where h2: "now_utc wd h1 = (hv_clock (hv h1), h2)" "hv h2 = (hv h1)\<lparr>hv_clock := c\<rparr>"
      using now_utc by blast
    then have "hv (redis_key_drop raw k h2) = (hv h)\<lparr>hv_clock := c\<rparr>"
      using h1 missing by (simp add: key_drop_null)
    then show ?thesis using k h1 h2 missing
      by (auto simp: redis_get_with_time_def redis_open_key_def redis_key_read_def io_simps io_drop_def)
  next
    case (present s v)
    then have k1: "hv_keys (hv h1) (key_inner k) = Some (key, to_raw_mode Access_Read)"
      "hv_db (hv h1) key = Some (String_Value s)" "\<not> redis_key_is_null k"
      using h1 by simp_all
    obtain h2 where h2: "read_key raw (key_inner k) h1 = (Ok s, h2)" "hv h2 = hv h1"
      using read_open_key [OF k1(1)] k1(2) present by auto
    obtain c h3 where h3: "now_utc wd h2 = (hv_clock (hv h2), h3)" "hv h3 = (hv h2)\<lparr>hv_clock := c\<rparr>"
      using now_utc by blast
    have "hv (redis_key_drop raw k h3) = (hv h)\<lparr>hv_clock := c\<rparr>"
      by (rule key_drop [where e = "(key, to_raw_mode Access_Read)"]) (use h1 h2 h3 present in simp_all)
    then show ?thesis using k h1 h2 h3 present k1
      by (auto simp: redis_get_with_time_def redis_open_key_def redis_key_read_def io_simps io_drop_def)
  qed
qed

text \<open>
  A key that holds text which is not a decimal number of 64 bits makes the read panic; a string
  that is not UTF-8 makes it fail.
\<close>

lemma redis_get_foreign:
  assumes x: "hv_db (hv h) key = Some x"
    and foreign: "\<And>s. string_from_utf8 (dma_bytes (Some x)) = Inr s \<Longrightarrow> \<exists>e. u64_from_str s = Inl e"
  shows "\<exists>h'. redis_get_with_time raw wd r key h =
      (case string_from_utf8 (dma_bytes (Some x)) of Inl e \<Rightarrow> Err (cell_error_from_utf8 e) | Inr s \<Rightarrow> Panic, h') \<and>
    hv h' = hv h"
proof -
  obtain k h1 where k: "redis_key_open raw (redis_ctx r) key h = (Ok k, h1)"
    and h1: "\<not> redis_key_is_null k" "hv_keys (hv h) (key_inner k) = None"
       "hv h1 = (hv h)\<lparr>hv_keys := (hv_keys (hv h))(key_inner k \<mapsto> (key, to_raw_mode Access_Read))\<rparr>"
    using key_open [of "redis_ctx r" key h] x by auto
  then have k1: "hv_keys (hv h1) (key_inner k) = Some (key, to_raw_mode Access_Read)"
    "hv_db (hv h1) key = Some x" using x by simp_all
  obtain h2 where h2: "hv h2 = hv h1"
    "read_key raw (key_inner k) h1 = (case string_from_utf8 (dma_bytes (Some x)) of
      Inl e \<Rightarrow> (Err e, h2) | Inr s \<Rightarrow> (Ok s, h2))"
    using read_open_key [OF k1(1)] k1(2) by auto
  have drop: "hv (redis_key_drop raw k h2) = hv h"
    by (rule key_drop [where e = "(key, to_raw_mode Access_Read)"]) (use h1 h2 in simp_all)
  show ?thesis
  proof (cases "string_from_utf8 (dma_bytes (Some x))")
    case (Inl e)
    then show ?thesis using k h1 h2 drop
      by (auto simp: redis_get_with_time_def redis_open_key_def redis_key_read_def io_simps io_drop_def)
  next
    case (Inr s)
    then show ?thesis using k h1 h2 drop foreign [OF Inr]
      by (auto simp: redis_get_with_time_def redis_open_key_def redis_key_read_def io_simps io_drop_def)
  qed
qed

text \<open>The two writes, on a key that is open.\<close>

lemma redis_swap:
  assumes key: "hv_db (hv h) key = Some (String_Value s)" "u64_from_str s = Inr v"
    and ttl: "v = old \<Longrightarrow> redis_ttl_ok tc ttl"
  shows "\<exists>h'. redis_compare_and_swap raw tc r key old new ttl h = (Ok (v = old), h') \<and>
    hv h' = (if v = old then redis_written tc key new ttl (hv h) else hv h)"
proof -
  obtain k h1 where k: "key_writable_open raw (redis_ctx r) key h = (Ok k, h1)"
    and fresh: "hv_strings (hv h) (str_inner (key_str k)) = None" "hv_keys (hv h) (writable_inner k) = None"
    and h1: "hv h1 = opened (hv h) k key"
    using writable_open by blast
  have "string_from_utf8 (dma_bytes (hv_db (hv h) key)) = Inr s" "s \<noteq> []"
    using key u64_from_str_ascii u64_from_str_nonempty by auto
  then obtain h2 where h2: "key_writable_read raw k h1 = (Ok (Some s), h2)" "hv h2 = opened (hv h) k key"
    using writable_read [OF h1] by blast
  note run = redis_compare_and_swap_def redis_open_key_writable_def io_drop_def
  show ?thesis
  proof (cases "v = old")
    case True
    let ?v = "put_value key (u64_to_string new) (hv h)"
    obtain h3 where h3: "key_writable_write raw k (u64_to_string new) h2 = (Ok (), h3)"
      "hv h3 = opened ?v k key"
      using writable_write [OF h2(2)] by blast
    obtain h4 where h4: "key_writable_set_expire raw tc k ttl h3 = (Ok (), h4)"
      "hv h4 = opened (given_ttl tc key ttl ?v) k key"
      using writable_set_expire [OF h3(2), of tc ttl] ttl True
      by (auto simp: redis_ttl_ok_def given_ttl_def put_value_def)
    have "hv (key_writable_drop raw k h4) = given_ttl tc key ttl ?v"
      by (rule writable_drop [OF h4(2)]) (simp_all add: fresh redis_effects)
    then show ?thesis using True k h2 h3 h4 key \<open>s \<noteq> []\<close> by (simp add: run io_simps redis_written_def)
  next
    case False
    have "hv (key_writable_drop raw k h2) = hv h" by (rule writable_drop [OF h2(2) fresh])
    then show ?thesis using False k h2 key \<open>s \<noteq> []\<close> by (simp add: run io_simps)
  qed
qed

lemma redis_set:
  assumes s: "string_from_utf8 (dma_bytes (hv_db (hv h) key)) = Inr s"
    and ttl: "redis_ttl_ok tc ttl" and db: "s = [] \<or> hv_db (hv h) key \<noteq> None"
  shows "\<exists>h'. redis_set_if_not_exists raw tc r key new ttl h = (Ok (s = []), h') \<and>
    hv h' = (if s = [] then redis_written tc key new ttl (hv h) else given_ttl tc key ttl (hv h))"
proof -
  obtain k h1 where k: "key_writable_open raw (redis_ctx r) key h = (Ok k, h1)"
    and fresh: "hv_strings (hv h) (str_inner (key_str k)) = None" "hv_keys (hv h) (writable_inner k) = None"
    and h1: "hv h1 = opened (hv h) k key"
    using writable_open by blast
  obtain h2 where h2: "key_writable_read raw k h1 = (Ok (Some s), h2)" "hv h2 = opened (hv h) k key"
    using writable_read [OF h1 s] by blast
  note run = redis_set_if_not_exists_def redis_open_key_writable_def io_drop_def key_writable_is_empty_def
  show ?thesis
  proof (cases "s = []")
    case True
    let ?v = "put_value key (u64_to_string new) (hv h)"
    obtain h3 where h3: "key_writable_write raw k (u64_to_string new) h2 = (Ok (), h3)"
      "hv h3 = opened ?v k key"
      using writable_write [OF h2(2)] by blast
    obtain h4 where h4: "key_writable_set_expire raw tc k ttl h3 = (Ok (), h4)"
      "hv h4 = opened (given_ttl tc key ttl ?v) k key"
      using writable_set_expire [OF h3(2), of tc ttl] ttl
      by (auto simp: redis_ttl_ok_def given_ttl_def put_value_def)
    have "hv (key_writable_drop raw k h4) = given_ttl tc key ttl ?v"
      by (rule writable_drop [OF h4(2)]) (simp_all add: fresh redis_effects)
    then show ?thesis using True k h2 h3 h4 by (simp add: run io_simps redis_written_def)
  next
    case False
    obtain h3 where h3: "key_writable_set_expire raw tc k ttl h2 = (Ok (), h3)"
      "hv h3 = opened (given_ttl tc key ttl (hv h)) k key"
      using writable_set_expire [OF h2(2), of tc ttl] ttl db False
      by (auto simp: redis_ttl_ok_def given_ttl_def)
    have "hv (key_writable_drop raw k h3) = given_ttl tc key ttl (hv h)"
      by (rule writable_drop [OF h3(2)]) (simp_all add: fresh redis_effects)
    then show ?thesis using False k h2 h3 by (simp add: run io_simps)
  qed
qed

end

text \<open>So the Redis store keeps the trait's contract over any such server.\<close>

sublocale redis_host \<subseteq> keyspace: cell_store "redis_store_ops raw tc wd r" "redis_view hv"
    "\<lambda>h. hv_clock (hv h)" "redis_kept hv v0" "redis_ttl_ok tc" "redis_due hv" "redis_due_in tc hv"
    for tc :: "('d, 't) time_crate" and r and v0
proof (unfold_locales, goal_cases)
  case (1 h key)
  obtain c h' where "redis_get_with_time raw wd r key h = (Ok (redis_view hv h key, hv_clock (hv h)), h')"
    "hv h' = (hv h)\<lparr>hv_clock := c\<rparr>"
    using redis_get [OF redis_kept_key_ok [OF 1]] by blast
  then show ?case
    using redis_kept_clock [OF 1] redis_view_same(1) [of hv h' h] redis_due_same [of hv h' h] by simp
next
  case (2 h key old ttl new)
  from redis_kept_key_ok [OF 2(1)] show ?case
  proof (cases rule: redis_key_cases)
    case (present s v)
    then obtain h' where "redis_compare_and_swap raw tc r key old new ttl h = (Ok True, h')"
      "hv h' = redis_written tc key new ttl (hv h)"
      using redis_swap [of h key s v old tc ttl r new] 2 by auto
    then show ?thesis using redis_view_write [of hv h' tc key new ttl h] redis_kept_write [OF 2(1)] by simp
  qed (use 2 in simp)
next
  case (3 h key v old new ttl)
  from redis_kept_key_ok [OF 3(1)] show ?case
  proof (cases rule: redis_key_cases)
    case (present s w)
    then obtain h' where "redis_compare_and_swap raw tc r key old new ttl h = (Ok False, h')" "hv h' = hv h"
      using redis_swap [of h key s w old tc ttl r new] 3 by auto
    then show ?thesis
      using redis_kept_same [OF 3(1)] redis_view_same(1) [of hv h' h] redis_due_same(1) [of hv h' h] by simp
  qed (use 3 in simp)
next
  case (4 h key ttl new)
  from redis_kept_key_ok [OF 4(1)] show ?case
  proof (cases rule: redis_key_cases)
    case missing
    then obtain h' where "redis_set_if_not_exists raw tc r key new ttl h = (Ok True, h')"
      "hv h' = redis_written tc key new ttl (hv h)"
      using redis_set [of h key "[]" tc ttl r new] 4 by (auto simp: string_from_utf8_ascii)
    then show ?thesis using redis_view_write [of hv h' tc key new ttl h] redis_kept_write [OF 4(1)] by simp
  qed (use 4 in simp)
next
  case (5 h key v ttl new)
  from redis_kept_key_ok [OF 5(1)] show ?case
  proof (cases rule: redis_key_cases)
    case (present s w)
    then obtain h' where "redis_set_if_not_exists raw tc r key new ttl h = (Ok False, h')"
      "hv h' = given_ttl tc key ttl (hv h)"
      using redis_set [of h key s tc ttl r new] 5 by auto
    then show ?thesis using redis_kept_given_ttl [OF 5(1)] redis_given_ttl [of hv h' tc key ttl h] by simp
  qed (use 5 in simp)
qed

end
