(* ===== verification/Throttle.thy ===== *)
theory Throttle
  imports Redis_Store Conformance
begin

text \<open>
  \<^verbatim>\<open>src/lib.rs\<close>: the command \<^verbatim>\<open>CL.THROTTLE\<close>, its entry point for C, and the
  module's initialisation.
\<close>

section \<open>The command\<close>

definition cell_module_name :: string where
  "cell_module_name = ''redis-cell''"

definition cell_module_version :: c_int where
  "cell_module_version = 1"

definition throttle_name :: string where
  "throttle_name = ''cl.throttle''"

definition throttle_flags :: string where
  "throttle_flags = ''write''"

definition parse_i64 :: "string \<Rightarrow> cell_error + i64" where
  "parse_i64 arg = (case i64_from_str arg of
     Inr n \<Rightarrow> Inr n | Inl e \<Rightarrow> Inl (error_macro (''Couldn't parse as integer: '' @ arg)))"

definition usage :: cell_error where
  "usage = error_macro (''Usage: '' @ throttle_name @
     '' <key> <max_burst> <count per period> <period> [<quantity>]'')"

text \<open>Whole seconds, and one more if there are whole milliseconds left.\<close>

definition round_up_seconds :: "('d, 't) time_crate \<Rightarrow> 'd \<Rightarrow> i64" where
  "round_up_seconds tc d =
     (let s = f64_to_i64 (as_seconds_f64 tc d)
      in if 0 < sint (subsec_milliseconds tc d) then s + 1 else s)"

definition throttle_reply ::
    "'h raw \<Rightarrow> ('d, 't) time_crate \<Rightarrow> redis \<Rightarrow> bool \<Rightarrow> 'd rate_limit_result \<Rightarrow> ('h, cell_error, unit) io" where
  "throttle_reply raw tc r throttled res =
     (let retry = round_up_seconds tc (retry_after res); reset = round_up_seconds tc (reset_after res)
      in io_bind (redis_reply_array raw r 5) (\<lambda>_.
         io_bind (redis_reply_integer raw r (if throttled then 1 else 0)) (\<lambda>_.
         io_bind (redis_reply_integer raw r (limit res)) (\<lambda>_.
         io_bind (redis_reply_integer raw r (remaining res)) (\<lambda>_.
         io_bind (redis_reply_integer raw r retry) (\<lambda>_.
         io_bind (redis_reply_integer raw r reset) (\<lambda>_.
         redis_replicate_verbatim raw r)))))))"

text \<open>The limiter borrows the store for the call; the store's state is the server's.\<close>

definition throttle_limit ::
    "'h raw \<Rightarrow> ('d, 't) time_crate \<Rightarrow> ('h, 't) world \<Rightarrow> redis \<Rightarrow> string \<Rightarrow> i64 \<Rightarrow> i64 \<Rightarrow> i64 \<Rightarrow> i64
     \<Rightarrow> ('h, cell_error, bool \<times> 'd rate_limit_result) io" where
  "throttle_limit raw tc wd r key burst count per quantity = (\<lambda>h.
     let rate = rate_per_period tc count (duration_seconds tc per);
         limiter = rate_limiter_new tc h \<lparr>max_burst = burst, max_rate = rate\<rparr>
     in case rate_limit tc (mut_ref_store (redis_store_ops raw tc wd r)) key quantity limiter of
          (x, limiter') \<Rightarrow> (x, store limiter'))"

definition throttle_run ::
    "'h raw \<Rightarrow> ('d, 't) time_crate \<Rightarrow> ('h, 't) world \<Rightarrow> redis \<Rightarrow> string list \<Rightarrow> ('h, cell_error, unit) io" where
  "throttle_run raw tc wd r args =
     (if length args \<noteq> 5 \<and> length args \<noteq> 6 then io_err usage
      else
        io_bind (io_try id (parse_i64 (args ! 2))) (\<lambda>burst.
        io_bind (io_try id (parse_i64 (args ! 3))) (\<lambda>count.
        io_bind (io_try id (parse_i64 (args ! 4))) (\<lambda>per.
        io_bind (if 5 < length args then io_try id (parse_i64 (args ! 5)) else io_ret 1) (\<lambda>quantity.
        io_bind (throttle_limit raw tc wd r (args ! 1) burst count per quantity) (\<lambda>(throttled, res).
        throttle_reply raw tc r throttled res))))))"

definition throttle_command ::
    "'h raw \<Rightarrow> ('d, 't) time_crate \<Rightarrow> ('h, 't) world \<Rightarrow> 'h command" where
  "throttle_command raw tc wd = \<lparr>command_name = throttle_name,
     command_run = throttle_run raw tc wd, command_str_flags = throttle_flags\<rparr>"

section \<open>Entry points for C\<close>

text \<open>A panic does not unwind through an \<open>extern "C"\<close> function: the process aborts.\<close>

definition throttle_redis_command ::
    "'h raw \<Rightarrow> ('d, 't) time_crate \<Rightarrow> ('h, 't) world \<Rightarrow> 'h cmd_func" where
  "throttle_redis_command raw tc wd ctx argv argc h =
     (case harness raw (throttle_command raw tc wd) ctx argv argc h of
        (Ok st, h') \<Rightarrow> (Some st, h')
      | (Err e, h') \<Rightarrow> (None, h')
      | (Panic, h') \<Rightarrow> (None, h'))"

definition redis_module_on_load ::
    "'h raw \<Rightarrow> ('d, 't) time_crate \<Rightarrow> ('h, 't) world \<Rightarrow> ptr \<Rightarrow> (nat \<Rightarrow> ptr) \<Rightarrow> c_int \<Rightarrow> 'h \<Rightarrow> status \<times> 'h" where
  "redis_module_on_load raw tc wd ctx argv argc h =
     (case raw_init raw ctx (cell_module_name @ [nul]) cell_module_version redismodule_apiver_1 h of
        (Status_Err, h1) \<Rightarrow> (Status_Err, h1)
      | (Status_Ok, h1) \<Rightarrow>
          let command = throttle_command raw tc wd
          in (case raw_create_command raw ctx (command_name command @ [nul])
                  (Some (throttle_redis_command raw tc wd)) (command_str_flags command @ [nul]) 1 1 1 h1 of
                (Status_Err, h2) \<Rightarrow> (Status_Err, h2)
              | (Status_Ok, h2) \<Rightarrow> (Status_Ok, h2)))"

section \<open>Seconds in the reply\<close>

text \<open>Up to 52 days, rounding to whole milliseconds and then up to whole seconds.\<close>

context time_laws begin

lemma round_up_seconds_ns:
  assumes "0 \<le> whole_nanoseconds tc d" and "whole_nanoseconds tc d < 2 ^ 52"
  shows "sint (round_up_seconds tc d) =
    whole_nanoseconds tc d div 10 ^ 9 + (if 10 ^ 6 \<le> whole_nanoseconds tc d mod 10 ^ 9 then 1 else 0)"
proof -
  let ?n = "whole_nanoseconds tc d"
  have q: "0 \<le> ?n div 10 ^ 9" "?n div 10 ^ 9 < 2 ^ 33"
    using assms by (simp_all add: pos_imp_zdiv_nonneg_iff div_less_iff_less_mult)
  have s: "sint (f64_to_i64 (as_seconds_f64 tc d)) = ?n div 10 ^ 9"
    unfolding as_seconds_trunc [OF assms] using q by (intro sint_as_i64) simp_all
  have "0 < sint (subsec_milliseconds tc d) \<longleftrightarrow> 10 ^ 6 \<le> ?n mod 10 ^ 9"
    using assms by (simp add: subsec_ms pos_imp_zdiv_pos_iff)
  then show ?thesis using s q by (simp add: round_up_seconds_def Let_def sint_add_i64)
qed

lemma round_up_seconds_whole:
  assumes "whole_nanoseconds tc d = k * 10 ^ 9" and "\<bar>k\<bar> < 2 ^ 33"
  shows "round_up_seconds tc d = as_i64 k"
proof -
  have "trunc_mod (k * 10 ^ 9) (10 ^ 9) = 0"
    by (simp add: trunc_mod_def trunc_div_def sgn_mult abs_mult) (metis sgn_mult_abs)
  then show ?thesis
    using as_seconds_whole [OF assms] by (simp add: round_up_seconds_def subsec_ms assms(1) trunc_div_def)
qed

end

section \<open>The command over a server\<close>

text \<open>What the arguments ask for, and the ranges in which the command computes exactly.\<close>

definition emission :: "i64 \<Rightarrow> i64 \<Rightarrow> int" where
  "emission count per = sint per * 10 ^ 9 div sint count"

definition quota_ok :: "i64 \<Rightarrow> i64 \<Rightarrow> i64 \<Rightarrow> bool" where
  "quota_ok burst count per \<longleftrightarrow>
     0 \<le> sint burst \<and> sint burst < i64_max \<and> 0 < sint count \<and> sint count \<le> 2 ^ 53 \<and>
     0 < sint per \<and> sint per < 9007199 \<and>
     emission count per * (sint burst + 1) \<le> 2 ^ 61"

lemma quota_bounds:
  assumes "quota_ok burst count per" and "emission count per = e" and "0 < e" and "e * (sint burst + 1) = tau"
  shows "e \<le> 2 ^ 61" and "0 \<le> tau" and "tau \<le> 2 ^ 61"
proof -
  show "tau \<le> 2 ^ 61" "0 \<le> tau" using assms by (auto simp: quota_ok_def)
  moreover have "e * 1 \<le> e * (sint burst + 1)" using assms by (intro mult_left_mono) (simp_all add: quota_ok_def)
  ultimately show "e \<le> 2 ^ 61" using assms(4) by simp
qed

text \<open>The reply's five numbers.\<close>

definition throttle_events :: "('d, 't) time_crate \<Rightarrow> bool \<Rightarrow> 'd rate_limit_result \<Rightarrow> reply_event list" where
  "throttle_events tc limited res =
     [Array_Reply 5, Integer_Reply (if limited then 1 else 0), Integer_Reply (limit res),
      Integer_Reply (remaining res), Integer_Reply (round_up_seconds tc (retry_after res)),
      Integer_Reply (round_up_seconds tc (reset_after res))]"

text \<open>Arguments that parse, with the quantity 1 when it is not given.\<close>

definition throttle_args :: "string list \<Rightarrow> string \<Rightarrow> i64 \<Rightarrow> i64 \<Rightarrow> i64 \<Rightarrow> i64 \<Rightarrow> bool" where
  "throttle_args args key burst count per q \<longleftrightarrow>
     (length args = 5 \<and> q = 1 \<or> length args = 6 \<and> i64_from_str (args ! 5) = Inr q) \<and>
     args ! 1 = key \<and> i64_from_str (args ! 2) = Inr burst \<and> i64_from_str (args ! 3) = Inr count \<and>
     i64_from_str (args ! 4) = Inr per"

text \<open>The arguments as the server passes them: live strings that are UTF-8.\<close>

definition passed :: "'t host_view \<Rightarrow> (nat \<Rightarrow> ptr) \<Rightarrow> c_int \<Rightarrow> string list \<Rightarrow> bool" where
  "passed v argv argc args \<longleftrightarrow> sint argc = int (length args) \<and>
     list_all2 (\<lambda>p s. hv_strings v p = Some s \<and> string_from_utf8 s = Inr s)
       (map argv [0..<length args]) args"

locale throttle_host = redis_host raw wd hv + time_laws tc
  for raw :: "'h raw" and wd :: "('h, 't) world" and hv :: "'h \<Rightarrow> 't host_view"
    and tc :: "('d, 't) time_crate"

sublocale throttle_host \<subseteq> limiter: gcra_limiter tc "redis_store_ops raw tc wd r" "redis_view hv"
    "\<lambda>h. hv_clock (hv h)" "redis_kept hv v0" "redis_ttl_ok tc" "redis_due hv" "redis_due_in tc hv"
    "10 ^ 6" "\<lambda>h ns. Some (hv_mstime (hv h) + ns div 10 ^ 6)" for r and v0
proof (unfold_locales, goal_cases)
  case (1 d)
  let ?n = "whole_nanoseconds tc d"
  have "0 < ?n div 10 ^ 6" using 1 by (simp add: pos_imp_zdiv_pos_iff)
  moreover have "?n div 10 ^ 6 < 2 ^ 63" using 1 by (intro div_lessI) simp_all
  ultimately show ?case using 1 by (simp add: redis_ttl_ok_def whole_ms sint_as_i64)
next
  case (2 d h)
  let ?n = "whole_nanoseconds tc d"
  have "0 \<le> ?n div 10 ^ 6" "?n div 10 ^ 6 < 2 ^ 63"
    using 2 by (simp_all add: pos_imp_zdiv_nonneg_iff div_lessI)
  then show ?case using 2 by (simp add: redis_due_in_def whole_ms sint_as_i64)
qed

interpretation ref_throttle: throttle_host ref_raw ref_world ref_abs ns_time
  by unfold_locales

context throttle_host begin

lemma limiter_params:
  assumes "quota_ok burst count per"
  shows "whole_nanoseconds tc (emission_interval (rate_limiter_new tc h
      \<lparr>max_burst = burst, max_rate = rate_per_period tc count (duration_seconds tc per)\<rparr>)) = emission count per"
    and "whole_nanoseconds tc (delay_variation_tolerance (rate_limiter_new tc h
      \<lparr>max_burst = burst, max_rate = rate_per_period tc count (duration_seconds tc per)\<rparr>)) =
      emission count per * (sint burst + 1)"
proof -
  let ?e = "emission count per"
  have c: "count \<noteq> 0" "0 < sint count" "\<bar>sint count\<bar> \<le> 2 ^ 53" "\<bar>sint per * 10 ^ 9\<bar> < 2 ^ 53"
    using assms by (auto simp: quota_ok_def)
  have e: "whole_nanoseconds tc (period (rate_per_period tc count (duration_seconds tc per))) = ?e"
    using ns_rate_per_period [OF c(1,3), of "duration_seconds tc per"] c assms
    by (simp add: ns_seconds emission_def quota_ok_def)
  then show "whole_nanoseconds tc (emission_interval (rate_limiter_new tc h
      \<lparr>max_burst = burst, max_rate = rate_per_period tc count (duration_seconds tc per)\<rparr>)) = ?e"
    by (simp add: rate_limiter_new_def)
  have e0: "0 \<le> ?e" using assms by (simp add: emission_def quota_ok_def pos_imp_zdiv_nonneg_iff)
  have b: "sint (burst + 1) = sint burst + 1"
    using assms by (intro sint_add_i64 [of burst 1, simplified]) (simp_all add: quota_ok_def)
  have "?e * 1 \<le> ?e * (sint burst + 1)" using e0 assms by (intro mult_left_mono) (simp_all add: quota_ok_def)
  then have le: "?e \<le> 2 ^ 61" using assms by (simp add: quota_ok_def)
  have s: "sint (as_i64 ?e) = ?e" using e0 le by (simp add: sint_as_i64)
  have "0 \<le> ?e * (sint burst + 1)" using e0 assms by (simp add: quota_ok_def)
  then have "sint (as_i64 ?e * (burst + 1)) = ?e * (sint burst + 1)"
    using assms by (subst sint_mult_i64) (simp_all add: s b quota_ok_def)
  then show "whole_nanoseconds tc (delay_variation_tolerance (rate_limiter_new tc h
      \<lparr>max_burst = burst, max_rate = rate_per_period tc count (duration_seconds tc per)\<rparr>)) = ?e * (sint burst + 1)"
    by (simp add: rate_limiter_new_def e ns_nanoseconds)
qed

lemma throttle_limit_gcra:
  assumes quota: "quota_ok burst count per" and ok: "redis_key_ok hv h key"
    and now: "epoch_ns tc (hv_clock (hv h)) = now" and e: "emission count per = e"
    and tau: "e * (sint burst + 1) = tau"
    and tat: "stored_tat (redis_view hv h key) now = tat"
    and bounds: "gcra_bounds e tau (e * sint q) tat now"
    and d: "gcra tau (e * sint q) tat now = d"
    and min: "\<And>n. d = Allowed n \<Longrightarrow> 10 ^ 6 \<le> n - now"
  shows "\<exists>limited res h'. throttle_limit raw tc wd r key burst count per q h = (Ok (limited, res), h') \<and>
    reports tc (burst + 1) e tau d tat now limited res \<and> redis_kept hv (hv h) h' key \<and>
    redis_view hv h' = (redis_view hv h)(key := gcra_write d (redis_view hv h key)) \<and>
    hv_expiry (hv h') key =
      gcra_due d now (\<lambda>ns. Some (hv_mstime (hv h) + ns div 10 ^ 6)) (hv_expiry (hv h) key)"
proof -
  let ?rl = "rate_limiter_new tc h
      \<lparr>max_burst = burst, max_rate = rate_per_period tc count (duration_seconds tc per)\<rparr>"
  have st: "store ?rl = h" "limiter_limit ?rl = burst + 1" by (simp_all add: rate_limiter_new_def)
  have kept: "redis_kept hv (hv h) (store ?rl) key" using ok by (simp add: redis_kept_def st)
  have params: "whole_nanoseconds tc (delay_variation_tolerance ?rl) = tau"
    "whole_nanoseconds tc (emission_interval ?rl) = e"
    using limiter_params [OF quota] e tau by simp_all
  obtain limited res h' where
    "rate_limit tc (redis_store_ops raw tc wd r) key q ?rl = (Ok (limited, res), ?rl\<lparr>store := h'\<rparr>)"
    "reports tc (limiter_limit ?rl) e tau d tat now limited res"
    "redis_kept hv (hv h) h' key"
    "redis_view hv h' = (redis_view hv (store ?rl))(key := gcra_write d (redis_view hv (store ?rl) key))"
    and due: "redis_due hv h' = (redis_due hv (store ?rl))(key := gcra_due d now
      (\<lambda>ns. Some (hv_mstime (hv (store ?rl)) + ns div 10 ^ 6)) (redis_due hv (store ?rl) key))"
    using limiter.rate_limit_call [OF kept _ params _ bounds d min, of r] now tat by (auto simp: st)
  moreover have "hv_expiry (hv h') key = gcra_due d now
      (\<lambda>ns. Some (hv_mstime (hv h) + ns div 10 ^ 6)) (hv_expiry (hv h) key)"
    using fun_cong [OF due, of key] by (simp add: redis_due_def st)
  ultimately show ?thesis by (simp add: throttle_limit_def Let_def st)
qed

text \<open>The reply is five numbers and leaves the rest of the server alone.\<close>

lemma throttle_replies:
  "\<exists>h'. throttle_reply raw tc r limited res h = (Ok (), h') \<and>
    hv h' = (hv h)\<lparr>hv_replies := hv_replies (hv h) @ throttle_events tc limited res, hv_replicated := True\<rparr>"
proof -
  obtain h1 where 1: "redis_reply_array raw r 5 h = (Ok (), h1)"
    "hv h1 = (hv h)\<lparr>hv_replies := hv_replies (hv h) @ [Array_Reply 5]\<rparr>"
    using replies_array by blast
  obtain h2 where 2: "redis_reply_integer raw r (if limited then 1 else 0) h1 = (Ok (), h2)"
    "hv h2 = (hv h1)\<lparr>hv_replies := hv_replies (hv h1) @ [Integer_Reply (if limited then 1 else 0)]\<rparr>"
    using replies_integer by blast
  obtain h3 where 3: "redis_reply_integer raw r (limit res) h2 = (Ok (), h3)"
    "hv h3 = (hv h2)\<lparr>hv_replies := hv_replies (hv h2) @ [Integer_Reply (limit res)]\<rparr>"
    using replies_integer by blast
  obtain h4 where 4: "redis_reply_integer raw r (remaining res) h3 = (Ok (), h4)"
    "hv h4 = (hv h3)\<lparr>hv_replies := hv_replies (hv h3) @ [Integer_Reply (remaining res)]\<rparr>"
    using replies_integer by blast
  obtain h5 where 5: "redis_reply_integer raw r (round_up_seconds tc (retry_after res)) h4 = (Ok (), h5)"
    "hv h5 = (hv h4)\<lparr>hv_replies := hv_replies (hv h4) @ [Integer_Reply (round_up_seconds tc (retry_after res))]\<rparr>"
    using replies_integer by blast
  obtain h6 where 6: "redis_reply_integer raw r (round_up_seconds tc (reset_after res)) h5 = (Ok (), h6)"
    "hv h6 = (hv h5)\<lparr>hv_replies := hv_replies (hv h5) @ [Integer_Reply (round_up_seconds tc (reset_after res))]\<rparr>"
    using replies_integer by blast
  obtain h7 where 7: "redis_replicate_verbatim raw r h6 = (Ok (), h7)"
    "hv h7 = (hv h6)\<lparr>hv_replicated := True\<rparr>"
    using replicates by blast
  show ?thesis
    using 1 2 3 4 5 6 7 by (simp add: throttle_reply_def Let_def io_simps throttle_events_def)
qed

lemma throttle_run_limits:
  assumes "throttle_args args key burst count per q"
  shows "throttle_run raw tc wd r args =
    io_bind (throttle_limit raw tc wd r key burst count per q) (\<lambda>(throttled, res).
    throttle_reply raw tc r throttled res)"
  using assms
  by (auto simp: throttle_args_def throttle_run_def parse_i64_def io_bind_def io_try_def io_ret_def fun_eq_iff)

lemma throttle_run_gcra:
  assumes args: "throttle_args args key burst count per q"
    and quota: "quota_ok burst count per" and ok: "redis_key_ok hv h key"
    and now: "epoch_ns tc (hv_clock (hv h)) = now" and e: "emission count per = e"
    and tau: "e * (sint burst + 1) = tau"
    and tat: "stored_tat (redis_view hv h key) now = tat"
    and bounds: "gcra_bounds e tau (e * sint q) tat now"
    and d: "gcra tau (e * sint q) tat now = d"
    and min: "\<And>n. d = Allowed n \<Longrightarrow> 10 ^ 6 \<le> n - now"
  shows "\<exists>limited res h'. throttle_run raw tc wd r args h = (Ok (), h') \<and>
    reports tc (burst + 1) e tau d tat now limited res \<and>
    hv_replies (hv h') = hv_replies (hv h) @ throttle_events tc limited res \<and>
    hv_replicated (hv h') \<and> redis_view hv h' key = gcra_write d (redis_view hv h key) \<and>
    redis_key_ok hv h' key \<and> hv_expiry (hv h') key =
      gcra_due d now (\<lambda>ns. Some (hv_mstime (hv h) + ns div 10 ^ 6)) (hv_expiry (hv h) key) \<and>
    hv_strings (hv h') = hv_strings (hv h) \<and> hv_keys (hv h') = hv_keys (hv h) \<and>
    (\<forall>name. name = key \<or> hv_db (hv h') name = hv_db (hv h) name \<and>
      hv_expiry (hv h') name = hv_expiry (hv h) name)"
proof -
  obtain limited res h1 where 1: "throttle_limit raw tc wd r key burst count per q h = (Ok (limited, res), h1)"
    "reports tc (burst + 1) e tau d tat now limited res" "redis_kept hv (hv h) h1 key"
    "redis_view hv h1 = (redis_view hv h)(key := gcra_write d (redis_view hv h key))"
    "hv_expiry (hv h1) key = gcra_due d now
      (\<lambda>ns. Some (hv_mstime (hv h) + ns div 10 ^ 6)) (hv_expiry (hv h) key)"
    using throttle_limit_gcra [OF quota ok now e tau tat bounds d min] by blast
  obtain h2 where 2: "throttle_reply raw tc r limited res h1 = (Ok (), h2)"
    "hv h2 = (hv h1)\<lparr>hv_replies := hv_replies (hv h1) @ throttle_events tc limited res, hv_replicated := True\<rparr>"
    using throttle_replies by blast
  have "redis_view hv h2 = redis_view hv h1" "redis_key_ok hv h2 = redis_key_ok hv h1"
    using redis_view_same [of hv h2 h1] 2(2) by simp_all
  moreover have "throttle_run raw tc wd r args h = (Ok (), h2)"
    using 1 2 by (simp add: throttle_run_limits [OF args] io_simps)
  ultimately show ?thesis using 1 2 by (auto simp: redis_kept_def redis_rest_def)
qed

text \<open>From the entry point: the arguments are read, and a command's outcome becomes a status.\<close>

lemma harness_args:
  assumes "passed (hv h) argv argc args"
  shows "\<exists>h1. parse_args raw argv argc h = (Ok args, h1) \<and> hv h1 = hv h"
  using assms manifest_args [of h "map argv [0..<length args]" args]
  by (auto simp: passed_def parse_args_def)

lemma throttle_entry_ok:
  assumes "passed (hv h) argv argc args"
    and "\<And>h1. hv h1 = hv h \<Longrightarrow> \<exists>h2. throttle_run raw tc wd \<lparr>redis_ctx = ctx\<rparr> args h1 = (Ok (), h2) \<and> P h2"
  shows "\<exists>h2. throttle_redis_command raw tc wd ctx argv argc h = (Some Status_Ok, h2) \<and> P h2"
proof -
  obtain h1 where h1: "parse_args raw argv argc h = (Ok args, h1)" "hv h1 = hv h"
    using harness_args [OF assms(1)] by blast
  then obtain h2 where "throttle_run raw tc wd \<lparr>redis_ctx = ctx\<rparr> args h1 = (Ok (), h2)" "P h2"
    using assms(2) by blast
  then show ?thesis using h1 by (simp add: throttle_redis_command_def harness_def throttle_command_def)
qed

lemma throttle_entry_err_view:
  assumes "passed (hv h) argv argc args"
    and "\<And>h1. hv h1 = hv h \<Longrightarrow> \<exists>h2. throttle_run raw tc wd \<lparr>redis_ctx = ctx\<rparr> args h1 = (Err e, h2) \<and> P (hv h2)"
  shows "\<exists>h2 v. throttle_redis_command raw tc wd ctx argv argc h = (Some Status_Err, h2) \<and> P v \<and>
    hv h2 = v\<lparr>hv_replies := hv_replies v @
      [Error_Reply (c_str (''Cell error: '' @ display_cell_error e @ [nul]))]\<rparr>"
proof -
  obtain h1 where h1: "parse_args raw argv argc h = (Ok args, h1)" "hv h1 = hv h"
    using harness_args [OF assms(1)] by blast
  then obtain h2 where "throttle_run raw tc wd \<lparr>redis_ctx = ctx\<rparr> args h1 = (Err e, h2)" "P (hv h2)"
    using assms(2) by blast
  then show ?thesis using h1 reply_error
    by (auto simp: throttle_redis_command_def harness_def throttle_command_def)
qed

lemma throttle_entry_err:
  assumes "passed (hv h) argv argc args"
    and "\<And>h1. hv h1 = hv h \<Longrightarrow> \<exists>h2. throttle_run raw tc wd \<lparr>redis_ctx = ctx\<rparr> args h1 = (Err e, h2) \<and> hv h2 = hv h"
  shows "\<exists>h2. throttle_redis_command raw tc wd ctx argv argc h = (Some Status_Err, h2) \<and>
    hv h2 = (hv h)\<lparr>hv_replies := hv_replies (hv h) @
      [Error_Reply (c_str (''Cell error: '' @ display_cell_error e @ [nul]))]\<rparr>"
  using throttle_entry_err_view [OF assms(1), where P = "\<lambda>v. v = hv h"] assms(2) by blast

lemma throttle_entry_panic:
  assumes "passed (hv h) argv argc args"
    and "\<And>h1. hv h1 = hv h \<Longrightarrow> \<exists>h2. throttle_run raw tc wd \<lparr>redis_ctx = ctx\<rparr> args h1 = (Panic, h2)"
  shows "\<exists>h2. throttle_redis_command raw tc wd ctx argv argc h = (None, h2)"
proof -
  obtain h1 where h1: "parse_args raw argv argc h = (Ok args, h1)" "hv h1 = hv h"
    using harness_args [OF assms(1)] by blast
  then obtain h2 where "throttle_run raw tc wd \<lparr>redis_ctx = ctx\<rparr> args h1 = (Panic, h2)"
    using assms(2) by blast
  then show ?thesis using h1 by (simp add: throttle_redis_command_def harness_def throttle_command_def)
qed

end

end
