(* ===== verification/Redis_Frame.thy ===== *)
theory Redis_Frame
  imports Redis_Store
begin

text \<open>
  What an operation of the Redis store leaves alone, whichever way it ends and whatever the key
  holds. Errors and panics are outcomes like any other: the handles of a scope are given back on each.
\<close>

section \<open>Confined operations\<close>

lemma redis_rest_trans: "redis_rest u key v \<Longrightarrow> redis_rest v key w \<Longrightarrow> redis_rest u key w"
  by (simp add: redis_rest_def)

lemma redis_rest_same: "hv h' = hv h \<Longrightarrow> redis_rest (hv h) key (hv h')"
  by simp

lemma redis_rest_put:
  "redis_rest v key (put_value key s v)" "redis_rest v key (put_expiry key ms v)"
  "redis_rest v key (v\<lparr>hv_clock := c\<rparr>)"
  by (simp_all add: redis_rest_def put_value_def put_expiry_def)

text \<open>An operation changes nothing of the server but the data of one key, and the clock's reading.\<close>

definition confined :: "('h \<Rightarrow> 't host_view) \<Rightarrow> string \<Rightarrow> ('h, 'e, 'a) io \<Rightarrow> 'h \<Rightarrow> bool" where
  "confined hv key m h \<longleftrightarrow> redis_rest (hv h) key (hv (snd (m h)))"

lemma confinedI: "m h = (x, h') \<Longrightarrow> redis_rest (hv h) key (hv h') \<Longrightarrow> confined hv key m h"
  by (simp add: confined_def)

lemma confinedD: "confined hv key m h \<Longrightarrow> m h = (x, h') \<Longrightarrow> redis_rest (hv h) key (hv h')"
  by (simp add: confined_def)

lemma confined_pure [simp]:
  "confined hv key (io_ret x) h" "confined hv key (io_err e) h" "confined hv key io_panic h"
  "confined hv key (io_try conv r) h"
  by (cases r; simp add: confined_def io_simps)+

lemma confined_map_err [simp]: "confined hv key (io_map_err conv m) h = confined hv key m h"
  by (simp add: confined_def io_map_err_def split: prod.split outcome.split)

lemma confined_bind:
  assumes "confined hv key m h"
    and "\<And>x h'. m h = (Ok x, h') \<Longrightarrow> redis_rest (hv h) key (hv h') \<Longrightarrow> confined hv key (f x) h'"
  shows "confined hv key (io_bind m f) h"
proof (cases rule: io_bind_cases [of m h f])
  case (ok x h')
  then show ?thesis using confinedD [OF assms(1) ok(1)] assms(2) [OF ok(1)]
    by (auto simp: confined_def intro: redis_rest_trans)
qed (use assms(1) in \<open>auto simp: confined_def\<close>)

text \<open>A key that is open stays open.\<close>

definition open_to :: "('h \<Rightarrow> 't host_view) \<Rightarrow> ptr \<Rightarrow> string \<Rightarrow> key_access \<Rightarrow> 'h \<Rightarrow> bool" where
  "open_to hv kp key access h \<longleftrightarrow> hv_keys (hv h) kp = Some (key, to_raw_mode access)"

lemma open_to_rest: "open_to hv kp key access h \<Longrightarrow> redis_rest (hv h) name (hv h') \<Longrightarrow> open_to hv kp key access h'"
  by (simp add: open_to_def redis_rest_def)

section \<open>The view of a key that is open to write\<close>

lemma opened_self:
  assumes "hv_strings w = hv_strings (opened v k key)" and "hv_keys w = hv_keys (opened v k key)"
  shows "w = opened (w\<lparr>hv_strings := hv_strings v, hv_keys := hv_keys v\<rparr>) k key"
  using assms by (simp add: opened_def)

definition held :: "('h \<Rightarrow> 't host_view) \<Rightarrow> redis_key_writable \<Rightarrow> string \<Rightarrow> 'h \<Rightarrow> bool" where
  "held hv k key h \<longleftrightarrow> (\<exists>v. hv h = opened v k key)"

lemma held_rest: "held hv k key h \<Longrightarrow> redis_rest (hv h) key (hv h') \<Longrightarrow> held hv k key h'"
  unfolding held_def redis_rest_def by (metis opened_self)

lemma confined_bind_held:
  assumes "held hv k key h" and "confined hv key m h"
    and "\<And>x h'. held hv k key h' \<Longrightarrow> confined hv key (f x) h'"
  shows "confined hv key (io_bind m f) h"
  using assms by (blast intro: confined_bind held_rest)

lemma held_open: "held hv k key h \<Longrightarrow> open_to hv (writable_inner k) key Access_Read_Write h"
  by (auto simp: held_def open_to_def)

section \<open>A server that frames its effects\<close>

text \<open>
  \<open>redis_host\<close> says what a time to live does that is positive, which is what the documentation asks
  for. Of any other this says only that it concerns the key that it is given for.
\<close>

locale framed_host = redis_host raw wd hv
  for raw :: "'h raw" and wd :: "('h, 't) world" and hv :: "'h \<Rightarrow> 't host_view" +
  assumes expire_frame: "hv_keys (hv h) kp = Some (name, m) \<Longrightarrow>
    redis_rest (hv h) name (hv (snd (raw_set_expire raw kp ms h)))"

interpretation ref_framed: framed_host ref_raw ref_world ref_abs
  by unfold_locales
    (auto simp: ref_set_expire_def redis_rest_def ref_expiry_def split: option.splits)

context redis_host begin

text \<open>Closing what was opened, after the data of the key may have changed.\<close>

lemma writable_dropped:
  assumes "redis_rest (opened v k key) key (hv h')"
    and "hv_strings v (str_inner (key_str k)) = None" and "hv_keys v (writable_inner k) = None"
  shows "hv (key_writable_drop raw k h') = (hv h')\<lparr>hv_strings := hv_strings v, hv_keys := hv_keys v\<rparr>"
  by (rule writable_drop [OF opened_self]) (use assms in \<open>simp_all add: redis_rest_def\<close>)

lemma writable_scope_rest:
  assumes "\<And>k h'. held hv k key h' \<Longrightarrow> confined hv key (body k) h'"
  shows "confined hv key (io_bind (redis_open_key_writable raw r key)
    (\<lambda>k. io_drop (body k) (key_writable_drop raw k))) h"
proof -
  obtain k h1 where k: "key_writable_open raw (redis_ctx r) key h = (Ok k, h1)"
    and fresh: "hv_strings (hv h) (str_inner (key_str k)) = None" "hv_keys (hv h) (writable_inner k) = None"
    and h1: "hv h1 = opened (hv h) k key"
    using writable_open by blast
  obtain x h2 where run: "body k h1 = (x, h2)" by (cases "body k h1")
  moreover have "held hv k key h1" using h1 by (auto simp: held_def)
  ultimately have rest: "redis_rest (opened (hv h) k key) key (hv h2)"
    using confinedD [OF assms] h1 by fastforce
  then have "hv (key_writable_drop raw k h2) = (hv h2)\<lparr>hv_strings := hv_strings (hv h), hv_keys := hv_keys (hv h)\<rparr>"
    by (rule writable_dropped [OF _ fresh])
  then show ?thesis using k run rest
    by (simp add: confined_def redis_open_key_writable_def io_simps io_drop_def redis_rest_def opened_def)
qed

lemma read_scope_rest:
  assumes "\<And>k h'. redis_key_is_null k \<or> open_to hv (key_inner k) key Access_Read h' \<Longrightarrow> confined hv key (body k) h'"
  shows "confined hv key (io_bind (redis_open_key raw r key) (\<lambda>k. io_drop (body k) (redis_key_drop raw k))) h"
proof -
  obtain k h1 where k: "redis_key_open raw (redis_ctx r) key h = (Ok k, h1)"
    and h1: "if hv_db (hv h) key = None then redis_key_is_null k \<and> hv h1 = hv h
     else \<not> redis_key_is_null k \<and> hv_keys (hv h) (key_inner k) = None \<and>
       hv h1 = (hv h)\<lparr>hv_keys := (hv_keys (hv h))(key_inner k \<mapsto> (key, to_raw_mode Access_Read))\<rparr>"
    using key_open by blast
  obtain x h2 where run: "body k h1 = (x, h2)" by (cases "body k h1")
  have "redis_key_is_null k \<or> open_to hv (key_inner k) key Access_Read h1"
    using h1 by (auto simp: open_to_def split: if_splits)
  then have rest: "redis_rest (hv h1) key (hv h2)" using confinedD [OF assms run] by blast
  have "redis_rest (hv h) key (hv (redis_key_drop raw k h2))"
  proof (cases "hv_db (hv h) key = None")
    case True
    then show ?thesis using h1 rest by (simp add: key_drop_null)
  next
    case False
    let ?v = "(hv h2)\<lparr>hv_keys := hv_keys (hv h)\<rparr>"
    have "hv h2 = ?v\<lparr>hv_keys := (hv_keys ?v)(key_inner k \<mapsto> (key, to_raw_mode Access_Read))\<rparr>"
      using rest h1 False by (simp add: redis_rest_def)
    then have "hv (redis_key_drop raw k h2) = ?v"
      by (rule key_drop) (use h1 False in simp)
    then show ?thesis using rest h1 False by (simp add: redis_rest_def)
  qed
  then show ?thesis using k run
    by (simp add: confined_def redis_open_key_def io_simps io_drop_def)
qed

text \<open>The operations on an open key.\<close>

lemma confined_read_key:
  assumes "open_to hv kp key access h"
  shows "confined hv key (read_key raw kp) h"
proof -
  obtain x h' where "read_key raw kp h = (x, h')" "hv h' = hv h"
    using read_open_key [of h kp key] assms by (fastforce simp: open_to_def split: sum.splits)
  then show ?thesis by (simp add: confined_def)
qed

lemma confined_key_read:
  assumes "redis_key_is_null k \<or> open_to hv (key_inner k) key Access_Read h"
  shows "confined hv key (redis_key_read raw k) h"
  using assms confined_read_key [of "key_inner k" key Access_Read h]
  by (auto simp: redis_key_read_def intro: confined_bind)

lemma confined_writable_read:
  assumes "held hv k key h"
  shows "confined hv key (key_writable_read raw k) h"
  using confined_read_key [OF held_open [OF assms]]
  by (auto simp: key_writable_read_def intro!: confined_bind)

lemma confined_is_empty:
  assumes "held hv k key h"
  shows "confined hv key (key_writable_is_empty raw k) h"
  using confined_writable_read [OF assms]
  by (auto simp: key_writable_is_empty_def intro!: confined_bind)

lemma confined_write:
  assumes "held hv k key h"
  shows "confined hv key (key_writable_write raw k val) h"
proof -
  obtain v where v: "hv h = opened v k key" using assms by (auto simp: held_def)
  obtain h' where "key_writable_write raw k val h = (Ok (), h')" "hv h' = opened (put_value key val v) k key"
    using writable_write [OF v] by blast
  then show ?thesis by (simp add: confined_def v redis_rest_def opened_def put_value_def)
qed

lemma confined_now: "confined hv key (io_lift (now_utc wd)) h"
  using now_utc [of h] by (auto simp: confined_def io_simps redis_rest_put)

end

section \<open>The three operations\<close>

context framed_host begin

lemma confined_set_expire:
  assumes "held hv k key h"
  shows "confined hv key (key_writable_set_expire raw tc k ttl) h"
proof -
  have "hv_keys (hv h) (writable_inner k) = Some (key, to_raw_mode Access_Read_Write)"
    using held_open [OF assms] by (simp add: open_to_def)
  from expire_frame [OF this] show ?thesis
    by (auto simp: key_writable_set_expire_def confined_def io_simps io_bind_def io_lift_def
        split: prod.splits status.splits)
qed

lemma confined_get: "confined hv key (redis_get_with_time raw wd r key) h"
  unfolding redis_get_with_time_def
  by (intro read_scope_rest confined_bind confined_key_read confined_now)
    (auto split: option.split sum.split)

lemma confined_swap: "confined hv key (redis_compare_and_swap raw tc r key old new ttl) h"
  unfolding redis_compare_and_swap_def
proof (rule writable_scope_rest, rule confined_bind_held)
  fix k h' assume "held hv k key h'"
  then show "confined hv key (key_writable_read raw k) h'" by (rule confined_writable_read)
next
  fix k v h' assume "held hv k key h'"
  then show "confined hv key (case v of
      Some s \<Rightarrow>
        io_bind (if s \<noteq> [] then
            io_bind (io_try cell_error_from_parse_int (u64_from_str s)) (\<lambda>n. io_ret (n = old))
          else io_ret False) (\<lambda>same.
        if same then
          io_bind (key_writable_write raw k (u64_to_string new)) (\<lambda>_.
          io_bind (key_writable_set_expire raw tc k ttl) (\<lambda>_. io_ret True))
        else io_ret False)
    | None \<Rightarrow> io_ret False) h'"
    by (auto split: option.split intro!: confined_bind_held [where k = k] confined_write confined_set_expire)
qed

lemma confined_set: "confined hv key (redis_set_if_not_exists raw tc r key new ttl) h"
  unfolding redis_set_if_not_exists_def
  by (rule writable_scope_rest)
    (auto intro!: confined_bind_held confined_is_empty confined_write confined_set_expire)

end

end
