(* ===== verification/Command_Facts.thy ===== *)
theory Command_Facts
  imports Throttle Redis_Frame
begin

text \<open>
  What the server sees of the module: the properties of the store over the server's keyspace in
  \<^verbatim>\<open>src/cell/store.rs\<close>, of the command in \<^verbatim>\<open>src/lib.rs\<close> from its
  entry point on. Hypotheses \<open>redis_host\<close>, \<open>framed_host\<close> and \<open>throttle_host\<close>
  are the documented behaviour of the server's functions and of the \<open>time\<close> crate; the witnesses
  run on the reference server of \<open>Ref_Host\<close>.
\<close>

section \<open>A command's arguments on the reference server\<close>

text \<open>The server at a time, with some values, that has numbered a command's arguments from 1.\<close>

definition ref_with :: "int \<Rightarrow> (string \<rightharpoonup> redis_value) \<Rightarrow> string list \<Rightarrow> ref_host" where
  "ref_with now db args = (ref_start now)\<lparr>
     rh_strings := (\<lambda>p. if 1 \<le> p \<and> p \<le> int (length args) then Some (args ! nat (p - 1)) else None),
     rh_db := (\<lambda>key. map_option (\<lambda>v. (v, None)) (db key)),
     rh_next := int (length args) + 1\<rparr>"

definition ref_argv :: "nat \<Rightarrow> ptr" where
  "ref_argv i = int i + 1"

lemma ref_with_view [simp]:
  "map_option fst \<circ> rh_db (ref_with now db args) = db"
  "map_option fst (rh_db (ref_with now db args) key) = db key"
  "rh_now (ref_with now db args) = now"
  "rh_replies (ref_with now db args) = []"
  by (simp_all add: ref_with_def ref_start_def fun_eq_iff option.map_comp comp_def option.map_ident)

lemma ref_with_strings:
  "i < length args \<Longrightarrow>
     live (ref_with now db args) (rh_strings (ref_with now db args)) (ref_argv i) = Some (args ! i)"
  by (simp add: ref_with_def ref_start_def live_def ref_argv_def next_handle_def)

lemma ref_passed:
  assumes "list_all (\<lambda>s. string_from_utf8 s = Inr s) args" and "int (length args) < 2 ^ 31"
  shows "passed (ref_abs (ref_with now db args)) ref_argv (word_of_int (int (length args))) args"
proof -
  have "sint (word_of_int (int (length args)) :: c_int) = int (length args)"
    using assms(2) by (intro sint_word_of_int_self) simp_all
  then show ?thesis
    using assms(1) by (auto simp: passed_def list_all2_conv_all_nth list_all_length ref_with_strings)
qed

text \<open>A quota of sixteen requests at once and thirty each minute.\<close>

definition sample_args :: "string list" where
  "sample_args = [''CL.THROTTLE'', ''user'', ''15'', ''30'', ''60'']"

lemma sample_passed: "passed (ref_abs (ref_with now db sample_args)) ref_argv 5 sample_args"
  using ref_passed [of sample_args now db] by (simp add: sample_args_def) (use string_from_utf8_ascii in auto)

lemma sample_throttle_args: "throttle_args sample_args ''user'' 15 30 60 1"
  by code_simp

lemma sample_quota: "quota_ok 15 30 60" "emission 30 60 = 2000000000"
  by code_simp+

section \<open>The store over the server's keyspace\<close>

text \<open>A swap of a missing key reads the empty string and is refused, unlike the memory store's.\<close>

context redis_host begin

lemma redis_swap_missing:
  assumes "hv_db (hv h) key = None"
  shows "\<exists>h'. redis_compare_and_swap raw tc r key old new ttl h = (Ok False, h') \<and> hv h' = hv h"
proof -
  obtain k h1 where k: "key_writable_open raw (redis_ctx r) key h = (Ok k, h1)"
    and fresh: "hv_strings (hv h) (str_inner (key_str k)) = None" "hv_keys (hv h) (writable_inner k) = None"
    and h1: "hv h1 = opened (hv h) k key"
    using writable_open by blast
  have "string_from_utf8 (dma_bytes (hv_db (hv h) key)) = Inr []"
    using assms by (simp add: string_from_utf8_ascii)
  then obtain h2 where h2: "key_writable_read raw k h1 = (Ok (Some []), h2)" "hv h2 = opened (hv h) k key"
    using writable_read [OF h1] by blast
  have "hv (key_writable_drop raw k h2) = hv h" by (rule writable_drop [OF h2(2) fresh])
  then show ?thesis using k h2
    by (simp add: redis_compare_and_swap_def redis_open_key_writable_def io_drop_def io_bind_def io_ret_def)
qed

lemma redis_store_contract:
  "cell_store (redis_store_ops raw tc wd r) (redis_view hv) (\<lambda>h. hv_clock (hv h))
    (redis_kept hv v0) (redis_ttl_ok tc) (redis_due hv) (redis_due_in tc hv)"
  by (rule keyspace.cell_store_axioms)

end

text \<open>C8: The Redis store keeps the contract of the trait over any server whose functions behave as
  documented: on a key that is missing or holds a decimal number of 64 bits, a read returns it, a
  swap and a set write exactly when they should, and nothing else of the server changes.\<close>

theorem redis_store_keeps_contract:
  fixes tc :: "('d, 't) time_crate"
  assumes "redis_host raw wd hv"
  shows "cell_store (redis_store_ops raw tc wd r) (redis_view hv) (\<lambda>h. hv_clock (hv h))
    (redis_kept hv v0) (redis_ttl_ok tc) (redis_due hv) (redis_due_in tc hv)"
  by (rule redis_host.redis_store_contract [OF assms])

lemma redis_store_keeps_contract_witness:
  "cell_store (redis_store_ops ref_raw ns_time ref_world \<lparr>redis_ctx = 1\<rparr>) (redis_view ref_abs)
    (\<lambda>h. hv_clock (ref_abs h)) (redis_kept ref_abs (ref_abs (ref_start 0))) (redis_ttl_ok ns_time)
    (redis_due ref_abs) (redis_due_in ns_time ref_abs)"
  by (rule redis_store_keeps_contract [OF ref_server.redis_host_axioms])

text \<open>C9: Every operation of the Redis store, whichever way it ends (with a value, an error or a
  panic) and whatever the key holds, gives back each string and key it opens and leaves the other
  keys, the replies and the mark for replication as they were. Of the server this takes, beyond
  its documented behaviour, only that setting a time to live concerns no more than the key it is
  set for, whatever number it is given.\<close>

theorem redis_store_leaks_nothing:
  fixes tc :: "('d, 't) time_crate"
  assumes "framed_host raw wd hv"
  shows "redis_rest (hv h) key (hv (snd (redis_get_with_time raw wd r key h))) \<and>
    redis_rest (hv h) key (hv (snd (redis_compare_and_swap raw tc r key old new ttl h))) \<and>
    redis_rest (hv h) key (hv (snd (redis_set_if_not_exists raw tc r key new ttl h)))"
  using framed_host.confined_get [OF assms, of key r h] framed_host.confined_swap [OF assms, of key tc r old new ttl h]
    framed_host.confined_set [OF assms, of key tc r new ttl h]
  by (simp add: confined_def)

text \<open>A read that panics on a list, a swap that fails on text, and a set that fails on a time to
  live that the server refuses.\<close>

lemma redis_store_leaks_nothing_witness:
  "(let h = ref_with 0 [''user'' \<mapsto> Other_Value, ''text'' \<mapsto> String_Value ''a''] [];
        r = \<lparr>redis_ctx = 1\<rparr>;
        get = redis_get_with_time ref_raw ref_world r ''user'' h;
        swap = redis_compare_and_swap ref_raw ns_time r ''text'' 7 8 1000000 h;
        set = redis_set_if_not_exists ref_raw ns_time r ''new'' 8 (- 2000000) h
    in fst get = Panic \<and> redis_rest (ref_abs h) ''user'' (ref_abs (snd get)) \<and>
       fst swap = Err (ParseInt InvalidDigit) \<and> redis_rest (ref_abs h) ''text'' (ref_abs (snd swap)) \<and>
       fst set = Err (error_macro ''Error while setting key expire'') \<and>
       redis_rest (ref_abs h) ''new'' (ref_abs (snd set)))"
proof -
  let ?h = "ref_with 0 [''user'' \<mapsto> Other_Value, ''text'' \<mapsto> String_Value ''a''] []"
  have "fst (redis_get_with_time ref_raw ref_world \<lparr>redis_ctx = 1\<rparr> ''user'' ?h) = Panic" by code_simp
  moreover have "fst (redis_compare_and_swap ref_raw ns_time \<lparr>redis_ctx = 1\<rparr> ''text'' 7 8 1000000 ?h) =
      Err (ParseInt InvalidDigit)" by code_simp
  moreover have "fst (redis_set_if_not_exists ref_raw ns_time \<lparr>redis_ctx = 1\<rparr> ''new'' 8 (- 2000000) ?h) =
      Err (error_macro ''Error while setting key expire'')" by code_simp
  ultimately show ?thesis
    using redis_store_leaks_nothing [OF ref_framed.framed_host_axioms, where tc = ns_time] by (simp add: Let_def)
qed

text \<open>C37: The two stores disagree about a swap of a key that is missing: the Redis store refuses it and
  changes nothing, as the trait says, and the memory store writes the key and reports a swap, whatever
  the old number it was given.\<close>

theorem missing_key_swaps:
  fixes tc :: "('d, 't) time_crate"
  assumes "redis_host raw wd hv" and "hv_db (hv h) key = None" and "mem_map m key = None"
  shows "(\<exists>h'. redis_compare_and_swap raw tc r key old new ttl h = (Ok False, h') \<and> hv h' = hv h) \<and>
    memory_compare_and_swap key old new ttl (m, w) = (Ok True, (m\<lparr>mem_map := (mem_map m)(key \<mapsto> new)\<rparr>, w))"
  using redis_host.redis_swap_missing [OF assms(1,2)] assms(3) by (simp add: memory_compare_and_swap_def)

lemma missing_key_swaps_witness:
  "(\<exists>h'. redis_compare_and_swap ref_raw ns_time \<lparr>redis_ctx = 1\<rparr> ''user'' 7 8 1000000 (ref_start 0) =
      (Ok False, h') \<and> ref_abs h' = ref_abs (ref_start 0)) \<and>
   memory_compare_and_swap ''user'' 7 8 (1000000 :: int) (memory_store_new, ()) =
      (Ok True, (memory_store_new\<lparr>mem_map := (mem_map memory_store_new)(''user'' \<mapsto> 8)\<rparr>, ()))"
  by (rule missing_key_swaps [OF ref_server.redis_host_axioms])
    (simp_all add: ref_start_def memory_store_new_def)

text \<open>C30: A time to live of less than a millisecond reaches the server as 0.\<close>

theorem short_ttl_becomes_zero:
  assumes "time_laws tc" and "0 \<le> whole_nanoseconds tc ttl" and "whole_nanoseconds tc ttl < 10 ^ 6"
  shows "key_writable_set_expire raw tc k ttl h =
    (case raw_set_expire raw (writable_inner k) 0 h of
       (Status_Ok, h') \<Rightarrow> (Ok (), h')
     | (Status_Err, h') \<Rightarrow> (Err (error_macro ''Error while setting key expire''), h'))"
proof -
  have "whole_milliseconds tc ttl = 0" using assms by (simp add: time_laws.whole_ms)
  then show ?thesis
    by (simp add: key_writable_set_expire_def as_i64_def io_simps io_bind_def io_lift_def
        split: prod.split status.split)
qed

lemma short_ttl_becomes_zero_witness:
  "key_writable_set_expire ref_raw ns_time \<lparr>writable_ctx = 1, writable_inner = 1,
      key_str = \<lparr>string_ctx = 1, str_inner = 1\<rparr>\<rparr> 999999 (ref_start 0) =
    (Err (error_macro ''Error while setting key expire''), ref_start 0)"
  using short_ttl_becomes_zero [OF ref_time.time_laws_axioms, of 999999 ref_raw]
  by (simp add: ref_set_expire_def ref_start_def live_def)

end
