(* ===== verification/Throttle_Facts.thy ===== *)
theory Throttle_Facts
  imports Command_Facts
begin

text \<open>
  The command of \<^verbatim>\<open>src/lib.rs\<close> from its C entry point: what a call replies and
  writes, its error replies, the inputs on which it aborts the process, and the module's
  initialisation.
\<close>

section \<open>Lemmas on the entry point\<close>

lemma redis_view_hv:
  assumes "hv h1 = hv h"
  shows "redis_view hv h1 = redis_view hv h" and "redis_key_ok hv h1 = redis_key_ok hv h"
  using assms redis_view_same [of hv h1 h] by simp_all

context redis_host begin

text \<open>Arguments that are live strings, one of them not UTF-8.\<close>

lemma manifest_args_bad:
  assumes "list_all (\<lambda>p. hv_strings (hv h) p \<noteq> None) ps"
    and "\<exists>p \<in> set ps. \<exists>s e. hv_strings (hv h) p = Some s \<and> string_from_utf8 s = Inl e"
  shows "\<exists>e h'. manifest_redis_strings raw ps h = (Err e, h')"
  using assms
proof (induction ps arbitrary: h)
  case (Cons p ps)
  obtain s where s: "hv_strings (hv h) p = Some s" using Cons.prems(1) by auto
  obtain bytes k h1 where h1: "raw_string_ptr_len raw p 0 h = ((bytes, k), h1)"
    "map bytes [0..<k] = s" "hv h1 = hv h"
    using string_ptr_len [OF s] by blast
  show ?case
  proof (cases "string_from_utf8 s")
    case (Inl e)
    then show ?thesis using h1
      by (simp add: manifest_redis_string_def from_byte_string_def io_simps)
  next
    case (Inr t)
    then have "\<exists>p \<in> set ps. \<exists>s e. hv_strings (hv h1) p = Some s \<and> string_from_utf8 s = Inl e"
      using Cons.prems(2) s h1(3) by auto
    then obtain e h2 where "manifest_redis_strings raw ps h1 = (Err e, h2)"
      using Cons.IH [of h1] Cons.prems(1) h1(3) by auto
    then show ?thesis using h1 Inr
      by (simp add: manifest_redis_string_def from_byte_string_def io_simps)
  qed
qed simp

lemma harness_bad_utf8:
  assumes "0 \<le> sint argc"
    and "\<forall>i < nat (sint argc). hv_strings (hv h) (argv i) \<noteq> None"
    and "i < nat (sint argc)" and "hv_strings (hv h) (argv i) = Some s" and "string_from_utf8 s = Inl e"
  shows "\<exists>h'. throttle_redis_command raw tc wd ctx argv argc h = (None, h')"
proof -
  let ?ps = "map argv [0..<nat (sint argc)]"
  have "list_all (\<lambda>p. hv_strings (hv h) p \<noteq> None) ?ps" using assms(2) by (auto simp: list_all_iff)
  moreover have "argv i \<in> set ?ps" using assms(3) by auto
  ultimately obtain x h' where "manifest_redis_strings raw ?ps h = (Err x, h')"
    using manifest_args_bad [of h ?ps] assms(4,5) by blast
  then show ?thesis using assms(1)
    by (simp add: throttle_redis_command_def harness_def parse_args_def)
qed

end

context throttle_host begin

lemma throttle_entry_gcra:
  assumes passed: "passed (hv h) argv argc args" and args: "throttle_args args key burst count per q"
    and quota: "quota_ok burst count per" and ok: "redis_key_ok hv h key"
    and now: "epoch_ns tc (hv_clock (hv h)) = now" and e: "emission count per = e"
    and tau: "e * (sint burst + 1) = tau"
    and tat: "stored_tat (redis_view hv h key) now = tat"
    and bounds: "gcra_bounds e tau (e * sint q) tat now"
    and d: "gcra tau (e * sint q) tat now = d"
    and min: "\<And>n. d = Allowed n \<Longrightarrow> 10 ^ 6 \<le> n - now"
  shows "\<exists>limited res h'. throttle_redis_command raw tc wd ctx argv argc h = (Some Status_Ok, h') \<and>
    reports tc (burst + 1) e tau d tat now limited res \<and>
    hv_replies (hv h') = hv_replies (hv h) @ throttle_events tc limited res \<and>
    hv_replicated (hv h') \<and> redis_view hv h' key = gcra_write d (redis_view hv h key) \<and>
    redis_key_ok hv h' key \<and> hv_expiry (hv h') key =
      gcra_due d now (\<lambda>ns. Some (hv_mstime (hv h) + ns div 10 ^ 6)) (hv_expiry (hv h) key) \<and>
    hv_strings (hv h') = hv_strings (hv h) \<and> hv_keys (hv h') = hv_keys (hv h) \<and>
    (\<forall>name. name = key \<or> hv_db (hv h') name = hv_db (hv h) name \<and>
      hv_expiry (hv h') name = hv_expiry (hv h) name)"
proof -
  let ?P = "\<lambda>h'. \<exists>limited res. reports tc (burst + 1) e tau d tat now limited res \<and>
    hv_replies (hv h') = hv_replies (hv h) @ throttle_events tc limited res \<and>
    hv_replicated (hv h') \<and> redis_view hv h' key = gcra_write d (redis_view hv h key) \<and>
    redis_key_ok hv h' key \<and> hv_expiry (hv h') key =
      gcra_due d now (\<lambda>ns. Some (hv_mstime (hv h) + ns div 10 ^ 6)) (hv_expiry (hv h) key) \<and>
    hv_strings (hv h') = hv_strings (hv h) \<and> hv_keys (hv h') = hv_keys (hv h) \<and>
    (\<forall>name. name = key \<or> hv_db (hv h') name = hv_db (hv h) name \<and>
      hv_expiry (hv h') name = hv_expiry (hv h) name)"
  have "\<exists>h2. throttle_run raw tc wd \<lparr>redis_ctx = ctx\<rparr> args h1 = (Ok (), h2) \<and> ?P h2" if h1: "hv h1 = hv h" for h1
  proof -
    have ok1: "redis_key_ok hv h1 key" "epoch_ns tc (hv_clock (hv h1)) = now"
      "stored_tat (redis_view hv h1 key) now = tat"
      using h1 redis_view_hv [of hv h1 h] ok now tat by simp_all
    show ?thesis
      using throttle_run_gcra [OF args quota ok1(1,2) e tau ok1(3) bounds d min, of "\<lparr>redis_ctx = ctx\<rparr>"]
        h1 redis_view_hv [of hv h1 h] by auto
  qed
  then show ?thesis using throttle_entry_ok [OF passed, of ctx ?P] by blast
qed

lemma throttle_run_zero:
  assumes "throttle_args args key burst count per q" and "count = 0 \<or> per = 0"
  shows "throttle_run raw tc wd r args h = (Err zero_rates, h)"
proof -
  have "count = 0 \<or> whole_nanoseconds tc (duration_seconds tc per) = 0"
    using assms(2) by (auto simp: ns_seconds)
  then have "throttle_limit raw tc wd r key burst count per q h = (Err zero_rates, h)"
    using rate_limit_zero [where n = count and p = "duration_seconds tc per" and b = burst and st = h]
    by (simp add: throttle_limit_def Let_def) (simp add: rate_limiter_new_def)
  then show ?thesis by (simp add: throttle_run_limits [OF assms(1)] io_bind_def)
qed

lemma throttle_run_foreign:
  assumes args: "throttle_args args key burst count per q" and quota: "quota_ok burst count per"
    and e: "0 < emission count per" and x: "hv_db (hv h) key = Some x"
    and foreign: "\<And>s. string_from_utf8 (dma_bytes (Some x)) = Inr s \<Longrightarrow> \<exists>e. u64_from_str s = Inl e"
  shows "\<exists>h'. throttle_run raw tc wd r args h =
      (case string_from_utf8 (dma_bytes (Some x)) of Inl e \<Rightarrow> Err (cell_error_from_utf8 e) | Inr s \<Rightarrow> Panic, h') \<and>
    hv h' = hv h"
proof -
  let ?rl = "rate_limiter_new tc h
      \<lparr>max_burst = burst, max_rate = rate_per_period tc count (duration_seconds tc per)\<rparr>"
  have st: "store ?rl = h" by (simp add: rate_limiter_new_def)
  have nz: "\<not> duration_eq tc (emission_interval ?rl) (duration_nanoseconds tc 0)"
    using limiter_params(1) [OF quota, of h] e by (simp add: eq_iff ns_nanoseconds)
  obtain h' where g: "redis_get_with_time raw wd r key h =
      (case string_from_utf8 (dma_bytes (Some x)) of Inl e \<Rightarrow> Err (cell_error_from_utf8 e) | Inr s \<Rightarrow> Panic, h')"
    and h': "hv h' = hv h"
    using redis_get_foreign [OF x foreign] by blast
  have "throttle_run raw tc wd r args h =
      (case string_from_utf8 (dma_bytes (Some x)) of Inl e \<Rightarrow> Err (cell_error_from_utf8 e) | Inr s \<Rightarrow> Panic, h')"
    using g nz
    by (simp add: throttle_run_limits [OF args] throttle_limit_def Let_def rate_limit_def st rate_limit_body_def
        rate_limit_loop.simps [where s = h] rate_limit_iter_def io_bind_def split: sum.split)
  then show ?thesis using h' by blast
qed

lemma throttle_run_bad_integer:
  assumes "length args = 5 \<or> length args = 6" and "i \<in> {2, 3, 4, 5}" and "i < length args"
    and "\<forall>j. 2 \<le> j \<and> j < i \<longrightarrow> (\<exists>n. i64_from_str (args ! j) = Inr n)"
    and "i64_from_str (args ! i) = Inl e"
  shows "throttle_run raw tc wd r args h = (Err (error_macro (''Couldn't parse as integer: '' @ args ! i)), h)"
proof -
  have ok: "\<exists>n. i64_from_str (args ! j) = Inr n" if "2 \<le> j" "j < i" for j using assms(4) that by blast
  have run: "io_try id (parse_i64 (args ! j)) h =
      (case i64_from_str (args ! j) of Inr n \<Rightarrow> (Ok n, h)
       | Inl e \<Rightarrow> (Err (error_macro (''Couldn't parse as integer: '' @ args ! j)), h))" for j
    by (simp add: parse_i64_def io_try_def io_err_def io_ret_def split: sum.split)
  from assms(2) consider "i = 2" | "i = 3" | "i = 4" | "i = 5" by blast
  then show ?thesis
  proof cases
    case 1
    then show ?thesis using assms by (auto simp: throttle_run_def io_bind_def run)
  next
    case 2
    then show ?thesis using assms(1,3,5) ok [of 2] by (auto simp: throttle_run_def io_bind_def run)
  next
    case 3
    then show ?thesis using assms(1,3,5) ok [of 2] ok [of 3]
      by (auto simp: throttle_run_def io_bind_def run)
  next
    case 4
    then show ?thesis using assms(1,3,5) ok [of 2] ok [of 3] ok [of 4]
      by (auto simp: throttle_run_def io_bind_def run)
  qed
qed

end

section \<open>A call of the command\<close>

text \<open>C2: A call of \<open>CL.THROTTLE\<close> whose arguments parse, on a key that is missing or holds one of
  its own values, is one step of the generic cell rate algorithm: the command succeeds, replies the
  algorithm's five numbers, replicates itself, writes the new arrival time exactly when the request
  is let through, lets the key expire when that time has come, to the millisecond, and gives back
  every handle. The bounds exclude overflow, and a time to live of
  less than a millisecond.\<close>

theorem throttle_is_gcra:
  assumes "throttle_host raw wd hv tc"
    and "passed (hv h) argv argc args" and "throttle_args args key burst count per q"
    and "quota_ok burst count per" and "redis_key_ok hv h key"
    and "epoch_ns tc (hv_clock (hv h)) = now" and "emission count per = e"
    and "e * (sint burst + 1) = tau"
    and "stored_tat (redis_view hv h key) now = tat"
    and "gcra_bounds e tau (e * sint q) tat now"
    and "gcra tau (e * sint q) tat now = d"
    and "\<And>n. d = Allowed n \<Longrightarrow> 10 ^ 6 \<le> n - now"
  shows "\<exists>limited res h'. throttle_redis_command raw tc wd ctx argv argc h = (Some Status_Ok, h') \<and>
    reports tc (burst + 1) e tau d tat now limited res \<and>
    hv_replies (hv h') = hv_replies (hv h) @ throttle_events tc limited res \<and>
    hv_replicated (hv h') \<and> redis_view hv h' key = gcra_write d (redis_view hv h key) \<and>
    redis_key_ok hv h' key \<and> hv_expiry (hv h') key =
      gcra_due d now (\<lambda>ns. Some (hv_mstime (hv h) + ns div 10 ^ 6)) (hv_expiry (hv h) key) \<and>
    hv_strings (hv h') = hv_strings (hv h) \<and> hv_keys (hv h') = hv_keys (hv h) \<and>
    (\<forall>name. name = key \<or> hv_db (hv h') name = hv_db (hv h) name \<and>
      hv_expiry (hv h') name = hv_expiry (hv h) name)"
  by (rule throttle_host.throttle_entry_gcra [OF assms])

text \<open>The reference server with an empty keyspace and the sample's arguments.\<close>

definition sample_host :: ref_host where
  "sample_host = ref_with 1000000000000000000 Map.empty sample_args"

lemma sample_host_key:
  "redis_key_ok ref_abs sample_host ''user''" "redis_view ref_abs sample_host ''user'' = None"
  "hv_clock (ref_abs sample_host) = 1000000000000000000"
  by (simp_all add: sample_host_def redis_key_ok_def redis_view_def)

lemma throttle_is_gcra_witness:
  "\<exists>limited res h'. throttle_redis_command ref_raw ns_time ref_world 1 ref_argv 5 sample_host =
      (Some Status_Ok, h') \<and>
    reports ns_time (15 + 1) 2000000000 32000000000 (Allowed 1000000002000000000) 1000000000000000000
      1000000000000000000 limited res \<and>
    hv_replies (ref_abs h') = hv_replies (ref_abs sample_host) @ throttle_events ns_time limited res \<and>
    hv_replicated (ref_abs h') \<and>
    redis_view ref_abs h' ''user'' =
      gcra_write (Allowed 1000000002000000000) (redis_view ref_abs sample_host ''user'') \<and>
    redis_key_ok ref_abs h' ''user'' \<and> hv_expiry (ref_abs h') ''user'' =
      gcra_due (Allowed 1000000002000000000) 1000000000000000000
        (\<lambda>ns. Some (hv_mstime (ref_abs sample_host) + ns div 10 ^ 6)) (hv_expiry (ref_abs sample_host) ''user'') \<and>
    hv_strings (ref_abs h') = hv_strings (ref_abs sample_host) \<and>
    hv_keys (ref_abs h') = hv_keys (ref_abs sample_host) \<and>
    (\<forall>name. name = ''user'' \<or> hv_db (ref_abs h') name = hv_db (ref_abs sample_host) name \<and>
      hv_expiry (ref_abs h') name = hv_expiry (ref_abs sample_host) name)"
proof (rule throttle_is_gcra [OF ref_throttle.throttle_host_axioms _ sample_throttle_args sample_quota(1)
      sample_host_key(1) _ sample_quota(2)])
  show "passed (ref_abs sample_host) ref_argv 5 sample_args"
    unfolding sample_host_def by (rule sample_passed)
  show "gcra 32000000000 (2000000000 * sint (1 :: i64)) 1000000000000000000 1000000000000000000 =
      Allowed 1000000002000000000"
    by (simp add: gcra_def)
qed (simp_all add: sample_host_key stored_tat_def gcra_bounds_def del: ref_abs_simps)

section \<open>Error replies\<close>

text \<open>C15: A call with too few or too many arguments replies the usage and changes nothing.\<close>

theorem usage_reply:
  assumes "throttle_host raw wd hv tc" and "passed (hv h) argv argc args"
    and "length args \<noteq> 5" and "length args \<noteq> 6"
  shows "\<exists>h2. throttle_redis_command raw tc wd ctx argv argc h = (Some Status_Err, h2) \<and>
    hv h2 = (hv h)\<lparr>hv_replies := hv_replies (hv h) @ [Error_Reply
      ''Cell error: Store error: Usage: cl.throttle <key> <max_burst> <count per period> <period> [<quantity>]'']\<rparr>"
proof -
  have "\<exists>h2. throttle_redis_command raw tc wd ctx argv argc h = (Some Status_Err, h2) \<and>
      hv h2 = (hv h)\<lparr>hv_replies := hv_replies (hv h) @
        [Error_Reply (c_str (''Cell error: '' @ display_cell_error usage @ [nul]))]\<rparr>"
    by (rule throttle_host.throttle_entry_err [OF assms(1,2)])
      (use assms(3,4) in \<open>simp add: throttle_run_def io_err_def\<close>)
  moreover have "c_str (''Cell error: '' @ display_cell_error usage @ [nul]) =
      ''Cell error: Store error: Usage: cl.throttle <key> <max_burst> <count per period> <period> [<quantity>]''"
    by code_simp
  ultimately show ?thesis by simp
qed

lemma usage_reply_witness:
  "\<exists>h2. throttle_redis_command ref_raw ns_time ref_world 1 ref_argv 2 (ref_with 0 Map.empty [''a'', ''b'']) =
      (Some Status_Err, h2) \<and>
    ref_abs h2 = (ref_abs (ref_with 0 Map.empty [''a'', ''b'']))\<lparr>hv_replies :=
      hv_replies (ref_abs (ref_with 0 Map.empty [''a'', ''b''])) @ [Error_Reply
      ''Cell error: Store error: Usage: cl.throttle <key> <max_burst> <count per period> <period> [<quantity>]'']\<rparr>"
proof (rule usage_reply [OF ref_throttle.throttle_host_axioms])
  show "passed (ref_abs (ref_with 0 Map.empty [''a'', ''b''])) ref_argv 2 [''a'', ''b'']"
    using ref_passed [of "[''a'', ''b'']" 0 Map.empty] string_from_utf8_ascii by simp
qed simp_all

text \<open>C16: The first argument from the burst on that is not a decimal number of 64 bits is named in
  the error reply, and nothing is changed.\<close>

theorem bad_integer_reply:
  assumes "throttle_host raw wd hv tc" and "passed (hv h) argv argc args"
    and "length args = 5 \<or> length args = 6" and "i \<in> {2, 3, 4, 5}" and "i < length args"
    and "\<forall>j. 2 \<le> j \<and> j < i \<longrightarrow> (\<exists>n. i64_from_str (args ! j) = Inr n)"
    and "i64_from_str (args ! i) = Inl e"
  shows "\<exists>h2. throttle_redis_command raw tc wd ctx argv argc h = (Some Status_Err, h2) \<and>
    hv h2 = (hv h)\<lparr>hv_replies := hv_replies (hv h) @ [Error_Reply
      (c_str (''Cell error: Store error: Couldn't parse as integer: '' @ args ! i @ [nul]))]\<rparr>"
proof -
  let ?e = "error_macro (''Couldn't parse as integer: '' @ args ! i)"
  have "\<exists>h2. throttle_redis_command raw tc wd ctx argv argc h = (Some Status_Err, h2) \<and>
      hv h2 = (hv h)\<lparr>hv_replies := hv_replies (hv h) @
        [Error_Reply (c_str (''Cell error: '' @ display_cell_error ?e @ [nul]))]\<rparr>"
    by (rule throttle_host.throttle_entry_err [OF assms(1,2)])
      (use throttle_host.throttle_run_bad_integer [OF assms(1,3-7)] in blast)
  then show ?thesis by (simp add: display_error_macro)
qed

lemma bad_integer_reply_witness:
  "\<exists>h2. throttle_redis_command ref_raw ns_time ref_world 1 ref_argv 5
        (ref_with 0 Map.empty [''a'', ''k'', ''1'', ''two'', ''3'']) = (Some Status_Err, h2) \<and>
    ref_abs h2 = (ref_abs (ref_with 0 Map.empty [''a'', ''k'', ''1'', ''two'', ''3'']))\<lparr>hv_replies :=
      hv_replies (ref_abs (ref_with 0 Map.empty [''a'', ''k'', ''1'', ''two'', ''3''])) @ [Error_Reply
      (c_str (''Cell error: Store error: Couldn't parse as integer: '' @
        [''a'', ''k'', ''1'', ''two'', ''3''] ! 3 @ [nul]))]\<rparr>"
proof (rule bad_integer_reply [OF ref_throttle.throttle_host_axioms])
  show "passed (ref_abs (ref_with 0 Map.empty [''a'', ''k'', ''1'', ''two'', ''3''])) ref_argv 5
      [''a'', ''k'', ''1'', ''two'', ''3'']"
    using ref_passed [of "[''a'', ''k'', ''1'', ''two'', ''3'']" 0 Map.empty] string_from_utf8_ascii by simp
  have "i64_from_str ''1'' = Inr 1" by code_simp
  then show "\<forall>j. 2 \<le> j \<and> j < 3 \<longrightarrow> (\<exists>n. i64_from_str ([''a'', ''k'', ''1'', ''two'', ''3''] ! j) = Inr n)"
    by (auto simp: le_less_Suc_eq numeral_eq_Suc)
  show "i64_from_str ([''a'', ''k'', ''1'', ''two'', ''3''] ! 3) = Inl InvalidDigit" by code_simp
qed simp_all

text \<open>C17: A count or a period of 0 is answered with an error, and nothing is changed.\<close>

theorem zero_rate_reply:
  assumes "throttle_host raw wd hv tc" and "passed (hv h) argv argc args"
    and "throttle_args args key burst count per q" and "count = 0 \<or> per = 0"
  shows "\<exists>h2. throttle_redis_command raw tc wd ctx argv argc h = (Some Status_Err, h2) \<and>
    hv h2 = (hv h)\<lparr>hv_replies := hv_replies (hv h) @
      [Error_Reply ''Cell error: Store error: Zero rates are not supported'']\<rparr>"
proof -
  have "\<exists>h2. throttle_redis_command raw tc wd ctx argv argc h = (Some Status_Err, h2) \<and>
      hv h2 = (hv h)\<lparr>hv_replies := hv_replies (hv h) @
        [Error_Reply (c_str (''Cell error: '' @ display_cell_error zero_rates @ [nul]))]\<rparr>"
    by (rule throttle_host.throttle_entry_err [OF assms(1,2)])
      (use throttle_host.throttle_run_zero [OF assms(1,3,4)] in blast)
  moreover have "c_str (''Cell error: '' @ display_cell_error zero_rates @ [nul]) =
      ''Cell error: Store error: Zero rates are not supported'' " by code_simp
  ultimately show ?thesis by simp
qed

lemma zero_rate_reply_witness:
  "\<exists>h2. throttle_redis_command ref_raw ns_time ref_world 1 ref_argv 5
        (ref_with 0 Map.empty [''a'', ''k'', ''1'', ''0'', ''3'']) = (Some Status_Err, h2) \<and>
    ref_abs h2 = (ref_abs (ref_with 0 Map.empty [''a'', ''k'', ''1'', ''0'', ''3'']))\<lparr>hv_replies :=
      hv_replies (ref_abs (ref_with 0 Map.empty [''a'', ''k'', ''1'', ''0'', ''3''])) @
      [Error_Reply ''Cell error: Store error: Zero rates are not supported'']\<rparr>"
proof (rule zero_rate_reply [OF ref_throttle.throttle_host_axioms])
  show "passed (ref_abs (ref_with 0 Map.empty [''a'', ''k'', ''1'', ''0'', ''3''])) ref_argv 5
      [''a'', ''k'', ''1'', ''0'', ''3'']"
    using ref_passed [of "[''a'', ''k'', ''1'', ''0'', ''3'']" 0 Map.empty] string_from_utf8_ascii by simp
  show "throttle_args [''a'', ''k'', ''1'', ''0'', ''3''] ''k'' 1 0 3 1" by code_simp
qed simp

section \<open>Inputs that abort the process\<close>

text \<open>C10: A call on a key that exists but does not hold a decimal number of 64 bits never gets as far
  as a decision. When the value's bytes are text (UTF-8; for a list or an empty string they are the
  empty text) the call panics, which aborts the server; when they are not UTF-8 the read fails, the call
  is answered with that error, and nothing is changed.\<close>

theorem foreign_value_aborts:
  assumes "throttle_host raw wd hv tc" and "passed (hv h) argv argc args"
    and "throttle_args args key burst count per q" and "quota_ok burst count per"
    and "0 < emission count per" and "hv_db (hv h) key = Some x"
    and "\<And>s. string_from_utf8 (dma_bytes (Some x)) = Inr s \<Longrightarrow> \<exists>e. u64_from_str s = Inl e"
  shows "case string_from_utf8 (dma_bytes (Some x)) of
      Inr s \<Rightarrow> \<exists>h2. throttle_redis_command raw tc wd ctx argv argc h = (None, h2)
    | Inl e \<Rightarrow> \<exists>h2. throttle_redis_command raw tc wd ctx argv argc h = (Some Status_Err, h2) \<and>
        hv h2 = (hv h)\<lparr>hv_replies := hv_replies (hv h) @ [Error_Reply
          (c_str (''Cell error: '' @ display_cell_error (cell_error_from_utf8 e) @ [nul]))]\<rparr>"
proof -
  have run: "\<exists>h2. throttle_run raw tc wd \<lparr>redis_ctx = ctx\<rparr> args h1 =
      (case string_from_utf8 (dma_bytes (Some x)) of Inl e \<Rightarrow> Err (cell_error_from_utf8 e) | Inr s \<Rightarrow> Panic, h2) \<and>
      hv h2 = hv h" if "hv h1 = hv h" for h1
    using throttle_host.throttle_run_foreign [OF assms(1,3-5) _ assms(7)] assms(6) that by metis
  show ?thesis
  proof (cases "string_from_utf8 (dma_bytes (Some x))")
    case (Inl e)
    have "\<exists>h2. throttle_redis_command raw tc wd ctx argv argc h = (Some Status_Err, h2) \<and>
        hv h2 = (hv h)\<lparr>hv_replies := hv_replies (hv h) @ [Error_Reply
          (c_str (''Cell error: '' @ display_cell_error (cell_error_from_utf8 e) @ [nul]))]\<rparr>"
      by (rule throttle_host.throttle_entry_err [OF assms(1,2)]) (use run Inl in simp)
    then show ?thesis using Inl by simp
  next
    case (Inr s)
    have "\<exists>h2. throttle_redis_command raw tc wd ctx argv argc h = (None, h2)"
      by (rule throttle_host.throttle_entry_panic [OF assms(1,2)]) (use run Inr in auto)
    then show ?thesis using Inr by simp
  qed
qed

text \<open>A list, and a byte that starts no character.\<close>

lemma foreign_value_aborts_witness:
  "(\<exists>h2. throttle_redis_command ref_raw ns_time ref_world 1 ref_argv 5
      (ref_with 0 [''user'' \<mapsto> Other_Value] sample_args) = (None, h2)) \<and>
   (\<exists>h2. throttle_redis_command ref_raw ns_time ref_world 1 ref_argv 5
      (ref_with 0 [''user'' \<mapsto> String_Value [char_of (255 :: nat)]] sample_args) = (Some Status_Err, h2))"
proof
  let ?db = "[''user'' \<mapsto> Other_Value]"
  have u: "string_from_utf8 (dma_bytes (Some Other_Value)) = Inr []" by (simp add: string_from_utf8_ascii)
  have "u64_from_str [] = Inl EmptyInt" by code_simp
  then have foreign: "\<exists>e. u64_from_str s = Inl e" if "string_from_utf8 (dma_bytes (Some Other_Value)) = Inr s" for s
    using that u by simp
  have "0 < emission 30 60" "hv_db (ref_abs (ref_with 0 ?db sample_args)) ''user'' = Some Other_Value"
    by (simp_all add: sample_quota)
  from foreign_value_aborts [OF ref_throttle.throttle_host_axioms, OF sample_passed sample_throttle_args
      sample_quota(1) this foreign]
  show "\<exists>h2. throttle_redis_command ref_raw ns_time ref_world 1 ref_argv 5 (ref_with 0 ?db sample_args) = (None, h2)"
    unfolding u sum.case .
next
  let ?x = "String_Value [char_of (255 :: nat)]"
  let ?db = "[''user'' \<mapsto> ?x]"
  have u: "string_from_utf8 (dma_bytes (Some ?x)) = Inl (the (utf8_check 0 [char_of (255 :: nat)]))"
    by code_simp
  then have foreign: "\<exists>e. u64_from_str s = Inl e" if "string_from_utf8 (dma_bytes (Some ?x)) = Inr s" for s
    using that by simp
  have "0 < emission 30 60" "hv_db (ref_abs (ref_with 0 ?db sample_args)) ''user'' = Some ?x"
    by (simp_all add: sample_quota)
  from foreign_value_aborts [OF ref_throttle.throttle_host_axioms, OF sample_passed sample_throttle_args
      sample_quota(1) this foreign]
  show "\<exists>h2. throttle_redis_command ref_raw ns_time ref_world 1 ref_argv 5 (ref_with 0 ?db sample_args) =
      (Some Status_Err, h2)"
    unfolding u sum.case by blast
qed

text \<open>C11: A call with an argument that is not UTF-8, the key included, panics before the command
  runs, which aborts the server.\<close>

theorem non_utf8_argument_aborts:
  fixes tc :: "('d, 't) time_crate"
  assumes "redis_host raw wd hv" and "0 \<le> sint argc"
    and "\<forall>i < nat (sint argc). hv_strings (hv h) (argv i) \<noteq> None"
    and "i < nat (sint argc)" and "hv_strings (hv h) (argv i) = Some s" and "string_from_utf8 s = Inl e"
  shows "\<exists>h2. throttle_redis_command raw tc wd ctx argv argc h = (None, h2)"
  by (rule redis_host.harness_bad_utf8 [OF assms])

lemma non_utf8_argument_aborts_witness:
  "\<exists>h2. throttle_redis_command ref_raw ns_time ref_world 1 ref_argv 2
    (ref_with 0 Map.empty [''a'', [char_of (255 :: nat)]]) = (None, h2)"
proof (rule non_utf8_argument_aborts [OF ref_server.redis_host_axioms, where i = 1])
  show "\<forall>i < nat (sint (2 :: c_int)).
      hv_strings (ref_abs (ref_with 0 Map.empty [''a'', [char_of (255 :: nat)]])) (ref_argv i) \<noteq> None"
    by (simp add: ref_with_strings)
  show "hv_strings (ref_abs (ref_with 0 Map.empty [''a'', [char_of (255 :: nat)]])) (ref_argv 1) =
      Some [char_of (255 :: nat)]"
    by (simp add: ref_with_strings)
  show "string_from_utf8 [char_of (255 :: nat)] = Inl (the (utf8_check 0 [char_of (255 :: nat)]))"
    by code_simp
qed simp_all

section \<open>Seconds\<close>

text \<open>C29: For times from 0 to 52 days the reply's seconds are the whole seconds, and one more when
  at least a whole millisecond is left over: a part below that is dropped.\<close>

theorem reply_seconds:
  assumes "time_laws tc" and "0 \<le> whole_nanoseconds tc d" and "whole_nanoseconds tc d < 2 ^ 52"
  shows "sint (round_up_seconds tc d) =
    whole_nanoseconds tc d div 10 ^ 9 + (if 10 ^ 6 \<le> whole_nanoseconds tc d mod 10 ^ 9 then 1 else 0)"
  by (rule time_laws.round_up_seconds_ns [OF assms])

lemma reply_seconds_witness:
  "sint (round_up_seconds ns_time 2000999999) = 2 \<and> sint (round_up_seconds ns_time 2001000000) = 3"
  using reply_seconds [OF ref_time.time_laws_axioms, of 2000999999]
    reply_seconds [OF ref_time.time_laws_axioms, of 2001000000] by simp

end
