(* ===== verification/Command_Runs.thy ===== *)
theory Command_Runs
  imports Throttle_Facts
begin

text \<open>
  Runs of a server: calls of \<^verbatim>\<open>CL.THROTTLE\<close> on one key with one quota, anything in
  between that leaves the key alone, and the key expiring at the time that the command has given
  it. Whatever the run, what the clients were granted is bounded.
\<close>

section \<open>Runs\<close>

text \<open>The time from which the server counts a time to live is its clock in milliseconds.\<close>

definition clock_read :: "('d, 't) time_crate \<Rightarrow> 't host_view \<Rightarrow> bool" where
  "clock_read tc v \<longleftrightarrow> hv_mstime v = epoch_ns tc (hv_clock v) div 10 ^ 6"

text \<open>
  A run lists the quantity of each call with what the client was told, which is the reply's first
  number; the run goes on from a later state in which the key is as the call left it. A key expires
  from its time on, not before; the count says how often it did.
\<close>

inductive served ::
    "'h raw \<Rightarrow> ('d, 't) time_crate \<Rightarrow> ('h, 't) world \<Rightarrow> ('h \<Rightarrow> 't host_view) \<Rightarrow> string
     \<Rightarrow> i64 \<Rightarrow> i64 \<Rightarrow> i64 \<Rightarrow> 'h \<Rightarrow> (i64 \<times> bool) list \<Rightarrow> nat \<Rightarrow> 'h \<Rightarrow> bool"
  for raw tc wd hv key burst count per h0
where
  start: "served raw tc wd hv key burst count per h0 [] 0 h0"
| call: "served raw tc wd hv key burst count per h0 cs k h \<Longrightarrow>
    passed (hv h) argv argc args \<Longrightarrow> throttle_args args key burst count per q \<Longrightarrow>
    clock_read tc (hv h) \<Longrightarrow>
    throttle_redis_command raw tc wd ctx argv argc h = (Some Status_Ok, h1) \<Longrightarrow>
    hv_replies (hv h1) = hv_replies (hv h) @ Array_Reply 5 # Integer_Reply n # rest \<Longrightarrow>
    hv_db (hv h') key = hv_db (hv h1) key \<Longrightarrow> hv_expiry (hv h') key = hv_expiry (hv h1) key \<Longrightarrow>
    epoch_ns tc (hv_clock (hv h)) \<le> epoch_ns tc (hv_clock (hv h')) \<Longrightarrow>
    served raw tc wd hv key burst count per h0 (cs @ [(q, n = 1)]) k h'"
| pass: "served raw tc wd hv key burst count per h0 cs k h \<Longrightarrow>
    hv_db (hv h') key = hv_db (hv h) key \<Longrightarrow> hv_expiry (hv h') key = hv_expiry (hv h) key \<Longrightarrow>
    epoch_ns tc (hv_clock (hv h)) \<le> epoch_ns tc (hv_clock (hv h')) \<Longrightarrow>
    served raw tc wd hv key burst count per h0 cs k h'"
| expire: "served raw tc wd hv key burst count per h0 cs k h \<Longrightarrow>
    hv_expiry (hv h) key = Some x \<Longrightarrow> x \<le> hv_mstime (hv h') \<Longrightarrow> clock_read tc (hv h') \<Longrightarrow>
    hv_db (hv h') key = None \<Longrightarrow>
    epoch_ns tc (hv_clock (hv h)) \<le> epoch_ns tc (hv_clock (hv h')) \<Longrightarrow>
    served raw tc wd hv key burst count per h0 cs (Suc k) h'"

section \<open>The bound\<close>

text \<open>
  The key is missing, or holds an arrival time and expires at that time; cutting it and the clock
  to milliseconds may lose two of them.
\<close>

definition due_ok :: "u64 option \<Rightarrow> int option \<Rightarrow> bool" where
  "due_ok v x \<longleftrightarrow> (case v of None \<Rightarrow> True | Some n \<Rightarrow> (\<exists>ms. x = Some ms \<and> uint n < 10 ^ 6 * ms + 2 * 10 ^ 6))"

lemma due_ok_None [simp]: "due_ok None x"
  by (simp add: due_ok_def)

lemma due_ok_written:
  assumes "due_ok v x" and "gcra tau inc tat now = d" and "ms = now div 10 ^ 6"
    and "\<And>n. d = Allowed n \<Longrightarrow> 0 \<le> n \<and> n < 2 ^ 62"
  shows "due_ok (gcra_write d v) (gcra_due d now (\<lambda>ns. Some (ms + ns div 10 ^ 6)) x)"
proof (cases d)
  case (Blocked w)
  then show ?thesis using assms(1) by (simp add: gcra_write_def gcra_due_def)
next
  case (Allowed n)
  have up: "x < 1000000 * (x div 1000000) + 1000000" for x :: int by presburger
  have "n < 10 ^ 6 * ((n - now) div 10 ^ 6) + 10 ^ 6 * (now div 10 ^ 6) + 2 * 10 ^ 6"
    using up [of "n - now"] up [of now] by simp
  moreover have "uint (word_of_int n :: u64) = n" using assms(4) [OF Allowed] by (intro uint_u64_self) simp_all
  ultimately show ?thesis using assms(3) Allowed by (simp add: gcra_write_def gcra_due_def due_ok_def)
qed

context throttle_host begin

lemma redis_missing:
  assumes "hv_db (hv h) key = None"
  shows "redis_view hv h key = None" and "redis_key_ok hv h key"
  using assms by (simp_all add: redis_view_def redis_key_ok_def)

lemma redis_key_same:
  assumes "hv_db (hv h') key = hv_db (hv h) key"
  shows "redis_view hv h' key = redis_view hv h key" and "redis_key_ok hv h' key = redis_key_ok hv h key"
  using assms by (simp_all add: redis_view_def redis_key_ok_def)

lemma served_inv:
  assumes "served raw tc wd hv key burst count per h0 cs k h"
    and quota: "quota_ok burst count per" and e: "emission count per = e" "0 < e"
    and tau: "e * (sint burst + 1) = tau"
    and missing: "hv_db (hv h0) key = None"
    and now0: "epoch_ns tc (hv_clock (hv h0)) = now0" "0 \<le> now0" "now0 < 2 ^ 61"
    and q: "quantities_ok (10 ^ 6) e cs"
    and n: "epoch_ns tc (hv_clock (hv h)) < 2 ^ 61"
  shows "redis_key_ok hv h key \<and> due_ok (redis_view hv h key) (hv_expiry (hv h) key) \<and>
    run_inv e tau (2 * 10 ^ 6) now0 (admitted cs) k (epoch_ns tc (hv_clock (hv h))) (redis_view hv h key)"
  using assms(1) q n
proof (induction rule: served.induct)
  case start
  then show ?case using redis_missing [OF missing] now0 by (simp add: run_inv_def used_until_None)
next
  case (call cs k h argv argc args q ctx h1 n rest h')
  let ?now = "epoch_ns tc (hv_clock (hv h))" and ?v = "redis_view hv h key"
  note b = quota_bounds [OF quota e tau]
  then have p: "params_ok e tau" using e by (simp add: params_ok_def)
  have ih: "redis_key_ok hv h key" "due_ok ?v (hv_expiry (hv h) key)"
      "run_inv e tau (2 * 10 ^ 6) now0 (admitted cs) k ?now ?v"
    using call.IH call.prems call.hyps by simp_all
  have q: "0 \<le> e * sint q" "e * sint q \<le> 2 ^ 61" "10 ^ 6 \<le> e * sint q"
    using call.prems e by simp_all
  have bounds: "gcra_bounds e tau (e * sint q) (stored_tat ?v ?now) ?now"
    using ih(3) q p call.prems call.hyps stored_tat_le [of ?v ?now] stored_tat_nonneg [of ?now ?v]
    by (auto simp: gcra_bounds_def run_inv_def params_ok_def)
  define d where "d = gcra tau (e * sint q) (stored_tat ?v ?now) ?now"
  have min: "10 ^ 6 \<le> n - ?now" if "d = Allowed n" for n
    using that q unfolding d_def by (auto simp: gcra_Allowed_iff)
  have small: "0 \<le> n \<and> n < 2 ^ 62" if "d = Allowed n" for n
    using that min [OF that] b call.prems(2) call.hyps(9) ih(3)
    unfolding d_def by (auto simp: gcra_Allowed_iff run_inv_def)
  obtain limited res h2 where h2: "throttle_redis_command raw tc wd ctx argv argc h = (Some Status_Ok, h2)"
    "reports tc (burst + 1) e tau d (stored_tat ?v ?now) ?now limited res"
    "hv_replies (hv h2) = hv_replies (hv h) @ throttle_events tc limited res"
    "redis_view hv h2 key = gcra_write d ?v" "redis_key_ok hv h2 key"
    "hv_expiry (hv h2) key = gcra_due d ?now (\<lambda>ns. Some (hv_mstime (hv h) + ns div 10 ^ 6)) (hv_expiry (hv h) key)"
    using throttle_entry_gcra [OF call.hyps(2,3) quota ih(1) refl e(1) tau refl bounds d_def [symmetric] min]
    by blast
  then have [simp]: "h2 = h1" using call.hyps(5) by simp
  have same: "redis_view hv h' key = redis_view hv h1 key" "redis_key_ok hv h' key = redis_key_ok hv h1 key"
    by (rule redis_key_same [OF call.hyps(7)])+
  have lim: "(n = 1) = (case d of Blocked w \<Rightarrow> True | Allowed n \<Rightarrow> False)"
    using h2(2,3) call.hyps(6) by (auto simp: throttle_events_def reports_def)
  have "due_ok (gcra_write d ?v) (hv_expiry (hv h') key)"
    using due_ok_written [OF ih(2) d_def [symmetric] _ small] h2(6) call.hyps(4,8)
    by (simp add: clock_read_def)
  moreover have "run_inv e tau (2 * 10 ^ 6) now0 (admitted cs + (case d of Blocked w \<Rightarrow> 0 | Allowed n \<Rightarrow> sint q)) k
      (epoch_ns tc (hv_clock (hv h'))) (gcra_write d ?v)"
    by (rule run_inv_call [OF ih(3) call.hyps(9) call.prems(2) q(1) p d_def [symmetric]])
  ultimately show ?case using h2 lim same by (cases d) simp_all
next
  case (pass cs k h h')
  then show ?case
    using run_inv_pass [of e tau "2 * 10 ^ 6" now0 "admitted cs" k "epoch_ns tc (hv_clock (hv h))"
        "redis_view hv h key" "epoch_ns tc (hv_clock (hv h'))"] redis_key_same [OF pass.hyps(2)] by simp
next
  case (expire cs k h x h')
  let ?now = "epoch_ns tc (hv_clock (hv h))" and ?now' = "epoch_ns tc (hv_clock (hv h'))"
  have ih: "due_ok (redis_view hv h key) (Some x)"
    "run_inv e tau (2 * 10 ^ 6) now0 (admitted cs) k ?now (redis_view hv h key)"
    using expire.IH expire.prems expire.hyps by simp_all
  have gone: "redis_view hv h' key = None" "redis_key_ok hv h' key" using redis_missing [OF expire.hyps(5)] by simp_all
  have x: "10 ^ 6 * x \<le> ?now'" using expire.hyps(3,4) by (simp add: clock_read_def)
  have "run_inv e tau (2 * 10 ^ 6) now0 (admitted cs) (Suc k) ?now' None"
  proof (cases "redis_view hv h key")
    case None
    then show ?thesis using run_inv_pass [OF ih(2) expire.hyps(6)] expire.prems(2)
      by (auto simp: run_inv_def used_until_None distrib_left max_def split: if_splits)
  next
    case (Some v)
    then have "uint v \<le> ?now' + 2 * 10 ^ 6" using ih(1) x by (auto simp: due_ok_def)
    then show ?thesis using run_inv_expire [of e tau "2 * 10 ^ 6" now0 "admitted cs" k ?now v ?now']
        ih(2) Some expire.hyps(6) expire.prems(2) by simp
  qed
  then show ?case using gone by simp
qed

lemma served_clock:
  assumes "served raw tc wd hv key burst count per h0 cs k h"
  shows "epoch_ns tc (hv_clock (hv h0)) \<le> epoch_ns tc (hv_clock (hv h))"
  using assms by (induction rule: served.induct) auto

lemma served_bound:
  assumes "served raw tc wd hv key burst count per h0 cs k h"
    and "quota_ok burst count per" and "emission count per = e" and "0 < e"
    and "e * (sint burst + 1) = tau" and "hv_db (hv h0) key = None"
    and "epoch_ns tc (hv_clock (hv h0)) = now0" and "0 \<le> now0" and "now0 < 2 ^ 61"
    and "quantities_ok (10 ^ 6) e cs"
    and "epoch_ns tc (hv_clock (hv h)) < 2 ^ 61"
  shows "e * admitted cs \<le> tau + (epoch_ns tc (hv_clock (hv h)) - now0) + 2 * 10 ^ 6 * int k"
proof -
  have "0 \<le> tau" using assms(2,4,5) by (auto simp: quota_ok_def)
  then show ?thesis
    using served_inv [OF assms] served_clock [OF assms(1)] assms(7) by (simp add: run_inv_def algebra_simps)
qed

end

section \<open>Conformance of the command\<close>

text \<open>C3: However the calls of \<open>CL.THROTTLE\<close> on a key that was missing are spaced, whatever other
  commands do in between as long as they leave the key alone, and as often as the key expires, the
  cost of the requests that clients were told are let through is at most the tolerance plus the time
  that passed, plus two milliseconds for each time that the key expired.\<close>

theorem throttle_conforms:
  assumes "throttle_host raw wd hv tc"
    and "served raw tc wd hv key burst count per h0 cs k h"
    and "quota_ok burst count per" and "emission count per = e" and "0 < e"
    and "e * (sint burst + 1) = tau" and "hv_db (hv h0) key = None"
    and "epoch_ns tc (hv_clock (hv h0)) = now0" and "0 \<le> now0" and "now0 < 2 ^ 61"
    and "quantities_ok (10 ^ 6) e cs"
    and "epoch_ns tc (hv_clock (hv h)) = now" and "now < 2 ^ 61"
  shows "e * admitted cs \<le> tau + (now - now0) + 2 * 10 ^ 6 * int k"
  using throttle_host.served_bound [OF assms(1-11)] assms(12,13) by simp

text \<open>A run of the reference server: one call, and the key expiring two seconds later.\<close>

lemma sample_run:
  "\<exists>h. served ref_raw ns_time ref_world ref_abs ''user'' 15 30 60 sample_host [(1, False)] 1 h \<and>
    hv_clock (ref_abs h) = 1000000002001000000"
proof -
  have g: "gcra 32000000000 (2000000000 * sint (1 :: i64)) 1000000000000000000 1000000000000000000 =
      Allowed 1000000002000000000"
    by (simp add: gcra_def)
  have p: "passed (ref_abs sample_host) ref_argv 5 sample_args" unfolding sample_host_def by (rule sample_passed)
  obtain limited res h1 where h1:
      "throttle_redis_command ref_raw ns_time ref_world 1 ref_argv 5 sample_host = (Some Status_Ok, h1)"
      "reports ns_time (15 + 1) 2000000000 32000000000 (Allowed 1000000002000000000) 1000000000000000000
        1000000000000000000 limited res"
      "hv_replies (ref_abs h1) = hv_replies (ref_abs sample_host) @ throttle_events ns_time limited res"
      "hv_expiry (ref_abs h1) ''user'' = gcra_due (Allowed 1000000002000000000) 1000000000000000000
        (\<lambda>ns. Some (hv_mstime (ref_abs sample_host) + ns div 10 ^ 6)) (hv_expiry (ref_abs sample_host) ''user'')"
    using ref_throttle.throttle_entry_gcra [OF p sample_throttle_args sample_quota(1) sample_host_key(1) _ sample_quota(2)
        _ _ _ g, where ctx = 1]
    by (simp add: sample_host_key stored_tat_def gcra_bounds_def del: ref_abs_simps) blast
  let ?h2 = "h1\<lparr>rh_now := 1000000000000000000\<rparr>"
  have due: "ref_expiry h1 ''user'' = Some 1000000002000"
    using h1(4) by (simp add: gcra_due_def sample_host_def)
  have "served ref_raw ns_time ref_world ref_abs ''user'' 15 30 60 sample_host ([] @ [(1, (0 :: i64) = 1)]) 0 ?h2"
    by (rule served.call [where hv = ref_abs and h = sample_host, OF served.start p sample_throttle_args _ h1(1)])
      (use h1(2,3) in \<open>simp_all add: clock_read_def sample_host_def reports_def throttle_events_def\<close>)
  then have run: "served ref_raw ns_time ref_world ref_abs ''user'' 15 30 60 sample_host [(1, False)] 0 ?h2" by simp
  have "served ref_raw ns_time ref_world ref_abs ''user'' 15 30 60 sample_host [(1, False)] (Suc 0)
      (ref_tick 1000000002001000000 ?h2)"
    by (rule served.expire [OF run, where x = 1000000002000])
      (use due in \<open>auto simp: clock_read_def ref_tick_def ref_due_def ref_expiry_def split: option.splits prod.splits\<close>)
  then show ?thesis by (auto simp: ref_tick_def)
qed

lemma throttle_conforms_witness:
  "\<exists>h. served ref_raw ns_time ref_world ref_abs ''user'' 15 30 60 sample_host [(1, False)] 1 h \<and>
    2000000000 * admitted [(1, False)] \<le>
      32000000000 + (1000000002001000000 - 1000000000000000000) + 2 * 10 ^ 6 * int 1"
proof -
  obtain h where h: "served ref_raw ns_time ref_world ref_abs ''user'' 15 30 60 sample_host [(1, False)] 1 h"
    "hv_clock (ref_abs h) = 1000000002001000000"
    using sample_run by blast
  show ?thesis
    using throttle_conforms [OF ref_throttle.throttle_host_axioms h(1) sample_quota, of 32000000000
        1000000000000000000 1000000002001000000] h
    by (auto simp: sample_host_def quantities_ok_def)
qed

end
