(* ===== verification/Command_Edges.thy ===== *)
theory Command_Edges
  imports Command_Runs
begin

text \<open>
  Calls of \<^verbatim>\<open>CL.THROTTLE\<close> with a negative quantity. They let time go back, so the
  time to live that comes of them is negative, which the documentation of the server leaves open: it
  asks for a positive number, or - 1 for none. So nothing is taken here of the server's answer to it, and the
  properties say what the command makes of either.
\<close>

section \<open>The time to live of a new key\<close>

definition expire_error :: cell_error where
  "expire_error = error_macro ''Error while setting key expire''"

text \<open>The server is asked for a time to live of a key that has just been written over a view.\<close>

definition ttl_asked ::
    "'h raw \<Rightarrow> ('h \<Rightarrow> 't host_view) \<Rightarrow> 't host_view \<Rightarrow> string \<Rightarrow> string \<Rightarrow> i64 \<Rightarrow> status \<Rightarrow> 'h \<Rightarrow> bool" where
  "ttl_asked raw hv v key s ms st h2 \<longleftrightarrow> (\<exists>kp h1. raw_set_expire raw kp ms h1 = (st, h2) \<and>
     hv_keys (hv h1) kp = Some (key, to_raw_mode Access_Read_Write) \<and>
     hv_db (hv h1) = (hv_db v)(key \<mapsto> String_Value s) \<and> hv_expiry (hv h1) = (hv_expiry v)(key := None))"

fun answer_outcome :: "status \<Rightarrow> 'a \<Rightarrow> (cell_error, 'a) outcome" where
  "answer_outcome Status_Ok x = Ok x"
| "answer_outcome Status_Err x = Err expire_error"

text \<open>A server's data as another state has them, everything but the clock else as before.\<close>

definition data_of :: "'t host_view \<Rightarrow> 't host_view \<Rightarrow> 't host_view \<Rightarrow> bool" where
  "data_of v w u \<longleftrightarrow> hv_db u = hv_db w \<and> hv_expiry u = hv_expiry w \<and>
     hv_strings u = hv_strings v \<and> hv_keys u = hv_keys v \<and> hv_replies u = hv_replies v"

context framed_host begin

lemma redis_set_asks:
  assumes db: "hv_db (hv h) key = None"
  shows "\<exists>st h2 h'. redis_set_if_not_exists raw tc r key new ttl h = (answer_outcome st True, h') \<and>
    ttl_asked raw hv (hv h) key (u64_to_string new) (as_i64 (whole_milliseconds tc ttl)) st h2 \<and>
    data_of (hv h) (hv h2) (hv h')"
proof -
  let ?v = "put_value key (u64_to_string new) (hv h)" and ?ms = "as_i64 (whole_milliseconds tc ttl)"
  obtain k h1 where k: "key_writable_open raw (redis_ctx r) key h = (Ok k, h1)"
    and fresh: "hv_strings (hv h) (str_inner (key_str k)) = None" "hv_keys (hv h) (writable_inner k) = None"
    and h1: "hv h1 = opened (hv h) k key"
    using writable_open by blast
  have "string_from_utf8 (dma_bytes (hv_db (hv h) key)) = Inr []" by (simp add: db string_from_utf8_ascii)
  then obtain h2 where h2: "key_writable_read raw k h1 = (Ok (Some []), h2)" "hv h2 = opened (hv h) k key"
    using writable_read [OF h1] by blast
  obtain h3 where h3: "key_writable_write raw k (u64_to_string new) h2 = (Ok (), h3)" "hv h3 = opened ?v k key"
    using writable_write [OF h2(2)] by blast
  obtain st h4 where h4: "raw_set_expire raw (writable_inner k) ?ms h3 = (st, h4)"
    by (cases "raw_set_expire raw (writable_inner k) ?ms h3")
  have "redis_rest (opened ?v k key) key (hv h4)"
    using expire_frame [of h3 "writable_inner k" key "to_raw_mode Access_Read_Write" ?ms] h3(2) h4 by simp
  then have "hv (key_writable_drop raw k h4) = (hv h4)\<lparr>hv_strings := hv_strings ?v, hv_keys := hv_keys ?v\<rparr>"
    and rest: "hv_replies (hv h4) = hv_replies (hv h)"
    using writable_dropped [of ?v k key h4] fresh
    by (simp_all add: put_value_def redis_rest_def opened_def)
  then have "data_of (hv h) (hv h4) (hv (key_writable_drop raw k h4))"
    by (simp add: data_of_def put_value_def)
  moreover have "ttl_asked raw hv (hv h) key (u64_to_string new) ?ms st h4"
    unfolding ttl_asked_def using h3(2) h4 by (intro exI [of _ "writable_inner k"] exI [of _ h3]) (simp add: put_value_def)
  moreover have "redis_set_if_not_exists raw tc r key new ttl h = (answer_outcome st True, key_writable_drop raw k h4)"
    using k h2 h3 h4
    by (cases st) (simp_all add: redis_set_if_not_exists_def redis_open_key_writable_def io_drop_def
        key_writable_is_empty_def key_writable_set_expire_def expire_error_def io_simps)
  ultimately show ?thesis by blast
qed

end

section \<open>A negative quantity\<close>

locale framed_throttle_host = throttle_host raw wd hv tc + framed_host raw wd hv
  for raw :: "'h raw" and wd :: "('h, 't) world" and hv :: "'h \<Rightarrow> 't host_view"
    and tc :: "('d, 't) time_crate"

interpretation ref_framed_throttle: framed_throttle_host ref_raw ref_world ref_abs ns_time
  by unfold_locales

context framed_throttle_host begin

lemma throttle_limit_asks:
  assumes quota: "quota_ok burst count per" and db: "hv_db (hv h) key = None"
    and now: "epoch_ns tc (hv_clock (hv h)) = now" and e: "emission count per = e" "0 < e"
    and tau: "e * (sint burst + 1) = tau"
    and q: "e * sint q \<le> - (10 ^ 6)" "- (2 ^ 61) \<le> e * sint q" "0 \<le> now + e * sint q" "now < 2 ^ 61"
  shows "\<exists>st ms h2 res h'. throttle_limit raw tc wd r key burst count per q h = (answer_outcome st (False, res), h') \<and>
    ttl_asked raw hv (hv h) key (u64_to_string (word_of_int (now + e * sint q))) ms st h2 \<and>
    sint ms = - (- (e * sint q) div 10 ^ 6) \<and> sint ms < 0 \<and> data_of (hv h) (hv h2) (hv h') \<and>
    (st = Status_Ok \<longrightarrow> reports tc (burst + 1) e tau (Allowed (now + e * sint q)) now now False res)"
proof -
  let ?rl = "rate_limiter_new tc h
      \<lparr>max_burst = burst, max_rate = rate_per_period tc count (duration_seconds tc per)\<rparr>"
  let ?inc = "e * sint q" and ?n = "now + e * sint q"
  have st: "store ?rl = h" "limiter_limit ?rl = burst + 1" by (simp_all add: rate_limiter_new_def)
  have params: "whole_nanoseconds tc (delay_variation_tolerance ?rl) = tau"
    "whole_nanoseconds tc (emission_interval ?rl) = e"
    using limiter_params [OF quota] e tau by simp_all
  note b = quota_bounds [OF quota e tau]
  have nz: "\<not> duration_eq tc (emission_interval ?rl) (duration_nanoseconds tc 0)"
    using params(2) e(2) by (simp add: eq_iff ns_nanoseconds)
  have inc: "whole_nanoseconds tc (rate_limit_increment tc ?rl q) = ?inc"
    by (rule ns_rate_limit_increment [OF params(2) e(2) b(1)]) (use q in auto)
  obtain c h1 where get: "redis_get_with_time raw wd r key h = (Ok (None, hv_clock (hv h)), h1)"
    and h1: "hv h1 = (hv h)\<lparr>hv_clock := c\<rparr>"
    using redis_get [OF redis_missing(2) [OF db], of r] redis_missing(1) [OF db] by auto
  have d: "gcra tau ?inc now now = Allowed ?n" using q(1) b(2) by (simp add: gcra_def)
  have bounds: "gcra_bounds e tau ?inc now now" using q b e by (auto simp: gcra_bounds_def)
  have tat: "stored_tat None now = now" by (simp add: stored_tat_def)
  obtain ttl where ttl: "whole_nanoseconds tc ttl = ?inc"
    and run: "rate_limit_after_read tc (redis_store_ops raw tc wd r) ?rl key
      (rate_limit_increment tc ?rl q) (rlc_start tc ?rl) None (hv_clock (hv h)) h1 =
      io_bind (redis_set_if_not_exists raw tc r key (word_of_int ?n) ttl)
        (\<lambda>updated. if updated then io_ret (Break (False, ttl, rlc_start tc ?rl)) else io_ret Continue) h1"
    using rate_limit_after_read_gcra [OF now params(1) inc tat bounds,
        where ops = "redis_store_ops raw tc wd r" and key = key and rlc = "rlc_start tc ?rl" and s = h1] d by auto
  let ?ms = "as_i64 (whole_milliseconds tc ttl)"
  have pos: "0 < - ?inc div 10 ^ 6" using q(1) by (simp add: pos_imp_zdiv_pos_iff)
  have "- ?inc div 10 ^ 6 < 2 ^ 62" using q by (intro div_lessI) simp_all
  moreover have whole: "whole_milliseconds tc ttl = - (- ?inc div 10 ^ 6)"
    using ttl q(1) by (simp add: whole_ms trunc_div_neg)
  ultimately have ms: "sint ?ms = - (- ?inc div 10 ^ 6)"
    unfolding whole using pos by (intro sint_as_i64) simp_all
  have neg: "- (- ?inc div 10 ^ 6) < 0" using pos by simp
  have db1: "hv_db (hv h1) key = None" using db h1 by simp
  have same: "ttl_asked raw hv (hv h1) = ttl_asked raw hv (hv h)" "data_of (hv h1) = data_of (hv h)"
    by (simp_all add: ttl_asked_def data_of_def h1 fun_eq_iff)
  obtain a h2 h' where set: "redis_set_if_not_exists raw tc r key (word_of_int ?n) ttl h1 = (answer_outcome a True, h')"
    and asked: "ttl_asked raw hv (hv h) key (u64_to_string (word_of_int ?n)) ?ms a h2"
    and data: "data_of (hv h) (hv h2) (hv h')"
    using redis_set_asks [OF db1, of tc r "word_of_int ?n" ttl] unfolding same by blast
  have loop: "rate_limit_loop tc (redis_store_ops raw tc wd r) ?rl key (rate_limit_increment tc ?rl q)
      (rlc_start tc ?rl) 0 h = (answer_outcome a (False, ttl, rlc_start tc ?rl), h')"
    using run set by (cases a) (simp_all add: rate_limit_loop.simps [where s = h] rate_limit_iter_def io_simps get)
  have limit: "throttle_limit raw tc wd r key burst count per q h = (case
      rate_limit_body tc (redis_store_ops raw tc wd r) ?rl key q h of (x, s) \<Rightarrow> (x, s))"
    by (simp add: throttle_limit_def Let_def rate_limit_def st split: prod.splits)
  show ?thesis
  proof (cases a)
    case Status_Err
    then have "throttle_limit raw tc wd r key burst count per q h = (answer_outcome a (False, undefined), h')"
      using nz loop limit by (simp add: rate_limit_body_def Let_def io_simps)
    then show ?thesis using asked data ms neg Status_Err by (metis status.distinct(1))
  next
    case Status_Ok
    have "remaining (rlc_start tc ?rl) = 0" by (simp add: rlc_start_def)
    then obtain res where body: "rate_limit_body tc (redis_store_ops raw tc wd r) ?rl key q h = (Ok (False, res), h')"
      and res: "limit res = limit (rlc_start tc ?rl)" "whole_nanoseconds tc (reset_after res) = ?inc"
        "retry_after res = retry_after (rlc_start tc ?rl)"
        "1000 \<le> e \<longrightarrow> sint (remaining res) = gcra_remaining e tau ?inc"
      using rate_limit_body_loop [OF params(2) e(2) b(1) params(1) _ _ _ ttl, of "redis_store_ops raw tc wd r" key q h False
          "rlc_start tc ?rl" h'] loop b(2,3) q Status_Ok by auto
    have "reports tc (burst + 1) e tau (Allowed ?n) now now False res"
      using res by (simp add: reports_def rlc_start_def st gcra_ttl_def gcra_retry_def ns_seconds)
    moreover have "throttle_limit raw tc wd r key burst count per q h = (answer_outcome a (False, res), h')"
      using body limit Status_Ok by simp
    moreover have "sint ?ms < 0" using ms neg by simp
    ultimately show ?thesis using asked data ms by blast
  qed
qed

lemma throttle_entry_asks:
  assumes passed: "passed (hv h) argv argc args" and args: "throttle_args args key burst count per q"
    and quota: "quota_ok burst count per" and db: "hv_db (hv h) key = None"
    and now: "epoch_ns tc (hv_clock (hv h)) = now" and e: "emission count per = e" "0 < e"
    and tau: "e * (sint burst + 1) = tau"
    and q: "e * sint q \<le> - (10 ^ 6)" "- (2 ^ 61) \<le> e * sint q" "0 \<le> now + e * sint q" "now < 2 ^ 61"
  shows "\<exists>st ms h2 h'. throttle_redis_command raw tc wd ctx argv argc h = (Some st, h') \<and>
    ttl_asked raw hv (hv h) key (u64_to_string (word_of_int (now + e * sint q))) ms st h2 \<and>
    sint ms = - (- (e * sint q) div 10 ^ 6) \<and> sint ms < 0 \<and>
    hv_db (hv h') = hv_db (hv h2) \<and> hv_expiry (hv h') = hv_expiry (hv h2) \<and>
    hv_strings (hv h') = hv_strings (hv h) \<and> hv_keys (hv h') = hv_keys (hv h) \<and>
    (case st of
       Status_Err \<Rightarrow> hv_replies (hv h') = hv_replies (hv h) @
         [Error_Reply ''Cell error: Store error: Error while setting key expire'']
     | Status_Ok \<Rightarrow> \<exists>res. hv_replies (hv h') = hv_replies (hv h) @ throttle_events tc False res \<and>
         reports tc (burst + 1) e tau (Allowed (now + e * sint q)) now now False res)"
proof -
  let ?r = "\<lparr>redis_ctx = ctx\<rparr>"
  have msg: "c_str (''Cell error: '' @ display_cell_error expire_error @ [nul]) =
      ''Cell error: Store error: Error while setting key expire''" by code_simp
  obtain h0 where h0: "parse_args raw argv argc h = (Ok args, h0)" "hv h0 = hv h"
    using harness_args [OF passed] by blast
  have at0: "hv_db (hv h0) key = None" "epoch_ns tc (hv_clock (hv h0)) = now" using db now h0 by simp_all
  obtain st ms h2 res h1 where limit: "throttle_limit raw tc wd ?r key burst count per q h0 = (answer_outcome st (False, res), h1)"
    and asked: "ttl_asked raw hv (hv h) key (u64_to_string (word_of_int (now + e * sint q))) ms st h2"
      "sint ms = - (- (e * sint q) div 10 ^ 6)" "sint ms < 0"
    and data: "data_of (hv h) (hv h2) (hv h1)"
    and rep: "st = Status_Ok \<longrightarrow> reports tc (burst + 1) e tau (Allowed (now + e * sint q)) now now False res"
    using throttle_limit_asks [OF quota at0 e tau q, of ?r] unfolding h0(2) by blast
  note run = throttle_run_limits [OF args] io_simps throttle_redis_command_def harness_def throttle_command_def h0(1)
  show ?thesis
  proof (cases st)
    case Status_Err
    let ?h = "raw_reply_with_error raw ctx (''Cell error: '' @ display_cell_error expire_error @ [nul]) h1"
    have "throttle_redis_command raw tc wd ctx argv argc h = (Some st, ?h)"
      using limit Status_Err by (simp add: run)
    then show ?thesis using asked data Status_Err reply_error [of ctx _ h1] msg
      by (intro exI [of _ st] exI [of _ ms] exI [of _ h2] exI [of _ ?h]) (simp add: data_of_def)
  next
    case Status_Ok
    obtain h3 where h3: "throttle_reply raw tc ?r False res h1 = (Ok (), h3)"
      "hv h3 = (hv h1)\<lparr>hv_replies := hv_replies (hv h1) @ throttle_events tc False res, hv_replicated := True\<rparr>"
      using throttle_replies by blast
    have "throttle_redis_command raw tc wd ctx argv argc h = (Some st, h3)"
      using limit Status_Ok h3(1) by (simp add: run)
    then show ?thesis using asked data Status_Ok rep h3(2)
      by (intro exI [of _ st] exI [of _ ms] exI [of _ h2] exI [of _ h3]) (auto simp: data_of_def)
  qed
qed

end

text \<open>C12: A call with a negative quantity that is worth at least a millisecond, on a missing key,
  first writes the key, with an arrival time in the past, and then asks the server for a negative time
  to live, where the documentation wants a positive one, or - 1 for none. The command ends as the server answers: if the
  server refuses, it replies an error and gives up with the key as it then is, and if not, it
  replies the algorithm's five numbers. Nothing is taken of the answer but that it concerns only
  that key.\<close>

theorem negative_ttl_is_sent:
  assumes "framed_throttle_host raw wd hv tc"
    and "passed (hv h) argv argc args" and "throttle_args args key burst count per q"
    and "quota_ok burst count per" and "hv_db (hv h) key = None"
    and "epoch_ns tc (hv_clock (hv h)) = now" and "emission count per = e" and "0 < e"
    and "e * (sint burst + 1) = tau"
    and "e * sint q \<le> - (10 ^ 6)" and "- (2 ^ 61) \<le> e * sint q"
    and "0 \<le> now + e * sint q" and "now < 2 ^ 61"
  shows "\<exists>st ms h2 h'. throttle_redis_command raw tc wd ctx argv argc h = (Some st, h') \<and>
    ttl_asked raw hv (hv h) key (u64_to_string (word_of_int (now + e * sint q))) ms st h2 \<and>
    sint ms = - (- (e * sint q) div 10 ^ 6) \<and> sint ms < 0 \<and>
    hv_db (hv h') = hv_db (hv h2) \<and> hv_expiry (hv h') = hv_expiry (hv h2) \<and>
    hv_strings (hv h') = hv_strings (hv h) \<and> hv_keys (hv h') = hv_keys (hv h) \<and>
    (case st of
       Status_Err \<Rightarrow> hv_replies (hv h') = hv_replies (hv h) @
         [Error_Reply ''Cell error: Store error: Error while setting key expire'']
     | Status_Ok \<Rightarrow> \<exists>res. hv_replies (hv h') = hv_replies (hv h) @ throttle_events tc False res \<and>
         reports tc (burst + 1) e tau (Allowed (now + e * sint q)) now now False res)"
  by (rule framed_throttle_host.throttle_entry_asks [OF assms])

text \<open>The reference server, as Redis does, refuses a time to live below - 1: so the client gets an
  error, and the key stays for ever.\<close>

lemma negative_ttl_is_sent_witness:
  "\<exists>h'. throttle_redis_command ref_raw ns_time ref_world 1 ref_argv 6
        (ref_with 1000000000000000000 Map.empty [''a'', ''k'', ''15'', ''30'', ''60'', ''-1'']) = (Some Status_Err, h') \<and>
    hv_db (ref_abs h') ''k'' = Some (String_Value
      (u64_to_string (word_of_int (1000000000000000000 + 2000000000 * sint (- 1 :: i64))))) \<and>
    hv_expiry (ref_abs h') ''k'' = None"
proof -
  let ?args = "[''a'', ''k'', ''15'', ''30'', ''60'', ''-1'']"
  let ?h = "ref_with 1000000000000000000 Map.empty ?args"
  let ?s = "u64_to_string (word_of_int (1000000000000000000 + 2000000000 * sint (- 1 :: i64)))"
  have passed: "passed (ref_abs ?h) ref_argv 6 ?args"
    using ref_passed [of ?args "1000000000000000000" Map.empty] string_from_utf8_ascii by simp
  have args: "throttle_args ?args ''k'' 15 30 60 (- 1)" by code_simp
  have start: "hv_db (ref_abs ?h) ''k'' = None" "epoch_ns ns_time (hv_clock (ref_abs ?h)) = 1000000000000000000"
    by simp_all
  have bounds: "0 < (2000000000 :: int)" "2000000000 * (sint (15 :: i64) + 1) = 32000000000"
    "2000000000 * sint (- 1 :: i64) \<le> - (10 ^ 6)" "- (2 ^ 61) \<le> 2000000000 * sint (- 1 :: i64)"
    "0 \<le> 1000000000000000000 + 2000000000 * sint (- 1 :: i64)" "1000000000000000000 < (2 ^ 61 :: int)"
    by simp_all
  obtain st ms h2 h' where run: "throttle_redis_command ref_raw ns_time ref_world 1 ref_argv 6 ?h = (Some st, h')"
    and asked: "ttl_asked ref_raw ref_abs (ref_abs ?h) ''k'' ?s ms st h2"
    and ms: "sint ms = - (- (2000000000 * sint (- 1 :: i64)) div 10 ^ 6)"
    and data: "hv_db (ref_abs h') = hv_db (ref_abs h2)" "hv_expiry (ref_abs h') = hv_expiry (ref_abs h2)"
    using negative_ttl_is_sent [OF ref_framed_throttle.framed_throttle_host_axioms, OF passed args
        sample_quota(1) start sample_quota(2) bounds, of 1] by blast
  obtain kp h1 where h1: "ref_set_expire kp ms h1 = (st, h2)"
    "hv_keys (ref_abs h1) kp = Some (''k'', to_raw_mode Access_Read_Write)"
    "hv_db (ref_abs h1) = (hv_db (ref_abs ?h))(''k'' \<mapsto> String_Value ?s)"
    "hv_expiry (ref_abs h1) = (hv_expiry (ref_abs ?h))(''k'' := None)"
    using asked unfolding ttl_asked_def by (metis ref_raw_simps(8))
  have "(st, h2) = (Status_Err, h1)"
    using h1(1,2) ms by (auto simp: ref_set_expire_def split: option.splits if_splits)
  then show ?thesis using run data h1(3,4) by (metis fun_upd_same prod.inject)
qed

end
