(* ===== verification/C_Api.thy ===== *)
theory C_Api
  imports Raw_Api "HOL-Library.Multiset"
begin

text \<open>
  Declarations of C functions as data, and the way a module header fetches the server's functions:
  each declared function pointer is looked up by name through one function, whose address is the
  first word of the context that the server passes.
\<close>

section \<open>Declarations\<close>

text \<open>
  \<open>C_Api\<close> is a type of the module API, without the prefix that tells the two servers apart;
  \<open>C_Struct\<close> is one that is named by the tag of its structure.
\<close>

datatype c_type =
  C_Void | C_Char | C_UChar | C_UInt8 | C_UInt16 | C_Int | C_UInt | C_Int32 | C_UInt32 | C_Long | C_ULong
| C_LongLong | C_ULongLong | C_Int64 | C_UInt64 | C_Size | C_Mstime | C_Ustime
| C_Float | C_Double | C_LongDouble | C_Api string | C_Struct string | C_Ptr c_type | C_Const c_type
| C_Fun c_type "c_type list"

record c_decl =
  decl_name :: string
  decl_result :: c_type
  decl_params :: "c_type list"
  decl_variadic :: bool

definition api :: "string \<Rightarrow> c_type \<Rightarrow> c_type list \<Rightarrow> c_decl" where
  "api name result params =
     \<lparr>decl_name = name, decl_result = result, decl_params = params, decl_variadic = False\<rparr>"

definition api_var :: "string \<Rightarrow> c_type \<Rightarrow> c_type list \<Rightarrow> c_decl" where
  "api_var name result params =
     \<lparr>decl_name = name, decl_result = result, decl_params = params, decl_variadic = True\<rparr>"

section \<open>Fetching the functions\<close>

text \<open>
  The module's function pointers by name, null at first, and the server seen through addresses:
  what a context's first word is, what a lookup function at an address finds, and what the
  functions at the other addresses do.
\<close>

type_synonym api_table = "string \<Rightarrow> ptr"

record 'h c_server =
  context_word :: "ptr \<Rightarrow> ptr"
  call_get_api :: "ptr \<Rightarrow> string \<Rightarrow> ptr option"
  call_name_busy :: "ptr \<Rightarrow> string \<Rightarrow> 'h \<Rightarrow> c_int \<times> 'h"
  call_set_attribs :: "ptr \<Rightarrow> ptr \<Rightarrow> string \<Rightarrow> c_int \<Rightarrow> c_int \<Rightarrow> 'h \<Rightarrow> 'h"

definition empty_table :: api_table where
  "empty_table = (\<lambda>name. null_ptr)"

text \<open>A lookup writes the pointer only when it finds the name.\<close>

definition get_api :: "(string \<Rightarrow> ptr option) \<Rightarrow> string \<Rightarrow> string \<Rightarrow> api_table \<Rightarrow> api_table" where
  "get_api lkp prefix name t =
     (case lkp (prefix @ name) of Some p \<Rightarrow> t(name := p) | None \<Rightarrow> t)"

definition get_apis :: "(string \<Rightarrow> ptr option) \<Rightarrow> string \<Rightarrow> string list \<Rightarrow> api_table \<Rightarrow> api_table" where
  "get_apis lkp prefix names t = fold (get_api lkp prefix) names t"

text \<open>Calling through a null pointer crashes the server: no result.\<close>

definition call_through :: "ptr \<Rightarrow> (ptr \<Rightarrow> 'a) \<Rightarrow> 'a option" where
  "call_through p f = (if p = null_ptr then None else Some (f p))"

lemma get_api_apply:
  "get_api lkp prefix x t name =
     (if x = name then (case lkp (prefix @ name) of Some p \<Rightarrow> p | None \<Rightarrow> t name) else t name)"
  by (simp add: get_api_def split: option.splits)

lemma get_apis_apply:
  "get_apis lkp prefix names t name =
     (if name \<in> set names then (case lkp (prefix @ name) of Some p \<Rightarrow> p | None \<Rightarrow> t name) else t name)"
proof (induction names arbitrary: t)
  case (Cons x xs)
  have "get_apis lkp prefix (x # xs) t name = get_apis lkp prefix xs (get_api lkp prefix x t) name"
    by (simp add: get_apis_def)
  then show ?case
    using Cons.IH [of "get_api lkp prefix x t"] by (auto simp: get_api_apply split: option.splits)
qed (simp add: get_apis_def)

text \<open>
  What an initialisation makes of the pointers: \<open>GetApi\<close> is the context's first word, a declared
  pointer is the function that the server finds under its name, and a function that the server does
  not have leaves its pointer as it was.
\<close>

definition fetched_table :: "'h c_server \<Rightarrow> ptr \<Rightarrow> string \<Rightarrow> c_decl list \<Rightarrow> api_table \<Rightarrow> api_table" where
  "fetched_table srv ctx prefix decls t name =
     (if name = ''GetApi'' then context_word srv ctx
      else if name \<in> decl_name ` set decls
      then (case call_get_api srv (context_word srv ctx) (prefix @ name) of Some p \<Rightarrow> p | None \<Rightarrow> t name)
      else t name)"

lemma get_apis_fetched:
  assumes names: "insert ''GetApi'' (set names) = decl_name ` set decls" and fresh: "''GetApi'' \<notin> set names"
  shows "get_apis (call_get_api srv (context_word srv ctx)) prefix names (t(''GetApi'' := context_word srv ctx)) =
    fetched_table srv ctx prefix decls t"
proof
  fix name
  have "name \<in> set names \<longleftrightarrow> name \<noteq> ''GetApi'' \<and> name \<in> decl_name ` set decls"
    using fresh by (simp flip: names) auto
  then show "get_apis (call_get_api srv (context_word srv ctx)) prefix names
      (t(''GetApi'' := context_word srv ctx)) name = fetched_table srv ctx prefix decls t name"
    by (simp add: get_apis_apply fetched_table_def split: option.splits)
qed

end
