(* ===== verification/Redis_Header.thy ===== *)
theory Redis_Header
  imports C_Api
begin

text \<open>
  \<^verbatim>\<open>include/redismodule.h\<close> and \<^verbatim>\<open>src/redismodule.c\<close>: the function
  pointers the header declares, one entry each in the order of the file, and the initialisation
  that fills them.
\<close>

section \<open>The declared functions\<close>

definition redis_api :: "c_decl list" where
  "redis_api = [
     api ''Alloc'' (C_Ptr C_Void) [C_Size],
     api ''Realloc'' (C_Ptr C_Void) [C_Ptr C_Void, C_Size],
     api ''Free'' C_Void [C_Ptr C_Void],
     api ''Calloc'' (C_Ptr C_Void) [C_Size, C_Size],
     api ''Strdup'' (C_Ptr C_Char) [C_Ptr (C_Const C_Char)],
     api ''GetApi'' C_Int [C_Ptr (C_Const C_Char), C_Ptr C_Void],
     api ''CreateCommand'' C_Int [C_Ptr (C_Api ''Ctx''), C_Ptr (C_Const C_Char), C_Api ''CmdFunc'', C_Ptr (C_Const C_Char), C_Int, C_Int, C_Int],
     api ''SetModuleAttribs'' C_Int [C_Ptr (C_Api ''Ctx''), C_Ptr (C_Const C_Char), C_Int, C_Int],
     api ''WrongArity'' C_Int [C_Ptr (C_Api ''Ctx'')],
     api ''ReplyWithLongLong'' C_Int [C_Ptr (C_Api ''Ctx''), C_LongLong],
     api ''GetSelectedDb'' C_Int [C_Ptr (C_Api ''Ctx'')],
     api ''SelectDb'' C_Int [C_Ptr (C_Api ''Ctx''), C_Int],
     api ''OpenKey'' (C_Ptr C_Void) [C_Ptr (C_Api ''Ctx''), C_Ptr (C_Api ''String''), C_Int],
     api ''CloseKey'' C_Void [C_Ptr (C_Api ''Key'')],
     api ''KeyType'' C_Int [C_Ptr (C_Api ''Key'')],
     api ''ValueLength'' C_Size [C_Ptr (C_Api ''Key'')],
     api ''ListPush'' C_Int [C_Ptr (C_Api ''Key''), C_Int, C_Ptr (C_Api ''String'')],
     api ''ListPop'' (C_Ptr (C_Api ''String'')) [C_Ptr (C_Api ''Key''), C_Int],
     api_var ''Call'' (C_Ptr (C_Api ''CallReply'')) [C_Ptr (C_Api ''Ctx''), C_Ptr (C_Const C_Char), C_Ptr (C_Const C_Char)],
     api ''CallReplyProto'' (C_Ptr (C_Const C_Char)) [C_Ptr (C_Api ''CallReply''), C_Ptr C_Size],
     api ''FreeCallReply'' C_Void [C_Ptr (C_Api ''CallReply'')],
     api ''CallReplyType'' C_Int [C_Ptr (C_Api ''CallReply'')],
     api ''CallReplyInteger'' C_LongLong [C_Ptr (C_Api ''CallReply'')],
     api ''CallReplyLength'' C_Size [C_Ptr (C_Api ''CallReply'')],
     api ''CallReplyArrayElement'' (C_Ptr (C_Api ''CallReply'')) [C_Ptr (C_Api ''CallReply''), C_Size],
     api ''CreateString'' (C_Ptr (C_Api ''String'')) [C_Ptr (C_Api ''Ctx''), C_Ptr (C_Const C_Char), C_Size],
     api ''CreateStringFromLongLong'' (C_Ptr (C_Api ''String'')) [C_Ptr (C_Api ''Ctx''), C_LongLong],
     api ''CreateStringFromString'' (C_Ptr (C_Api ''String'')) [C_Ptr (C_Api ''Ctx''), C_Ptr (C_Const (C_Api ''String''))],
     api_var ''CreateStringPrintf'' (C_Ptr (C_Api ''String'')) [C_Ptr (C_Api ''Ctx''), C_Ptr (C_Const C_Char)],
     api ''FreeString'' C_Void [C_Ptr (C_Api ''Ctx''), C_Ptr (C_Api ''String'')],
     api ''StringPtrLen'' (C_Ptr (C_Const C_Char)) [C_Ptr (C_Const (C_Api ''String'')), C_Ptr C_Size],
     api ''ReplyWithError'' C_Int [C_Ptr (C_Api ''Ctx''), C_Ptr (C_Const C_Char)],
     api ''ReplyWithSimpleString'' C_Int [C_Ptr (C_Api ''Ctx''), C_Ptr (C_Const C_Char)],
     api ''ReplyWithArray'' C_Int [C_Ptr (C_Api ''Ctx''), C_Long],
     api ''ReplySetArrayLength'' C_Void [C_Ptr (C_Api ''Ctx''), C_Long],
     api ''ReplyWithStringBuffer'' C_Int [C_Ptr (C_Api ''Ctx''), C_Ptr (C_Const C_Char), C_Size],
     api ''ReplyWithString'' C_Int [C_Ptr (C_Api ''Ctx''), C_Ptr (C_Api ''String'')],
     api ''ReplyWithNull'' C_Int [C_Ptr (C_Api ''Ctx'')],
     api ''ReplyWithDouble'' C_Int [C_Ptr (C_Api ''Ctx''), C_Double],
     api ''ReplyWithCallReply'' C_Int [C_Ptr (C_Api ''Ctx''), C_Ptr (C_Api ''CallReply'')],
     api ''StringToLongLong'' C_Int [C_Ptr (C_Const (C_Api ''String'')), C_Ptr C_LongLong],
     api ''StringToDouble'' C_Int [C_Ptr (C_Const (C_Api ''String'')), C_Ptr C_Double],
     api ''AutoMemory'' C_Void [C_Ptr (C_Api ''Ctx'')],
     api_var ''Replicate'' C_Int [C_Ptr (C_Api ''Ctx''), C_Ptr (C_Const C_Char), C_Ptr (C_Const C_Char)],
     api ''ReplicateVerbatim'' C_Int [C_Ptr (C_Api ''Ctx'')],
     api ''CallReplyStringPtr'' (C_Ptr (C_Const C_Char)) [C_Ptr (C_Api ''CallReply''), C_Ptr C_Size],
     api ''CreateStringFromCallReply'' (C_Ptr (C_Api ''String'')) [C_Ptr (C_Api ''CallReply'')],
     api ''DeleteKey'' C_Int [C_Ptr (C_Api ''Key'')],
     api ''StringSet'' C_Int [C_Ptr (C_Api ''Key''), C_Ptr (C_Api ''String'')],
     api ''StringDMA'' (C_Ptr C_Char) [C_Ptr (C_Api ''Key''), C_Ptr C_Size, C_Int],
     api ''StringTruncate'' C_Int [C_Ptr (C_Api ''Key''), C_Size],
     api ''GetExpire'' C_Mstime [C_Ptr (C_Api ''Key'')],
     api ''SetExpire'' C_Int [C_Ptr (C_Api ''Key''), C_Mstime],
     api ''ZsetAdd'' C_Int [C_Ptr (C_Api ''Key''), C_Double, C_Ptr (C_Api ''String''), C_Ptr C_Int],
     api ''ZsetIncrby'' C_Int [C_Ptr (C_Api ''Key''), C_Double, C_Ptr (C_Api ''String''), C_Ptr C_Int, C_Ptr C_Double],
     api ''ZsetScore'' C_Int [C_Ptr (C_Api ''Key''), C_Ptr (C_Api ''String''), C_Ptr C_Double],
     api ''ZsetRem'' C_Int [C_Ptr (C_Api ''Key''), C_Ptr (C_Api ''String''), C_Ptr C_Int],
     api ''ZsetRangeStop'' C_Void [C_Ptr (C_Api ''Key'')],
     api ''ZsetFirstInScoreRange'' C_Int [C_Ptr (C_Api ''Key''), C_Double, C_Double, C_Int, C_Int],
     api ''ZsetLastInScoreRange'' C_Int [C_Ptr (C_Api ''Key''), C_Double, C_Double, C_Int, C_Int],
     api ''ZsetFirstInLexRange'' C_Int [C_Ptr (C_Api ''Key''), C_Ptr (C_Api ''String''), C_Ptr (C_Api ''String'')],
     api ''ZsetLastInLexRange'' C_Int [C_Ptr (C_Api ''Key''), C_Ptr (C_Api ''String''), C_Ptr (C_Api ''String'')],
     api ''ZsetRangeCurrentElement'' (C_Ptr (C_Api ''String'')) [C_Ptr (C_Api ''Key''), C_Ptr C_Double],
     api ''ZsetRangeNext'' C_Int [C_Ptr (C_Api ''Key'')],
     api ''ZsetRangePrev'' C_Int [C_Ptr (C_Api ''Key'')],
     api ''ZsetRangeEndReached'' C_Int [C_Ptr (C_Api ''Key'')],
     api_var ''HashSet'' C_Int [C_Ptr (C_Api ''Key''), C_Int],
     api_var ''HashGet'' C_Int [C_Ptr (C_Api ''Key''), C_Int],
     api ''IsKeysPositionRequest'' C_Int [C_Ptr (C_Api ''Ctx'')],
     api ''KeyAtPos'' C_Void [C_Ptr (C_Api ''Ctx''), C_Int],
     api ''GetClientId'' C_ULongLong [C_Ptr (C_Api ''Ctx'')],
     api ''PoolAlloc'' (C_Ptr C_Void) [C_Ptr (C_Api ''Ctx''), C_Size],
     api ''CreateDataType'' (C_Ptr (C_Api ''Type'')) [C_Ptr (C_Api ''Ctx''), C_Ptr (C_Const C_Char), C_Int, C_Api ''TypeLoadFunc'', C_Api ''TypeSaveFunc'', C_Api ''TypeRewriteFunc'', C_Api ''TypeDigestFunc'', C_Api ''TypeFreeFunc''],
     api ''ModuleTypeSetValue'' C_Int [C_Ptr (C_Api ''Key''), C_Ptr (C_Api ''Type''), C_Ptr C_Void],
     api ''ModuleTypeGetType'' (C_Ptr (C_Api ''Type'')) [C_Ptr (C_Api ''Key'')],
     api ''ModuleTypeGetValue'' (C_Ptr C_Void) [C_Ptr (C_Api ''Key'')],
     api ''SaveUnsigned'' C_Void [C_Ptr (C_Api ''IO''), C_UInt64],
     api ''LoadUnsigned'' C_UInt64 [C_Ptr (C_Api ''IO'')],
     api ''SaveSigned'' C_Void [C_Ptr (C_Api ''IO''), C_Int64],
     api ''LoadSigned'' C_Int64 [C_Ptr (C_Api ''IO'')],
     api_var ''EmitAOF'' C_Void [C_Ptr (C_Api ''IO''), C_Ptr (C_Const C_Char), C_Ptr (C_Const C_Char)],
     api ''SaveString'' C_Void [C_Ptr (C_Api ''IO''), C_Ptr (C_Api ''String'')],
     api ''SaveStringBuffer'' C_Void [C_Ptr (C_Api ''IO''), C_Ptr (C_Const C_Char), C_Size],
     api ''LoadString'' (C_Ptr (C_Api ''String'')) [C_Ptr (C_Api ''IO'')],
     api ''LoadStringBuffer'' (C_Ptr C_Char) [C_Ptr (C_Api ''IO''), C_Ptr C_Size],
     api ''SaveDouble'' C_Void [C_Ptr (C_Api ''IO''), C_Double],
     api ''LoadDouble'' C_Double [C_Ptr (C_Api ''IO'')],
     api ''SaveFloat'' C_Void [C_Ptr (C_Api ''IO''), C_Float],
     api ''LoadFloat'' C_Float [C_Ptr (C_Api ''IO'')],
     api_var ''Log'' C_Void [C_Ptr (C_Api ''Ctx''), C_Ptr (C_Const C_Char), C_Ptr (C_Const C_Char)],
     api_var ''LogIOError'' C_Void [C_Ptr (C_Api ''IO''), C_Ptr (C_Const C_Char), C_Ptr (C_Const C_Char)],
     api ''StringAppendBuffer'' C_Int [C_Ptr (C_Api ''Ctx''), C_Ptr (C_Api ''String''), C_Ptr (C_Const C_Char), C_Size],
     api ''RetainString'' C_Void [C_Ptr (C_Api ''Ctx''), C_Ptr (C_Api ''String'')],
     api ''StringCompare'' C_Int [C_Ptr (C_Api ''String''), C_Ptr (C_Api ''String'')],
     api ''GetContextFromIO'' (C_Ptr (C_Api ''Ctx'')) [C_Ptr (C_Api ''IO'')],
     api ''BlockClient'' (C_Ptr (C_Api ''BlockedClient'')) [C_Ptr (C_Api ''Ctx''), C_Api ''CmdFunc'', C_Api ''CmdFunc'', C_Fun C_Void [C_Ptr C_Void], C_LongLong],
     api ''UnblockClient'' C_Int [C_Ptr (C_Api ''BlockedClient''), C_Ptr C_Void],
     api ''IsBlockedReplyRequest'' C_Int [C_Ptr (C_Api ''Ctx'')],
     api ''IsBlockedTimeoutRequest'' C_Int [C_Ptr (C_Api ''Ctx'')],
     api ''GetBlockedClientPrivateData'' (C_Ptr C_Void) [C_Ptr (C_Api ''Ctx'')],
     api ''AbortBlock'' C_Int [C_Ptr (C_Api ''BlockedClient'')],
     api ''Milliseconds'' C_LongLong []]"

section \<open>The functions that are fetched\<close>

definition redis_fetched :: "string list" where
  "redis_fetched = [
     ''Alloc'', ''Calloc'', ''Free'', ''Realloc'', ''Strdup'', ''CreateCommand'', ''SetModuleAttribs'',
     ''WrongArity'', ''ReplyWithLongLong'', ''ReplyWithError'', ''ReplyWithSimpleString'',
     ''ReplyWithArray'', ''ReplySetArrayLength'', ''ReplyWithStringBuffer'', ''ReplyWithString'',
     ''ReplyWithNull'', ''ReplyWithCallReply'', ''ReplyWithDouble'', ''ReplySetArrayLength'',
     ''GetSelectedDb'', ''SelectDb'', ''OpenKey'', ''CloseKey'', ''KeyType'', ''ValueLength'',
     ''ListPush'', ''ListPop'', ''StringToLongLong'', ''StringToDouble'', ''Call'', ''CallReplyProto'',
     ''FreeCallReply'', ''CallReplyInteger'', ''CallReplyType'', ''CallReplyLength'',
     ''CallReplyArrayElement'', ''CallReplyStringPtr'', ''CreateStringFromCallReply'', ''CreateString'',
     ''CreateStringFromLongLong'', ''CreateStringFromString'', ''CreateStringPrintf'', ''FreeString'',
     ''StringPtrLen'', ''AutoMemory'', ''Replicate'', ''ReplicateVerbatim'', ''DeleteKey'',
     ''StringSet'', ''StringDMA'', ''StringTruncate'', ''GetExpire'', ''SetExpire'', ''ZsetAdd'',
     ''ZsetIncrby'', ''ZsetScore'', ''ZsetRem'', ''ZsetRangeStop'', ''ZsetFirstInScoreRange'',
     ''ZsetLastInScoreRange'', ''ZsetFirstInLexRange'', ''ZsetLastInLexRange'',
     ''ZsetRangeCurrentElement'', ''ZsetRangeNext'', ''ZsetRangePrev'', ''ZsetRangeEndReached'',
     ''HashSet'', ''HashGet'', ''IsKeysPositionRequest'', ''KeyAtPos'', ''GetClientId'', ''PoolAlloc'',
     ''CreateDataType'', ''ModuleTypeSetValue'', ''ModuleTypeGetType'', ''ModuleTypeGetValue'',
     ''SaveUnsigned'', ''LoadUnsigned'', ''SaveSigned'', ''LoadSigned'', ''SaveString'',
     ''SaveStringBuffer'', ''LoadString'', ''LoadStringBuffer'', ''SaveDouble'', ''LoadDouble'',
     ''SaveFloat'', ''LoadFloat'', ''EmitAOF'', ''Log'', ''LogIOError'', ''StringAppendBuffer'',
     ''RetainString'', ''StringCompare'', ''GetContextFromIO'', ''BlockClient'', ''UnblockClient'',
     ''IsBlockedReplyRequest'', ''IsBlockedTimeoutRequest'', ''GetBlockedClientPrivateData'',
     ''AbortBlock'', ''Milliseconds'']"

section \<open>Initialisation\<close>

definition redismodule_init ::
    "'h c_server \<Rightarrow> ptr \<Rightarrow> string \<Rightarrow> c_int \<Rightarrow> c_int \<Rightarrow> api_table \<Rightarrow> 'h \<Rightarrow> ((status \<times> api_table) option) \<times> 'h" where
  "redismodule_init srv ctx name ver apiver t h =
     (let getapi = context_word srv ctx;
          t1 = t(''GetApi'' := getapi)
      in if getapi = null_ptr then (None, h)
         else
           (let t2 = get_apis (call_get_api srv getapi) ''RedisModule_'' redis_fetched t1
            in case call_through (t2 ''SetModuleAttribs'') (\<lambda>p. call_set_attribs srv p ctx name ver apiver h) of
                 None \<Rightarrow> (None, h)
               | Some h' \<Rightarrow> (Some (Status_Ok, t2), h')))"

definition export_redismodule_init ::
    "'h c_server \<Rightarrow> ptr \<Rightarrow> string \<Rightarrow> c_int \<Rightarrow> c_int \<Rightarrow> api_table \<Rightarrow> 'h \<Rightarrow> ((status \<times> api_table) option) \<times> 'h" where
  "export_redismodule_init srv ctx name ver apiver t h = redismodule_init srv ctx name ver apiver t h"

section \<open>Everything declared is fetched\<close>

lemma redis_fetched_mset:
  "mset (''GetApi'' # redis_fetched) = mset (''ReplySetArrayLength'' # map decl_name redis_api)"
  by code_simp

lemma redis_fetched_set: "insert ''GetApi'' (set redis_fetched) = decl_name ` set redis_api"
proof -
  have "insert ''GetApi'' (set redis_fetched) =
      insert ''ReplySetArrayLength'' (decl_name ` set redis_api)"
    using arg_cong [OF redis_fetched_mset, of set_mset] by simp
  moreover have "''ReplySetArrayLength'' \<in> decl_name ` set redis_api"
    by (simp add: redis_api_def api_def api_var_def)
  ultimately show ?thesis by (simp add: insert_absorb)
qed

lemma redis_fetched_fresh: "''GetApi'' \<notin> set redis_fetched"
  by code_simp

lemma redis_get_apis:
  "get_apis (call_get_api srv (context_word srv ctx)) ''RedisModule_'' redis_fetched
     (t(''GetApi'' := context_word srv ctx)) = fetched_table srv ctx ''RedisModule_'' redis_api t"
  by (rule get_apis_fetched [OF redis_fetched_set redis_fetched_fresh])

end
