(* ===== verification/Valkey_Header.thy ===== *)
theory Valkey_Header
  imports C_Api
begin

text \<open>
  \<^verbatim>\<open>include/valkeymodule.h\<close> and \<^verbatim>\<open>src/valkeymodule.c\<close>: the same for
  Valkey, whose initialisation also refuses a module name that is in use.
\<close>

section \<open>The declared functions\<close>

definition valkey_api_1 :: "c_decl list" where
  "valkey_api_1 = [
     api ''Alloc'' (C_Ptr C_Void) [C_Size],
     api ''TryAlloc'' (C_Ptr C_Void) [C_Size],
     api ''Realloc'' (C_Ptr C_Void) [C_Ptr C_Void, C_Size],
     api ''TryRealloc'' (C_Ptr C_Void) [C_Ptr C_Void, C_Size],
     api ''Free'' C_Void [C_Ptr C_Void],
     api ''Calloc'' (C_Ptr C_Void) [C_Size, C_Size],
     api ''TryCalloc'' (C_Ptr C_Void) [C_Size, C_Size],
     api ''Strdup'' (C_Ptr C_Char) [C_Ptr (C_Const C_Char)],
     api ''GetApi'' C_Int [C_Ptr (C_Const C_Char), C_Ptr C_Void],
     api ''CreateCommand'' C_Int [C_Ptr (C_Api ''Ctx''), C_Ptr (C_Const C_Char), C_Api ''CmdFunc'', C_Ptr (C_Const C_Char), C_Int, C_Int, C_Int],
     api ''GetCommand'' (C_Ptr (C_Api ''Command'')) [C_Ptr (C_Api ''Ctx''), C_Ptr (C_Const C_Char)],
     api ''CreateSubcommand'' C_Int [C_Ptr (C_Api ''Command''), C_Ptr (C_Const C_Char), C_Api ''CmdFunc'', C_Ptr (C_Const C_Char), C_Int, C_Int, C_Int],
     api ''SetCommandInfo'' C_Int [C_Ptr (C_Api ''Command''), C_Ptr (C_Const (C_Api ''CommandInfo''))],
     api ''SetCommandACLCategories'' C_Int [C_Ptr (C_Api ''Command''), C_Ptr (C_Const C_Char)],
     api ''AddACLCategory'' C_Int [C_Ptr (C_Api ''Ctx''), C_Ptr (C_Const C_Char)],
     api ''SetModuleAttribs'' C_Void [C_Ptr (C_Api ''Ctx''), C_Ptr (C_Const C_Char), C_Int, C_Int],
     api ''IsModuleNameBusy'' C_Int [C_Ptr (C_Const C_Char)],
     api ''WrongArity'' C_Int [C_Ptr (C_Api ''Ctx'')],
     api ''UpdateRuntimeArgs'' C_Int [C_Ptr (C_Api ''Ctx''), C_Ptr (C_Ptr (C_Api ''String'')), C_Int],
     api ''ReplyWithLongLong'' C_Int [C_Ptr (C_Api ''Ctx''), C_LongLong],
     api ''GetSelectedDb'' C_Int [C_Ptr (C_Api ''Ctx'')],
     api ''SelectDb'' C_Int [C_Ptr (C_Api ''Ctx''), C_Int],
     api ''KeyExists'' C_Int [C_Ptr (C_Api ''Ctx''), C_Ptr (C_Api ''String'')],
     api ''OpenKey'' (C_Ptr (C_Api ''Key'')) [C_Ptr (C_Api ''Ctx''), C_Ptr (C_Api ''String''), C_Int],
     api ''GetOpenKeyModesAll'' C_Int [],
     api ''CloseKey'' C_Void [C_Ptr (C_Api ''Key'')],
     api ''KeyType'' C_Int [C_Ptr (C_Api ''Key'')],
     api ''ValueLength'' C_Size [C_Ptr (C_Api ''Key'')],
     api ''ListPush'' C_Int [C_Ptr (C_Api ''Key''), C_Int, C_Ptr (C_Api ''String'')],
     api ''ListPop'' (C_Ptr (C_Api ''String'')) [C_Ptr (C_Api ''Key''), C_Int],
     api ''ListGet'' (C_Ptr (C_Api ''String'')) [C_Ptr (C_Api ''Key''), C_Long],
     api ''ListSet'' C_Int [C_Ptr (C_Api ''Key''), C_Long, C_Ptr (C_Api ''String'')],
     api ''ListInsert'' C_Int [C_Ptr (C_Api ''Key''), C_Long, C_Ptr (C_Api ''String'')],
     api ''ListDelete'' C_Int [C_Ptr (C_Api ''Key''), C_Long],
     api_var ''Call'' (C_Ptr (C_Api ''CallReply'')) [C_Ptr (C_Api ''Ctx''), C_Ptr (C_Const C_Char), C_Ptr (C_Const C_Char)],
     api ''CallReplyProto'' (C_Ptr (C_Const C_Char)) [C_Ptr (C_Api ''CallReply''), C_Ptr C_Size],
     api ''FreeCallReply'' C_Void [C_Ptr (C_Api ''CallReply'')],
     api ''CallReplyType'' C_Int [C_Ptr (C_Api ''CallReply'')],
     api ''CallReplyInteger'' C_LongLong [C_Ptr (C_Api ''CallReply'')],
     api ''CallReplyDouble'' C_Double [C_Ptr (C_Api ''CallReply'')],
     api ''CallReplyBool'' C_Int [C_Ptr (C_Api ''CallReply'')],
     api ''CallReplyBigNumber'' (C_Ptr (C_Const C_Char)) [C_Ptr (C_Api ''CallReply''), C_Ptr C_Size],
     api ''CallReplyVerbatim'' (C_Ptr (C_Const C_Char)) [C_Ptr (C_Api ''CallReply''), C_Ptr C_Size, C_Ptr (C_Ptr (C_Const C_Char))],
     api ''CallReplySetElement'' (C_Ptr (C_Api ''CallReply'')) [C_Ptr (C_Api ''CallReply''), C_Size],
     api ''CallReplyMapElement'' C_Int [C_Ptr (C_Api ''CallReply''), C_Size, C_Ptr (C_Ptr (C_Api ''CallReply'')), C_Ptr (C_Ptr (C_Api ''CallReply''))],
     api ''CallReplyAttributeElement'' C_Int [C_Ptr (C_Api ''CallReply''), C_Size, C_Ptr (C_Ptr (C_Api ''CallReply'')), C_Ptr (C_Ptr (C_Api ''CallReply''))],
     api ''CallReplyPromiseSetUnblockHandler'' C_Void [C_Ptr (C_Api ''CallReply''), C_Api ''OnUnblocked'', C_Ptr C_Void],
     api ''CallReplyPromiseAbort'' C_Int [C_Ptr (C_Api ''CallReply''), C_Ptr (C_Ptr C_Void)],
     api ''CallReplyAttribute'' (C_Ptr (C_Api ''CallReply'')) [C_Ptr (C_Api ''CallReply'')],
     api ''CallReplyLength'' C_Size [C_Ptr (C_Api ''CallReply'')],
     api ''CallReplyArrayElement'' (C_Ptr (C_Api ''CallReply'')) [C_Ptr (C_Api ''CallReply''), C_Size],
     api ''CreateString'' (C_Ptr (C_Api ''String'')) [C_Ptr (C_Api ''Ctx''), C_Ptr (C_Const C_Char), C_Size],
     api ''CreateStringFromLongLong'' (C_Ptr (C_Api ''String'')) [C_Ptr (C_Api ''Ctx''), C_LongLong],
     api ''CreateStringFromULongLong'' (C_Ptr (C_Api ''String'')) [C_Ptr (C_Api ''Ctx''), C_ULongLong],
     api ''CreateStringFromDouble'' (C_Ptr (C_Api ''String'')) [C_Ptr (C_Api ''Ctx''), C_Double],
     api ''CreateStringFromLongDouble'' (C_Ptr (C_Api ''String'')) [C_Ptr (C_Api ''Ctx''), C_LongDouble, C_Int],
     api ''CreateStringFromString'' (C_Ptr (C_Api ''String'')) [C_Ptr (C_Api ''Ctx''), C_Ptr (C_Const (C_Api ''String''))],
     api ''CreateStringFromStreamID'' (C_Ptr (C_Api ''String'')) [C_Ptr (C_Api ''Ctx''), C_Ptr (C_Const (C_Api ''StreamID''))],
     api_var ''CreateStringPrintf'' (C_Ptr (C_Api ''String'')) [C_Ptr (C_Api ''Ctx''), C_Ptr (C_Const C_Char)],
     api ''FreeString'' C_Void [C_Ptr (C_Api ''Ctx''), C_Ptr (C_Api ''String'')],
     api ''StringPtrLen'' (C_Ptr (C_Const C_Char)) [C_Ptr (C_Const (C_Api ''String'')), C_Ptr C_Size],
     api ''ReplyWithError'' C_Int [C_Ptr (C_Api ''Ctx''), C_Ptr (C_Const C_Char)],
     api_var ''ReplyWithErrorFormat'' C_Int [C_Ptr (C_Api ''Ctx''), C_Ptr (C_Const C_Char)],
     api ''ReplyWithSimpleString'' C_Int [C_Ptr (C_Api ''Ctx''), C_Ptr (C_Const C_Char)],
     api ''ReplyWithArray'' C_Int [C_Ptr (C_Api ''Ctx''), C_Long],
     api ''ReplyWithMap'' C_Int [C_Ptr (C_Api ''Ctx''), C_Long],
     api ''ReplyWithSet'' C_Int [C_Ptr (C_Api ''Ctx''), C_Long],
     api ''ReplyWithAttribute'' C_Int [C_Ptr (C_Api ''Ctx''), C_Long],
     api ''ReplyWithNullArray'' C_Int [C_Ptr (C_Api ''Ctx'')],
     api ''ReplyWithEmptyArray'' C_Int [C_Ptr (C_Api ''Ctx'')],
     api ''ReplySetArrayLength'' C_Void [C_Ptr (C_Api ''Ctx''), C_Long],
     api ''ReplySetMapLength'' C_Void [C_Ptr (C_Api ''Ctx''), C_Long],
     api ''ReplySetSetLength'' C_Void [C_Ptr (C_Api ''Ctx''), C_Long],
     api ''ReplySetAttributeLength'' C_Void [C_Ptr (C_Api ''Ctx''), C_Long],
     api ''ReplySetPushLength'' C_Void [C_Ptr (C_Api ''Ctx''), C_Long],
     api ''ReplyWithStringBuffer'' C_Int [C_Ptr (C_Api ''Ctx''), C_Ptr (C_Const C_Char), C_Size],
     api ''ReplyWithCString'' C_Int [C_Ptr (C_Api ''Ctx''), C_Ptr (C_Const C_Char)],
     api ''ReplyWithString'' C_Int [C_Ptr (C_Api ''Ctx''), C_Ptr (C_Api ''String'')],
     api ''ReplyWithEmptyString'' C_Int [C_Ptr (C_Api ''Ctx'')],
     api ''ReplyWithVerbatimString'' C_Int [C_Ptr (C_Api ''Ctx''), C_Ptr (C_Const C_Char), C_Size],
     api ''ReplyWithVerbatimStringType'' C_Int [C_Ptr (C_Api ''Ctx''), C_Ptr (C_Const C_Char), C_Size, C_Ptr (C_Const C_Char)],
     api ''ReplyWithNull'' C_Int [C_Ptr (C_Api ''Ctx'')],
     api ''ReplyWithBool'' C_Int [C_Ptr (C_Api ''Ctx''), C_Int],
     api ''ReplyWithLongDouble'' C_Int [C_Ptr (C_Api ''Ctx''), C_LongDouble],
     api ''ReplyWithDouble'' C_Int [C_Ptr (C_Api ''Ctx''), C_Double],
     api ''ReplyWithBigNumber'' C_Int [C_Ptr (C_Api ''Ctx''), C_Ptr (C_Const C_Char), C_Size],
     api ''ReplyWithCallReply'' C_Int [C_Ptr (C_Api ''Ctx''), C_Ptr (C_Api ''CallReply'')],
     api ''StringToLongLong'' C_Int [C_Ptr (C_Const (C_Api ''String'')), C_Ptr C_LongLong]]"

definition valkey_api_2 :: "c_decl list" where
  "valkey_api_2 = [
     api ''StringToULongLong'' C_Int [C_Ptr (C_Const (C_Api ''String'')), C_Ptr C_ULongLong],
     api ''StringToDouble'' C_Int [C_Ptr (C_Const (C_Api ''String'')), C_Ptr C_Double],
     api ''StringToLongDouble'' C_Int [C_Ptr (C_Const (C_Api ''String'')), C_Ptr C_LongDouble],
     api ''StringToStreamID'' C_Int [C_Ptr (C_Const (C_Api ''String'')), C_Ptr (C_Api ''StreamID'')],
     api ''AutoMemory'' C_Void [C_Ptr (C_Api ''Ctx'')],
     api_var ''Replicate'' C_Int [C_Ptr (C_Api ''Ctx''), C_Ptr (C_Const C_Char), C_Ptr (C_Const C_Char)],
     api ''ReplicateVerbatim'' C_Int [C_Ptr (C_Api ''Ctx'')],
     api ''CallReplyStringPtr'' (C_Ptr (C_Const C_Char)) [C_Ptr (C_Api ''CallReply''), C_Ptr C_Size],
     api ''CreateStringFromCallReply'' (C_Ptr (C_Api ''String'')) [C_Ptr (C_Api ''CallReply'')]]"

definition valkey_api_3 :: "c_decl list" where
  "valkey_api_3 = [
     api ''DeleteKey'' C_Int [C_Ptr (C_Api ''Key'')],
     api ''UnlinkKey'' C_Int [C_Ptr (C_Api ''Key'')],
     api ''StringSet'' C_Int [C_Ptr (C_Api ''Key''), C_Ptr (C_Api ''String'')],
     api ''StringDMA'' (C_Ptr C_Char) [C_Ptr (C_Api ''Key''), C_Ptr C_Size, C_Int],
     api ''StringTruncate'' C_Int [C_Ptr (C_Api ''Key''), C_Size],
     api ''GetExpire'' C_Mstime [C_Ptr (C_Api ''Key'')],
     api ''SetExpire'' C_Int [C_Ptr (C_Api ''Key''), C_Mstime],
     api ''GetAbsExpire'' C_Mstime [C_Ptr (C_Api ''Key'')],
     api ''SetAbsExpire'' C_Int [C_Ptr (C_Api ''Key''), C_Mstime],
     api ''ResetDataset'' C_Void [C_Int, C_Int],
     api ''DbSize'' C_ULongLong [C_Ptr (C_Api ''Ctx'')],
     api ''RandomKey'' (C_Ptr (C_Api ''String'')) [C_Ptr (C_Api ''Ctx'')],
     api ''ZsetAdd'' C_Int [C_Ptr (C_Api ''Key''), C_Double, C_Ptr (C_Api ''String''), C_Ptr C_Int],
     api ''ZsetIncrby'' C_Int [C_Ptr (C_Api ''Key''), C_Double, C_Ptr (C_Api ''String''), C_Ptr C_Int, C_Ptr C_Double],
     api ''ZsetScore'' C_Int [C_Ptr (C_Api ''Key''), C_Ptr (C_Api ''String''), C_Ptr C_Double],
     api ''ZsetRem'' C_Int [C_Ptr (C_Api ''Key''), C_Ptr (C_Api ''String''), C_Ptr C_Int],
     api ''ZsetRangeStop'' C_Void [C_Ptr (C_Api ''Key'')],
     api ''ZsetFirstInScoreRange'' C_Int [C_Ptr (C_Api ''Key''), C_Double, C_Double, C_Int, C_Int],
     api ''ZsetLastInScoreRange'' C_Int [C_Ptr (C_Api ''Key''), C_Double, C_Double, C_Int, C_Int],
     api ''ZsetFirstInLexRange'' C_Int [C_Ptr (C_Api ''Key''), C_Ptr (C_Api ''String''), C_Ptr (C_Api ''String'')],
     api ''ZsetLastInLexRange'' C_Int [C_Ptr (C_Api ''Key''), C_Ptr (C_Api ''String''), C_Ptr (C_Api ''String'')],
     api ''ZsetRangeCurrentElement'' (C_Ptr (C_Api ''String'')) [C_Ptr (C_Api ''Key''), C_Ptr C_Double],
     api ''ZsetRangeNext'' C_Int [C_Ptr (C_Api ''Key'')],
     api ''ZsetRangePrev'' C_Int [C_Ptr (C_Api ''Key'')],
     api ''ZsetRangeEndReached'' C_Int [C_Ptr (C_Api ''Key'')],
     api_var ''HashSet'' C_Int [C_Ptr (C_Api ''Key''), C_Int],
     api_var ''HashGet'' C_Int [C_Ptr (C_Api ''Key''), C_Int],
     api ''StreamAdd'' C_Int [C_Ptr (C_Api ''Key''), C_Int, C_Ptr (C_Api ''StreamID''), C_Ptr (C_Ptr (C_Api ''String'')), C_Int64],
     api ''StreamDelete'' C_Int [C_Ptr (C_Api ''Key''), C_Ptr (C_Api ''StreamID'')],
     api ''StreamIteratorStart'' C_Int [C_Ptr (C_Api ''Key''), C_Int, C_Ptr (C_Api ''StreamID''), C_Ptr (C_Api ''StreamID'')],
     api ''StreamIteratorStop'' C_Int [C_Ptr (C_Api ''Key'')],
     api ''StreamIteratorNextID'' C_Int [C_Ptr (C_Api ''Key''), C_Ptr (C_Api ''StreamID''), C_Ptr C_Long]]"

definition valkey_api_4 :: "c_decl list" where
  "valkey_api_4 = [
     api ''StreamIteratorNextField'' C_Int [C_Ptr (C_Api ''Key''), C_Ptr (C_Ptr (C_Api ''String'')), C_Ptr (C_Ptr (C_Api ''String''))],
     api ''StreamIteratorDelete'' C_Int [C_Ptr (C_Api ''Key'')],
     api ''StreamTrimByLength'' C_LongLong [C_Ptr (C_Api ''Key''), C_Int, C_LongLong],
     api ''StreamTrimByID'' C_LongLong [C_Ptr (C_Api ''Key''), C_Int, C_Ptr (C_Api ''StreamID'')],
     api ''IsKeysPositionRequest'' C_Int [C_Ptr (C_Api ''Ctx'')],
     api ''KeyAtPos'' C_Void [C_Ptr (C_Api ''Ctx''), C_Int],
     api ''KeyAtPosWithFlags'' C_Void [C_Ptr (C_Api ''Ctx''), C_Int, C_Int],
     api ''IsChannelsPositionRequest'' C_Int [C_Ptr (C_Api ''Ctx'')],
     api ''ChannelAtPosWithFlags'' C_Void [C_Ptr (C_Api ''Ctx''), C_Int, C_Int],
     api ''GetClientId'' C_ULongLong [C_Ptr (C_Api ''Ctx'')],
     api ''GetClientUserNameById'' (C_Ptr (C_Api ''String'')) [C_Ptr (C_Api ''Ctx''), C_UInt64],
     api ''MustObeyClient'' C_Int [C_Ptr (C_Api ''Ctx'')],
     api ''GetClientInfoById'' C_Int [C_Ptr C_Void, C_UInt64],
     api ''GetClientNameById'' (C_Ptr (C_Api ''String'')) [C_Ptr (C_Api ''Ctx''), C_UInt64],
     api ''SetClientNameById'' C_Int [C_UInt64, C_Ptr (C_Api ''String'')],
     api ''PublishMessage'' C_Int [C_Ptr (C_Api ''Ctx''), C_Ptr (C_Api ''String''), C_Ptr (C_Api ''String'')],
     api ''PublishMessageShard'' C_Int [C_Ptr (C_Api ''Ctx''), C_Ptr (C_Api ''String''), C_Ptr (C_Api ''String'')],
     api ''GetContextFlags'' C_Int [C_Ptr (C_Api ''Ctx'')],
     api ''AvoidReplicaTraffic'' C_Int [],
     api ''PoolAlloc'' (C_Ptr C_Void) [C_Ptr (C_Api ''Ctx''), C_Size],
     api ''CreateDataType'' (C_Ptr (C_Api ''Type'')) [C_Ptr (C_Api ''Ctx''), C_Ptr (C_Const C_Char), C_Int, C_Ptr (C_Api ''TypeMethods'')],
     api ''ModuleTypeSetValue'' C_Int [C_Ptr (C_Api ''Key''), C_Ptr (C_Api ''Type''), C_Ptr C_Void],
     api ''ModuleTypeReplaceValue'' C_Int [C_Ptr (C_Api ''Key''), C_Ptr (C_Api ''Type''), C_Ptr C_Void, C_Ptr (C_Ptr C_Void)],
     api ''ModuleTypeGetType'' (C_Ptr (C_Api ''Type'')) [C_Ptr (C_Api ''Key'')],
     api ''ModuleTypeGetValue'' (C_Ptr C_Void) [C_Ptr (C_Api ''Key'')],
     api ''IsIOError'' C_Int [C_Ptr (C_Api ''IO'')],
     api ''SetModuleOptions'' C_Void [C_Ptr (C_Api ''Ctx''), C_Int],
     api ''SignalModifiedKey'' C_Int [C_Ptr (C_Api ''Ctx''), C_Ptr (C_Api ''String'')],
     api ''SaveUnsigned'' C_Void [C_Ptr (C_Api ''IO''), C_UInt64],
     api ''LoadUnsigned'' C_UInt64 [C_Ptr (C_Api ''IO'')],
     api ''SaveSigned'' C_Void [C_Ptr (C_Api ''IO''), C_Int64],
     api ''LoadSigned'' C_Int64 [C_Ptr (C_Api ''IO'')],
     api_var ''EmitAOF'' C_Void [C_Ptr (C_Api ''IO''), C_Ptr (C_Const C_Char), C_Ptr (C_Const C_Char)],
     api ''SaveString'' C_Void [C_Ptr (C_Api ''IO''), C_Ptr (C_Api ''String'')],
     api ''SaveStringBuffer'' C_Void [C_Ptr (C_Api ''IO''), C_Ptr (C_Const C_Char), C_Size],
     api ''LoadString'' (C_Ptr (C_Api ''String'')) [C_Ptr (C_Api ''IO'')],
     api ''LoadStringBuffer'' (C_Ptr C_Char) [C_Ptr (C_Api ''IO''), C_Ptr C_Size],
     api ''SaveDouble'' C_Void [C_Ptr (C_Api ''IO''), C_Double],
     api ''LoadDouble'' C_Double [C_Ptr (C_Api ''IO'')],
     api ''SaveFloat'' C_Void [C_Ptr (C_Api ''IO''), C_Float],
     api ''LoadFloat'' C_Float [C_Ptr (C_Api ''IO'')],
     api ''SaveLongDouble'' C_Void [C_Ptr (C_Api ''IO''), C_LongDouble],
     api ''LoadLongDouble'' C_LongDouble [C_Ptr (C_Api ''IO'')],
     api ''LoadDataTypeFromString'' (C_Ptr C_Void) [C_Ptr (C_Const (C_Api ''String'')), C_Ptr (C_Const (C_Api ''Type''))],
     api ''LoadDataTypeFromStringEncver'' (C_Ptr C_Void) [C_Ptr (C_Const (C_Api ''String'')), C_Ptr (C_Const (C_Api ''Type'')), C_Int],
     api ''SaveDataTypeToString'' (C_Ptr (C_Api ''String'')) [C_Ptr (C_Api ''Ctx''), C_Ptr C_Void, C_Ptr (C_Const (C_Api ''Type''))],
     api_var ''Log'' C_Void [C_Ptr (C_Api ''Ctx''), C_Ptr (C_Const C_Char), C_Ptr (C_Const C_Char)],
     api_var ''LogIOError'' C_Void [C_Ptr (C_Api ''IO''), C_Ptr (C_Const C_Char), C_Ptr (C_Const C_Char)],
     api ''_Assert'' C_Void [C_Ptr (C_Const C_Char), C_Ptr (C_Const C_Char), C_Int],
     api ''LatencyAddSample'' C_Void [C_Ptr (C_Const C_Char), C_Mstime],
     api ''StringAppendBuffer'' C_Int [C_Ptr (C_Api ''Ctx''), C_Ptr (C_Api ''String''), C_Ptr (C_Const C_Char), C_Size],
     api ''TrimStringAllocation'' C_Void [C_Ptr (C_Api ''String'')],
     api ''RetainString'' C_Void [C_Ptr (C_Api ''Ctx''), C_Ptr (C_Api ''String'')],
     api ''HoldString'' (C_Ptr (C_Api ''String'')) [C_Ptr (C_Api ''Ctx''), C_Ptr (C_Api ''String'')],
     api ''StringCompare'' C_Int [C_Ptr (C_Const (C_Api ''String'')), C_Ptr (C_Const (C_Api ''String''))],
     api ''GetContextFromIO'' (C_Ptr (C_Api ''Ctx'')) [C_Ptr (C_Api ''IO'')],
     api ''GetKeyNameFromIO'' (C_Ptr (C_Const (C_Api ''String''))) [C_Ptr (C_Api ''IO'')],
     api ''GetKeyNameFromModuleKey'' (C_Ptr (C_Const (C_Api ''String''))) [C_Ptr (C_Api ''Key'')],
     api ''GetDbIdFromModuleKey'' C_Int [C_Ptr (C_Api ''Key'')],
     api ''GetDbIdFromIO'' C_Int [C_Ptr (C_Api ''IO'')],
     api ''GetDbIdFromOptCtx'' C_Int [C_Ptr (C_Api ''KeyOptCtx'')],
     api ''GetToDbIdFromOptCtx'' C_Int [C_Ptr (C_Api ''KeyOptCtx'')],
     api ''GetKeyNameFromOptCtx'' (C_Ptr (C_Const (C_Api ''String''))) [C_Ptr (C_Api ''KeyOptCtx'')],
     api ''GetToKeyNameFromOptCtx'' (C_Ptr (C_Const (C_Api ''String''))) [C_Ptr (C_Api ''KeyOptCtx'')],
     api ''Milliseconds'' C_Mstime [],
     api ''MonotonicMicroseconds'' C_UInt64 [],
     api ''Microseconds'' C_Ustime [],
     api ''CachedMicroseconds'' C_Ustime [],
     api ''DigestAddStringBuffer'' C_Void [C_Ptr (C_Api ''Digest''), C_Ptr (C_Const C_Char), C_Size],
     api ''DigestAddLongLong'' C_Void [C_Ptr (C_Api ''Digest''), C_LongLong],
     api ''DigestEndSequence'' C_Void [C_Ptr (C_Api ''Digest'')],
     api ''GetDbIdFromDigest'' C_Int [C_Ptr (C_Api ''Digest'')],
     api ''GetKeyNameFromDigest'' (C_Ptr (C_Const (C_Api ''String''))) [C_Ptr (C_Api ''Digest'')],
     api ''CreateDict'' (C_Ptr (C_Api ''Dict'')) [C_Ptr (C_Api ''Ctx'')],
     api ''FreeDict'' C_Void [C_Ptr (C_Api ''Ctx''), C_Ptr (C_Api ''Dict'')],
     api ''DictSize'' C_UInt64 [C_Ptr (C_Api ''Dict'')],
     api ''DictSetC'' C_Int [C_Ptr (C_Api ''Dict''), C_Ptr C_Void, C_Size, C_Ptr C_Void],
     api ''DictReplaceC'' C_Int [C_Ptr (C_Api ''Dict''), C_Ptr C_Void, C_Size, C_Ptr C_Void],
     api ''DictSet'' C_Int [C_Ptr (C_Api ''Dict''), C_Ptr (C_Api ''String''), C_Ptr C_Void],
     api ''DictReplace'' C_Int [C_Ptr (C_Api ''Dict''), C_Ptr (C_Api ''String''), C_Ptr C_Void],
     api ''DictGetC'' (C_Ptr C_Void) [C_Ptr (C_Api ''Dict''), C_Ptr C_Void, C_Size, C_Ptr C_Int],
     api ''DictGet'' (C_Ptr C_Void) [C_Ptr (C_Api ''Dict''), C_Ptr (C_Api ''String''), C_Ptr C_Int],
     api ''DictDelC'' C_Int [C_Ptr (C_Api ''Dict''), C_Ptr C_Void, C_Size, C_Ptr C_Void],
     api ''DictDel'' C_Int [C_Ptr (C_Api ''Dict''), C_Ptr (C_Api ''String''), C_Ptr C_Void],
     api ''DictIteratorStartC'' (C_Ptr (C_Api ''DictIter'')) [C_Ptr (C_Api ''Dict''), C_Ptr (C_Const C_Char), C_Ptr C_Void, C_Size],
     api ''DictIteratorStart'' (C_Ptr (C_Api ''DictIter'')) [C_Ptr (C_Api ''Dict''), C_Ptr (C_Const C_Char), C_Ptr (C_Api ''String'')],
     api ''DictIteratorStop'' C_Void [C_Ptr (C_Api ''DictIter'')],
     api ''DictIteratorReseekC'' C_Int [C_Ptr (C_Api ''DictIter''), C_Ptr (C_Const C_Char), C_Ptr C_Void, C_Size]]"

definition valkey_api_5 :: "c_decl list" where
  "valkey_api_5 = [
     api ''DictIteratorReseek'' C_Int [C_Ptr (C_Api ''DictIter''), C_Ptr (C_Const C_Char), C_Ptr (C_Api ''String'')],
     api ''DictNextC'' (C_Ptr C_Void) [C_Ptr (C_Api ''DictIter''), C_Ptr C_Size, C_Ptr (C_Ptr C_Void)],
     api ''DictPrevC'' (C_Ptr C_Void) [C_Ptr (C_Api ''DictIter''), C_Ptr C_Size, C_Ptr (C_Ptr C_Void)],
     api ''DictNext'' (C_Ptr (C_Api ''String'')) [C_Ptr (C_Api ''Ctx''), C_Ptr (C_Api ''DictIter''), C_Ptr (C_Ptr C_Void)],
     api ''DictPrev'' (C_Ptr (C_Api ''String'')) [C_Ptr (C_Api ''Ctx''), C_Ptr (C_Api ''DictIter''), C_Ptr (C_Ptr C_Void)],
     api ''DictCompareC'' C_Int [C_Ptr (C_Api ''DictIter''), C_Ptr (C_Const C_Char), C_Ptr C_Void, C_Size],
     api ''DictCompare'' C_Int [C_Ptr (C_Api ''DictIter''), C_Ptr (C_Const C_Char), C_Ptr (C_Api ''String'')],
     api ''RegisterInfoFunc'' C_Int [C_Ptr (C_Api ''Ctx''), C_Api ''InfoFunc''],
     api ''RegisterAuthCallback'' C_Void [C_Ptr (C_Api ''Ctx''), C_Api ''AuthCallback''],
     api ''InfoAddSection'' C_Int [C_Ptr (C_Api ''InfoCtx''), C_Ptr (C_Const C_Char)],
     api ''InfoBeginDictField'' C_Int [C_Ptr (C_Api ''InfoCtx''), C_Ptr (C_Const C_Char)],
     api ''InfoEndDictField'' C_Int [C_Ptr (C_Api ''InfoCtx'')],
     api ''InfoAddFieldString'' C_Int [C_Ptr (C_Api ''InfoCtx''), C_Ptr (C_Const C_Char), C_Ptr (C_Api ''String'')],
     api ''InfoAddFieldCString'' C_Int [C_Ptr (C_Api ''InfoCtx''), C_Ptr (C_Const C_Char), C_Ptr (C_Const C_Char)],
     api ''InfoAddFieldDouble'' C_Int [C_Ptr (C_Api ''InfoCtx''), C_Ptr (C_Const C_Char), C_Double],
     api ''InfoAddFieldLongLong'' C_Int [C_Ptr (C_Api ''InfoCtx''), C_Ptr (C_Const C_Char), C_LongLong],
     api ''InfoAddFieldULongLong'' C_Int [C_Ptr (C_Api ''InfoCtx''), C_Ptr (C_Const C_Char), C_ULongLong],
     api ''GetServerInfo'' (C_Ptr (C_Api ''ServerInfoData'')) [C_Ptr (C_Api ''Ctx''), C_Ptr (C_Const C_Char)],
     api ''FreeServerInfo'' C_Void [C_Ptr (C_Api ''Ctx''), C_Ptr (C_Api ''ServerInfoData'')],
     api ''ServerInfoGetField'' (C_Ptr (C_Api ''String'')) [C_Ptr (C_Api ''Ctx''), C_Ptr (C_Api ''ServerInfoData''), C_Ptr (C_Const C_Char)],
     api ''ServerInfoGetFieldC'' (C_Ptr (C_Const C_Char)) [C_Ptr (C_Api ''ServerInfoData''), C_Ptr (C_Const C_Char)],
     api ''ServerInfoGetFieldSigned'' C_LongLong [C_Ptr (C_Api ''ServerInfoData''), C_Ptr (C_Const C_Char), C_Ptr C_Int],
     api ''ServerInfoGetFieldUnsigned'' C_ULongLong [C_Ptr (C_Api ''ServerInfoData''), C_Ptr (C_Const C_Char), C_Ptr C_Int],
     api ''ServerInfoGetFieldDouble'' C_Double [C_Ptr (C_Api ''ServerInfoData''), C_Ptr (C_Const C_Char), C_Ptr C_Int]]"

definition valkey_api_6 :: "c_decl list" where
  "valkey_api_6 = [
     api ''SubscribeToServerEvent'' C_Int [C_Ptr (C_Api ''Ctx''), C_Api ''Event'', C_Api ''EventCallback''],
     api ''SetLRU'' C_Int [C_Ptr (C_Api ''Key''), C_Mstime],
     api ''GetLRU'' C_Int [C_Ptr (C_Api ''Key''), C_Ptr C_Mstime],
     api ''SetLFU'' C_Int [C_Ptr (C_Api ''Key''), C_LongLong],
     api ''GetLFU'' C_Int [C_Ptr (C_Api ''Key''), C_Ptr C_LongLong],
     api ''BlockClientOnKeys'' (C_Ptr (C_Api ''BlockedClient'')) [C_Ptr (C_Api ''Ctx''), C_Api ''CmdFunc'', C_Api ''CmdFunc'', C_Fun C_Void [C_Ptr (C_Api ''Ctx''), C_Ptr C_Void], C_LongLong, C_Ptr (C_Ptr (C_Api ''String'')), C_Int, C_Ptr C_Void],
     api ''BlockClientOnKeysWithFlags'' (C_Ptr (C_Api ''BlockedClient'')) [C_Ptr (C_Api ''Ctx''), C_Api ''CmdFunc'', C_Api ''CmdFunc'', C_Fun C_Void [C_Ptr (C_Api ''Ctx''), C_Ptr C_Void], C_LongLong, C_Ptr (C_Ptr (C_Api ''String'')), C_Int, C_Ptr C_Void, C_Int],
     api ''SignalKeyAsReady'' C_Void [C_Ptr (C_Api ''Ctx''), C_Ptr (C_Api ''String'')],
     api ''GetBlockedClientReadyKey'' (C_Ptr (C_Api ''String'')) [C_Ptr (C_Api ''Ctx'')],
     api ''ScanCursorCreate'' (C_Ptr (C_Api ''ScanCursor'')) [],
     api ''ScanCursorRestart'' C_Void [C_Ptr (C_Api ''ScanCursor'')],
     api ''ScanCursorDestroy'' C_Void [C_Ptr (C_Api ''ScanCursor'')],
     api ''Scan'' C_Int [C_Ptr (C_Api ''Ctx''), C_Ptr (C_Api ''ScanCursor''), C_Api ''ScanCB'', C_Ptr C_Void],
     api ''ScanKey'' C_Int [C_Ptr (C_Api ''Key''), C_Ptr (C_Api ''ScanCursor''), C_Api ''ScanKeyCB'', C_Ptr C_Void],
     api ''GetContextFlagsAll'' C_Int [],
     api ''GetModuleOptionsAll'' C_Int [],
     api ''GetKeyspaceNotificationFlagsAll'' C_Int [],
     api ''IsSubEventSupported'' C_Int [C_Api ''Event'', C_UInt64],
     api ''GetServerVersion'' C_Int [],
     api ''GetTypeMethodVersion'' C_Int [],
     api ''Yield'' C_Void [C_Ptr (C_Api ''Ctx''), C_Int, C_Ptr (C_Const C_Char)],
     api ''BlockClient'' (C_Ptr (C_Api ''BlockedClient'')) [C_Ptr (C_Api ''Ctx''), C_Api ''CmdFunc'', C_Api ''CmdFunc'', C_Fun C_Void [C_Ptr (C_Api ''Ctx''), C_Ptr C_Void], C_LongLong],
     api ''BlockClientGetPrivateData'' (C_Ptr C_Void) [C_Ptr (C_Api ''BlockedClient'')],
     api ''BlockClientSetPrivateData'' C_Void [C_Ptr (C_Api ''BlockedClient''), C_Ptr C_Void],
     api ''BlockClientOnAuth'' (C_Ptr (C_Api ''BlockedClient'')) [C_Ptr (C_Api ''Ctx''), C_Api ''AuthCallback'', C_Fun C_Void [C_Ptr (C_Api ''Ctx''), C_Ptr C_Void]],
     api ''UnblockClient'' C_Int [C_Ptr (C_Api ''BlockedClient''), C_Ptr C_Void],
     api ''IsBlockedReplyRequest'' C_Int [C_Ptr (C_Api ''Ctx'')],
     api ''IsBlockedTimeoutRequest'' C_Int [C_Ptr (C_Api ''Ctx'')],
     api ''GetBlockedClientPrivateData'' (C_Ptr C_Void) [C_Ptr (C_Api ''Ctx'')],
     api ''GetBlockedClientHandle'' (C_Ptr (C_Api ''BlockedClient'')) [C_Ptr (C_Api ''Ctx'')],
     api ''AbortBlock'' C_Int [C_Ptr (C_Api ''BlockedClient'')],
     api ''BlockedClientMeasureTimeStart'' C_Int [C_Ptr (C_Api ''BlockedClient'')],
     api ''BlockedClientMeasureTimeEnd'' C_Int [C_Ptr (C_Api ''BlockedClient'')],
     api ''GetThreadSafeContext'' (C_Ptr (C_Api ''Ctx'')) [C_Ptr (C_Api ''BlockedClient'')],
     api ''GetDetachedThreadSafeContext'' (C_Ptr (C_Api ''Ctx'')) [C_Ptr (C_Api ''Ctx'')],
     api ''FreeThreadSafeContext'' C_Void [C_Ptr (C_Api ''Ctx'')],
     api ''ThreadSafeContextLock'' C_Void [C_Ptr (C_Api ''Ctx'')],
     api ''ThreadSafeContextTryLock'' C_Int [C_Ptr (C_Api ''Ctx'')],
     api ''ThreadSafeContextUnlock'' C_Void [C_Ptr (C_Api ''Ctx'')]]"

definition valkey_api_7 :: "c_decl list" where
  "valkey_api_7 = [
     api ''SubscribeToKeyspaceEvents'' C_Int [C_Ptr (C_Api ''Ctx''), C_Int, C_Api ''NotificationFunc''],
     api ''AddPostNotificationJob'' C_Int [C_Ptr (C_Api ''Ctx''), C_Api ''PostNotificationJobFunc'', C_Ptr C_Void, C_Fun C_Void [C_Ptr C_Void]],
     api ''NotifyKeyspaceEvent'' C_Int [C_Ptr (C_Api ''Ctx''), C_Int, C_Ptr (C_Const C_Char), C_Ptr (C_Api ''String'')],
     api ''GetNotifyKeyspaceEvents'' C_Int [],
     api ''BlockedClientDisconnected'' C_Int [C_Ptr (C_Api ''Ctx'')],
     api ''RegisterClusterMessageReceiver'' C_Void [C_Ptr (C_Api ''Ctx''), C_UInt8, C_Api ''ClusterMessageReceiver''],
     api ''SendClusterMessage'' C_Int [C_Ptr (C_Api ''Ctx''), C_Ptr (C_Const C_Char), C_UInt8, C_Ptr (C_Const C_Char), C_UInt32],
     api ''GetClusterNodeInfo'' C_Int [C_Ptr (C_Api ''Ctx''), C_Ptr (C_Const C_Char), C_Ptr C_Char, C_Ptr C_Char, C_Ptr C_Int, C_Ptr C_Int],
     api ''GetClusterNodeInfoForClient'' C_Int [C_Ptr (C_Api ''Ctx''), C_UInt64, C_Ptr (C_Const C_Char), C_Ptr C_Char, C_Ptr C_Char, C_Ptr C_Int, C_Ptr C_Int],
     api ''GetClusterNodesList'' (C_Ptr (C_Ptr C_Char)) [C_Ptr (C_Api ''Ctx''), C_Ptr C_Size],
     api ''FreeClusterNodesList'' C_Void [C_Ptr (C_Ptr C_Char)],
     api ''CreateTimer'' (C_Api ''TimerID'') [C_Ptr (C_Api ''Ctx''), C_Mstime, C_Api ''TimerProc'', C_Ptr C_Void],
     api ''StopTimer'' C_Int [C_Ptr (C_Api ''Ctx''), C_Api ''TimerID'', C_Ptr (C_Ptr C_Void)],
     api ''GetTimerInfo'' C_Int [C_Ptr (C_Api ''Ctx''), C_Api ''TimerID'', C_Ptr C_UInt64, C_Ptr (C_Ptr C_Void)],
     api ''GetMyClusterID'' (C_Ptr (C_Const C_Char)) [],
     api ''GetClusterSize'' C_Size [],
     api ''GetRandomBytes'' C_Void [C_Ptr C_UChar, C_Size],
     api ''GetRandomHexChars'' C_Void [C_Ptr C_Char, C_Size],
     api ''SetDisconnectCallback'' C_Void [C_Ptr (C_Api ''BlockedClient''), C_Api ''DisconnectFunc''],
     api ''SetClusterFlags'' C_Void [C_Ptr (C_Api ''Ctx''), C_UInt64],
     api ''ClusterKeySlot'' C_UInt [C_Ptr (C_Api ''String'')],
     api ''ClusterCanonicalKeyNameInSlot'' (C_Ptr (C_Const C_Char)) [C_UInt],
     api ''ExportSharedAPI'' C_Int [C_Ptr (C_Api ''Ctx''), C_Ptr (C_Const C_Char), C_Ptr C_Void],
     api ''GetSharedAPI'' (C_Ptr C_Void) [C_Ptr (C_Api ''Ctx''), C_Ptr (C_Const C_Char)],
     api ''RegisterCommandFilter'' (C_Ptr (C_Api ''CommandFilter'')) [C_Ptr (C_Api ''Ctx''), C_Api ''CommandFilterFunc'', C_Int],
     api ''UnregisterCommandFilter'' C_Int [C_Ptr (C_Api ''Ctx''), C_Ptr (C_Api ''CommandFilter'')],
     api ''CommandFilterArgsCount'' C_Int [C_Ptr (C_Api ''CommandFilterCtx'')],
     api ''CommandFilterArgGet'' (C_Ptr (C_Api ''String'')) [C_Ptr (C_Api ''CommandFilterCtx''), C_Int],
     api ''CommandFilterArgInsert'' C_Int [C_Ptr (C_Api ''CommandFilterCtx''), C_Int, C_Ptr (C_Api ''String'')],
     api ''CommandFilterArgReplace'' C_Int [C_Ptr (C_Api ''CommandFilterCtx''), C_Int, C_Ptr (C_Api ''String'')],
     api ''CommandFilterArgDelete'' C_Int [C_Ptr (C_Api ''CommandFilterCtx''), C_Int],
     api ''CommandFilterGetClientId'' C_ULongLong [C_Ptr (C_Api ''CommandFilterCtx'')]]"

definition valkey_api_8 :: "c_decl list" where
  "valkey_api_8 = [
     api ''Fork'' C_Int [C_Api ''ForkDoneHandler'', C_Ptr C_Void],
     api ''SendChildHeartbeat'' C_Void [C_Double],
     api ''ExitFromChild'' C_Int [C_Int],
     api ''KillForkChild'' C_Int [C_Int],
     api ''GetUsedMemoryRatio'' C_Float [],
     api ''MallocSize'' C_Size [C_Ptr C_Void],
     api ''MallocUsableSize'' C_Size [C_Ptr C_Void],
     api ''MallocSizeString'' C_Size [C_Ptr (C_Api ''String'')],
     api ''MallocSizeDict'' C_Size [C_Ptr (C_Api ''Dict'')],
     api ''CreateModuleUser'' (C_Ptr (C_Api ''User'')) [C_Ptr (C_Const C_Char)],
     api ''FreeModuleUser'' C_Void [C_Ptr (C_Api ''User'')],
     api ''SetContextUser'' C_Void [C_Ptr (C_Api ''Ctx''), C_Ptr (C_Const (C_Api ''User''))],
     api ''SetModuleUserACL'' C_Int [C_Ptr (C_Api ''User''), C_Ptr (C_Const C_Char)],
     api ''SetModuleUserACLString'' C_Int [C_Ptr (C_Api ''Ctx''), C_Ptr (C_Api ''User''), C_Ptr (C_Const C_Char), C_Ptr (C_Ptr (C_Api ''String''))],
     api ''GetModuleUserACLString'' (C_Ptr (C_Api ''String'')) [C_Ptr (C_Api ''User'')],
     api ''GetCurrentUserName'' (C_Ptr (C_Api ''String'')) [C_Ptr (C_Api ''Ctx'')],
     api ''GetModuleUserFromUserName'' (C_Ptr (C_Api ''User'')) [C_Ptr (C_Api ''String'')],
     api ''ACLCheckCommandPermissions'' C_Int [C_Ptr (C_Api ''User''), C_Ptr (C_Ptr (C_Api ''String'')), C_Int],
     api ''ACLCheckKeyPermissions'' C_Int [C_Ptr (C_Api ''User''), C_Ptr (C_Api ''String''), C_Int],
     api ''ACLCheckChannelPermissions'' C_Int [C_Ptr (C_Api ''User''), C_Ptr (C_Api ''String''), C_Int],
     api ''ACLAddLogEntry'' C_Void [C_Ptr (C_Api ''Ctx''), C_Ptr (C_Api ''User''), C_Ptr (C_Api ''String''), C_Api ''ACLLogEntryReason''],
     api ''ACLAddLogEntryByUserName'' C_Void [C_Ptr (C_Api ''Ctx''), C_Ptr (C_Api ''String''), C_Ptr (C_Api ''String''), C_Api ''ACLLogEntryReason''],
     api ''AuthenticateClientWithACLUser'' C_Int [C_Ptr (C_Api ''Ctx''), C_Ptr (C_Const C_Char), C_Size, C_Api ''UserChangedFunc'', C_Ptr C_Void, C_Ptr C_UInt64],
     api ''AuthenticateClientWithUser'' C_Int [C_Ptr (C_Api ''Ctx''), C_Ptr (C_Api ''User''), C_Api ''UserChangedFunc'', C_Ptr C_Void, C_Ptr C_UInt64],
     api ''DeauthenticateAndCloseClient'' C_Int [C_Ptr (C_Api ''Ctx''), C_UInt64],
     api ''RedactClientCommandArgument'' C_Int [C_Ptr (C_Api ''Ctx''), C_Int],
     api ''GetClientCertificate'' (C_Ptr (C_Api ''String'')) [C_Ptr (C_Api ''Ctx''), C_UInt64],
     api ''GetCommandKeys'' (C_Ptr C_Int) [C_Ptr (C_Api ''Ctx''), C_Ptr (C_Ptr (C_Api ''String'')), C_Int, C_Ptr C_Int],
     api ''GetCommandKeysWithFlags'' (C_Ptr C_Int) [C_Ptr (C_Api ''Ctx''), C_Ptr (C_Ptr (C_Api ''String'')), C_Int, C_Ptr C_Int, C_Ptr (C_Ptr C_Int)],
     api ''GetCurrentCommandName'' (C_Ptr (C_Const C_Char)) [C_Ptr (C_Api ''Ctx'')],
     api ''RegisterDefragFunc'' C_Int [C_Ptr (C_Api ''Ctx''), C_Api ''DefragFunc''],
     api ''DefragAlloc'' (C_Ptr C_Void) [C_Ptr (C_Api ''DefragCtx''), C_Ptr C_Void]]"

definition valkey_api_9 :: "c_decl list" where
  "valkey_api_9 = [
     api ''DefragValkeyModuleString'' (C_Ptr (C_Api ''String'')) [C_Ptr (C_Api ''DefragCtx''), C_Ptr (C_Api ''String'')],
     api ''DefragShouldStop'' C_Int [C_Ptr (C_Api ''DefragCtx'')],
     api ''DefragCursorSet'' C_Int [C_Ptr (C_Api ''DefragCtx''), C_ULong],
     api ''DefragCursorGet'' C_Int [C_Ptr (C_Api ''DefragCtx''), C_Ptr C_ULong],
     api ''GetDbIdFromDefragCtx'' C_Int [C_Ptr (C_Api ''DefragCtx'')],
     api ''GetKeyNameFromDefragCtx'' (C_Ptr (C_Const (C_Api ''String''))) [C_Ptr (C_Api ''DefragCtx'')],
     api ''EventLoopAdd'' C_Int [C_Int, C_Int, C_Api ''EventLoopFunc'', C_Ptr C_Void],
     api ''EventLoopDel'' C_Int [C_Int, C_Int],
     api ''EventLoopAddOneShot'' C_Int [C_Api ''EventLoopOneShotFunc'', C_Ptr C_Void],
     api ''RegisterBoolConfig'' C_Int [C_Ptr (C_Api ''Ctx''), C_Ptr (C_Const C_Char), C_Int, C_UInt, C_Api ''ConfigGetBoolFunc'', C_Api ''ConfigSetBoolFunc'', C_Api ''ConfigApplyFunc'', C_Ptr C_Void],
     api ''RegisterNumericConfig'' C_Int [C_Ptr (C_Api ''Ctx''), C_Ptr (C_Const C_Char), C_LongLong, C_UInt, C_LongLong, C_LongLong, C_Api ''ConfigGetNumericFunc'', C_Api ''ConfigSetNumericFunc'', C_Api ''ConfigApplyFunc'', C_Ptr C_Void],
     api ''RegisterStringConfig'' C_Int [C_Ptr (C_Api ''Ctx''), C_Ptr (C_Const C_Char), C_Ptr (C_Const C_Char), C_UInt, C_Api ''ConfigGetStringFunc'', C_Api ''ConfigSetStringFunc'', C_Api ''ConfigApplyFunc'', C_Ptr C_Void],
     api ''RegisterEnumConfig'' C_Int [C_Ptr (C_Api ''Ctx''), C_Ptr (C_Const C_Char), C_Int, C_UInt, C_Ptr (C_Ptr (C_Const C_Char)), C_Ptr (C_Const C_Int), C_Int, C_Api ''ConfigGetEnumFunc'', C_Api ''ConfigSetEnumFunc'', C_Api ''ConfigApplyFunc'', C_Ptr C_Void],
     api ''LoadConfigs'' C_Int [C_Ptr (C_Api ''Ctx'')],
     api ''RdbStreamCreateFromFile'' (C_Ptr (C_Api ''RdbStream'')) [C_Ptr (C_Const C_Char)],
     api ''RdbStreamFree'' C_Void [C_Ptr (C_Api ''RdbStream'')],
     api ''RdbLoad'' C_Int [C_Ptr (C_Api ''Ctx''), C_Ptr (C_Api ''RdbStream''), C_Int],
     api ''RdbSave'' C_Int [C_Ptr (C_Api ''Ctx''), C_Ptr (C_Api ''RdbStream''), C_Int],
     api ''RegisterScriptingEngine'' C_Int [C_Ptr (C_Api ''Ctx''), C_Ptr (C_Const C_Char), C_Ptr (C_Api ''ScriptingEngineCtx''), C_Ptr (C_Api ''ScriptingEngineMethods'')],
     api ''UnregisterScriptingEngine'' C_Int [C_Ptr (C_Api ''Ctx''), C_Ptr (C_Const C_Char)],
     api ''GetFunctionExecutionState'' (C_Api ''ScriptingEngineExecutionState'') [C_Ptr (C_Api ''ScriptingEngineServerRuntimeCtx'')],
     api ''ScriptingEngineDebuggerLog'' C_Void [C_Ptr (C_Api ''String''), C_Int],
     api ''ScriptingEngineDebuggerLogRespReplyStr'' C_Void [C_Ptr (C_Const C_Char)],
     api ''ScriptingEngineDebuggerLogRespReply'' C_Void [C_Ptr (C_Api ''CallReply'')],
     api ''ScriptingEngineDebuggerFlushLogs'' C_Void [],
     api ''ScriptingEngineDebuggerProcessCommands'' C_Void [C_Ptr C_Int, C_Ptr (C_Ptr (C_Api ''String''))]]"

definition valkey_api :: "c_decl list" where
  "valkey_api = valkey_api_1 @ valkey_api_2 @ valkey_api_3 @ valkey_api_4 @ valkey_api_5 @ valkey_api_6 @ valkey_api_7 @ valkey_api_8 @ valkey_api_9"

section \<open>The functions that are fetched\<close>

definition valkey_fetched_1 :: "string list" where
  "valkey_fetched_1 = [
     ''Alloc'', ''TryAlloc'', ''Calloc'', ''TryCalloc'', ''Free'', ''Realloc'', ''TryRealloc'',
     ''Strdup'', ''CreateCommand'', ''GetCommand'', ''CreateSubcommand'', ''SetCommandInfo'',
     ''SetCommandACLCategories'', ''AddACLCategory'', ''SetModuleAttribs'', ''IsModuleNameBusy'',
     ''WrongArity'', ''UpdateRuntimeArgs'', ''ReplyWithLongLong'', ''ReplyWithError'',
     ''ReplyWithErrorFormat'', ''ReplyWithSimpleString'', ''ReplyWithArray'', ''ReplyWithMap'',
     ''ReplyWithSet'', ''ReplyWithAttribute'', ''ReplyWithNullArray'', ''ReplyWithEmptyArray'',
     ''ReplySetArrayLength'', ''ReplySetMapLength'', ''ReplySetSetLength'', ''ReplySetAttributeLength'',
     ''ReplySetPushLength'', ''ReplyWithStringBuffer'', ''ReplyWithCString'', ''ReplyWithString'',
     ''ReplyWithEmptyString'', ''ReplyWithVerbatimString'', ''ReplyWithVerbatimStringType'',
     ''ReplyWithNull'', ''ReplyWithBool'', ''ReplyWithCallReply'', ''ReplyWithDouble'',
     ''ReplyWithBigNumber'', ''ReplyWithLongDouble'', ''GetSelectedDb'', ''SelectDb'', ''KeyExists'',
     ''OpenKey'', ''GetOpenKeyModesAll'', ''CloseKey'', ''KeyType'', ''ValueLength'', ''ListPush'',
     ''ListPop'', ''ListGet'', ''ListSet'', ''ListInsert'', ''ListDelete'', ''StringToLongLong'',
     ''StringToULongLong'', ''StringToDouble'', ''StringToLongDouble'', ''StringToStreamID'', ''Call'',
     ''CallReplyProto'', ''FreeCallReply'', ''CallReplyInteger'', ''CallReplyDouble'',
     ''CallReplyBool'', ''CallReplyBigNumber'', ''CallReplyVerbatim'', ''CallReplySetElement'',
     ''CallReplyMapElement'', ''CallReplyAttributeElement'', ''CallReplyPromiseSetUnblockHandler'',
     ''CallReplyPromiseAbort'', ''CallReplyAttribute'', ''CallReplyType'', ''CallReplyLength'',
     ''CallReplyArrayElement'', ''CallReplyStringPtr'', ''CreateStringFromCallReply'', ''CreateString'',
     ''CreateStringFromLongLong'', ''CreateStringFromULongLong'', ''CreateStringFromDouble'',
     ''CreateStringFromLongDouble'', ''CreateStringFromString'', ''CreateStringFromStreamID'',
     ''CreateStringPrintf'', ''FreeString'', ''StringPtrLen'', ''AutoMemory'', ''Replicate'',
     ''ReplicateVerbatim'']"

definition valkey_fetched_2 :: "string list" where
  "valkey_fetched_2 = [
     ''DeleteKey'', ''UnlinkKey'', ''StringSet'', ''StringDMA'', ''StringTruncate'', ''GetExpire'',
     ''SetExpire'', ''GetAbsExpire'', ''SetAbsExpire'', ''ResetDataset'', ''DbSize'', ''RandomKey'',
     ''ZsetAdd'', ''ZsetIncrby'', ''ZsetScore'', ''ZsetRem'', ''ZsetRangeStop'',
     ''ZsetFirstInScoreRange'', ''ZsetLastInScoreRange'', ''ZsetFirstInLexRange'',
     ''ZsetLastInLexRange'', ''ZsetRangeCurrentElement'', ''ZsetRangeNext'', ''ZsetRangePrev'',
     ''ZsetRangeEndReached'', ''HashSet'', ''HashGet'', ''StreamAdd'', ''StreamDelete'',
     ''StreamIteratorStart'', ''StreamIteratorStop'', ''StreamIteratorNextID'']"

definition valkey_fetched_3 :: "string list" where
  "valkey_fetched_3 = [
     ''StreamIteratorNextField'', ''StreamIteratorDelete'', ''StreamTrimByLength'', ''StreamTrimByID'',
     ''IsKeysPositionRequest'', ''KeyAtPos'', ''KeyAtPosWithFlags'', ''IsChannelsPositionRequest'',
     ''ChannelAtPosWithFlags'', ''GetClientId'', ''GetClientUserNameById'', ''MustObeyClient'',
     ''GetContextFlags'', ''AvoidReplicaTraffic'', ''PoolAlloc'', ''CreateDataType'',
     ''ModuleTypeSetValue'', ''ModuleTypeReplaceValue'', ''ModuleTypeGetType'', ''ModuleTypeGetValue'',
     ''IsIOError'', ''SetModuleOptions'', ''SignalModifiedKey'', ''SaveUnsigned'', ''LoadUnsigned'',
     ''SaveSigned'', ''LoadSigned'', ''SaveString'', ''SaveStringBuffer'', ''LoadString'',
     ''LoadStringBuffer'', ''SaveDouble'', ''LoadDouble'', ''SaveFloat'', ''LoadFloat'',
     ''SaveLongDouble'', ''LoadLongDouble'', ''SaveDataTypeToString'', ''LoadDataTypeFromString'',
     ''LoadDataTypeFromStringEncver'', ''EmitAOF'', ''Log'', ''LogIOError'', ''_Assert'',
     ''LatencyAddSample'', ''StringAppendBuffer'', ''TrimStringAllocation'', ''RetainString'',
     ''HoldString'', ''StringCompare'', ''GetContextFromIO'', ''GetKeyNameFromIO'',
     ''GetKeyNameFromModuleKey'', ''GetDbIdFromModuleKey'', ''GetDbIdFromIO'', ''GetKeyNameFromOptCtx'',
     ''GetToKeyNameFromOptCtx'', ''GetDbIdFromOptCtx'', ''GetToDbIdFromOptCtx'', ''Milliseconds'',
     ''MonotonicMicroseconds'', ''Microseconds'', ''CachedMicroseconds'', ''DigestAddStringBuffer'',
     ''DigestAddLongLong'', ''DigestEndSequence'', ''GetKeyNameFromDigest'', ''GetDbIdFromDigest'',
     ''CreateDict'', ''FreeDict'', ''DictSize'', ''DictSetC'', ''DictReplaceC'', ''DictSet'',
     ''DictReplace'', ''DictGetC'', ''DictGet'', ''DictDelC'', ''DictDel'', ''DictIteratorStartC'',
     ''DictIteratorStart'', ''DictIteratorStop'', ''DictIteratorReseekC'', ''DictIteratorReseek'',
     ''DictNextC'', ''DictPrevC'', ''DictNext'', ''DictPrev'', ''DictCompare'', ''DictCompareC'',
     ''RegisterInfoFunc'', ''RegisterAuthCallback'', ''InfoAddSection'', ''InfoBeginDictField'',
     ''InfoEndDictField'', ''InfoAddFieldString'', ''InfoAddFieldCString'', ''InfoAddFieldDouble'',
     ''InfoAddFieldLongLong'', ''InfoAddFieldULongLong'', ''GetServerInfo'', ''FreeServerInfo'',
     ''ServerInfoGetField'', ''ServerInfoGetFieldC'', ''ServerInfoGetFieldSigned'',
     ''ServerInfoGetFieldUnsigned'', ''ServerInfoGetFieldDouble'', ''GetClientInfoById'',
     ''GetClientNameById'', ''SetClientNameById'', ''PublishMessage'', ''PublishMessageShard'']"

definition valkey_fetched_4 :: "string list" where
  "valkey_fetched_4 = [
     ''SubscribeToServerEvent'', ''SetLRU'', ''GetLRU'', ''SetLFU'', ''GetLFU'', ''BlockClientOnKeys'',
     ''BlockClientOnKeysWithFlags'', ''SignalKeyAsReady'', ''GetBlockedClientReadyKey'',
     ''ScanCursorCreate'', ''ScanCursorRestart'', ''ScanCursorDestroy'', ''Scan'', ''ScanKey'',
     ''GetContextFlagsAll'', ''GetModuleOptionsAll'', ''GetKeyspaceNotificationFlagsAll'',
     ''IsSubEventSupported'', ''GetServerVersion'', ''GetTypeMethodVersion'', ''Yield'',
     ''GetThreadSafeContext'', ''GetDetachedThreadSafeContext'', ''FreeThreadSafeContext'',
     ''ThreadSafeContextLock'', ''ThreadSafeContextTryLock'', ''ThreadSafeContextUnlock'',
     ''BlockClient'', ''BlockClientGetPrivateData'', ''BlockClientSetPrivateData'',
     ''BlockClientOnAuth'', ''UnblockClient'', ''IsBlockedReplyRequest'', ''IsBlockedTimeoutRequest'',
     ''GetBlockedClientPrivateData'', ''GetBlockedClientHandle'', ''AbortBlock'',
     ''BlockedClientMeasureTimeStart'', ''BlockedClientMeasureTimeEnd'']"

definition valkey_fetched_5 :: "string list" where
  "valkey_fetched_5 = [
     ''SetDisconnectCallback'', ''SubscribeToKeyspaceEvents'', ''AddPostNotificationJob'',
     ''NotifyKeyspaceEvent'', ''GetNotifyKeyspaceEvents'', ''BlockedClientDisconnected'',
     ''RegisterClusterMessageReceiver'', ''SendClusterMessage'', ''GetClusterNodeInfo'',
     ''GetClusterNodeInfoForClient'', ''GetClusterNodesList'', ''FreeClusterNodesList'',
     ''CreateTimer'', ''StopTimer'', ''GetTimerInfo'', ''GetMyClusterID'', ''GetClusterSize'',
     ''GetRandomBytes'', ''GetRandomHexChars'', ''SetClusterFlags'', ''ClusterKeySlot'',
     ''ClusterCanonicalKeyNameInSlot'', ''ExportSharedAPI'', ''GetSharedAPI'',
     ''RegisterCommandFilter'', ''UnregisterCommandFilter'', ''CommandFilterArgsCount'',
     ''CommandFilterArgGet'', ''CommandFilterArgInsert'', ''CommandFilterArgReplace'',
     ''CommandFilterArgDelete'', ''CommandFilterGetClientId'']"

definition valkey_fetched_6 :: "string list" where
  "valkey_fetched_6 = [
     ''Fork'', ''SendChildHeartbeat'', ''ExitFromChild'', ''KillForkChild'', ''GetUsedMemoryRatio'',
     ''MallocSize'', ''MallocUsableSize'', ''MallocSizeString'', ''MallocSizeDict'',
     ''CreateModuleUser'', ''FreeModuleUser'', ''SetContextUser'', ''SetModuleUserACL'',
     ''SetModuleUserACLString'', ''GetModuleUserACLString'', ''GetCurrentUserName'',
     ''GetModuleUserFromUserName'', ''ACLCheckCommandPermissions'', ''ACLCheckKeyPermissions'',
     ''ACLCheckChannelPermissions'', ''ACLAddLogEntry'', ''ACLAddLogEntryByUserName'',
     ''DeauthenticateAndCloseClient'', ''AuthenticateClientWithACLUser'',
     ''AuthenticateClientWithUser'', ''RedactClientCommandArgument'', ''GetClientCertificate'',
     ''GetCommandKeys'', ''GetCommandKeysWithFlags'', ''GetCurrentCommandName'', ''RegisterDefragFunc'',
     ''DefragAlloc'']"

definition valkey_fetched_7 :: "string list" where
  "valkey_fetched_7 = [
     ''DefragValkeyModuleString'', ''DefragShouldStop'', ''DefragCursorSet'', ''DefragCursorGet'',
     ''GetKeyNameFromDefragCtx'', ''GetDbIdFromDefragCtx'', ''EventLoopAdd'', ''EventLoopDel'',
     ''EventLoopAddOneShot'', ''RegisterBoolConfig'', ''RegisterNumericConfig'',
     ''RegisterStringConfig'', ''RegisterEnumConfig'', ''LoadConfigs'', ''RdbStreamCreateFromFile'',
     ''RdbStreamFree'', ''RdbLoad'', ''RdbSave'', ''RegisterScriptingEngine'',
     ''UnregisterScriptingEngine'', ''GetFunctionExecutionState'', ''ScriptingEngineDebuggerLog'',
     ''ScriptingEngineDebuggerLogRespReplyStr'', ''ScriptingEngineDebuggerLogRespReply'',
     ''ScriptingEngineDebuggerFlushLogs'', ''ScriptingEngineDebuggerProcessCommands'']"

definition valkey_fetched :: "string list" where
  "valkey_fetched = valkey_fetched_1 @ valkey_fetched_2 @ valkey_fetched_3 @ valkey_fetched_4 @ valkey_fetched_5 @ valkey_fetched_6 @ valkey_fetched_7"

section \<open>Initialisation\<close>

definition valkeymodule_init ::
    "'h c_server \<Rightarrow> ptr \<Rightarrow> string \<Rightarrow> c_int \<Rightarrow> c_int \<Rightarrow> api_table \<Rightarrow> 'h \<Rightarrow> ((status \<times> api_table) option) \<times> 'h" where
  "valkeymodule_init srv ctx name ver apiver t h =
     (let getapi = context_word srv ctx;
          t1 = t(''GetApi'' := getapi)
      in if getapi = null_ptr then (None, h)
         else
           (let t2 = get_apis (call_get_api srv getapi) ''ValkeyModule_'' valkey_fetched t1;
                busy = t2 ''IsModuleNameBusy'';
                (b, h1) = (if busy \<noteq> null_ptr then call_name_busy srv busy name h else (0, h))
            in if b \<noteq> 0 then (Some (Status_Err, t2), h1)
               else case call_through (t2 ''SetModuleAttribs'') (\<lambda>p. call_set_attribs srv p ctx name ver apiver h1) of
                 None \<Rightarrow> (None, h1)
               | Some h' \<Rightarrow> (Some (Status_Ok, t2), h')))"

definition export_valkeymodule_init ::
    "'h c_server \<Rightarrow> ptr \<Rightarrow> string \<Rightarrow> c_int \<Rightarrow> c_int \<Rightarrow> api_table \<Rightarrow> 'h \<Rightarrow> ((status \<times> api_table) option) \<times> 'h" where
  "export_valkeymodule_init srv ctx name ver apiver t h = valkeymodule_init srv ctx name ver apiver t h"

section \<open>Everything declared is fetched\<close>

lemma valkey_fetched_mset_1: "mset (''GetApi'' # valkey_fetched_1) = mset (map decl_name (valkey_api_1 @ valkey_api_2))"
  by code_simp

lemma valkey_fetched_mset_2: "mset valkey_fetched_2 = mset (map decl_name valkey_api_3)"
  by code_simp

lemma valkey_fetched_mset_3: "mset valkey_fetched_3 = mset (map decl_name (valkey_api_4 @ valkey_api_5))"
  by code_simp

lemma valkey_fetched_mset_4: "mset valkey_fetched_4 = mset (map decl_name valkey_api_6)"
  by code_simp

lemma valkey_fetched_mset_5: "mset valkey_fetched_5 = mset (map decl_name valkey_api_7)"
  by code_simp

lemma valkey_fetched_mset_6: "mset valkey_fetched_6 = mset (map decl_name valkey_api_8)"
  by code_simp

lemma valkey_fetched_mset_7: "mset valkey_fetched_7 = mset (map decl_name valkey_api_9)"
  by code_simp

lemma valkey_fetched_mset: "mset (''GetApi'' # valkey_fetched) = mset (map decl_name valkey_api)"
  using valkey_fetched_mset_1 valkey_fetched_mset_2 valkey_fetched_mset_3 valkey_fetched_mset_4
    valkey_fetched_mset_5 valkey_fetched_mset_6 valkey_fetched_mset_7
  by (simp add: valkey_fetched_def valkey_api_def)

lemma valkey_fetched_set: "insert ''GetApi'' (set valkey_fetched) = decl_name ` set valkey_api"
  using arg_cong [OF valkey_fetched_mset, of set_mset] by simp

lemma valkey_fetched_fresh: "''GetApi'' \<notin> set valkey_fetched"
  by code_simp

lemma valkey_get_apis:
  "get_apis (call_get_api srv (context_word srv ctx)) ''ValkeyModule_'' valkey_fetched
     (t(''GetApi'' := context_word srv ctx)) = fetched_table srv ctx ''ValkeyModule_'' valkey_api t"
  by (rule get_apis_fetched [OF valkey_fetched_set valkey_fetched_fresh])

end
