(* ===== verification/Ffi.thy ===== *)
theory Ffi
  imports Redis_Header Valkey_Header
begin

text \<open>
  The foreign functions as \<^verbatim>\<open>src/redis/raw.rs\<close> declares them to the Rust
  compiler, and how far these declarations agree with the C headers the server is built against.
\<close>

section \<open>Declarations on the Rust side\<close>

text \<open>
  \<open>R_Opaque\<close> is one of the empty structures that stand for the server's objects.
  \<open>R_Status\<close> is an enumeration with the representation of C; \<open>R_ReplyType\<close> is one without it, and
  \<open>R_KeyMode\<close> is the structure that \<^verbatim>\<open>bitflags!\<close> makes around an integer.
\<close>

datatype rust_type =
  R_Unit | R_U8 | R_CInt | R_CLong | R_CLongLong | R_Size
| R_Status | R_ReplyType | R_KeyMode | R_OptCmdFunc
| R_Opaque string | R_Mut rust_type | R_Const rust_type

record rust_decl =
  rust_name :: string
  rust_result :: rust_type
  rust_params :: "rust_type list"

definition rust_fn :: "string \<Rightarrow> rust_type \<Rightarrow> rust_type list \<Rightarrow> rust_decl" where
  "rust_fn name result params = \<lparr>rust_name = name, rust_result = result, rust_params = params\<rparr>"

definition redis_rust_statics :: "rust_decl list" where
  "redis_rust_statics = [
     rust_fn ''Call'' (R_Mut (R_Opaque ''CallReply'')) [R_Mut (R_Opaque ''Ctx''), R_Const R_U8, R_Const R_U8, R_Const (R_Mut (R_Opaque ''String''))],
     rust_fn ''CallReplyType'' R_ReplyType [R_Mut (R_Opaque ''CallReply'')],
     rust_fn ''CallReplyInteger'' R_CLongLong [R_Mut (R_Opaque ''CallReply'')],
     rust_fn ''CallReplyStringPtr'' (R_Const R_U8) [R_Mut (R_Opaque ''CallReply''), R_Mut R_Size],
     rust_fn ''CloseKey'' R_Unit [R_Mut (R_Opaque ''Key'')],
     rust_fn ''CreateCommand'' R_Status [R_Mut (R_Opaque ''Ctx''), R_Const R_U8, R_OptCmdFunc, R_Const R_U8, R_CInt, R_CInt, R_CInt],
     rust_fn ''CreateString'' (R_Mut (R_Opaque ''String'')) [R_Mut (R_Opaque ''Ctx''), R_Const R_U8, R_Size],
     rust_fn ''FreeCallReply'' R_Unit [R_Mut (R_Opaque ''CallReply'')],
     rust_fn ''FreeString'' R_Unit [R_Mut (R_Opaque ''Ctx''), R_Mut (R_Opaque ''String'')],
     rust_fn ''GetSelectedDb'' R_CInt [R_Mut (R_Opaque ''Ctx'')],
     rust_fn ''Log'' R_Unit [R_Mut (R_Opaque ''Ctx''), R_Const R_U8, R_Const R_U8],
     rust_fn ''OpenKey'' (R_Mut (R_Opaque ''Key'')) [R_Mut (R_Opaque ''Ctx''), R_Mut (R_Opaque ''String''), R_KeyMode],
     rust_fn ''ReplicateVerbatim'' R_Status [R_Mut (R_Opaque ''Ctx'')],
     rust_fn ''ReplyWithArray'' R_Status [R_Mut (R_Opaque ''Ctx''), R_CLong],
     rust_fn ''ReplyWithError'' R_Unit [R_Mut (R_Opaque ''Ctx''), R_Const R_U8],
     rust_fn ''ReplyWithLongLong'' R_Status [R_Mut (R_Opaque ''Ctx''), R_CLongLong],
     rust_fn ''ReplyWithString'' R_Status [R_Mut (R_Opaque ''Ctx''), R_Mut (R_Opaque ''String'')],
     rust_fn ''SetExpire'' R_Status [R_Mut (R_Opaque ''Key''), R_CLongLong],
     rust_fn ''StringDMA'' (R_Const R_U8) [R_Mut (R_Opaque ''Key''), R_Mut R_Size, R_KeyMode],
     rust_fn ''StringPtrLen'' (R_Const R_U8) [R_Mut (R_Opaque ''String''), R_Mut R_Size],
     rust_fn ''StringSet'' R_Status [R_Mut (R_Opaque ''Key''), R_Mut (R_Opaque ''String'')]]"

definition redis_rust_call1 :: rust_decl where
  "redis_rust_call1 =
     rust_fn ''Call'' (R_Mut (R_Opaque ''CallReply'')) [R_Mut (R_Opaque ''Ctx''), R_Const R_U8, R_Const R_U8, R_Mut (R_Opaque ''String'')]"

definition redis_rust_call2 :: rust_decl where
  "redis_rust_call2 =
     rust_fn ''Call'' (R_Mut (R_Opaque ''CallReply'')) [R_Mut (R_Opaque ''Ctx''), R_Const R_U8, R_Const R_U8, R_Mut (R_Opaque ''String''), R_Mut (R_Opaque ''String'')]"

definition redis_rust_call3 :: rust_decl where
  "redis_rust_call3 =
     rust_fn ''Call'' (R_Mut (R_Opaque ''CallReply'')) [R_Mut (R_Opaque ''Ctx''), R_Const R_U8, R_Const R_U8, R_Mut (R_Opaque ''String''), R_Mut (R_Opaque ''String''), R_Mut (R_Opaque ''String'')]"

definition valkey_rust_statics :: "rust_decl list" where
  "valkey_rust_statics = [
     rust_fn ''Call'' (R_Mut (R_Opaque ''CallReply'')) [R_Mut (R_Opaque ''Ctx''), R_Const R_U8, R_Const R_U8, R_Const (R_Mut (R_Opaque ''String''))],
     rust_fn ''CallReplyType'' R_ReplyType [R_Mut (R_Opaque ''CallReply'')],
     rust_fn ''CallReplyInteger'' R_CLongLong [R_Mut (R_Opaque ''CallReply'')],
     rust_fn ''CallReplyStringPtr'' (R_Const R_U8) [R_Mut (R_Opaque ''CallReply''), R_Mut R_Size],
     rust_fn ''CloseKey'' R_Unit [R_Mut (R_Opaque ''Key'')],
     rust_fn ''CreateCommand'' R_Status [R_Mut (R_Opaque ''Ctx''), R_Const R_U8, R_OptCmdFunc, R_Const R_U8, R_CInt, R_CInt, R_CInt],
     rust_fn ''CreateString'' (R_Mut (R_Opaque ''String'')) [R_Mut (R_Opaque ''Ctx''), R_Const R_U8, R_Size],
     rust_fn ''FreeCallReply'' R_Unit [R_Mut (R_Opaque ''CallReply'')],
     rust_fn ''FreeString'' R_Unit [R_Mut (R_Opaque ''Ctx''), R_Mut (R_Opaque ''String'')],
     rust_fn ''GetSelectedDb'' R_CInt [R_Mut (R_Opaque ''Ctx'')],
     rust_fn ''Log'' R_Unit [R_Mut (R_Opaque ''Ctx''), R_Const R_U8, R_Const R_U8],
     rust_fn ''OpenKey'' (R_Mut (R_Opaque ''Key'')) [R_Mut (R_Opaque ''Ctx''), R_Mut (R_Opaque ''String''), R_KeyMode],
     rust_fn ''ReplicateVerbatim'' R_Status [R_Mut (R_Opaque ''Ctx'')],
     rust_fn ''ReplyWithArray'' R_Status [R_Mut (R_Opaque ''Ctx''), R_CLong],
     rust_fn ''ReplyWithError'' R_Unit [R_Mut (R_Opaque ''Ctx''), R_Const R_U8],
     rust_fn ''ReplyWithLongLong'' R_Status [R_Mut (R_Opaque ''Ctx''), R_CLongLong],
     rust_fn ''ReplyWithString'' R_Status [R_Mut (R_Opaque ''Ctx''), R_Mut (R_Opaque ''String'')],
     rust_fn ''SetExpire'' R_Status [R_Mut (R_Opaque ''Key''), R_CLongLong],
     rust_fn ''StringDMA'' (R_Const R_U8) [R_Mut (R_Opaque ''Key''), R_Mut R_Size, R_KeyMode],
     rust_fn ''StringPtrLen'' (R_Const R_U8) [R_Mut (R_Opaque ''String''), R_Mut R_Size],
     rust_fn ''StringSet'' R_Status [R_Mut (R_Opaque ''Key''), R_Mut (R_Opaque ''String'')]]"

definition valkey_rust_call1 :: rust_decl where
  "valkey_rust_call1 =
     rust_fn ''Call'' (R_Mut (R_Opaque ''CallReply'')) [R_Mut (R_Opaque ''Ctx''), R_Const R_U8, R_Const R_U8, R_Mut (R_Opaque ''String'')]"

definition valkey_rust_call2 :: rust_decl where
  "valkey_rust_call2 =
     rust_fn ''Call'' (R_Mut (R_Opaque ''CallReply'')) [R_Mut (R_Opaque ''Ctx''), R_Const R_U8, R_Const R_U8, R_Mut (R_Opaque ''String''), R_Mut (R_Opaque ''String'')]"

definition valkey_rust_call3 :: rust_decl where
  "valkey_rust_call3 =
     rust_fn ''Call'' (R_Mut (R_Opaque ''CallReply'')) [R_Mut (R_Opaque ''Ctx''), R_Const R_U8, R_Const R_U8, R_Mut (R_Opaque ''String''), R_Mut (R_Opaque ''String''), R_Mut (R_Opaque ''String'')]"

text \<open>Each variadic call has declarations of its own, for one, two and three arguments.\<close>

text \<open>The objects of the server that Rust knows only by name, and the type of a command's function.\<close>

definition rust_opaque_types :: "string list" where
  "rust_opaque_types = [''CallReply'', ''Ctx'', ''Key'', ''String'']"

definition rust_cmd_func :: "rust_type \<times> rust_type list" where
  "rust_cmd_func = (R_Status, [R_Mut (R_Opaque ''Ctx''), R_Mut (R_Mut (R_Opaque ''String'')), R_CInt])"

definition redis_rust_decls :: "rust_decl list" where
  "redis_rust_decls = redis_rust_statics @ [redis_rust_call1, redis_rust_call2, redis_rust_call3]"

definition valkey_rust_decls :: "rust_decl list" where
  "valkey_rust_decls = valkey_rust_statics @ [valkey_rust_call1, valkey_rust_call2, valkey_rust_call3]"

section \<open>Agreement with the headers\<close>

text \<open>
  Two types agree, agree if the compiler lays the Rust type out as an \<open>int\<close>, or differ. A pointer
  agrees with a pointer to the same thing, qualifiers aside, and with a pointer to nothing in
  particular.
\<close>

datatype agreement = Agree | Layout | Differ

definition agree_if :: "bool \<Rightarrow> agreement" where
  "agree_if b = (if b then Agree else Differ)"

definition unqualified :: "c_type \<Rightarrow> c_type" where
  "unqualified c = (case c of C_Const t \<Rightarrow> t | _ \<Rightarrow> c)"

fun pointee_agrees :: "rust_type \<Rightarrow> c_type \<Rightarrow> bool" where
  "pointee_agrees (R_Mut r) c =
     (case unqualified c of C_Void \<Rightarrow> True | C_Ptr d \<Rightarrow> pointee_agrees r d | _ \<Rightarrow> False)"
| "pointee_agrees (R_Const r) c =
     (case unqualified c of C_Void \<Rightarrow> True | C_Ptr d \<Rightarrow> pointee_agrees r d | _ \<Rightarrow> False)"
| "pointee_agrees (R_Opaque n) c = (unqualified c = C_Void \<or> unqualified c = C_Api n)"
| "pointee_agrees R_U8 c = (unqualified c = C_Void \<or> unqualified c = C_Char)"
| "pointee_agrees R_Size c = (unqualified c = C_Void \<or> unqualified c = C_Size)"
| "pointee_agrees r c = False"

primrec agrees :: "rust_type \<Rightarrow> c_type \<Rightarrow> agreement" where
  "agrees R_Unit c = agree_if (c = C_Void)"
| "agrees R_U8 c = agree_if (c = C_UInt8 \<or> c = C_UChar)"
| "agrees R_CInt c = agree_if (c = C_Int)"
| "agrees R_CLong c = agree_if (c = C_Long)"
| "agrees R_CLongLong c = agree_if (c = C_LongLong \<or> c = C_Mstime)"
| "agrees R_Size c = agree_if (c = C_Size)"
| "agrees R_Status c = agree_if (c = C_Int)"
| "agrees R_ReplyType c = (if c = C_Int then Layout else Differ)"
| "agrees R_KeyMode c = (if c = C_Int then Layout else Differ)"
| "agrees R_OptCmdFunc c = agree_if (c = C_Api ''CmdFunc'')"
| "agrees (R_Opaque n) c = agree_if (c = C_Api n)"
| "agrees (R_Mut r) c = agree_if (case c of C_Ptr d \<Rightarrow> pointee_agrees r d | _ \<Rightarrow> False)"
| "agrees (R_Const r) c = agree_if (case c of C_Ptr d \<Rightarrow> pointee_agrees r d | _ \<Rightarrow> False)"

datatype ffi_fault = Not_Variadic | Wrong_Arity | Wrong_Result | Wrong_Param | Layout_Assumed

text \<open>A variadic function needs its own way of calling; only its fixed parameters can be compared.\<close>

definition ffi_faults :: "c_decl \<Rightarrow> rust_decl \<Rightarrow> ffi_fault list" where
  "ffi_faults d r =
     (let ps = map2 agrees (rust_params r) (decl_params d); res = agrees (rust_result r) (decl_result d) in
        (if decl_variadic d then [Not_Variadic] else [])
        @ (if decl_variadic d \<or> length (rust_params r) = length (decl_params d) then [] else [Wrong_Arity])
        @ (if res = Differ then [Wrong_Result] else [])
        @ (if Differ \<in> set ps then [Wrong_Param] else [])
        @ (if Layout \<in> set (res # ps) then [Layout_Assumed] else []))"

text \<open>Every declaration of the header that Rust uses, with its faults.\<close>

definition ffi_check :: "rust_decl list \<Rightarrow> c_decl list \<Rightarrow> (string \<times> ffi_fault list) list" where
  "ffi_check rs decls = concat (map (\<lambda>d. map (\<lambda>r. (decl_name d, ffi_faults d r))
     (filter (\<lambda>r. rust_name r = decl_name d) rs)) decls)"

definition known_faults :: "string \<Rightarrow> ffi_fault list" where
  "known_faults n =
     (if n \<in> {''Call'', ''Log''} then [Not_Variadic]
      else if n = ''ReplyWithError'' then [Wrong_Result]
      else if n \<in> {''CallReplyType'', ''OpenKey'', ''StringDMA''} then [Layout_Assumed]
      else [])"

definition ffi_expected :: "rust_decl list \<Rightarrow> (string \<times> ffi_fault list) list" where
  "ffi_expected rs = map (\<lambda>r. (rust_name r, known_faults (rust_name r))) rs"

lemma ffi_check_append: "ffi_check rs (xs @ ys) = ffi_check rs xs @ ffi_check rs ys"
  by (simp add: ffi_check_def)

lemma redis_ffi: "mset (ffi_check redis_rust_decls redis_api) = mset (ffi_expected redis_rust_decls)"
  by code_simp

lemma valkey_ffi_1:
  "ffi_check valkey_rust_decls valkey_api_1 = [
     (''CreateCommand'', []),
     (''ReplyWithLongLong'', []),
     (''GetSelectedDb'', []),
     (''OpenKey'', [Layout_Assumed]),
     (''CloseKey'', []),
     (''Call'', [Not_Variadic]),
     (''Call'', [Not_Variadic]),
     (''Call'', [Not_Variadic]),
     (''Call'', [Not_Variadic]),
     (''FreeCallReply'', []),
     (''CallReplyType'', [Layout_Assumed]),
     (''CallReplyInteger'', []),
     (''CreateString'', []),
     (''FreeString'', []),
     (''StringPtrLen'', []),
     (''ReplyWithError'', [Wrong_Result]),
     (''ReplyWithArray'', []),
     (''ReplyWithString'', [])]"
  by code_simp

lemma valkey_ffi_2:
  "ffi_check valkey_rust_decls valkey_api_2 = [
     (''ReplicateVerbatim'', []),
     (''CallReplyStringPtr'', [])]"
  by code_simp

lemma valkey_ffi_3:
  "ffi_check valkey_rust_decls valkey_api_3 = [
     (''StringSet'', []),
     (''StringDMA'', [Layout_Assumed]),
     (''SetExpire'', [])]"
  by code_simp

lemma valkey_ffi_4:
  "ffi_check valkey_rust_decls valkey_api_4 = [
     (''Log'', [Not_Variadic])]"
  by code_simp

lemma valkey_ffi_5: "ffi_check valkey_rust_decls valkey_api_5 = []"
  by code_simp

lemma valkey_ffi_6: "ffi_check valkey_rust_decls valkey_api_6 = []"
  by code_simp

lemma valkey_ffi_7: "ffi_check valkey_rust_decls valkey_api_7 = []"
  by code_simp

lemma valkey_ffi_8: "ffi_check valkey_rust_decls valkey_api_8 = []"
  by code_simp

lemma valkey_ffi_9: "ffi_check valkey_rust_decls valkey_api_9 = []"
  by code_simp

lemma valkey_ffi_all:
  "ffi_check valkey_rust_decls valkey_api = [
     (''CreateCommand'', []),
     (''ReplyWithLongLong'', []),
     (''GetSelectedDb'', []),
     (''OpenKey'', [Layout_Assumed]),
     (''CloseKey'', []),
     (''Call'', [Not_Variadic]),
     (''Call'', [Not_Variadic]),
     (''Call'', [Not_Variadic]),
     (''Call'', [Not_Variadic]),
     (''FreeCallReply'', []),
     (''CallReplyType'', [Layout_Assumed]),
     (''CallReplyInteger'', []),
     (''CreateString'', []),
     (''FreeString'', []),
     (''StringPtrLen'', []),
     (''ReplyWithError'', [Wrong_Result]),
     (''ReplyWithArray'', []),
     (''ReplyWithString'', []),
     (''ReplicateVerbatim'', []),
     (''CallReplyStringPtr'', []),
     (''StringSet'', []),
     (''StringDMA'', [Layout_Assumed]),
     (''SetExpire'', []),
     (''Log'', [Not_Variadic])]"
  unfolding valkey_api_def ffi_check_append
    valkey_ffi_1 valkey_ffi_2 valkey_ffi_3 valkey_ffi_4 valkey_ffi_5
    valkey_ffi_6 valkey_ffi_7 valkey_ffi_8 valkey_ffi_9
  by simp

lemma valkey_ffi: "mset (ffi_check valkey_rust_decls valkey_api) = mset (ffi_expected valkey_rust_decls)"
  unfolding valkey_ffi_all by code_simp

end
