(* ===== verification/Header_Constants.thy ===== *)
theory Header_Constants
  imports C_Api Binary64
begin

text \<open>
  The constants of \<^verbatim>\<open>include/redismodule.h\<close> and
  \<^verbatim>\<open>include/valkeymodule.h\<close>, by family in the order of the files and without the
  prefixes \<open>REDISMODULE_\<close> and \<open>VALKEYMODULE_\<close>, against the ones that Rust writes out again.
\<close>

section \<open>Redis\<close>

definition redis_status :: "(string \<times> int) list" where
  "redis_status = [
     (''OK'', 0),
     (''ERR'', 1)]"

definition redis_apiver :: "(string \<times> int) list" where
  "redis_apiver = [
     (''APIVER_1'', 1)]"

definition redis_access :: "(string \<times> int) list" where
  "redis_access = [
     (''READ'', push_bit 0 1),
     (''WRITE'', push_bit 1 1)]"

definition redis_list :: "(string \<times> int) list" where
  "redis_list = [
     (''LIST_HEAD'', 0),
     (''LIST_TAIL'', 1)]"

definition redis_keytypes :: "(string \<times> int) list" where
  "redis_keytypes = [
     (''KEYTYPE_EMPTY'', 0),
     (''KEYTYPE_STRING'', 1),
     (''KEYTYPE_LIST'', 2),
     (''KEYTYPE_HASH'', 3),
     (''KEYTYPE_SET'', 4),
     (''KEYTYPE_ZSET'', 5),
     (''KEYTYPE_MODULE'', 6)]"

definition redis_replies :: "(string \<times> int) list" where
  "redis_replies = [
     (''REPLY_UNKNOWN'', - 1),
     (''REPLY_STRING'', 0),
     (''REPLY_ERROR'', 1),
     (''REPLY_INTEGER'', 2),
     (''REPLY_ARRAY'', 3),
     (''REPLY_NULL'', 4)]"

definition redis_lengths :: "(string \<times> int) list" where
  "redis_lengths = [
     (''POSTPONED_ARRAY_LEN'', - 1),
     (''NO_EXPIRE'', - 1)]"

definition redis_zadd :: "(string \<times> int) list" where
  "redis_zadd = [
     (''ZADD_XX'', push_bit 0 1),
     (''ZADD_NX'', push_bit 1 1),
     (''ZADD_ADDED'', push_bit 2 1),
     (''ZADD_UPDATED'', push_bit 3 1),
     (''ZADD_NOP'', push_bit 4 1)]"

definition redis_hash :: "(string \<times> int) list" where
  "redis_hash = [
     (''HASH_NONE'', 0),
     (''HASH_NX'', push_bit 0 1),
     (''HASH_XX'', push_bit 1 1),
     (''HASH_CFIELDS'', push_bit 2 1),
     (''HASH_EXISTS'', push_bit 3 1)]"

definition redis_constants :: "(string \<times> int) list" where
  "redis_constants = redis_status @ redis_apiver @ redis_access @ redis_list @ redis_keytypes
     @ redis_replies @ redis_lengths @ redis_zadd @ redis_hash"

section \<open>Valkey\<close>

definition valkey_status :: "(string \<times> int) list" where
  "valkey_status = [
     (''OK'', 0),
     (''ERR'', 1)]"

definition valkey_auth :: "(string \<times> int) list" where
  "valkey_auth = [
     (''AUTH_HANDLED'', 0),
     (''AUTH_NOT_HANDLED'', 1)]"

definition valkey_versions :: "(string \<times> int) list" where
  "valkey_versions = [
     (''APIVER_1'', 1),
     (''TYPE_METHOD_VERSION'', 5)]"

definition valkey_access :: "(string \<times> int) list" where
  "valkey_access = [
     (''READ'', push_bit 0 1),
     (''WRITE'', push_bit 1 1),
     (''OPEN_KEY_NOTOUCH'', push_bit 16 1),
     (''OPEN_KEY_NONOTIFY'', push_bit 17 1),
     (''OPEN_KEY_NOSTATS'', push_bit 18 1),
     (''OPEN_KEY_NOEXPIRE'', push_bit 19 1),
     (''OPEN_KEY_NOEFFECTS'', push_bit 20 1)]"

definition valkey_list :: "(string \<times> int) list" where
  "valkey_list = [
     (''LIST_HEAD'', 0),
     (''LIST_TAIL'', 1)]"

definition valkey_keytypes :: "(string \<times> int) list" where
  "valkey_keytypes = [
     (''KEYTYPE_EMPTY'', 0),
     (''KEYTYPE_STRING'', 1),
     (''KEYTYPE_LIST'', 2),
     (''KEYTYPE_HASH'', 3),
     (''KEYTYPE_SET'', 4),
     (''KEYTYPE_ZSET'', 5),
     (''KEYTYPE_MODULE'', 6),
     (''KEYTYPE_STREAM'', 7)]"

definition valkey_replies :: "(string \<times> int) list" where
  "valkey_replies = [
     (''REPLY_UNKNOWN'', - 1),
     (''REPLY_STRING'', 0),
     (''REPLY_ERROR'', 1),
     (''REPLY_INTEGER'', 2),
     (''REPLY_ARRAY'', 3),
     (''REPLY_NULL'', 4),
     (''REPLY_MAP'', 5),
     (''REPLY_SET'', 6),
     (''REPLY_BOOL'', 7),
     (''REPLY_DOUBLE'', 8),
     (''REPLY_BIG_NUMBER'', 9),
     (''REPLY_VERBATIM_STRING'', 10),
     (''REPLY_ATTRIBUTE'', 11),
     (''REPLY_PROMISE'', 12)]"

definition valkey_lengths :: "(string \<times> int) list" where
  "valkey_lengths = [
     (''POSTPONED_ARRAY_LEN'', - 1),
     (''POSTPONED_LEN'', - 1),
     (''NO_EXPIRE'', - 1)]"

definition valkey_zadd :: "(string \<times> int) list" where
  "valkey_zadd = [
     (''ZADD_XX'', push_bit 0 1),
     (''ZADD_NX'', push_bit 1 1),
     (''ZADD_ADDED'', push_bit 2 1),
     (''ZADD_UPDATED'', push_bit 3 1),
     (''ZADD_NOP'', push_bit 4 1),
     (''ZADD_GT'', push_bit 5 1),
     (''ZADD_LT'', push_bit 6 1)]"

definition valkey_hash :: "(string \<times> int) list" where
  "valkey_hash = [
     (''HASH_NONE'', 0),
     (''HASH_NX'', push_bit 0 1),
     (''HASH_XX'', push_bit 1 1),
     (''HASH_CFIELDS'', push_bit 2 1),
     (''HASH_EXISTS'', push_bit 3 1),
     (''HASH_COUNT_ALL'', push_bit 4 1)]"

definition valkey_config :: "(string \<times> int) list" where
  "valkey_config = [
     (''CONFIG_DEFAULT'', 0),
     (''CONFIG_IMMUTABLE'', push_bit 0 1),
     (''CONFIG_SENSITIVE'', push_bit 1 1),
     (''CONFIG_HIDDEN'', push_bit 4 1),
     (''CONFIG_PROTECTED'', push_bit 5 1),
     (''CONFIG_DENY_LOADING'', push_bit 6 1),
     (''CONFIG_MEMORY'', push_bit 7 1),
     (''CONFIG_BITFLAGS'', push_bit 8 1)]"

definition valkey_stream_add :: "(string \<times> int) list" where
  "valkey_stream_add = [
     (''STREAM_ADD_AUTOID'', push_bit 0 1)]"

definition valkey_stream_iterator :: "(string \<times> int) list" where
  "valkey_stream_iterator = [
     (''STREAM_ITERATOR_EXCLUSIVE'', push_bit 0 1),
     (''STREAM_ITERATOR_REVERSE'', push_bit 1 1)]"

definition valkey_stream_trim :: "(string \<times> int) list" where
  "valkey_stream_trim = [
     (''STREAM_TRIM_APPROX'', push_bit 0 1)]"

definition valkey_ctx_flags :: "(string \<times> int) list" where
  "valkey_ctx_flags = [
     (''CTX_FLAGS_LUA'', push_bit 0 1),
     (''CTX_FLAGS_MULTI'', push_bit 1 1),
     (''CTX_FLAGS_PRIMARY'', push_bit 2 1),
     (''CTX_FLAGS_REPLICA'', push_bit 3 1),
     (''CTX_FLAGS_READONLY'', push_bit 4 1),
     (''CTX_FLAGS_CLUSTER'', push_bit 5 1),
     (''CTX_FLAGS_AOF'', push_bit 6 1),
     (''CTX_FLAGS_RDB'', push_bit 7 1),
     (''CTX_FLAGS_MAXMEMORY'', push_bit 8 1),
     (''CTX_FLAGS_EVICT'', push_bit 9 1),
     (''CTX_FLAGS_OOM'', push_bit 10 1),
     (''CTX_FLAGS_OOM_WARNING'', push_bit 11 1),
     (''CTX_FLAGS_REPLICATED'', push_bit 12 1),
     (''CTX_FLAGS_LOADING'', push_bit 13 1),
     (''CTX_FLAGS_REPLICA_IS_STALE'', push_bit 14 1),
     (''CTX_FLAGS_REPLICA_IS_CONNECTING'', push_bit 15 1),
     (''CTX_FLAGS_REPLICA_IS_TRANSFERRING'', push_bit 16 1),
     (''CTX_FLAGS_REPLICA_IS_ONLINE'', push_bit 17 1),
     (''CTX_FLAGS_ACTIVE_CHILD'', push_bit 18 1),
     (''CTX_FLAGS_MULTI_DIRTY'', push_bit 19 1),
     (''CTX_FLAGS_IS_CHILD'', push_bit 20 1),
     (''CTX_FLAGS_DENY_BLOCKING'', push_bit 21 1),
     (''CTX_FLAGS_RESP3'', push_bit 22 1),
     (''CTX_FLAGS_ASYNC_LOADING'', push_bit 23 1),
     (''CTX_FLAGS_SERVER_STARTUP'', push_bit 24 1),
     (''CTX_FLAGS_SLOT_IMPORT_CLIENT'', push_bit 25 1),
     (''CTX_FLAGS_SLOT_EXPORT_CLIENT'', push_bit 26 1)]"

definition valkey_notify :: "(string \<times> int) list" where
  "valkey_notify = [
     (''NOTIFY_KEYSPACE'', push_bit 0 1),
     (''NOTIFY_KEYEVENT'', push_bit 1 1),
     (''NOTIFY_GENERIC'', push_bit 2 1),
     (''NOTIFY_STRING'', push_bit 3 1),
     (''NOTIFY_LIST'', push_bit 4 1),
     (''NOTIFY_SET'', push_bit 5 1),
     (''NOTIFY_HASH'', push_bit 6 1),
     (''NOTIFY_ZSET'', push_bit 7 1),
     (''NOTIFY_EXPIRED'', push_bit 8 1),
     (''NOTIFY_EVICTED'', push_bit 9 1),
     (''NOTIFY_STREAM'', push_bit 10 1),
     (''NOTIFY_KEY_MISS'', push_bit 11 1),
     (''NOTIFY_LOADED'', push_bit 12 1),
     (''NOTIFY_MODULE'', push_bit 13 1),
     (''NOTIFY_NEW'', push_bit 14 1)]"

definition valkey_node :: "(string \<times> int) list" where
  "valkey_node = [
     (''NODE_MYSELF'', push_bit 0 1),
     (''NODE_PRIMARY'', push_bit 1 1),
     (''NODE_REPLICA'', push_bit 2 1),
     (''NODE_PFAIL'', push_bit 3 1),
     (''NODE_FAIL'', push_bit 4 1),
     (''NODE_NOFAILOVER'', push_bit 5 1)]"

definition valkey_cluster :: "(string \<times> int) list" where
  "valkey_cluster = [
     (''CLUSTER_FLAG_NONE'', 0),
     (''CLUSTER_FLAG_NO_FAILOVER'', push_bit 1 1),
     (''CLUSTER_FLAG_NO_REDIRECTION'', push_bit 2 1)]"

definition valkey_aux :: "(string \<times> int) list" where
  "valkey_aux = [
     (''AUX_BEFORE_RDB'', push_bit 0 1),
     (''AUX_AFTER_RDB'', push_bit 1 1)]"

definition valkey_yield :: "(string \<times> int) list" where
  "valkey_yield = [
     (''YIELD_FLAG_NONE'', push_bit 0 1),
     (''YIELD_FLAG_CLIENTS'', push_bit 1 1)]"

definition valkey_unblock :: "(string \<times> int) list" where
  "valkey_unblock = [
     (''BLOCK_UNBLOCK_DEFAULT'', 0),
     (''BLOCK_UNBLOCK_DELETED'', push_bit 0 1)]"

definition valkey_cmdfilter :: "(string \<times> int) list" where
  "valkey_cmdfilter = [
     (''CMDFILTER_NOSELF'', push_bit 0 1)]"

definition valkey_options :: "(string \<times> int) list" where
  "valkey_options = [
     (''OPTIONS_HANDLE_IO_ERRORS'', push_bit 0 1),
     (''OPTION_NO_IMPLICIT_SIGNAL_MODIFIED'', push_bit 1 1),
     (''OPTIONS_HANDLE_REPL_ASYNC_LOAD'', push_bit 2 1),
     (''OPTIONS_ALLOW_NESTED_KEYSPACE_NOTIFICATIONS'', push_bit 3 1),
     (''OPTIONS_SKIP_COMMAND_VALIDATION'', push_bit 4 1),
     (''OPTIONS_HANDLE_ATOMIC_SLOT_MIGRATION'', push_bit 5 1)]"

definition valkey_arg_flags :: "(string \<times> int) list" where
  "valkey_arg_flags = [
     (''CMD_ARG_NONE'', 0),
     (''CMD_ARG_OPTIONAL'', push_bit 0 1),
     (''CMD_ARG_MULTIPLE'', push_bit 1 1),
     (''CMD_ARG_MULTIPLE_TOKEN'', push_bit 2 1)]"

definition valkey_key_flags :: "(string \<times> int) list" where
  "valkey_key_flags = [
     (''CMD_KEY_RO'', push_bit 0 1),
     (''CMD_KEY_RW'', push_bit 1 1),
     (''CMD_KEY_OW'', push_bit 2 1),
     (''CMD_KEY_RM'', push_bit 3 1),
     (''CMD_KEY_ACCESS'', push_bit 4 1),
     (''CMD_KEY_UPDATE'', push_bit 5 1),
     (''CMD_KEY_INSERT'', push_bit 6 1),
     (''CMD_KEY_DELETE'', push_bit 7 1),
     (''CMD_KEY_NOT_KEY'', push_bit 8 1),
     (''CMD_KEY_INCOMPLETE'', push_bit 9 1),
     (''CMD_KEY_VARIABLE_FLAGS'', push_bit 10 1)]"

definition valkey_channel_flags :: "(string \<times> int) list" where
  "valkey_channel_flags = [
     (''CMD_CHANNEL_PATTERN'', push_bit 0 1),
     (''CMD_CHANNEL_PUBLISH'', push_bit 1 1),
     (''CMD_CHANNEL_SUBSCRIBE'', push_bit 2 1),
     (''CMD_CHANNEL_UNSUBSCRIBE'', push_bit 3 1)]"

definition valkey_eventloop :: "(string \<times> int) list" where
  "valkey_eventloop = [
     (''EVENTLOOP_READABLE'', 1),
     (''EVENTLOOP_WRITABLE'', 2)]"

definition valkey_events :: "(string \<times> int) list" where
  "valkey_events = [
     (''EVENT_REPLICATION_ROLE_CHANGED'', 0),
     (''EVENT_PERSISTENCE'', 1),
     (''EVENT_FLUSHDB'', 2),
     (''EVENT_LOADING'', 3),
     (''EVENT_CLIENT_CHANGE'', 4),
     (''EVENT_SHUTDOWN'', 5),
     (''EVENT_REPLICA_CHANGE'', 6),
     (''EVENT_PRIMARY_LINK_CHANGE'', 7),
     (''EVENT_CRON_LOOP'', 8),
     (''EVENT_MODULE_CHANGE'', 9),
     (''EVENT_LOADING_PROGRESS'', 10),
     (''EVENT_SWAPDB'', 11),
     (''EVENT_REPL_BACKUP'', 12),
     (''EVENT_FORK_CHILD'', 13),
     (''EVENT_REPL_ASYNC_LOAD'', 14),
     (''EVENT_EVENTLOOP'', 15),
     (''EVENT_CONFIG'', 16),
     (''EVENT_KEY'', 17),
     (''EVENT_AUTHENTICATION_ATTEMPT'', 18),
     (''EVENT_ATOMIC_SLOT_MIGRATION'', 19)]"

definition valkey_client_flags :: "(string \<times> int) list" where
  "valkey_client_flags = [
     (''CLIENTINFO_FLAG_SSL'', push_bit 0 1),
     (''CLIENTINFO_FLAG_PUBSUB'', push_bit 1 1),
     (''CLIENTINFO_FLAG_BLOCKED'', push_bit 2 1),
     (''CLIENTINFO_FLAG_TRACKING'', push_bit 3 1),
     (''CLIENTINFO_FLAG_UNIXSOCKET'', push_bit 4 1),
     (''CLIENTINFO_FLAG_MULTI'', push_bit 5 1),
     (''CLIENTINFO_FLAG_READONLY'', push_bit 6 1)]"

definition valkey_event_constants :: "(string \<times> string \<times> int) list" where
  "valkey_event_constants = [
     (''ReplicationRoleChanged'', ''EVENT_REPLICATION_ROLE_CHANGED'', 1),
     (''Persistence'', ''EVENT_PERSISTENCE'', 1),
     (''FlushDB'', ''EVENT_FLUSHDB'', 1),
     (''Loading'', ''EVENT_LOADING'', 1),
     (''ClientChange'', ''EVENT_CLIENT_CHANGE'', 1),
     (''Shutdown'', ''EVENT_SHUTDOWN'', 1),
     (''ReplicaChange'', ''EVENT_REPLICA_CHANGE'', 1),
     (''CronLoop'', ''EVENT_CRON_LOOP'', 1),
     (''PrimaryLinkChange'', ''EVENT_PRIMARY_LINK_CHANGE'', 1),
     (''ModuleChange'', ''EVENT_MODULE_CHANGE'', 1),
     (''LoadingProgress'', ''EVENT_LOADING_PROGRESS'', 1),
     (''SwapDB'', ''EVENT_SWAPDB'', 1),
     (''ReplAsyncLoad'', ''EVENT_REPL_ASYNC_LOAD'', 1),
     (''ForkChild'', ''EVENT_FORK_CHILD'', 1),
     (''EventLoop'', ''EVENT_EVENTLOOP'', 1),
     (''Config'', ''EVENT_CONFIG'', 1),
     (''Key'', ''EVENT_KEY'', 1),
     (''AuthenticationAttempt'', ''EVENT_AUTHENTICATION_ATTEMPT'', 1),
     (''AtomicSlotMigration'', ''EVENT_ATOMIC_SLOT_MIGRATION'', 1)]"

definition valkey_subevents :: "((string \<times> int) list \<times> int) list" where
  "valkey_subevents = [
     ([(''SUBEVENT_PERSISTENCE_RDB_START'', 0),
       (''SUBEVENT_PERSISTENCE_AOF_START'', 1),
       (''SUBEVENT_PERSISTENCE_SYNC_RDB_START'', 2),
       (''SUBEVENT_PERSISTENCE_ENDED'', 3),
       (''SUBEVENT_PERSISTENCE_FAILED'', 4),
       (''SUBEVENT_PERSISTENCE_SYNC_AOF_START'', 5)], 6),
     ([(''SUBEVENT_LOADING_RDB_START'', 0),
       (''SUBEVENT_LOADING_AOF_START'', 1),
       (''SUBEVENT_LOADING_REPL_START'', 2),
       (''SUBEVENT_LOADING_ENDED'', 3),
       (''SUBEVENT_LOADING_FAILED'', 4)], 5),
     ([(''SUBEVENT_CLIENT_CHANGE_CONNECTED'', 0),
       (''SUBEVENT_CLIENT_CHANGE_DISCONNECTED'', 1)], 2),
     ([(''SUBEVENT_PRIMARY_LINK_UP'', 0),
       (''SUBEVENT_PRIMARY_LINK_DOWN'', 1)], 2),
     ([(''SUBEVENT_REPLICA_CHANGE_ONLINE'', 0),
       (''SUBEVENT_REPLICA_CHANGE_OFFLINE'', 1)], 2),
     ([(''EVENT_REPLROLECHANGED_NOW_PRIMARY'', 0),
       (''EVENT_REPLROLECHANGED_NOW_REPLICA'', 1)], 2),
     ([(''SUBEVENT_FLUSHDB_START'', 0),
       (''SUBEVENT_FLUSHDB_END'', 1)], 2),
     ([(''SUBEVENT_MODULE_LOADED'', 0),
       (''SUBEVENT_MODULE_UNLOADED'', 1)], 2),
     ([(''SUBEVENT_CONFIG_CHANGE'', 0)], 1),
     ([(''SUBEVENT_LOADING_PROGRESS_RDB'', 0),
       (''SUBEVENT_LOADING_PROGRESS_AOF'', 1)], 2),
     ([(''SUBEVENT_REPL_ASYNC_LOAD_STARTED'', 0),
       (''SUBEVENT_REPL_ASYNC_LOAD_ABORTED'', 1),
       (''SUBEVENT_REPL_ASYNC_LOAD_COMPLETED'', 2)], 3),
     ([(''SUBEVENT_FORK_CHILD_BORN'', 0),
       (''SUBEVENT_FORK_CHILD_DIED'', 1)], 2),
     ([(''SUBEVENT_EVENTLOOP_BEFORE_SLEEP'', 0),
       (''SUBEVENT_EVENTLOOP_AFTER_SLEEP'', 1)], 2),
     ([(''SUBEVENT_KEY_DELETED'', 0),
       (''SUBEVENT_KEY_EXPIRED'', 1),
       (''SUBEVENT_KEY_EVICTED'', 2),
       (''SUBEVENT_KEY_OVERWRITTEN'', 3)], 4),
     ([], 0),
     ([], 0),
     ([], 0),
     ([(''SUBEVENT_ATOMIC_SLOT_MIGRATION_IMPORT_STARTED'', 0),
       (''SUBEVENT_ATOMIC_SLOT_MIGRATION_EXPORT_STARTED'', 1),
       (''SUBEVENT_ATOMIC_SLOT_MIGRATION_IMPORT_ABORTED'', 2),
       (''SUBEVENT_ATOMIC_SLOT_MIGRATION_EXPORT_ABORTED'', 3),
       (''SUBEVENT_ATOMIC_SLOT_MIGRATION_IMPORT_COMPLETED'', 4),
       (''SUBEVENT_ATOMIC_SLOT_MIGRATION_EXPORT_COMPLETED'', 5)], 6)]"

definition valkey_constants :: "(string \<times> int) list" where
  "valkey_constants = valkey_status @ valkey_versions @ valkey_access @ valkey_list @ valkey_keytypes
     @ valkey_replies @ valkey_lengths @ valkey_zadd @ valkey_hash"

definition valkey_loglevels :: "(string \<times> string) list" where
  "valkey_loglevels = [
     (''LOGLEVEL_DEBUG'', ''debug''),
     (''LOGLEVEL_VERBOSE'', ''verbose''),
     (''LOGLEVEL_NOTICE'', ''notice''),
     (''LOGLEVEL_WARNING'', ''warning'')]"

text \<open>The constants that are no integers, or are computed.\<close>

definition redis_hash_delete :: ptr where "redis_hash_delete = 1"

definition redis_wrongtype :: string where
  "redis_wrongtype = ''WRONGTYPE Operation against a key holding the wrong kind of value''"

definition redis_infinites :: "f64 list" where
  "redis_infinites = [f64_div (f64_of_int 1) (f64_of_int 0), f64_div (f64_of_int (- 1)) (f64_of_int 0)]"

definition valkey_hash_delete :: ptr where "valkey_hash_delete = 1"

definition valkey_wrongtype :: string where
  "valkey_wrongtype = ''WRONGTYPE Operation against a key holding the wrong kind of value''"

definition valkey_infinites :: "f64 list" where
  "valkey_infinites = [f64_div (f64_of_int 1) (f64_of_int 0), f64_div (f64_of_int (- 1)) (f64_of_int 0)]"

definition valkey_node_id_len :: int where "valkey_node_id_len = 40"

definition is_aof_client :: "u64 \<Rightarrow> bool" where
  "is_aof_client client \<longleftrightarrow> client = - 1"

text \<open>The constants that the header computes from others, and the first bit that is free.\<close>

definition named :: "(string \<times> int) list \<Rightarrow> string list \<Rightarrow> int list" where
  "named tab ns = map (\<lambda>n. the (map_of tab n)) ns"

definition any_of :: "int list \<Rightarrow> int" where
  "any_of vs = fold (OR) vs 0"

definition valkey_open_key_all :: int where
  "valkey_open_key_all = any_of (named valkey_access
     [''READ'', ''WRITE'', ''OPEN_KEY_NOTOUCH'', ''OPEN_KEY_NONOTIFY'', ''OPEN_KEY_NOSTATS'',
      ''OPEN_KEY_NOEXPIRE'', ''OPEN_KEY_NOEFFECTS''])"

definition valkey_notify_all :: int where
  "valkey_notify_all = any_of (named valkey_notify
     [''NOTIFY_GENERIC'', ''NOTIFY_STRING'', ''NOTIFY_LIST'', ''NOTIFY_SET'', ''NOTIFY_HASH'',
      ''NOTIFY_ZSET'', ''NOTIFY_EXPIRED'', ''NOTIFY_EVICTED'', ''NOTIFY_STREAM'', ''NOTIFY_MODULE''])"

definition valkey_ctx_flags_next :: int where "valkey_ctx_flags_next = push_bit 27 1"

definition valkey_notify_next :: int where "valkey_notify_next = push_bit 15 1"

definition valkey_options_next :: int where "valkey_options_next = push_bit 6 1"

definition valkey_arg_next :: int where "valkey_arg_next = push_bit 3 1"

definition valkey_event_next :: int where "valkey_event_next = 20"

section \<open>Families of flags and numbers\<close>

fun apart :: "int list \<Rightarrow> bool" where
  "apart [] = True"
| "apart (v # vs) = (list_all (\<lambda>w. v AND w = 0) vs \<and> apart vs)"

definition counts :: "(string \<times> int) list \<Rightarrow> int \<Rightarrow> bool" where
  "counts tab n = (map snd tab = [0..n - 1])"

definition valkey_flag_families :: "(string \<times> int) list list" where
  "valkey_flag_families = [valkey_access, valkey_zadd, valkey_hash, valkey_config, valkey_stream_add,
     valkey_stream_iterator, valkey_stream_trim, valkey_ctx_flags, valkey_notify, valkey_node,
     valkey_cluster, valkey_aux, valkey_yield, valkey_unblock, valkey_cmdfilter, valkey_options,
     valkey_arg_flags, valkey_key_flags, valkey_channel_flags, valkey_eventloop, valkey_client_flags]"

lemma valkey_flags_apart: "list_all (\<lambda>tab. apart (map snd tab)) valkey_flag_families"
  by code_simp

lemma valkey_next_flags:
  "any_of (map snd valkey_ctx_flags) = valkey_ctx_flags_next - 1"
  "any_of (map snd valkey_notify) = valkey_notify_next - 1"
  "any_of (map snd valkey_options) = valkey_options_next - 1"
  "any_of (map snd valkey_arg_flags) = valkey_arg_next - 1"
  by code_simp+

lemma valkey_numbers:
  "counts valkey_events valkey_event_next"
  "list_all (\<lambda>(tab, n). counts tab n) valkey_subevents"
  by code_simp+

lemma valkey_extends_redis: "list_all (\<lambda>(n, v). map_of valkey_constants n = Some v) redis_constants"
  by code_simp

end
