(* ===== verification/Foreign_Facts.thy ===== *)
theory Foreign_Facts
  imports Throttle Ffi Header_Constants
begin

text \<open>
  What holds between the module and the C headers of the two servers: the lookups of the
  initialisation, the declarations and constants that \<^verbatim>\<open>src/redis/raw.rs\<close> writes out
  again, and the two sets of names.
\<close>

section \<open>The initialisation\<close>

text \<open>C24: Each header's initialisation looks up exactly the functions that the header declares, but
  for the lookup itself; Redis' looks up one of them twice.\<close>

theorem every_function_is_fetched:
  "mset (''GetApi'' # redis_fetched) = mset (''ReplySetArrayLength'' # map decl_name redis_api) \<and>
   mset (''GetApi'' # valkey_fetched) = mset (map decl_name valkey_api)"
  using redis_fetched_mset valkey_fetched_mset by simp

text \<open>C22: When the server passes its lookup function and has \<open>SetModuleAttribs\<close>, the Redis
  initialisation succeeds: it announces the module's name and version once, every declared pointer
  is what the server found under its name, and one that the server does not have keeps its value.\<close>

theorem redis_init_fetches:
  assumes "context_word srv ctx \<noteq> null_ptr"
    and "call_get_api srv (context_word srv ctx) ''RedisModule_SetModuleAttribs'' = Some p" and "p \<noteq> null_ptr"
  shows "export_redismodule_init srv ctx name ver apiver t h =
    (Some (Status_Ok, fetched_table srv ctx ''RedisModule_'' redis_api t),
     call_set_attribs srv p ctx name ver apiver h)"
proof -
  have "''SetModuleAttribs'' \<in> decl_name ` set redis_api"
    by (simp add: redis_fetched_set [symmetric] redis_fetched_def)
  then have "fetched_table srv ctx ''RedisModule_'' redis_api t ''SetModuleAttribs'' = p"
    using assms(2) by (simp add: fetched_table_def)
  then show ?thesis using assms(1,3)
    by (simp add: export_redismodule_init_def redismodule_init_def Let_def redis_get_apis call_through_def)
qed

text \<open>A server whose functions are at the addresses 1, 2 and so on.\<close>

definition sample_server :: "string list \<Rightarrow> nat c_server" where
  "sample_server names = \<lparr>context_word = (\<lambda>ctx. ctx),
     call_get_api = (\<lambda>p name. if name \<in> set names then Some 2 else None),
     call_name_busy = (\<lambda>p name h. (if name = ''redis-cell'' then 1 else 0, h)),
     call_set_attribs = (\<lambda>p ctx name ver apiver h. Suc h)\<rparr>"

lemma redis_init_fetches_witness:
  "export_redismodule_init (sample_server [''RedisModule_SetModuleAttribs'']) 1 ''redis-cell'' 1 1 empty_table 0 =
    (Some (Status_Ok, fetched_table (sample_server [''RedisModule_SetModuleAttribs'']) 1 ''RedisModule_''
      redis_api empty_table), 1)"
  using redis_init_fetches [of "sample_server [''RedisModule_SetModuleAttribs'']" 1 2]
  by (simp add: sample_server_def null_ptr_def)

text \<open>The table of a Valkey initialisation, at the two functions it calls.\<close>

lemma valkey_table:
  "fetched_table srv ctx ''ValkeyModule_'' valkey_api t ''SetModuleAttribs'' =
    (case call_get_api srv (context_word srv ctx) ''ValkeyModule_SetModuleAttribs'' of
       Some p \<Rightarrow> p | None \<Rightarrow> t ''SetModuleAttribs'')"
  "fetched_table srv ctx ''ValkeyModule_'' valkey_api t ''IsModuleNameBusy'' =
    (case call_get_api srv (context_word srv ctx) ''ValkeyModule_IsModuleNameBusy'' of
       Some p \<Rightarrow> p | None \<Rightarrow> t ''IsModuleNameBusy'')"
proof -
  have "''SetModuleAttribs'' \<in> set valkey_fetched_1" "''IsModuleNameBusy'' \<in> set valkey_fetched_1"
    by code_simp+
  then have "''SetModuleAttribs'' \<in> decl_name ` set valkey_api" "''IsModuleNameBusy'' \<in> decl_name ` set valkey_api"
    by (simp_all add: valkey_fetched_set [symmetric] valkey_fetched_def)
  then show "fetched_table srv ctx ''ValkeyModule_'' valkey_api t ''SetModuleAttribs'' =
      (case call_get_api srv (context_word srv ctx) ''ValkeyModule_SetModuleAttribs'' of
         Some p \<Rightarrow> p | None \<Rightarrow> t ''SetModuleAttribs'')"
    "fetched_table srv ctx ''ValkeyModule_'' valkey_api t ''IsModuleNameBusy'' =
      (case call_get_api srv (context_word srv ctx) ''ValkeyModule_IsModuleNameBusy'' of
         Some p \<Rightarrow> p | None \<Rightarrow> t ''IsModuleNameBusy'')"
    by (simp_all add: fetched_table_def)
qed

text \<open>C23: The Valkey initialisation does the same, but a server that has \<open>IsModuleNameBusy\<close> is asked
  first, and a name that is in use makes the initialisation fail without announcing the module.\<close>

theorem valkey_init_fetches:
  assumes "context_word srv ctx \<noteq> null_ptr"
    and "call_get_api srv (context_word srv ctx) ''ValkeyModule_SetModuleAttribs'' = Some p" and "p \<noteq> null_ptr"
    and "call_get_api srv (context_word srv ctx) ''ValkeyModule_IsModuleNameBusy'' = Some b" and "b \<noteq> null_ptr"
    and "call_name_busy srv b name h = (r, h1)"
  shows "export_valkeymodule_init srv ctx name ver apiver t h =
    (if r \<noteq> 0 then (Some (Status_Err, fetched_table srv ctx ''ValkeyModule_'' valkey_api t), h1)
     else (Some (Status_Ok, fetched_table srv ctx ''ValkeyModule_'' valkey_api t),
       call_set_attribs srv p ctx name ver apiver h1))"
  using assms
  by (simp add: export_valkeymodule_init_def valkeymodule_init_def Let_def valkey_get_apis valkey_table
      call_through_def)

lemma valkey_init_fetches_witness:
  "export_valkeymodule_init (sample_server [''ValkeyModule_SetModuleAttribs'', ''ValkeyModule_IsModuleNameBusy''])
      1 ''redis-cell'' 1 1 empty_table 0 =
    (Some (Status_Err, fetched_table (sample_server [''ValkeyModule_SetModuleAttribs'',
      ''ValkeyModule_IsModuleNameBusy'']) 1 ''ValkeyModule_'' valkey_api empty_table), 0)"
  using valkey_init_fetches [of "sample_server [''ValkeyModule_SetModuleAttribs'', ''ValkeyModule_IsModuleNameBusy'']"
      1 2 2 "''redis-cell''" 0 1 0 1 1 empty_table]
  by (simp add: sample_server_def null_ptr_def)

text \<open>C25: A module loaded into a Valkey server where its name is in use reports the failure and
  registers no command. (The library's \<open>Export_ValkeyModule_Init\<close> is the one of the C stub, whose
  pointers are null at first.)\<close>

theorem busy_name_stops_loading:
  assumes "\<And>name ver apiver h st tab h'.
      export_valkeymodule_init srv ctx (c_str name) ver apiver empty_table h = (Some (st, tab), h') \<Longrightarrow>
      Export_ValkeyModule_Init vs ctx name ver apiver h = (st, h')"
    and "context_word srv ctx \<noteq> null_ptr"
    and "call_get_api srv (context_word srv ctx) ''ValkeyModule_IsModuleNameBusy'' = Some b" and "b \<noteq> null_ptr"
    and "call_name_busy srv b ''redis-cell'' h = (r, h1)" and "r \<noteq> 0"
  shows "redis_module_on_load (inner_raw True rs vs) tc wd ctx argv argc h = (Status_Err, h1)"
proof -
  have name: "c_str (cell_module_name @ [nul]) = ''redis-cell''" by code_simp
  have "export_valkeymodule_init srv ctx (c_str (cell_module_name @ [nul])) cell_module_version
      redismodule_apiver_1 empty_table h =
    (Some (Status_Err, fetched_table srv ctx ''ValkeyModule_'' valkey_api empty_table), h1)"
    using assms(2-6) name
    by (simp add: export_valkeymodule_init_def valkeymodule_init_def Let_def valkey_get_apis valkey_table)
  then have "Export_ValkeyModule_Init vs ctx (cell_module_name @ [nul]) cell_module_version
      redismodule_apiver_1 h = (Status_Err, h1)"
    by (rule assms(1))
  then show ?thesis by (simp add: redis_module_on_load_def inner_raw_def valkey_inner_def)
qed

text \<open>The reference server with the C stub as it is linked: a crash, which ends everything, is here
  the status of a failure.\<close>

definition busy_server :: "ref_host c_server" where
  "busy_server = \<lparr>context_word = (\<lambda>ctx. ctx),
     call_get_api = (\<lambda>p name. if name = ''ValkeyModule_IsModuleNameBusy'' then Some 2 else None),
     call_name_busy = (\<lambda>p name h. (if name = ''redis-cell'' then 1 else 0, h)),
     call_set_attribs = (\<lambda>p ctx name ver apiver h. h)\<rparr>"

definition busy_statics :: "ref_host valkey_statics" where
  "busy_statics = (valkey_names ref_statics)\<lparr>Export_ValkeyModule_Init := (\<lambda>ctx name ver apiver h.
     case export_valkeymodule_init busy_server ctx (c_str name) ver apiver empty_table h of
       (Some (st, tab), h') \<Rightarrow> (st, h') | (None, h') \<Rightarrow> (Status_Err, h'))\<rparr>"

lemma busy_name_stops_loading_witness:
  "redis_module_on_load (inner_raw True ref_statics busy_statics) ns_time ref_world 1 (\<lambda>i. 0) 0 (ref_start 0) =
    (Status_Err, ref_start 0)"
  by (rule busy_name_stops_loading [where srv = busy_server and b = 2 and r = 1])
    (simp_all add: busy_statics_def busy_server_def null_ptr_def)

text \<open>C35: A module loaded into a Redis server first announces itself as \<^verbatim>\<open>redis-cell\<close>, version 1 of
  both itself and the API, and only then registers \<^verbatim>\<open>cl.throttle\<close>, a writing command whose first
  argument is its only key, with the entry point of the command; loading ends as the registration
  does. (The library's \<open>Export_RedisModule_Init\<close> is the one of the C stub.)\<close>

theorem redis_loading_registers:
  assumes "\<And>name ver apiver h st tab h'.
      export_redismodule_init srv ctx (c_str name) ver apiver empty_table h = (Some (st, tab), h') \<Longrightarrow>
      Export_RedisModule_Init rs ctx name ver apiver h = (st, h')"
    and "context_word srv ctx \<noteq> null_ptr"
    and "call_get_api srv (context_word srv ctx) ''RedisModule_SetModuleAttribs'' = Some p" and "p \<noteq> null_ptr"
  shows "redis_module_on_load (inner_raw False rs vs) tc wd ctx argv argc h =
    RedisModule_CreateCommand rs ctx (''cl.throttle'' @ [nul])
      (Some (throttle_redis_command (inner_raw False rs vs) tc wd)) (''write'' @ [nul]) 1 1 1
      (call_set_attribs srv p ctx ''redis-cell'' 1 1 h)"
proof -
  have name: "c_str (cell_module_name @ [nul]) = ''redis-cell''" by code_simp
  have "''SetModuleAttribs'' \<in> decl_name ` set redis_api"
    by (simp add: redis_fetched_set [symmetric] redis_fetched_def)
  then have "export_redismodule_init srv ctx (c_str (cell_module_name @ [nul])) 1 1 empty_table h =
    (Some (Status_Ok, fetched_table srv ctx ''RedisModule_'' redis_api empty_table),
     call_set_attribs srv p ctx ''redis-cell'' 1 1 h)"
    using assms(2-4) name
    by (simp add: export_redismodule_init_def redismodule_init_def Let_def redis_get_apis call_through_def fetched_table_def)
  then have "Export_RedisModule_Init rs ctx (cell_module_name @ [nul]) 1 1 h =
      (Status_Ok, call_set_attribs srv p ctx ''redis-cell'' 1 1 h)"
    by (rule assms(1))
  then show ?thesis
    by (simp add: redis_module_on_load_def inner_raw_def redis_inner_def cell_module_version_def
        redismodule_apiver_1_def throttle_command_def throttle_name_def throttle_flags_def
        split: prod.split status.split)
qed

text \<open>C36: A module loaded into a Valkey server where its name is free does the same, after it has
  asked whether the name is in use.\<close>

theorem valkey_loading_registers:
  assumes "\<And>name ver apiver h st tab h'.
      export_valkeymodule_init srv ctx (c_str name) ver apiver empty_table h = (Some (st, tab), h') \<Longrightarrow>
      Export_ValkeyModule_Init vs ctx name ver apiver h = (st, h')"
    and "context_word srv ctx \<noteq> null_ptr"
    and "call_get_api srv (context_word srv ctx) ''ValkeyModule_SetModuleAttribs'' = Some p" and "p \<noteq> null_ptr"
    and "call_get_api srv (context_word srv ctx) ''ValkeyModule_IsModuleNameBusy'' = Some b" and "b \<noteq> null_ptr"
    and "call_name_busy srv b ''redis-cell'' h = (0, h1)"
  shows "redis_module_on_load (inner_raw True rs vs) tc wd ctx argv argc h =
    ValkeyModule_CreateCommand vs ctx (''cl.throttle'' @ [nul])
      (Some (throttle_redis_command (inner_raw True rs vs) tc wd)) (''write'' @ [nul]) 1 1 1
      (call_set_attribs srv p ctx ''redis-cell'' 1 1 h1)"
proof -
  have name: "c_str (cell_module_name @ [nul]) = ''redis-cell''" by code_simp
  have "export_valkeymodule_init srv ctx (c_str (cell_module_name @ [nul])) 1 1 empty_table h =
    (Some (Status_Ok, fetched_table srv ctx ''ValkeyModule_'' valkey_api empty_table),
     call_set_attribs srv p ctx ''redis-cell'' 1 1 h1)"
    using assms(2-7) name
    by (simp add: export_valkeymodule_init_def valkeymodule_init_def Let_def valkey_get_apis valkey_table call_through_def)
  then have "Export_ValkeyModule_Init vs ctx (cell_module_name @ [nul]) 1 1 h =
      (Status_Ok, call_set_attribs srv p ctx ''redis-cell'' 1 1 h1)"
    by (rule assms(1))
  then show ?thesis
    by (simp add: redis_module_on_load_def inner_raw_def valkey_inner_def cell_module_version_def
        redismodule_apiver_1_def throttle_command_def throttle_name_def throttle_flags_def
        split: prod.split status.split)
qed

text \<open>The reference server with the C stubs linked, where every name is free but one; announcing the
  module moves its clock, so that the order of the calls can be seen.\<close>

definition free_server :: "ref_host c_server" where
  "free_server = \<lparr>context_word = (\<lambda>ctx. ctx),
     call_get_api = (\<lambda>p name. Some 2),
     call_name_busy = (\<lambda>p name h. (if name = ''redis-cell'' then 0 else 1, h)),
     call_set_attribs = (\<lambda>p ctx name ver apiver h. h\<lparr>rh_now := rh_now h + 1\<rparr>)\<rparr>"

definition free_statics :: "ref_host redis_statics" where
  "free_statics = ref_statics\<lparr>Export_RedisModule_Init := (\<lambda>ctx name ver apiver h.
     case export_redismodule_init free_server ctx (c_str name) ver apiver empty_table h of
       (Some (st, tab), h') \<Rightarrow> (st, h') | (None, h') \<Rightarrow> (Status_Err, h'))\<rparr>"

definition free_valkey_statics :: "ref_host valkey_statics" where
  "free_valkey_statics = (valkey_names ref_statics)\<lparr>Export_ValkeyModule_Init := (\<lambda>ctx name ver apiver h.
     case export_valkeymodule_init free_server ctx (c_str name) ver apiver empty_table h of
       (Some (st, tab), h') \<Rightarrow> (st, h') | (None, h') \<Rightarrow> (Status_Err, h'))\<rparr>"

lemma free_registrations:
  "RedisModule_CreateCommand free_statics ctx nm f flags a b c h = (Status_Ok, h)"
  "ValkeyModule_CreateCommand free_valkey_statics ctx nm f flags a b c h = (Status_Ok, h)"
  by (simp_all add: free_statics_def free_valkey_statics_def valkey_names_def ref_statics_def)

lemma redis_loading_registers_witness:
  "redis_module_on_load (inner_raw False free_statics busy_statics) ns_time ref_world 1 (\<lambda>i. 0) 0 (ref_start 0) =
    (Status_Ok, (ref_start 0)\<lparr>rh_now := 1\<rparr>)"
proof -
  have "redis_module_on_load (inner_raw False free_statics busy_statics) ns_time ref_world 1 (\<lambda>i. 0) 0 (ref_start 0) =
    RedisModule_CreateCommand free_statics 1 (''cl.throttle'' @ [nul])
      (Some (throttle_redis_command (inner_raw False free_statics busy_statics) ns_time ref_world)) (''write'' @ [nul]) 1 1 1
      (call_set_attribs free_server 2 1 ''redis-cell'' 1 1 (ref_start 0))"
    by (rule redis_loading_registers) (simp_all add: free_statics_def free_server_def null_ptr_def)
  then show ?thesis by (simp add: free_registrations free_server_def ref_start_def)
qed

lemma valkey_loading_registers_witness:
  "redis_module_on_load (inner_raw True ref_statics free_valkey_statics) ns_time ref_world 1 (\<lambda>i. 0) 0 (ref_start 0) =
    (Status_Ok, (ref_start 0)\<lparr>rh_now := 1\<rparr>)"
proof -
  have "redis_module_on_load (inner_raw True ref_statics free_valkey_statics) ns_time ref_world 1 (\<lambda>i. 0) 0 (ref_start 0) =
    ValkeyModule_CreateCommand free_valkey_statics 1 (''cl.throttle'' @ [nul])
      (Some (throttle_redis_command (inner_raw True ref_statics free_valkey_statics) ns_time ref_world)) (''write'' @ [nul]) 1 1 1
      (call_set_attribs free_server 2 1 ''redis-cell'' 1 1 (ref_start 0))"
    by (rule valkey_loading_registers [where b = 2]) (simp_all add: free_valkey_statics_def free_server_def null_ptr_def)
  then show ?thesis by (simp add: free_registrations free_server_def ref_start_def)
qed

section \<open>Declarations and names\<close>

text \<open>C20: Every function that Rust declares is declared by the header, and its declaration agrees with
  the header's up to the named exceptions: \<open>Call\<close> and \<open>Log\<close> are variadic in C and not in Rust,
  \<open>ReplyWithError\<close> returns an \<open>int\<close> that Rust does not know of, and three functions take or return
  a type whose layout Rust does not promise. This holds for both servers.\<close>

theorem declarations_agree:
  "mset (ffi_check redis_rust_decls redis_api) = mset (ffi_expected redis_rust_decls) \<and>
   mset (ffi_check valkey_rust_decls valkey_api) = mset (ffi_expected valkey_rust_decls)"
  using redis_ffi valkey_ffi by simp

text \<open>The wrappers compiled for Valkey and for Redis are the same functions of a server that has
  the same operations under either set of names.\<close>

lemma features_agree: "inner_raw True rs (valkey_names rs) = inner_raw False rs vs"
  by (rule inner_raw_feature)

section \<open>Constants\<close>

text \<open>The constants that Rust writes out again, under the header's names.\<close>

definition rust_constants :: "(string \<times> int) list" where
  "rust_constants = [(''APIVER_1'', sint redismodule_apiver_1),
     (''READ'', sint key_mode_read), (''WRITE'', sint key_mode_write),
     (''OK'', status_code Status_Ok), (''ERR'', status_code Status_Err),
     (''REPLY_UNKNOWN'', reply_type_code Reply_Type_Unknown),
     (''REPLY_STRING'', reply_type_code Reply_Type_String),
     (''REPLY_ERROR'', reply_type_code Reply_Type_Error),
     (''REPLY_INTEGER'', reply_type_code Reply_Type_Integer),
     (''REPLY_ARRAY'', reply_type_code Reply_Type_Array),
     (''REPLY_NULL'', reply_type_code Reply_Type_Nil)]"

text \<open>C26: Every constant that \<^verbatim>\<open>src/redis/raw.rs\<close> writes out again has its value in
  the Redis header, every constant of the Redis header modelled here has its value in the Valkey
  header, and the names that log levels are passed under are those of Valkey's header.\<close>

theorem rust_constants_agree:
  "list_all (\<lambda>(n, v). map_of redis_constants n = Some v) rust_constants \<and>
   list_all (\<lambda>(n, v). map_of valkey_constants n = Some v) redis_constants \<and>
   redis_hash_delete = valkey_hash_delete \<and> redis_wrongtype = valkey_wrongtype \<and>
   redis_infinites = valkey_infinites \<and>
   set (map snd valkey_loglevels) =
     set (map (\<lambda>l. ascii_lower (log_level_name l)) [Log_Debug, Log_Notice, Log_Verbose, Log_Warning])"
  using valkey_extends_redis by (intro conjI) (assumption | code_simp)+

text \<open>C34: The flags of each family of the Valkey header are on bits of their own, and the first free
  bit that a family names is the one right above them. The masks hold what their comments say: every
  way to open a key, and every class of notification but the two kinds of channel, key misses,
  loaded and new keys. The events and the parts of each are numbered from 0 without a gap up to the
  number that is next, and each event but the unused \<open>EVENT_REPL_BACKUP\<close> has one constant with its
  number.\<close>

theorem constants_fit:
  "list_all (\<lambda>tab. apart (map snd tab)) valkey_flag_families \<and>
   any_of (map snd valkey_ctx_flags) = valkey_ctx_flags_next - 1 \<and>
   any_of (map snd valkey_notify) = valkey_notify_next - 1 \<and>
   any_of (map snd valkey_options) = valkey_options_next - 1 \<and>
   any_of (map snd valkey_arg_flags) = valkey_arg_next - 1 \<and>
   valkey_open_key_all = any_of (map snd valkey_access) \<and>
   valkey_notify_all = valkey_notify_next - 1 - any_of (named valkey_notify
     [''NOTIFY_KEYSPACE'', ''NOTIFY_KEYEVENT'', ''NOTIFY_KEY_MISS'', ''NOTIFY_LOADED'', ''NOTIFY_NEW'']) \<and>
   counts valkey_events valkey_event_next \<and> list_all (\<lambda>(tab, n). counts tab n) valkey_subevents \<and>
   mset (''EVENT_REPL_BACKUP'' # map (fst \<circ> snd) valkey_event_constants) = mset (map fst valkey_events)"
proof -
  have "counts valkey_events valkey_event_next" "list_all (\<lambda>(tab, n). counts tab n) valkey_subevents"
    "mset (''EVENT_REPL_BACKUP'' # map (fst \<circ> snd) valkey_event_constants) = mset (map fst valkey_events)"
    by code_simp+
  moreover
  have "valkey_open_key_all = any_of (map snd valkey_access)"
    "valkey_notify_all = valkey_notify_next - 1 - any_of (named valkey_notify
      [''NOTIFY_KEYSPACE'', ''NOTIFY_KEYEVENT'', ''NOTIFY_KEY_MISS'', ''NOTIFY_LOADED'', ''NOTIFY_NEW''])"
    by code_simp+
  ultimately show ?thesis using valkey_flags_apart valkey_next_flags by simp
qed

end
