(* ===== verification/C_Types.thy ===== *)
theory C_Types
  imports C_Api
begin

text \<open>
  Type declarations of C as data: which names a declaration may use, and how a structure is laid
  out on a machine with 64-bit pointers.
\<close>

section \<open>Declarations\<close>

text \<open>
  The members of a structure or union; one without a name (the empty string) lends its members to
  the structure around it.
\<close>

datatype c_member =
  Field string c_type
| Field_Array string c_type nat
| Nested_Struct string "c_member list"
| Nested_Union string "c_member list"

text \<open>What an initialiser gives a member: a number, a constant, a null pointer or an argument.\<close>

datatype c_init = Init_Int int | Init_Const string | Init_Null | Init_Param string

text \<open>
  A structure that is only named, a tag that is only named, a structure with its tag and the name
  for it, an enumeration, another name for a type (by \<^verbatim>\<open>typedef\<close> or by a macro), a
  constant, and an initialiser with the parameters of its macro.
\<close>

datatype c_def =
  D_Opaque string
| D_Tag string
| D_Struct string string "c_member list"
| D_Enum string "(string \<times> int) list"
| D_Type string c_type
| D_Const string int
| D_Init string "string list" "(string \<times> c_init) list"

section \<open>Declared before use\<close>

text \<open>The names a type uses: by value, which needs a complete type, or through a pointer.\<close>

fun used_names :: "c_type \<Rightarrow> string list" where
  "used_names (C_Api n) = [n]"
| "used_names (C_Ptr t) = used_names t"
| "used_names (C_Const t) = used_names t"
| "used_names (C_Fun r ps) = used_names r @ concat (map used_names ps)"
| "used_names _ = []"

text \<open>What has been declared so far: the types that are complete, and those that are only named.\<close>

record declared =
  complete :: "string list"
  incomplete :: "string list"

definition completes :: "declared \<Rightarrow> string \<Rightarrow> bool" where
  "completes d n \<longleftrightarrow> n \<in> set (complete d)"

definition knows :: "declared \<Rightarrow> string \<Rightarrow> bool" where
  "knows d n \<longleftrightarrow> n \<in> set (complete d) \<or> n \<in> set (incomplete d)"

text \<open>
  A type that is well formed after some declarations: all its names are known, and those used by
  value are complete. A function takes and returns complete types.
\<close>

fun type_ok :: "declared \<Rightarrow> bool \<Rightarrow> c_type \<Rightarrow> bool" where
  "type_ok d by_value (C_Api n) = (if by_value then completes d n else knows d n)"
| "type_ok d by_value (C_Struct n) = (\<not> by_value)"
| "type_ok d by_value C_Void = (\<not> by_value)"
| "type_ok d by_value (C_Ptr t) = type_ok d False t"
| "type_ok d by_value (C_Const t) = type_ok d by_value t"
| "type_ok d by_value (C_Fun r ps) =
     ((r = C_Void \<or> type_ok d True r) \<and> list_all (type_ok d True) ps)"
| "type_ok d by_value _ = True"

fun member_ok :: "declared \<Rightarrow> c_member \<Rightarrow> bool" where
  "member_ok d (Field n t) = type_ok d True t"
| "member_ok d (Field_Array n t k) = (type_ok d True t \<and> 0 < k)"
| "member_ok d (Nested_Struct n ms) = list_all (member_ok d) ms"
| "member_ok d (Nested_Union n ms) = list_all (member_ok d) ms"

text \<open>The names of a structure's members, those that nameless members lend included.\<close>

fun member_names :: "c_member \<Rightarrow> string list" where
  "member_names (Field n t) = [n]"
| "member_names (Field_Array n t k) = [n]"
| "member_names (Nested_Struct n ms) = (if n = [] then concat (map member_names ms) else [n])"
| "member_names (Nested_Union n ms) = (if n = [] then concat (map member_names ms) else [n])"

definition field_names :: "c_member list \<Rightarrow> string list" where
  "field_names ms = concat (map member_names ms)"

fun def_ok :: "declared \<Rightarrow> c_def \<Rightarrow> bool" where
  "def_ok d (D_Struct tag n ms) = (list_all (member_ok d) ms \<and> distinct (field_names ms) \<and> ms \<noteq> [])"
| "def_ok d (D_Enum n cs) = distinct (map fst cs)"
| "def_ok d (D_Type n t) = (t = C_Void \<or> type_ok d True t)"
| "def_ok d _ = True"

text \<open>Another name for \<^verbatim>\<open>void\<close> is incomplete.\<close>

fun declare_def :: "c_def \<Rightarrow> declared \<Rightarrow> declared" where
  "declare_def (D_Opaque n) d = d\<lparr>incomplete := n # incomplete d\<rparr>"
| "declare_def (D_Struct tag n ms) d = d\<lparr>complete := n # complete d\<rparr>"
| "declare_def (D_Enum n cs) d = d\<lparr>complete := n # complete d\<rparr>"
| "declare_def (D_Type n t) d =
     (if t = C_Void then d\<lparr>incomplete := n # incomplete d\<rparr> else d\<lparr>complete := n # complete d\<rparr>)"
| "declare_def _ d = d"

definition nothing_declared :: declared where
  "nothing_declared = \<lparr>complete = [], incomplete = []\<rparr>"

text \<open>Each definition uses what those before it declare.\<close>

fun defs_ok :: "declared \<Rightarrow> c_def list \<Rightarrow> bool" where
  "defs_ok d [] = True"
| "defs_ok d (x # xs) = (def_ok d x \<and> defs_ok (declare_def x d) xs)"

definition declares :: "c_def list \<Rightarrow> declared" where
  "declares xs = fold declare_def xs nothing_declared"

text \<open>No name is declared twice.\<close>

fun def_names :: "c_def \<Rightarrow> string list" where
  "def_names (D_Opaque n) = [n]"
| "def_names (D_Struct tag n ms) = [n]"
| "def_names (D_Enum n cs) = [n]"
| "def_names (D_Type n t) = [n]"
| "def_names _ = []"

definition declared_names :: "c_def list \<Rightarrow> string list" where
  "declared_names xs = concat (map def_names xs)"

definition well_declared :: "c_def list \<Rightarrow> bool" where
  "well_declared xs \<longleftrightarrow> defs_ok nothing_declared xs \<and> distinct (declared_names xs)"

text \<open>A declared function whose types are declared.\<close>

definition decl_ok :: "declared \<Rightarrow> c_decl \<Rightarrow> bool" where
  "decl_ok d x \<longleftrightarrow> (decl_result x = C_Void \<or> type_ok d True (decl_result x)) \<and>
     list_all (type_ok d True) (decl_params x)"

section \<open>Layout\<close>

text \<open>Sizes and alignments of the named types; the smallest multiple of an alignment from a place on.\<close>

type_synonym size_env = "(string \<times> nat \<times> nat) list"

definition align_up :: "nat \<Rightarrow> nat \<Rightarrow> nat" where
  "align_up a n = (n + (a - 1)) div a * a"

fun type_layout :: "size_env \<Rightarrow> c_type \<Rightarrow> (nat \<times> nat) option" where
  "type_layout env C_Void = None"
| "type_layout env C_Char = Some (1, 1)"
| "type_layout env C_UChar = Some (1, 1)"
| "type_layout env C_UInt8 = Some (1, 1)"
| "type_layout env C_UInt16 = Some (2, 2)"
| "type_layout env C_Int = Some (4, 4)"
| "type_layout env C_UInt = Some (4, 4)"
| "type_layout env C_Int32 = Some (4, 4)"
| "type_layout env C_UInt32 = Some (4, 4)"
| "type_layout env C_Float = Some (4, 4)"
| "type_layout env C_LongDouble = Some (16, 16)"
| "type_layout env (C_Api n) = map_of env n"
| "type_layout env (C_Struct n) = None"
| "type_layout env (C_Const t) = type_layout env t"
| "type_layout env _ = Some (8, 8)"

definition pad_end :: "nat \<times> nat \<Rightarrow> nat \<times> nat" where
  "pad_end x = (align_up (snd x) (fst x), snd x)"

text \<open>
  The size and alignment of a member, and of members one after the other from an offset on or all
  at the same place.
\<close>

fun member_layout :: "size_env \<Rightarrow> c_member \<Rightarrow> (nat \<times> nat) option"
  and struct_layout :: "size_env \<Rightarrow> nat \<Rightarrow> nat \<Rightarrow> c_member list \<Rightarrow> (nat \<times> nat) option"
  and union_layout :: "size_env \<Rightarrow> nat \<Rightarrow> nat \<Rightarrow> c_member list \<Rightarrow> (nat \<times> nat) option" where
  "member_layout env (Field n t) = type_layout env t"
| "member_layout env (Field_Array n t k) = map_option (\<lambda>(s, a). (k * s, a)) (type_layout env t)"
| "member_layout env (Nested_Struct n ms) = map_option pad_end (struct_layout env 0 1 ms)"
| "member_layout env (Nested_Union n ms) = map_option pad_end (union_layout env 0 1 ms)"
| "struct_layout env off al [] = Some (off, al)"
| "struct_layout env off al (m # ms) = (case member_layout env m of None \<Rightarrow> None
     | Some (s, a) \<Rightarrow> struct_layout env (align_up a off + s) (max al a) ms)"
| "union_layout env off al [] = Some (off, al)"
| "union_layout env off al (m # ms) = (case member_layout env m of None \<Rightarrow> None
     | Some (s, a) \<Rightarrow> union_layout env (max off s) (max al a) ms)"

text \<open>Where each member is: its name, offset and size, those of nameless members in the place of these.\<close>

fun member_places :: "size_env \<Rightarrow> nat \<Rightarrow> c_member \<Rightarrow> (string \<times> nat \<times> nat) list"
  and struct_places :: "size_env \<Rightarrow> nat \<Rightarrow> nat \<Rightarrow> c_member list \<Rightarrow> (string \<times> nat \<times> nat) list"
  and union_places :: "size_env \<Rightarrow> nat \<Rightarrow> c_member list \<Rightarrow> (string \<times> nat \<times> nat) list" where
  "member_places env at (Field n t) =
     (case type_layout env t of None \<Rightarrow> [] | Some (s, a) \<Rightarrow> [(n, at, s)])"
| "member_places env at (Field_Array n t k) =
     (case type_layout env t of None \<Rightarrow> [] | Some (s, a) \<Rightarrow> [(n, at, k * s)])"
| "member_places env at (Nested_Struct n ms) = (if n = [] then struct_places env at 0 ms
     else (case member_layout env (Nested_Struct n ms) of None \<Rightarrow> [] | Some (s, a) \<Rightarrow> [(n, at, s)]))"
| "member_places env at (Nested_Union n ms) = (if n = [] then union_places env at ms
     else (case member_layout env (Nested_Union n ms) of None \<Rightarrow> [] | Some (s, a) \<Rightarrow> [(n, at, s)]))"
| "struct_places env at off [] = []"
| "struct_places env at off (m # ms) = (case member_layout env m of None \<Rightarrow> []
     | Some (s, a) \<Rightarrow> member_places env (at + align_up a off) m @
         struct_places env at (align_up a off + s) ms)"
| "union_places env at [] = []"
| "union_places env at (m # ms) = member_places env at m @ union_places env at ms"

definition struct_size :: "size_env \<Rightarrow> c_member list \<Rightarrow> (nat \<times> nat) option" where
  "struct_size env ms = map_option pad_end (struct_layout env 0 1 ms)"

text \<open>An enumeration is an \<^verbatim>\<open>int\<close>, and names of incomplete types have no layout.\<close>

fun layout_def :: "c_def \<Rightarrow> size_env \<Rightarrow> size_env" where
  "layout_def (D_Struct tag n ms) env =
     (case struct_size env ms of None \<Rightarrow> env | Some x \<Rightarrow> (n, x) # env)"
| "layout_def (D_Enum n cs) env = (n, (4, 4)) # env"
| "layout_def (D_Type n t) env = (case type_layout env t of None \<Rightarrow> env | Some x \<Rightarrow> (n, x) # env)"
| "layout_def _ env = env"

definition layouts :: "c_def list \<Rightarrow> size_env" where
  "layouts xs = fold layout_def xs []"

definition sizeof :: "size_env \<Rightarrow> string \<Rightarrow> nat option" where
  "sizeof env n = map_option fst (map_of env n)"

text \<open>
  The members of a structure and their places, the names given to a structure's current version, and
  the initialisers with their names.
\<close>

fun members_of :: "c_def list \<Rightarrow> string \<Rightarrow> c_member list option" where
  "members_of [] n = None"
| "members_of (D_Struct tag m ms # xs) n = (if n = m then Some ms else members_of xs n)"
| "members_of (x # xs) n = members_of xs n"

definition places_of :: "c_def list \<Rightarrow> string \<Rightarrow> (string \<times> nat \<times> nat) list" where
  "places_of xs n = (case members_of xs n of None \<Rightarrow> [] | Some ms \<Rightarrow> struct_places (layouts xs) 0 0 ms)"

fun current_versions :: "c_def list \<Rightarrow> (string \<times> string) list" where
  "current_versions [] = []"
| "current_versions (D_Type n (C_Api m) # xs) = (n, m) # current_versions xs"
| "current_versions (x # xs) = current_versions xs"

fun initialisers :: "c_def list \<Rightarrow> (string \<times> string list \<times> (string \<times> c_init) list) list" where
  "initialisers [] = []"
| "initialisers (D_Init n ps fs # xs) = (n, ps, fs) # initialisers xs"
| "initialisers (x # xs) = initialisers xs"

fun constants :: "c_def list \<Rightarrow> (string \<times> int) list" where
  "constants [] = []"
| "constants (D_Const n v # xs) = (n, v) # constants xs"
| "constants (x # xs) = constants xs"

definition fields_of :: "c_def list \<Rightarrow> string \<Rightarrow> string list" where
  "fields_of xs n = (case members_of xs n of None \<Rightarrow> [] | Some ms \<Rightarrow> field_names ms)"

text \<open>The number that an initialiser gives, if it does not depend on an argument, and the arguments it uses.\<close>

fun init_number :: "(string \<times> int) list \<Rightarrow> c_init \<Rightarrow> int option" where
  "init_number cs (Init_Int i) = Some i"
| "init_number cs (Init_Const c) = map_of cs c"
| "init_number cs _ = None"

fun init_params :: "(string \<times> c_init) list \<Rightarrow> string list" where
  "init_params [] = []"
| "init_params ((f, Init_Param p) # fs) = p # init_params fs"
| "init_params (x # fs) = init_params fs"

section \<open>Alignment\<close>

lemma align_up_0 [simp]: "align_up a 0 = 0" if "0 < a"
  using that by (simp add: align_up_def)

lemma align_up_ge: "n \<le> align_up a n" if "0 < a"
  using that div_mult_mod_eq [of "n + (a - 1)" a] mod_less_divisor [of a "n + (a - 1)"]
  unfolding align_up_def by linarith

lemma align_up_less: "align_up a n < n + a" if "0 < a"
  using that div_mult_mod_eq [of "n + (a - 1)" a] unfolding align_up_def by linarith

lemma align_up_dvd: "a dvd align_up a n"
  by (simp add: align_up_def)

section \<open>Declarations and layouts\<close>

text \<open>Sizes that are known for every complete type, and alignments that are positive.\<close>

definition sized :: "declared \<Rightarrow> size_env \<Rightarrow> bool" where
  "sized d env \<longleftrightarrow> (\<forall>n. completes d n \<longrightarrow> map_of env n \<noteq> None)"

definition aligned_env :: "size_env \<Rightarrow> bool" where
  "aligned_env env \<longleftrightarrow> (\<forall>n s a. map_of env n = Some (s, a) \<longrightarrow> 0 < a)"

lemma type_has_layout: "type_ok d True t \<Longrightarrow> sized d env \<Longrightarrow> \<exists>x. type_layout env t = Some x"
  by (induction env t rule: type_layout.induct) (auto simp: sized_def)

lemma members_have_layout:
  "member_ok d m \<Longrightarrow> sized d env \<Longrightarrow> \<exists>x. member_layout env m = Some x"
  "list_all (member_ok d) ms \<Longrightarrow> sized d env \<Longrightarrow> \<exists>x. struct_layout env off al ms = Some x"
  "list_all (member_ok d) ms \<Longrightarrow> sized d env \<Longrightarrow> \<exists>x. union_layout env off al ms = Some x"
proof (induction env m and env off al ms and env off al ms
    rule: member_layout_struct_layout_union_layout.induct)
  case (1 env n t) then show ?case using type_has_layout by fastforce
next
  case (2 env n t k) then show ?case using type_has_layout by fastforce
qed (fastforce split: option.splits)+

text \<open>What is laid out stays so when more types are known.\<close>

definition extends :: "size_env \<Rightarrow> size_env \<Rightarrow> bool" where
  "extends env env' \<longleftrightarrow> map_of env \<subseteq>\<^sub>m map_of env'"

lemma extendsD: "extends env env' \<Longrightarrow> map_of env n = Some x \<Longrightarrow> map_of env' n = Some x"
  by (auto simp: extends_def map_le_def dom_def)

lemma type_layout_extends:
  "type_layout env t = Some x \<Longrightarrow> extends env env' \<Longrightarrow> type_layout env' t = Some x"
  by (induction env t rule: type_layout.induct) (auto dest: extendsD)

lemma layout_extends:
  "member_layout env m = Some x \<Longrightarrow> extends env env' \<Longrightarrow> member_layout env' m = Some x"
  "struct_layout env off al ms = Some x \<Longrightarrow> extends env env' \<Longrightarrow> struct_layout env' off al ms = Some x"
  "union_layout env off al ms = Some x \<Longrightarrow> extends env env' \<Longrightarrow> union_layout env' off al ms = Some x"
  by (induction env m and env off al ms and env off al ms arbitrary: x and x and x
      rule: member_layout_struct_layout_union_layout.induct)
    (fastforce dest: type_layout_extends split: option.splits)+

text \<open>Alignments are positive.\<close>

lemma type_layout_aligned: "type_layout env t = Some (s, a) \<Longrightarrow> aligned_env env \<Longrightarrow> 0 < a"
  by (induction env t rule: type_layout.induct) (auto simp: aligned_env_def)

lemma layout_aligned:
  "member_layout env m = Some (s, a) \<Longrightarrow> aligned_env env \<Longrightarrow> 0 < a"
  "struct_layout env off al ms = Some (s, a) \<Longrightarrow> aligned_env env \<Longrightarrow> al \<le> a"
  "union_layout env off al ms = Some (s, a) \<Longrightarrow> aligned_env env \<Longrightarrow> al \<le> a"
proof (induction env m and env off al ms and env off al ms arbitrary: s a and s a and s a
    rule: member_layout_struct_layout_union_layout.induct)
  case (1 env n t) then show ?case by (auto dest: type_layout_aligned)
next
  case (2 env n t k) then show ?case by (auto dest: type_layout_aligned)
qed (fastforce simp: pad_end_def split: option.splits)+

section \<open>Members inside their structure\<close>

text \<open>A structure's members come one after the other, and all of them before its end.\<close>

lemma struct_layout_grows:
  "struct_layout env off al ms = Some (s, a) \<Longrightarrow> aligned_env env \<Longrightarrow> off \<le> s"
proof (induction ms arbitrary: off al)
  case (Cons m ms)
  then obtain k b where mb: "member_layout env m = Some (k, b)"
    and rest: "struct_layout env (align_up b off + k) (max al b) ms = Some (s, a)"
    by (auto split: option.splits)
  have "off \<le> align_up b off" using align_up_ge layout_aligned(1) [OF mb Cons.prems(2)] by blast
  then show ?case using Cons.IH [OF rest Cons.prems(2)] by linarith
qed simp

lemma union_layout_grows:
  "union_layout env off al ms = Some (s, a) \<Longrightarrow> off \<le> s"
  by (induction ms arbitrary: off al) (fastforce split: option.splits)+

lemma nested_struct_layout:
  assumes "member_layout env (Nested_Struct n ms) = Some (s, a)" and "aligned_env env"
  obtains x where "struct_layout env 0 1 ms = Some (x, a)" and "x \<le> s"
proof -
  from assms(1) obtain x where x: "struct_layout env 0 1 ms = Some (x, a)" and "s = align_up a x"
    by (auto simp: pad_end_def)
  with layout_aligned(2) [OF x assms(2)] that show thesis by (simp add: align_up_ge)
qed

lemma nested_union_layout:
  assumes "member_layout env (Nested_Union n ms) = Some (s, a)" and "aligned_env env"
  obtains x where "union_layout env 0 1 ms = Some (x, a)" and "x \<le> s"
proof -
  from assms(1) obtain x where x: "union_layout env 0 1 ms = Some (x, a)" and "s = align_up a x"
    by (auto simp: pad_end_def)
  with layout_aligned(3) [OF x assms(2)] that show thesis by (simp add: align_up_ge)
qed

lemma member_within:
  "(x, o', k) \<in> set (member_places env at m) \<Longrightarrow> member_layout env m = Some (s, a) \<Longrightarrow> aligned_env env \<Longrightarrow>
     at \<le> o' \<and> o' + k \<le> at + s"
  "(x, o', k) \<in> set (struct_places env at off ms) \<Longrightarrow> struct_layout env off al ms = Some (s, a) \<Longrightarrow>
     aligned_env env \<Longrightarrow> 0 < al \<Longrightarrow> at + off \<le> o' \<and> o' + k \<le> at + s"
  "(x, o', k) \<in> set (union_places env at ms) \<Longrightarrow> union_layout env off al ms = Some (s, a) \<Longrightarrow>
     aligned_env env \<Longrightarrow> 0 < al \<Longrightarrow> at \<le> o' \<and> o' + k \<le> at + s"
proof (induction env at m and env at off ms and env at ms arbitrary: s a and al s a and off al s a
    rule: member_places_struct_places_union_places.induct)
  case (3 env at n ms)
  show ?case
  proof (cases "n = []")
    case True
    obtain y where "struct_layout env 0 1 ms = Some (y, a)" and "y \<le> s"
      by (rule nested_struct_layout [OF "3.prems"(2,3)])
    with True 3 show ?thesis by fastforce
  next
    case False with 3 show ?thesis by (auto split: option.splits)
  qed
next
  case (4 env at n ms)
  show ?case
  proof (cases "n = []")
    case True
    obtain y where "union_layout env 0 1 ms = Some (y, a)" and "y \<le> s"
      by (rule nested_union_layout [OF "4.prems"(2,3)])
    with True 4 show ?thesis by fastforce
  next
    case False with 4 show ?thesis by (auto split: option.splits)
  qed
next
  case (6 env at off m ms)
  then obtain l b where mb: "member_layout env m = Some (l, b)"
    and rest: "struct_layout env (align_up b off + l) (max al b) ms = Some (s, a)"
    by (auto split: option.splits)
  have b: "off \<le> align_up b off" using align_up_ge layout_aligned(1) [OF mb "6.prems"(3)] by blast
  have grows: "align_up b off + l \<le> s" by (rule struct_layout_grows [OF rest "6.prems"(3)])
  from "6.prems"(1) mb consider "(x, o', k) \<in> set (member_places env (at + align_up b off) m)"
    | "(x, o', k) \<in> set (struct_places env at (align_up b off + l) ms)" by auto
  then show ?case
  proof cases
    case 1 then show ?thesis using "6.IH"(1) [OF mb refl 1 mb "6.prems"(3)] b grows by linarith
  next
    case 2 then show ?thesis using "6.IH"(2) [OF mb refl 2 rest "6.prems"(3)] "6.prems"(4) b by fastforce
  qed
next
  case (8 env at m ms)
  then obtain l b where mb: "member_layout env m = Some (l, b)"
    and rest: "union_layout env (max off l) (max al b) ms = Some (s, a)"
    by (auto split: option.splits)
  have grows: "max off l \<le> s" by (rule union_layout_grows [OF rest])
  from "8.prems"(1) consider "(x, o', k) \<in> set (member_places env at m)"
    | "(x, o', k) \<in> set (union_places env at ms)" by auto
  then show ?case
  proof cases
    case 1 then show ?thesis using "8.IH"(1) [OF 1 mb "8.prems"(3)] grows by linarith
  next
    case 2 then show ?thesis using "8.IH"(2) [OF 2 rest "8.prems"(3)] "8.prems"(4) by simp
  qed
qed (auto split: option.splits)

section \<open>Every declared structure has a layout\<close>

lemma layout_def_names:
  "n \<notin> set (def_names x) \<Longrightarrow> map_of (layout_def x env) n = map_of env n"
  by (cases x) (auto split: option.splits)

lemma layout_defs_names:
  "n \<notin> set (declared_names xs) \<Longrightarrow> map_of (fold layout_def xs env) n = map_of env n"
  by (induction xs arbitrary: env) (simp_all add: declared_names_def layout_def_names)

lemma layouts_extend:
  assumes "distinct (declared_names (ys @ zs))"
  shows "extends (layouts ys) (layouts (ys @ zs))"
proof -
  have "map_of (layouts (ys @ zs)) n = Some x" if x: "map_of (layouts ys) n = Some x" for n x
  proof -
    from x have "n \<in> set (declared_names ys)"
      using layout_defs_names [of n ys "[]"] by (cases "n \<in> set (declared_names ys)") (simp_all add: layouts_def)
    with assms have "n \<notin> set (declared_names zs)" by (auto simp: declared_names_def)
    with x show ?thesis by (simp add: layouts_def layout_defs_names)
  qed
  then show ?thesis by (auto simp: extends_def map_le_def)
qed

lemma layout_def_sized:
  assumes "def_ok d x" and "sized d env"
  shows "sized (declare_def x d) (layout_def x env)"
proof (cases x)
  case (D_Struct tag n ms)
  with assms members_have_layout(2) [of d ms env 0 1] show ?thesis
    by (auto simp: sized_def completes_def struct_size_def)
next
  case (D_Type n t)
  with assms type_has_layout [of d t env] show ?thesis
    by (cases "t = C_Void") (auto simp: sized_def completes_def)
qed (use assms in \<open>auto simp: sized_def completes_def\<close>)

lemma layout_defs_sized:
  "defs_ok d xs \<Longrightarrow> sized d env \<Longrightarrow> sized (fold declare_def xs d) (fold layout_def xs env)"
  by (induction xs arbitrary: d env) (simp_all add: layout_def_sized)

lemma layout_def_aligned: "aligned_env env \<Longrightarrow> aligned_env (layout_def x env)"
proof (cases x)
  case (D_Struct tag n ms)
  moreover assume "aligned_env env"
  ultimately show ?thesis using layout_aligned(2) [of env 0 1 ms]
    by (fastforce simp: aligned_env_def struct_size_def pad_end_def split: option.splits)
next
  case (D_Type n t)
  moreover assume "aligned_env env"
  ultimately show ?thesis using type_layout_aligned [of env t]
    by (fastforce simp: aligned_env_def split: option.splits)
qed (auto simp: aligned_env_def)

lemma layout_defs_aligned: "aligned_env env \<Longrightarrow> aligned_env (fold layout_def xs env)"
  by (induction xs arbitrary: env) (simp_all add: layout_def_aligned)

lemma layouts_aligned: "aligned_env (layouts xs)"
  unfolding layouts_def by (rule layout_defs_aligned) (simp add: aligned_env_def)

lemma layouts_sized: "well_declared xs \<Longrightarrow> sized (declares xs) (layouts xs)"
  unfolding layouts_def declares_def well_declared_def
  by (rule layout_defs_sized) (simp_all add: sized_def completes_def nothing_declared_def)

lemma defs_ok_append: "defs_ok d (xs @ ys) \<longleftrightarrow> defs_ok d xs \<and> defs_ok (fold declare_def xs d) ys"
  by (induction xs arbitrary: d) simp_all

text \<open>
  The layout that a structure gets where it is declared is the one that its members have in the end.
\<close>

lemma declared_before:
  assumes "well_declared xs" and "x \<in> set xs"
  obtains ys where "well_declared ys" and "def_ok (declares ys) x"
    and "extends (layouts ys) (layouts xs)" and "extends (layout_def x (layouts ys)) (layouts xs)"
proof -
  from assms(2) obtain ys zs where xs: "xs = ys @ x # zs" by (auto dest: split_list)
  then have xs': "xs = (ys @ [x]) @ zs" by simp
  from assms(1) have names: "distinct (declared_names xs)" by (simp add: well_declared_def)
  have "extends (layouts ys) (layouts xs)" "extends (layouts (ys @ [x])) (layouts xs)"
    using layouts_extend [of ys "x # zs"] layouts_extend [of "ys @ [x]" zs] names xs xs' by simp_all
  moreover have "well_declared ys" "def_ok (declares ys) x"
    using assms(1) by (auto simp: xs well_declared_def defs_ok_append declared_names_def declares_def)
  ultimately show thesis by (intro that) (simp_all add: layouts_def)
qed

lemma structure_layout:
  assumes ok: "well_declared xs" and x: "D_Struct tag n ms \<in> set xs"
  obtains s where "struct_size (layouts xs) ms = Some s" and "map_of (layouts xs) n = Some s"
proof -
  from ok x obtain ys where ys: "well_declared ys" and ms: "def_ok (declares ys) (D_Struct tag n ms)"
    and ext: "extends (layouts ys) (layouts xs)"
      "extends (layout_def (D_Struct tag n ms) (layouts ys)) (layouts xs)"
    by (rule declared_before)
  obtain l where l: "struct_layout (layouts ys) 0 1 ms = Some l"
    using ms members_have_layout(2) [OF _ layouts_sized [OF ys], of ms 0 1] by auto
  have "struct_size (layouts xs) ms = Some (pad_end l)"
    using layout_extends(2) [OF l ext(1)] by (simp add: struct_size_def)
  moreover have "map_of (layouts xs) n = Some (pad_end l)"
    using l by (intro extendsD [OF ext(2)]) (simp add: struct_size_def)
  ultimately show thesis by (rule that)
qed

text \<open>Another name for a type has its layout, and an enumeration that of an \<^verbatim>\<open>int\<close>.\<close>

lemma alias_layout:
  assumes ok: "well_declared xs" and x: "D_Type n t \<in> set xs" and t: "t \<noteq> C_Void"
  shows "map_of (layouts xs) n = type_layout (layouts xs) t"
proof -
  from ok x obtain ys where ys: "well_declared ys" and dt: "def_ok (declares ys) (D_Type n t)"
    and ext: "extends (layouts ys) (layouts xs)" "extends (layout_def (D_Type n t) (layouts ys)) (layouts xs)"
    by (rule declared_before)
  obtain l where l: "type_layout (layouts ys) t = Some l"
    using t dt type_has_layout [OF _ layouts_sized [OF ys], of t] by auto
  have "type_layout (layouts xs) t = Some l" by (rule type_layout_extends [OF l ext(1)])
  moreover have "map_of (layouts xs) n = Some l" using l by (intro extendsD [OF ext(2)]) simp
  ultimately show ?thesis by simp
qed

lemma enum_layout:
  assumes "well_declared xs" and "D_Enum n cs \<in> set xs"
  shows "map_of (layouts xs) n = Some (4, 4)"
  using assms by (rule declared_before) (auto dest: extendsD)

text \<open>Its members lie inside it, and its size is a multiple of its alignment.\<close>

lemma structure_holds_members:
  assumes "struct_size (layouts xs) ms = Some (s, a)" and "(f, at, k) \<in> set (struct_places (layouts xs) 0 0 ms)"
  shows "at + k \<le> s"
proof -
  have size: "member_layout (layouts xs) (Nested_Struct [] ms) = Some (s, a)"
    using assms(1) by (simp add: struct_size_def)
  show ?thesis
    using member_within(1) [of f at k "layouts xs" 0 "Nested_Struct [] ms", OF _ size layouts_aligned] assms(2)
    by simp
qed

lemma structure_size_aligned:
  "struct_size env ms = Some (s, a) \<Longrightarrow> a dvd s"
  by (auto simp: struct_size_def pad_end_def align_up_dvd)

lemma function_layout:
  assumes "well_declared xs" and "D_Type n (C_Fun r ps) \<in> set xs"
  shows "map_of (layouts xs) n = Some (8, 8)"
  using alias_layout [OF assms] by simp

section \<open>Looking names up\<close>

text \<open>A declaration is known after all the groups that follow its own.\<close>

lemma declare_def_keeps:
  "completes d n \<Longrightarrow> completes (declare_def x d) n" "knows d n \<Longrightarrow> knows (declare_def x d) n"
  by (cases x; auto simp: completes_def knows_def; fail)+

lemma declare_defs_keep:
  "completes d n \<Longrightarrow> completes (fold declare_def xs d) n" "knows d n \<Longrightarrow> knows (fold declare_def xs d) n"
  by (induction xs arbitrary: d) (simp_all add: declare_def_keeps)

lemma completes_knows: "completes d n \<Longrightarrow> knows d n"
  by (simp add: completes_def knows_def)

lemma completes_simps [simp]:
  "completes (declare_def (D_Opaque m) d) n \<longleftrightarrow> completes d n"
  "completes (declare_def (D_Tag m) d) n \<longleftrightarrow> completes d n"
  "completes (declare_def (D_Struct tag m ms) d) n \<longleftrightarrow> n = m \<or> completes d n"
  "completes (declare_def (D_Enum m cs) d) n \<longleftrightarrow> n = m \<or> completes d n"
  "completes (declare_def (D_Type m t) d) n \<longleftrightarrow> t \<noteq> C_Void \<and> n = m \<or> completes d n"
  "completes (declare_def (D_Const m v) d) n \<longleftrightarrow> completes d n"
  "completes (declare_def (D_Init m ps fs) d) n \<longleftrightarrow> completes d n"
  by (auto simp: completes_def)

lemma knows_simps [simp]:
  "knows (declare_def (D_Opaque m) d) n \<longleftrightarrow> n = m \<or> knows d n"
  "knows (declare_def (D_Tag m) d) n \<longleftrightarrow> knows d n"
  "knows (declare_def (D_Struct tag m ms) d) n \<longleftrightarrow> n = m \<or> knows d n"
  "knows (declare_def (D_Enum m cs) d) n \<longleftrightarrow> n = m \<or> knows d n"
  "knows (declare_def (D_Type m t) d) n \<longleftrightarrow> n = m \<or> knows d n"
  "knows (declare_def (D_Const m v) d) n \<longleftrightarrow> knows d n"
  "knows (declare_def (D_Init m ps fs) d) n \<longleftrightarrow> knows d n"
  by (auto simp: knows_def)

declare declare_def.simps [simp del]

text \<open>Names are distinct when their numbers in a positional system are.\<close>

definition name_number :: "string \<Rightarrow> int" where
  "name_number s = fold (\<lambda>c n. 31 * n + of_char c) s 0"

lemma distinct_names: "distinct (map name_number xs) \<Longrightarrow> distinct xs"
  by (simp add: distinct_map)

section \<open>Looking structures up\<close>

lemma members_of_append:
  "members_of (xs @ ys) n = (case members_of xs n of None \<Rightarrow> members_of ys n | Some ms \<Rightarrow> Some ms)"
  by (induction xs n rule: members_of.induct) simp_all

lemma members_of_SomeD: "members_of g n = Some ms \<Longrightarrow> \<exists>tag. D_Struct tag n ms \<in> set g"
  by (induction g n rule: members_of.induct) (auto split: if_splits)

lemma members_of_struct:
  assumes "well_declared xs" and "D_Struct tag n ms \<in> set xs"
  shows "members_of xs n = Some ms"
proof -
  have "distinct (declared_names xs)" using assms(1) by (simp add: well_declared_def)
  then show ?thesis using assms(2)
    by (induction xs n rule: members_of.induct) (auto simp: declared_names_def)
qed

lemma places_of_struct:
  "well_declared xs \<Longrightarrow> D_Struct tag n ms \<in> set xs \<Longrightarrow> places_of xs n = struct_places (layouts xs) 0 0 ms"
  by (simp add: places_of_def members_of_struct)

lemma current_versions_append: "current_versions (xs @ ys) = current_versions xs @ current_versions ys"
  by (induction xs rule: current_versions.induct) simp_all

lemma initialisers_append: "initialisers (xs @ ys) = initialisers xs @ initialisers ys"
  by (induction xs rule: initialisers.induct) simp_all

lemma constants_append: "constants (xs @ ys) = constants xs @ constants ys"
  by (induction xs rule: constants.induct) simp_all

text \<open>Layouts are evaluated with these equations only.\<close>

declare struct_layout.simps [simp del] union_layout.simps [simp del] struct_places.simps [simp del]
  union_places.simps [simp del] member_layout.simps [simp del] member_places.simps [simp del]

lemmas layout_simps = struct_size_def pad_end_def member_layout.simps struct_layout.simps union_layout.simps
  member_places.simps struct_places.simps union_places.simps type_layout.simps
  option.case prod.case option.map fst_conv snd_conv append.simps if_True if_False simp_thms
  list.distinct

lemma align_up_8: "align_up 8 (numeral n) = (numeral n + 7) div 8 * 8" "align_up 8 0 = 0" "align_up 8 1 = 8"
  "align_up 4 (numeral n) = (numeral n + 3) div 4 * 4" "align_up 4 0 = 0" 
  "align_up 2 (numeral n) = (numeral n + 1) div 2 * 2" "align_up 1 m = m"
  by (simp_all add: align_up_def)

end
