(* ===== verification/Header_Types.thy ===== *)
theory Header_Types
  imports C_Types Header_Constants
begin

text \<open>
  The types that \<^verbatim>\<open>include/redismodule.h\<close> and
  \<^verbatim>\<open>include/valkeymodule.h\<close> declare, in the order of the files and without the
  prefix of the server's name: structures, enumerations, callbacks, the names that a macro gives
  to the current version of a structure, and the initialisers.
\<close>

section \<open>Redis\<close>

definition redis_types_incomplete :: "c_def list" where
  "redis_types_incomplete = [
     D_Opaque ''Ctx'',
     D_Opaque ''Key'',
     D_Opaque ''String'',
     D_Opaque ''CallReply'',
     D_Opaque ''IO'',
     D_Opaque ''Type'',
     D_Opaque ''Digest'',
     D_Opaque ''BlockedClient'']"

definition redis_types_functions :: "c_def list" where
  "redis_types_functions = [
     D_Type ''CmdFunc'' (C_Fun C_Int [C_Ptr (C_Api ''Ctx''), C_Ptr (C_Ptr (C_Api ''String'')),
         C_Int]),
     D_Type ''TypeLoadFunc'' (C_Fun (C_Ptr C_Void) [C_Ptr (C_Api ''IO''), C_Int]),
     D_Type ''TypeSaveFunc'' (C_Fun C_Void [C_Ptr (C_Api ''IO''), C_Ptr C_Void]),
     D_Type ''TypeRewriteFunc'' (C_Fun C_Void [C_Ptr (C_Api ''IO''), C_Ptr (C_Api ''String''), C_Ptr
         C_Void]),
     D_Type ''TypeDigestFunc'' (C_Fun C_Void [C_Ptr (C_Api ''Digest''), C_Ptr C_Void]),
     D_Type ''TypeFreeFunc'' (C_Fun C_Void [C_Ptr C_Void])]"

definition redis_types :: "c_def list" where
  "redis_types = redis_types_incomplete @ redis_types_functions"

section \<open>Valkey\<close>

definition valkey_types_strings :: "c_def list" where
  "valkey_types_strings = [
     D_Opaque ''String'',
     D_Opaque ''Key'']"

definition valkey_types_stream :: "c_def list" where
  "valkey_types_stream = [
     D_Struct ''StreamID'' ''StreamID'' [
         Field ''ms'' C_UInt64,
         Field ''seq'' C_UInt64]]"

definition valkey_types_timer :: "c_def list" where
  "valkey_types_timer = [
     D_Type ''TimerID'' C_UInt64]"

definition valkey_types_args :: "c_def list" where
  "valkey_types_args = [
     D_Enum ''CommandArgType'' [(''ARG_TYPE_STRING'', 0), (''ARG_TYPE_INTEGER'', 1),
         (''ARG_TYPE_DOUBLE'', 2), (''ARG_TYPE_KEY'', 3), (''ARG_TYPE_PATTERN'', 4),
         (''ARG_TYPE_UNIX_TIME'', 5), (''ARG_TYPE_PURE_TOKEN'', 6), (''ARG_TYPE_ONEOF'', 7),
         (''ARG_TYPE_BLOCK'', 8)]]"

definition valkey_types_specs :: "c_def list" where
  "valkey_types_specs = [
     D_Enum ''KeySpecBeginSearchType'' [(''KSPEC_BS_INVALID'', 0), (''KSPEC_BS_UNKNOWN'', 1),
         (''KSPEC_BS_INDEX'', 2), (''KSPEC_BS_KEYWORD'', 3)],
     D_Enum ''KeySpecFindKeysType'' [(''KSPEC_FK_OMITTED'', 0), (''KSPEC_FK_UNKNOWN'', 1),
         (''KSPEC_FK_RANGE'', 2), (''KSPEC_FK_KEYNUM'', 3)]]"

definition valkey_types_command :: "c_def list" where
  "valkey_types_command = [
     D_Struct ''CommandArg'' ''CommandArg'' [
         Field ''name'' (C_Ptr (C_Const C_Char)),
         Field ''type'' (C_Api ''CommandArgType''),
         Field ''key_spec_index'' C_Int,
         Field ''token'' (C_Ptr (C_Const C_Char)),
         Field ''summary'' (C_Ptr (C_Const C_Char)),
         Field ''since'' (C_Ptr (C_Const C_Char)),
         Field ''flags'' C_Int,
         Field ''deprecated_since'' (C_Ptr (C_Const C_Char)),
         Field ''subargs'' (C_Ptr (C_Struct ''CommandArg'')),
         Field ''display_text'' (C_Ptr (C_Const C_Char))],
     D_Struct '''' ''CommandHistoryEntry'' [
         Field ''since'' (C_Ptr (C_Const C_Char)),
         Field ''changes'' (C_Ptr (C_Const C_Char))],
     D_Struct '''' ''CommandKeySpec'' [
         Field ''notes'' (C_Ptr (C_Const C_Char)),
         Field ''flags'' C_UInt64,
         Field ''begin_search_type'' (C_Api ''KeySpecBeginSearchType''),
         Nested_Union ''bs'' [Nested_Struct ''index'' [Field ''pos'' C_Int], Nested_Struct ''keyword''
             [Field ''keyword'' (C_Ptr (C_Const C_Char)), Field ''startfrom'' C_Int]],
         Field ''find_keys_type'' (C_Api ''KeySpecFindKeysType''),
         Nested_Union ''fk'' [Nested_Struct ''range'' [Field ''lastkey'' C_Int, Field ''keystep'' C_Int,
             Field ''limit'' C_Int], Nested_Struct ''keynum'' [Field ''keynumidx'' C_Int, Field ''firstkey''
             C_Int, Field ''keystep'' C_Int]]],
     D_Struct '''' ''CommandInfoVersion'' [
         Field ''version'' C_Int,
         Field ''sizeof_historyentry'' C_Size,
         Field ''sizeof_keyspec'' C_Size,
         Field ''sizeof_arg'' C_Size]]"

definition valkey_types_info :: "c_def list" where
  "valkey_types_info = [
     D_Struct '''' ''CommandInfo'' [
         Field ''version'' (C_Ptr (C_Const (C_Api ''CommandInfoVersion''))),
         Field ''summary'' (C_Ptr (C_Const C_Char)),
         Field ''complexity'' (C_Ptr (C_Const C_Char)),
         Field ''since'' (C_Ptr (C_Const C_Char)),
         Field ''history'' (C_Ptr (C_Api ''CommandHistoryEntry'')),
         Field ''tips'' (C_Ptr (C_Const C_Char)),
         Field ''arity'' C_Int,
         Field ''key_specs'' (C_Ptr (C_Api ''CommandKeySpec'')),
         Field ''args'' (C_Ptr (C_Api ''CommandArg''))]]"

definition valkey_types_loop :: "c_def list" where
  "valkey_types_loop = [
     D_Type ''EventLoopFunc'' (C_Fun C_Void [C_Int, C_Ptr C_Void, C_Int]),
     D_Type ''EventLoopOneShotFunc'' (C_Fun C_Void [C_Ptr C_Void])]"

definition valkey_types_event :: "c_def list" where
  "valkey_types_event = [
     D_Struct ''Event'' ''Event'' [
         Field ''id'' C_UInt64,
         Field ''dataver'' C_UInt64],
     D_Tag ''Ctx'',
     D_Tag ''DefragCtx'',
     D_Type ''EventCallback'' (C_Fun C_Void [C_Ptr (C_Struct ''Ctx''), C_Api ''Event'', C_UInt64,
         C_Ptr C_Void])]"

definition valkey_types_server :: "c_def list" where
  "valkey_types_server = [
     D_Const ''CLIENTINFO_VERSION'' 1,
     D_Struct ''ClientInfo'' ''ClientInfoV1'' [
         Field ''version'' C_UInt64,
         Field ''flags'' C_UInt64,
         Field ''id'' C_UInt64,
         Field_Array ''addr'' C_Char 46,
         Field ''port'' C_UInt16,
         Field ''db'' C_UInt16],
     D_Type ''ClientInfo'' (C_Api ''ClientInfoV1''),
     D_Init ''CLIENTINFO_INITIALIZER_V1'' [] [(''version'', Init_Int 1)],
     D_Const ''REPLICATIONINFO_VERSION'' 1,
     D_Struct ''ReplicationInfo'' ''ReplicationInfoV1'' [
         Field ''version'' C_UInt64,
         Field ''primary'' C_Int,
         Field ''primary_host'' (C_Ptr C_Char),
         Field ''primary_port'' C_Int,
         Field ''replid1'' (C_Ptr C_Char),
         Field ''replid2'' (C_Ptr C_Char),
         Field ''repl1_offset'' C_UInt64,
         Field ''repl2_offset'' C_UInt64],
     D_Type ''ReplicationInfo'' (C_Api ''ReplicationInfoV1''),
     D_Const ''FLUSHINFO_VERSION'' 1,
     D_Struct ''FlushInfo'' ''FlushInfoV1'' [
         Field ''version'' C_UInt64,
         Field ''sync'' C_Int32,
         Field ''dbnum'' C_Int32],
     D_Type ''FlushInfo'' (C_Api ''FlushInfoV1''),
     D_Const ''MODULE_CHANGE_VERSION'' 1,
     D_Struct ''ModuleChange'' ''ModuleChangeV1'' [
         Field ''version'' C_UInt64,
         Field ''module_name'' (C_Ptr (C_Const C_Char)),
         Field ''module_version'' C_Int32],
     D_Type ''ModuleChange'' (C_Api ''ModuleChangeV1''),
     D_Const ''CONFIGCHANGE_VERSION'' 1,
     D_Struct ''ConfigChange'' ''ConfigChangeV1'' [
         Field ''version'' C_UInt64,
         Field ''num_changes'' C_UInt32,
         Field ''config_names'' (C_Ptr (C_Ptr (C_Const C_Char)))],
     D_Type ''ConfigChange'' (C_Api ''ConfigChangeV1''),
     D_Const ''CRON_LOOP_VERSION'' 1,
     D_Struct ''CronLoopInfo'' ''CronLoopV1'' [
         Field ''version'' C_UInt64,
         Field ''hz'' C_Int32],
     D_Type ''CronLoop'' (C_Api ''CronLoopV1''),
     D_Const ''LOADING_PROGRESS_VERSION'' 1,
     D_Struct ''LoadingProgressInfo'' ''LoadingProgressV1'' [
         Field ''version'' C_UInt64,
         Field ''hz'' C_Int32,
         Field ''progress'' C_Int32],
     D_Type ''LoadingProgress'' (C_Api ''LoadingProgressV1''),
     D_Const ''SWAPDBINFO_VERSION'' 1,
     D_Struct ''SwapDbInfo'' ''SwapDbInfoV1'' [
         Field ''version'' C_UInt64,
         Field ''dbnum_first'' C_Int32,
         Field ''dbnum_second'' C_Int32],
     D_Type ''SwapDbInfo'' (C_Api ''SwapDbInfoV1''),
     D_Const ''KEYINFO_VERSION'' 1,
     D_Struct ''KeyInfo'' ''KeyInfoV1'' [
         Field ''version'' C_UInt64,
         Field ''key'' (C_Ptr (C_Api ''Key''))],
     D_Type ''KeyInfo'' (C_Api ''KeyInfoV1'')]"

definition valkey_types_auth :: "c_def list" where
  "valkey_types_auth = [
     D_Const ''AUTHENTICATION_INFO_VERSION'' 1,
     D_Enum ''AuthenticationResult'' [(''AUTH_RESULT_GRANTED'', 0), (''AUTH_RESULT_DENIED'', 1)],
     D_Struct ''AuthenticationInfo'' ''AuthenticationInfoV1'' [
         Field ''version'' C_UInt64,
         Field ''client_id'' C_UInt64,
         Field ''username'' (C_Ptr (C_Const C_Char)),
         Field ''module_name'' (C_Ptr (C_Const C_Char)),
         Field ''result'' (C_Api ''AuthenticationResult'')],
     D_Type ''AuthenticationInfo'' (C_Api ''AuthenticationInfoV1''),
     D_Init ''AUTHENTICATIONINFO_INITIALIZER_V1'' [] [(''version'', Init_Int 1)],
     D_Const ''ATOMICSLOTMIGRATION_INFO_VERSION'' 1,
     D_Struct ''SlotRange'' ''SlotRange'' [
         Field ''start'' C_Int,
         Field ''end'' C_Int],
     D_Struct ''AtomicSlotMigrationInfo'' ''AtomicSlotMigrationInfoV1'' [
         Field ''version'' C_UInt64,
         Field_Array ''job_name'' C_Char (nat valkey_node_id_len + 1),
         Field ''slot_ranges'' (C_Ptr (C_Api ''SlotRange'')),
         Field ''num_slot_ranges'' C_UInt32],
     D_Type ''AtomicSlotMigrationInfo'' (C_Api ''AtomicSlotMigrationInfoV1''),
     D_Init ''ATOMICSLOTMIGRATIONINFO_INITIALIZER_V1'' [] [(''version'', Init_Int 1)],
     D_Enum ''ACLLogEntryReason'' [(''ACL_LOG_AUTH'', 0), (''ACL_LOG_CMD'', 1), (''ACL_LOG_KEY'', 2),
         (''ACL_LOG_CHANNEL'', 3)]]"

definition valkey_types_functions :: "c_def list" where
  "valkey_types_functions = [
     D_Opaque ''Ctx'',
     D_Opaque ''IO'',
     D_Opaque ''Digest'',
     D_Opaque ''InfoCtx'',
     D_Opaque ''DefragCtx'',
     D_Type ''InfoFunc'' (C_Fun C_Void [C_Ptr (C_Api ''InfoCtx''), C_Int]),
     D_Type ''DefragFunc'' (C_Fun C_Void [C_Ptr (C_Api ''DefragCtx'')]),
     D_Type ''UserChangedFunc'' (C_Fun C_Void [C_UInt64, C_Ptr C_Void])]"

definition valkey_types_script :: "c_def list" where
  "valkey_types_script = [
     D_Type ''ScriptingEngineCtx'' C_Void,
     D_Type ''ScriptingEngineServerRuntimeCtx'' C_Void,
     D_Const ''SCRIPTING_ENGINE_ABI_COMPILED_FUNCTION_VERSION'' 1,
     D_Struct ''ScriptingEngineCompiledFunction'' ''ScriptingEngineCompiledFunctionV1'' [
         Field ''version'' C_UInt64,
         Field ''name'' (C_Ptr (C_Api ''String'')),
         Field ''function'' (C_Ptr C_Void),
         Field ''desc'' (C_Ptr (C_Api ''String'')),
         Field ''f_flags'' C_UInt64],
     D_Type ''ScriptingEngineCompiledFunction'' (C_Api ''ScriptingEngineCompiledFunctionV1''),
     D_Const ''SCRIPTING_ENGINE_ABI_MEMORY_INFO_VERSION'' 1,
     D_Struct ''ScriptingEngineMemoryInfo'' ''ScriptingEngineMemoryInfoV1'' [
         Field ''version'' C_UInt64,
         Field ''used_memory'' C_Size,
         Field ''engine_memory_overhead'' C_Size],
     D_Type ''ScriptingEngineMemoryInfo'' (C_Api ''ScriptingEngineMemoryInfoV1''),
     D_Enum ''ScriptingEngineSubsystemType'' [(''VMSE_EVAL'', 0), (''VMSE_FUNCTION'', 1),
         (''VMSE_ALL'', 2)],
     D_Enum ''ScriptingEngineExecutionState'' [(''VMSE_STATE_EXECUTING'', 0), (''VMSE_STATE_KILLED'',
         1)],
     D_Struct ''ScriptingEngineCallableLazyEnvReset'' ''ScriptingEngineCallableLazyEnvReset'' [
         Field ''context'' (C_Ptr C_Void),
         Field ''engineLazyEnvResetCallback'' (C_Fun C_Void [C_Ptr C_Void])]]"

definition valkey_types_callbacks :: "c_def list" where
  "valkey_types_callbacks = [
     D_Type ''ScriptingEngineCompileCodeFunc'' (C_Fun (C_Ptr (C_Ptr (C_Api
         ''ScriptingEngineCompiledFunction''))) [C_Ptr (C_Api ''Ctx''), C_Ptr (C_Api
         ''ScriptingEngineCtx''), C_Api ''ScriptingEngineSubsystemType'', C_Ptr (C_Const C_Char), C_Size,
         C_Size, C_Ptr C_Size, C_Ptr (C_Ptr (C_Api ''String''))]),
     D_Type ''ScriptingEngineCompileCodeFuncV1'' (C_Fun (C_Ptr (C_Ptr (C_Api
         ''ScriptingEngineCompiledFunctionV1''))) [C_Ptr (C_Api ''Ctx''), C_Ptr (C_Api
         ''ScriptingEngineCtx''), C_Api ''ScriptingEngineSubsystemType'', C_Ptr (C_Const C_Char), C_Size,
         C_Ptr C_Size, C_Ptr (C_Ptr (C_Api ''String''))]),
     D_Type ''ScriptingEngineFreeFunctionFunc'' (C_Fun C_Void [C_Ptr (C_Api ''Ctx''), C_Ptr (C_Api
         ''ScriptingEngineCtx''), C_Api ''ScriptingEngineSubsystemType'', C_Ptr (C_Api
         ''ScriptingEngineCompiledFunction'')]),
     D_Type ''ScriptingEngineCallFunctionFunc'' (C_Fun C_Void [C_Ptr (C_Api ''Ctx''), C_Ptr (C_Api
         ''ScriptingEngineCtx''), C_Ptr (C_Api ''ScriptingEngineServerRuntimeCtx''), C_Ptr (C_Api
         ''ScriptingEngineCompiledFunction''), C_Api ''ScriptingEngineSubsystemType'', C_Ptr (C_Ptr
         (C_Api ''String'')), C_Size, C_Ptr (C_Ptr (C_Api ''String'')), C_Size]),
     D_Type ''ScriptingEngineGetFunctionMemoryOverheadFunc'' (C_Fun C_Size [C_Ptr (C_Api ''Ctx''),
         C_Ptr (C_Api ''ScriptingEngineCompiledFunction'')]),
     D_Type ''ScriptingEngineResetEvalFuncV2'' (C_Fun (C_Ptr (C_Api
         ''ScriptingEngineCallableLazyEnvReset'')) [C_Ptr (C_Api ''Ctx''), C_Ptr (C_Api
         ''ScriptingEngineCtx''), C_Int]),
     D_Type ''ScriptingEngineResetEnvFunc'' (C_Fun (C_Ptr (C_Api
         ''ScriptingEngineCallableLazyEnvReset'')) [C_Ptr (C_Api ''Ctx''), C_Ptr (C_Api
         ''ScriptingEngineCtx''), C_Api ''ScriptingEngineSubsystemType'', C_Int]),
     D_Type ''ScriptingEngineGetMemoryInfoFunc'' (C_Fun (C_Api ''ScriptingEngineMemoryInfo'') [C_Ptr
         (C_Api ''Ctx''), C_Ptr (C_Api ''ScriptingEngineCtx''), C_Api ''ScriptingEngineSubsystemType''])]"

definition valkey_types_debugger :: "c_def list" where
  "valkey_types_debugger = [
     D_Enum ''ScriptingEngineDebuggerEnableRet'' [(''VMSE_DEBUG_NOT_SUPPORTED'', 0),
         (''VMSE_DEBUG_ENABLED'', 1), (''VMSE_DEBUG_ENABLE_FAIL'', 2)],
     D_Type ''ScriptingEngineDebuggerCommandHandlerFunc'' (C_Fun C_Int [C_Ptr (C_Ptr (C_Api
         ''String'')), C_Size, C_Ptr C_Void]),
     D_Const ''SCRIPTING_ENGINE_ABI_DEBUGGER_COMMAND_VERSION'' 1,
     D_Struct ''ScriptingEngineDebuggerCommandParam'' ''ScriptingEngineDebuggerCommandParam'' [
         Field ''name'' (C_Ptr (C_Const C_Char)),
         Field ''optional'' C_Int,
         Field ''variadic'' C_Int],
     D_Struct ''ScriptingEngineDebuggerCommand'' ''ScriptingEngineDebuggerCommandV1'' [
         Field ''version'' C_UInt64,
         Field ''name'' (C_Ptr (C_Const C_Char)),
         Field ''prefix_len'' (C_Const C_Size),
         Field ''params'' (C_Ptr (C_Const (C_Api ''ScriptingEngineDebuggerCommandParam''))),
         Field ''params_len'' C_Size,
         Field ''desc'' (C_Ptr (C_Const C_Char)),
         Field ''invisible'' C_Int,
         Field ''handler'' (C_Api ''ScriptingEngineDebuggerCommandHandlerFunc''),
         Field ''context'' (C_Ptr C_Void)],
     D_Type ''ScriptingEngineDebuggerCommand'' (C_Api ''ScriptingEngineDebuggerCommandV1''),
     D_Init ''SCRIPTING_ENGINE_DEBUGGER_COMMAND'' [''NAME'', ''PREFIX'', ''PARAMS'', ''PARAMS_LEN'',
         ''DESC'', ''INVISIBLE'', ''HANDLER''] [(''version'', Init_Const
         ''SCRIPTING_ENGINE_ABI_DEBUGGER_COMMAND_VERSION''), (''name'', Init_Param ''NAME''),
         (''prefix_len'', Init_Param ''PREFIX''), (''params'', Init_Param ''PARAMS''), (''params_len'',
         Init_Param ''PARAMS_LEN''), (''desc'', Init_Param ''DESC''), (''invisible'', Init_Param
         ''INVISIBLE''), (''handler'', Init_Param ''HANDLER''), (''context'', Init_Null)],
     D_Init ''SCRIPTING_ENGINE_DEBUGGER_COMMAND_WITH_CTX'' [''NAME'', ''PREFIX'', ''PARAMS'',
         ''PARAMS_LEN'', ''DESC'', ''INVISIBLE'', ''HANDLER'', ''CTX''] [(''version'', Init_Const
         ''SCRIPTING_ENGINE_ABI_DEBUGGER_COMMAND_VERSION''), (''name'', Init_Param ''NAME''),
         (''prefix_len'', Init_Param ''PREFIX''), (''params'', Init_Param ''PARAMS''), (''params_len'',
         Init_Param ''PARAMS_LEN''), (''desc'', Init_Param ''DESC''), (''invisible'', Init_Param
         ''INVISIBLE''), (''handler'', Init_Param ''HANDLER''), (''context'', Init_Param ''CTX'')]]"

definition valkey_types_debug_callbacks :: "c_def list" where
  "valkey_types_debug_callbacks = [
     D_Type ''ScriptingEngineDebuggerEnableFunc'' (C_Fun (C_Api ''ScriptingEngineDebuggerEnableRet'')
         [C_Ptr (C_Api ''Ctx''), C_Ptr (C_Api ''ScriptingEngineCtx''), C_Api
         ''ScriptingEngineSubsystemType'', C_Ptr (C_Ptr (C_Const (C_Api
         ''ScriptingEngineDebuggerCommand''))), C_Ptr C_Size]),
     D_Type ''ScriptingEngineDebuggerDisableFunc'' (C_Fun C_Void [C_Ptr (C_Api ''Ctx''), C_Ptr (C_Api
         ''ScriptingEngineCtx''), C_Api ''ScriptingEngineSubsystemType'']),
     D_Type ''ScriptingEngineDebuggerStartFunc'' (C_Fun C_Void [C_Ptr (C_Api ''Ctx''), C_Ptr (C_Api
         ''ScriptingEngineCtx''), C_Api ''ScriptingEngineSubsystemType'', C_Ptr (C_Api ''String'')]),
     D_Type ''ScriptingEngineDebuggerEndFunc'' (C_Fun C_Void [C_Ptr (C_Api ''Ctx''), C_Ptr (C_Api
         ''ScriptingEngineCtx''), C_Api ''ScriptingEngineSubsystemType''])]"

definition script_methods_v3 :: c_member where
  "script_methods_v3 =
     Nested_Struct '''' [Nested_Union '''' [Field ''compile_code_v1'' (C_Api
       ''ScriptingEngineCompileCodeFuncV1''), Field ''compile_code'' (C_Api
       ''ScriptingEngineCompileCodeFunc'')], Field ''free_function'' (C_Api
       ''ScriptingEngineFreeFunctionFunc''), Field ''call_function'' (C_Api
       ''ScriptingEngineCallFunctionFunc''), Field ''get_function_memory_overhead'' (C_Api
       ''ScriptingEngineGetFunctionMemoryOverheadFunc''), Nested_Union '''' [Field
       ''reset_eval_env_v2'' (C_Api ''ScriptingEngineResetEvalFuncV2''), Field ''reset_env'' (C_Api
       ''ScriptingEngineResetEnvFunc'')], Field ''get_memory_info'' (C_Api
       ''ScriptingEngineGetMemoryInfoFunc'')]"

definition valkey_types_methods :: "c_def list" where
  "valkey_types_methods = [
     D_Const ''SCRIPTING_ENGINE_ABI_VERSION'' 4,
     D_Struct ''ScriptingEngineMethods'' ''ScriptingEngineMethodsV3'' [
         Field ''version'' C_UInt64,
         script_methods_v3],
     D_Struct ''ScriptingEngineMethodsV4'' ''ScriptingEngineMethodsV4'' [
         Field ''version'' C_UInt64,
         script_methods_v3,
         Field ''debugger_enable'' (C_Api ''ScriptingEngineDebuggerEnableFunc''),
         Field ''debugger_disable'' (C_Api ''ScriptingEngineDebuggerDisableFunc''),
         Field ''debugger_start'' (C_Api ''ScriptingEngineDebuggerStartFunc''),
         Field ''debugger_end'' (C_Api ''ScriptingEngineDebuggerEndFunc'')],
     D_Type ''ScriptingEngineMethods'' (C_Api ''ScriptingEngineMethodsV4'')]"

definition valkey_types_incomplete :: "c_def list" where
  "valkey_types_incomplete = [
     D_Opaque ''Command'',
     D_Opaque ''CallReply'',
     D_Opaque ''Type'',
     D_Opaque ''BlockedClient'',
     D_Opaque ''ClusterInfo'',
     D_Opaque ''Dict'',
     D_Opaque ''DictIter'',
     D_Opaque ''CommandFilterCtx'',
     D_Opaque ''CommandFilter'',
     D_Opaque ''ServerInfoData'',
     D_Opaque ''ScanCursor'',
     D_Opaque ''User'',
     D_Opaque ''KeyOptCtx'',
     D_Opaque ''RdbStream'']"

definition valkey_types_module :: "c_def list" where
  "valkey_types_module = [
     D_Type ''CmdFunc'' (C_Fun C_Int [C_Ptr (C_Api ''Ctx''), C_Ptr (C_Ptr (C_Api ''String'')),
         C_Int]),
     D_Type ''DisconnectFunc'' (C_Fun C_Void [C_Ptr (C_Api ''Ctx''), C_Ptr (C_Api
         ''BlockedClient'')]),
     D_Type ''NotificationFunc'' (C_Fun C_Int [C_Ptr (C_Api ''Ctx''), C_Int, C_Ptr (C_Const C_Char),
         C_Ptr (C_Api ''String'')]),
     D_Type ''PostNotificationJobFunc'' (C_Fun C_Void [C_Ptr (C_Api ''Ctx''), C_Ptr C_Void]),
     D_Type ''TypeLoadFunc'' (C_Fun (C_Ptr C_Void) [C_Ptr (C_Api ''IO''), C_Int]),
     D_Type ''TypeSaveFunc'' (C_Fun C_Void [C_Ptr (C_Api ''IO''), C_Ptr C_Void]),
     D_Type ''TypeAuxLoadFunc'' (C_Fun C_Int [C_Ptr (C_Api ''IO''), C_Int, C_Int]),
     D_Type ''TypeAuxSaveFunc'' (C_Fun C_Void [C_Ptr (C_Api ''IO''), C_Int]),
     D_Type ''TypeRewriteFunc'' (C_Fun C_Void [C_Ptr (C_Api ''IO''), C_Ptr (C_Api ''String''), C_Ptr
         C_Void]),
     D_Type ''TypeMemUsageFunc'' (C_Fun C_Size [C_Ptr (C_Const C_Void)]),
     D_Type ''TypeMemUsageFunc2'' (C_Fun C_Size [C_Ptr (C_Api ''KeyOptCtx''), C_Ptr (C_Const C_Void),
         C_Size]),
     D_Type ''TypeDigestFunc'' (C_Fun C_Void [C_Ptr (C_Api ''Digest''), C_Ptr C_Void]),
     D_Type ''TypeFreeFunc'' (C_Fun C_Void [C_Ptr C_Void]),
     D_Type ''TypeFreeEffortFunc'' (C_Fun C_Size [C_Ptr (C_Api ''String''), C_Ptr (C_Const C_Void)]),
     D_Type ''TypeFreeEffortFunc2'' (C_Fun C_Size [C_Ptr (C_Api ''KeyOptCtx''), C_Ptr (C_Const
         C_Void)]),
     D_Type ''TypeUnlinkFunc'' (C_Fun C_Void [C_Ptr (C_Api ''String''), C_Ptr (C_Const C_Void)]),
     D_Type ''TypeUnlinkFunc2'' (C_Fun C_Void [C_Ptr (C_Api ''KeyOptCtx''), C_Ptr (C_Const C_Void)]),
     D_Type ''TypeCopyFunc'' (C_Fun (C_Ptr C_Void) [C_Ptr (C_Api ''String''), C_Ptr (C_Api
         ''String''), C_Ptr (C_Const C_Void)]),
     D_Type ''TypeCopyFunc2'' (C_Fun (C_Ptr C_Void) [C_Ptr (C_Api ''KeyOptCtx''), C_Ptr (C_Const
         C_Void)]),
     D_Type ''TypeDefragFunc'' (C_Fun C_Int [C_Ptr (C_Api ''DefragCtx''), C_Ptr (C_Api ''String''),
         C_Ptr (C_Ptr C_Void)]),
     D_Type ''ClusterMessageReceiver'' (C_Fun C_Void [C_Ptr (C_Api ''Ctx''), C_Ptr (C_Const C_Char),
         C_UInt8, C_Ptr (C_Const C_UChar), C_UInt32]),
     D_Type ''TimerProc'' (C_Fun C_Void [C_Ptr (C_Api ''Ctx''), C_Ptr C_Void]),
     D_Type ''CommandFilterFunc'' (C_Fun C_Void [C_Ptr (C_Api ''CommandFilterCtx'')]),
     D_Type ''ForkDoneHandler'' (C_Fun C_Void [C_Int, C_Int, C_Ptr C_Void]),
     D_Type ''ScanCB'' (C_Fun C_Void [C_Ptr (C_Api ''Ctx''), C_Ptr (C_Api ''String''), C_Ptr (C_Api
         ''Key''), C_Ptr C_Void]),
     D_Type ''ScanKeyCB'' (C_Fun C_Void [C_Ptr (C_Api ''Key''), C_Ptr (C_Api ''String''), C_Ptr
         (C_Api ''String''), C_Ptr C_Void]),
     D_Type ''ConfigGetStringFunc'' (C_Fun (C_Ptr (C_Api ''String'')) [C_Ptr (C_Const C_Char), C_Ptr
         C_Void]),
     D_Type ''ConfigGetNumericFunc'' (C_Fun C_LongLong [C_Ptr (C_Const C_Char), C_Ptr C_Void]),
     D_Type ''ConfigGetBoolFunc'' (C_Fun C_Int [C_Ptr (C_Const C_Char), C_Ptr C_Void]),
     D_Type ''ConfigGetEnumFunc'' (C_Fun C_Int [C_Ptr (C_Const C_Char), C_Ptr C_Void]),
     D_Type ''ConfigSetStringFunc'' (C_Fun C_Int [C_Ptr (C_Const C_Char), C_Ptr (C_Api ''String''),
         C_Ptr C_Void, C_Ptr (C_Ptr (C_Api ''String''))]),
     D_Type ''ConfigSetNumericFunc'' (C_Fun C_Int [C_Ptr (C_Const C_Char), C_LongLong, C_Ptr C_Void,
         C_Ptr (C_Ptr (C_Api ''String''))]),
     D_Type ''ConfigSetBoolFunc'' (C_Fun C_Int [C_Ptr (C_Const C_Char), C_Int, C_Ptr C_Void, C_Ptr
         (C_Ptr (C_Api ''String''))]),
     D_Type ''ConfigSetEnumFunc'' (C_Fun C_Int [C_Ptr (C_Const C_Char), C_Int, C_Ptr C_Void, C_Ptr
         (C_Ptr (C_Api ''String''))]),
     D_Type ''ConfigApplyFunc'' (C_Fun C_Int [C_Ptr (C_Api ''Ctx''), C_Ptr C_Void, C_Ptr (C_Ptr
         (C_Api ''String''))]),
     D_Type ''OnUnblocked'' (C_Fun C_Void [C_Ptr (C_Api ''Ctx''), C_Ptr (C_Api ''CallReply''), C_Ptr
         C_Void]),
     D_Type ''AuthCallback'' (C_Fun C_Int [C_Ptr (C_Api ''Ctx''), C_Ptr (C_Api ''String''), C_Ptr
         (C_Api ''String''), C_Ptr (C_Ptr (C_Api ''String''))]),
     D_Struct ''TypeMethods'' ''TypeMethods'' [
         Field ''version'' C_UInt64,
         Field ''rdb_load'' (C_Api ''TypeLoadFunc''),
         Field ''rdb_save'' (C_Api ''TypeSaveFunc''),
         Field ''aof_rewrite'' (C_Api ''TypeRewriteFunc''),
         Field ''mem_usage'' (C_Api ''TypeMemUsageFunc''),
         Field ''digest'' (C_Api ''TypeDigestFunc''),
         Field ''free'' (C_Api ''TypeFreeFunc''),
         Field ''aux_load'' (C_Api ''TypeAuxLoadFunc''),
         Field ''aux_save'' (C_Api ''TypeAuxSaveFunc''),
         Field ''aux_save_triggers'' C_Int,
         Field ''free_effort'' (C_Api ''TypeFreeEffortFunc''),
         Field ''unlink'' (C_Api ''TypeUnlinkFunc''),
         Field ''copy'' (C_Api ''TypeCopyFunc''),
         Field ''defrag'' (C_Api ''TypeDefragFunc''),
         Field ''mem_usage2'' (C_Api ''TypeMemUsageFunc2''),
         Field ''free_effort2'' (C_Api ''TypeFreeEffortFunc2''),
         Field ''unlink2'' (C_Api ''TypeUnlinkFunc2''),
         Field ''copy2'' (C_Api ''TypeCopyFunc2''),
         Field ''aux_save2'' (C_Api ''TypeAuxSaveFunc'')]]"

definition valkey_types :: "c_def list" where
  "valkey_types = valkey_types_strings @ valkey_types_stream @ valkey_types_timer @ valkey_types_args @
     valkey_types_specs @ valkey_types_command @ valkey_types_info @ valkey_types_loop @
     valkey_types_event @ valkey_types_server @ valkey_types_auth @ valkey_types_functions @
     valkey_types_script @ valkey_types_callbacks @ valkey_types_debugger @
     valkey_types_debug_callbacks @ valkey_types_methods @ valkey_types_incomplete @
     valkey_types_module"

text \<open>The sizes that a module announces with the version of its command information.\<close>

definition valkey_command_info_version :: "size_env \<Rightarrow> (string \<times> nat option) list" where
  "valkey_command_info_version env = [(''version'', Some 1),
     (''sizeof_historyentry'', sizeof env ''CommandHistoryEntry''),
     (''sizeof_keyspec'', sizeof env ''CommandKeySpec''),
     (''sizeof_arg'', sizeof env ''CommandArg'')]"

end
