(* ===== verification/Header_Names.thy ===== *)
theory Header_Names
  imports Header_Types Redis_Header Valkey_Header
begin

text \<open>
  The declarations of the two headers one group after the other: which names a group gives to those
  that follow, and that each group and each function uses only names that have been declared.
\<close>

named_theorems names

declare completes_knows [names]

section \<open>Names of the Redis header\<close>

text \<open>The names that each group of declarations gives to those after it.\<close>

lemma redis_types_incomplete_names [names]:
  "knows (fold declare_def redis_types_incomplete d) ''Ctx''"
  "knows (fold declare_def redis_types_incomplete d) ''Key''"
  "knows (fold declare_def redis_types_incomplete d) ''String''"
  "knows (fold declare_def redis_types_incomplete d) ''CallReply''"
  "knows (fold declare_def redis_types_incomplete d) ''IO''"
  "knows (fold declare_def redis_types_incomplete d) ''Type''"
  "knows (fold declare_def redis_types_incomplete d) ''Digest''"
  "knows (fold declare_def redis_types_incomplete d) ''BlockedClient''"
  by (simp_all add: redis_types_incomplete_def)

lemma redis_types_functions_names [names]:
  "completes (fold declare_def redis_types_functions d) ''CmdFunc''"
  "completes (fold declare_def redis_types_functions d) ''TypeLoadFunc''"
  "completes (fold declare_def redis_types_functions d) ''TypeSaveFunc''"
  "completes (fold declare_def redis_types_functions d) ''TypeRewriteFunc''"
  "completes (fold declare_def redis_types_functions d) ''TypeDigestFunc''"
  "completes (fold declare_def redis_types_functions d) ''TypeFreeFunc''"
  by (simp_all add: redis_types_functions_def)

text \<open>Each group is well formed after any declarations of the names it uses.\<close>

lemma redis_types_incomplete_ok [names]: "defs_ok d redis_types_incomplete"
  by (simp add: redis_types_incomplete_def field_names_def)

lemma redis_types_functions_ok [names]:
  assumes "knows d ''Ctx''"
    and "knows d ''Digest''"
    and "knows d ''IO''"
    and "knows d ''String''"
  shows "defs_ok d redis_types_functions"
  using assms by (simp add: redis_types_functions_def field_names_def)

lemma redis_defs_ok: "defs_ok nothing_declared redis_types"
  by (simp add: redis_types_def defs_ok_append names declare_defs_keep)

lemma redis_names_distinct: "distinct (declared_names redis_types)"
  by (rule distinct_names)
    (simp add: declared_names_def name_number_def redis_types_def
      redis_types_incomplete_def redis_types_functions_def)

lemma redis_well_declared: "well_declared redis_types"
  by (simp add: well_declared_def redis_defs_ok redis_names_distinct)

lemma redis_known [names]:
  "completes (declares redis_types) ''CmdFunc''"
  "completes (declares redis_types) ''TypeDigestFunc''"
  "completes (declares redis_types) ''TypeFreeFunc''"
  "completes (declares redis_types) ''TypeLoadFunc''"
  "completes (declares redis_types) ''TypeRewriteFunc''"
  "completes (declares redis_types) ''TypeSaveFunc''"
  "knows (declares redis_types) ''BlockedClient''"
  "knows (declares redis_types) ''CallReply''"
  "knows (declares redis_types) ''Ctx''"
  "knows (declares redis_types) ''Digest''"
  "knows (declares redis_types) ''IO''"
  "knows (declares redis_types) ''Key''"
  "knows (declares redis_types) ''String''"
  "knows (declares redis_types) ''Type''"
  by (simp_all add: declares_def redis_types_def names declare_defs_keep)

section \<open>Names of the Valkey header\<close>

text \<open>The names that each group of declarations gives to those after it.\<close>

lemma valkey_types_strings_names [names]:
  "knows (fold declare_def valkey_types_strings d) ''String''"
  "knows (fold declare_def valkey_types_strings d) ''Key''"
  by (simp_all add: valkey_types_strings_def)

lemma valkey_types_stream_names [names]:
  "completes (fold declare_def valkey_types_stream d) ''StreamID''"
  by (simp_all add: valkey_types_stream_def)

lemma valkey_types_timer_names [names]:
  "completes (fold declare_def valkey_types_timer d) ''TimerID''"
  by (simp_all add: valkey_types_timer_def)

lemma valkey_types_args_names [names]:
  "completes (fold declare_def valkey_types_args d) ''CommandArgType''"
  by (simp_all add: valkey_types_args_def)

lemma valkey_types_specs_names [names]:
  "completes (fold declare_def valkey_types_specs d) ''KeySpecBeginSearchType''"
  "completes (fold declare_def valkey_types_specs d) ''KeySpecFindKeysType''"
  by (simp_all add: valkey_types_specs_def)

lemma valkey_types_command_names [names]:
  "completes (fold declare_def valkey_types_command d) ''CommandArg''"
  "completes (fold declare_def valkey_types_command d) ''CommandHistoryEntry''"
  "completes (fold declare_def valkey_types_command d) ''CommandKeySpec''"
  "completes (fold declare_def valkey_types_command d) ''CommandInfoVersion''"
  by (simp_all add: valkey_types_command_def)

lemma valkey_types_info_names [names]:
  "completes (fold declare_def valkey_types_info d) ''CommandInfo''"
  by (simp_all add: valkey_types_info_def)

lemma valkey_types_loop_names [names]:
  "completes (fold declare_def valkey_types_loop d) ''EventLoopFunc''"
  "completes (fold declare_def valkey_types_loop d) ''EventLoopOneShotFunc''"
  by (simp_all add: valkey_types_loop_def)

lemma valkey_types_event_names [names]:
  "completes (fold declare_def valkey_types_event d) ''EventCallback''"
  "completes (fold declare_def valkey_types_event d) ''Event''"
  by (simp_all add: valkey_types_event_def)

lemma valkey_types_auth_names [names]:
  "completes (fold declare_def valkey_types_auth d) ''ACLLogEntryReason''"
  by (simp_all add: valkey_types_auth_def)

lemma valkey_types_functions_names [names]:
  "completes (fold declare_def valkey_types_functions d) ''InfoFunc''"
  "completes (fold declare_def valkey_types_functions d) ''DefragFunc''"
  "completes (fold declare_def valkey_types_functions d) ''UserChangedFunc''"
  "knows (fold declare_def valkey_types_functions d) ''Ctx''"
  "knows (fold declare_def valkey_types_functions d) ''IO''"
  "knows (fold declare_def valkey_types_functions d) ''Digest''"
  "knows (fold declare_def valkey_types_functions d) ''InfoCtx''"
  "knows (fold declare_def valkey_types_functions d) ''DefragCtx''"
  by (simp_all add: valkey_types_functions_def)

lemma valkey_types_script_names [names]:
  "completes (fold declare_def valkey_types_script d) ''ScriptingEngineCompiledFunction''"
  "completes (fold declare_def valkey_types_script d) ''ScriptingEngineMemoryInfo''"
  "completes (fold declare_def valkey_types_script d) ''ScriptingEngineSubsystemType''"
  "completes (fold declare_def valkey_types_script d) ''ScriptingEngineExecutionState''"
  "completes (fold declare_def valkey_types_script d) ''ScriptingEngineCompiledFunctionV1''"
  "completes (fold declare_def valkey_types_script d) ''ScriptingEngineCallableLazyEnvReset''"
  "knows (fold declare_def valkey_types_script d) ''ScriptingEngineCtx''"
  "knows (fold declare_def valkey_types_script d) ''ScriptingEngineServerRuntimeCtx''"
  by (simp_all add: valkey_types_script_def)

lemma valkey_types_callbacks_names [names]:
  "completes (fold declare_def valkey_types_callbacks d) ''ScriptingEngineCompileCodeFunc''"
  "completes (fold declare_def valkey_types_callbacks d) ''ScriptingEngineCompileCodeFuncV1''"
  "completes (fold declare_def valkey_types_callbacks d) ''ScriptingEngineFreeFunctionFunc''"
  "completes (fold declare_def valkey_types_callbacks d) ''ScriptingEngineCallFunctionFunc''"
  "completes (fold declare_def valkey_types_callbacks d) ''ScriptingEngineGetFunctionMemoryOverheadFunc''"
  "completes (fold declare_def valkey_types_callbacks d) ''ScriptingEngineResetEvalFuncV2''"
  "completes (fold declare_def valkey_types_callbacks d) ''ScriptingEngineResetEnvFunc''"
  "completes (fold declare_def valkey_types_callbacks d) ''ScriptingEngineGetMemoryInfoFunc''"
  by (simp_all add: valkey_types_callbacks_def)

lemma valkey_types_debugger_names [names]:
  "completes (fold declare_def valkey_types_debugger d) ''ScriptingEngineDebuggerEnableRet''"
  "completes (fold declare_def valkey_types_debugger d) ''ScriptingEngineDebuggerCommand''"
  by (simp_all add: valkey_types_debugger_def)

lemma valkey_types_debug_callbacks_names [names]:
  "completes (fold declare_def valkey_types_debug_callbacks d) ''ScriptingEngineDebuggerEnableFunc''"
  "completes (fold declare_def valkey_types_debug_callbacks d) ''ScriptingEngineDebuggerDisableFunc''"
  "completes (fold declare_def valkey_types_debug_callbacks d) ''ScriptingEngineDebuggerStartFunc''"
  "completes (fold declare_def valkey_types_debug_callbacks d) ''ScriptingEngineDebuggerEndFunc''"
  by (simp_all add: valkey_types_debug_callbacks_def)

lemma valkey_types_methods_names [names]:
  "completes (fold declare_def valkey_types_methods d) ''ScriptingEngineMethods''"
  by (simp_all add: valkey_types_methods_def)

lemma valkey_types_incomplete_names [names]:
  "knows (fold declare_def valkey_types_incomplete d) ''Command''"
  "knows (fold declare_def valkey_types_incomplete d) ''CallReply''"
  "knows (fold declare_def valkey_types_incomplete d) ''Type''"
  "knows (fold declare_def valkey_types_incomplete d) ''BlockedClient''"
  "knows (fold declare_def valkey_types_incomplete d) ''Dict''"
  "knows (fold declare_def valkey_types_incomplete d) ''DictIter''"
  "knows (fold declare_def valkey_types_incomplete d) ''CommandFilterCtx''"
  "knows (fold declare_def valkey_types_incomplete d) ''CommandFilter''"
  "knows (fold declare_def valkey_types_incomplete d) ''ServerInfoData''"
  "knows (fold declare_def valkey_types_incomplete d) ''ScanCursor''"
  "knows (fold declare_def valkey_types_incomplete d) ''User''"
  "knows (fold declare_def valkey_types_incomplete d) ''KeyOptCtx''"
  "knows (fold declare_def valkey_types_incomplete d) ''RdbStream''"
  by (simp_all add: valkey_types_incomplete_def)

lemma valkey_types_module_names [names]:
  "completes (fold declare_def valkey_types_module d) ''CmdFunc''"
  "completes (fold declare_def valkey_types_module d) ''DisconnectFunc''"
  "completes (fold declare_def valkey_types_module d) ''NotificationFunc''"
  "completes (fold declare_def valkey_types_module d) ''PostNotificationJobFunc''"
  "completes (fold declare_def valkey_types_module d) ''ClusterMessageReceiver''"
  "completes (fold declare_def valkey_types_module d) ''TimerProc''"
  "completes (fold declare_def valkey_types_module d) ''CommandFilterFunc''"
  "completes (fold declare_def valkey_types_module d) ''ForkDoneHandler''"
  "completes (fold declare_def valkey_types_module d) ''ScanCB''"
  "completes (fold declare_def valkey_types_module d) ''ScanKeyCB''"
  "completes (fold declare_def valkey_types_module d) ''ConfigGetStringFunc''"
  "completes (fold declare_def valkey_types_module d) ''ConfigGetNumericFunc''"
  "completes (fold declare_def valkey_types_module d) ''ConfigGetBoolFunc''"
  "completes (fold declare_def valkey_types_module d) ''ConfigGetEnumFunc''"
  "completes (fold declare_def valkey_types_module d) ''ConfigSetStringFunc''"
  "completes (fold declare_def valkey_types_module d) ''ConfigSetNumericFunc''"
  "completes (fold declare_def valkey_types_module d) ''ConfigSetBoolFunc''"
  "completes (fold declare_def valkey_types_module d) ''ConfigSetEnumFunc''"
  "completes (fold declare_def valkey_types_module d) ''ConfigApplyFunc''"
  "completes (fold declare_def valkey_types_module d) ''OnUnblocked''"
  "completes (fold declare_def valkey_types_module d) ''AuthCallback''"
  "completes (fold declare_def valkey_types_module d) ''TypeMethods''"
  by (simp_all add: valkey_types_module_def)

text \<open>Each group is well formed after any declarations of the names it uses.\<close>

lemma valkey_types_strings_ok [names]: "defs_ok d valkey_types_strings"
  by (simp add: valkey_types_strings_def field_names_def)

lemma valkey_types_stream_ok [names]: "defs_ok d valkey_types_stream"
  by (simp add: valkey_types_stream_def field_names_def)

lemma valkey_types_timer_ok [names]: "defs_ok d valkey_types_timer"
  by (simp add: valkey_types_timer_def field_names_def)

lemma valkey_types_args_ok [names]: "defs_ok d valkey_types_args"
  by (simp add: valkey_types_args_def field_names_def)

lemma valkey_types_specs_ok [names]: "defs_ok d valkey_types_specs"
  by (simp add: valkey_types_specs_def field_names_def)

lemma valkey_types_command_ok [names]:
  assumes "completes d ''CommandArgType''"
    and "completes d ''KeySpecBeginSearchType''"
    and "completes d ''KeySpecFindKeysType''"
  shows "defs_ok d valkey_types_command"
  using assms by (simp add: valkey_types_command_def field_names_def)

lemma valkey_types_info_ok [names]:
  assumes "knows d ''CommandArg''"
    and "knows d ''CommandHistoryEntry''"
    and "knows d ''CommandInfoVersion''"
    and "knows d ''CommandKeySpec''"
  shows "defs_ok d valkey_types_info"
  using assms by (simp add: valkey_types_info_def field_names_def)

lemma valkey_types_loop_ok [names]: "defs_ok d valkey_types_loop"
  by (simp add: valkey_types_loop_def field_names_def)

lemma valkey_types_event_ok [names]: "defs_ok d valkey_types_event"
  by (simp add: valkey_types_event_def field_names_def)

lemma valkey_types_server_ok [names]:
  assumes "knows d ''Key''"
  shows "defs_ok d valkey_types_server"
  using assms by (simp add: valkey_types_server_def field_names_def)

lemma valkey_types_auth_ok [names]: "defs_ok d valkey_types_auth"
  by (simp add: valkey_types_auth_def field_names_def)

lemma valkey_types_functions_ok [names]: "defs_ok d valkey_types_functions"
  by (simp add: valkey_types_functions_def field_names_def)

lemma valkey_types_script_ok [names]:
  assumes "knows d ''String''"
  shows "defs_ok d valkey_types_script"
  using assms by (simp add: valkey_types_script_def field_names_def)

lemma valkey_types_callbacks_ok [names]:
  assumes "completes d ''ScriptingEngineMemoryInfo''"
    and "completes d ''ScriptingEngineSubsystemType''"
    and "knows d ''Ctx''"
    and "knows d ''ScriptingEngineCallableLazyEnvReset''"
    and "knows d ''ScriptingEngineCompiledFunction''"
    and "knows d ''ScriptingEngineCompiledFunctionV1''"
    and "knows d ''ScriptingEngineCtx''"
    and "knows d ''ScriptingEngineServerRuntimeCtx''"
    and "knows d ''String''"
  shows "defs_ok d valkey_types_callbacks"
  using assms by (simp add: valkey_types_callbacks_def field_names_def)

lemma valkey_types_debugger_ok [names]:
  assumes "knows d ''String''"
  shows "defs_ok d valkey_types_debugger"
  using assms by (simp add: valkey_types_debugger_def field_names_def)

lemma valkey_types_debug_callbacks_ok [names]:
  assumes "completes d ''ScriptingEngineDebuggerEnableRet''"
    and "completes d ''ScriptingEngineSubsystemType''"
    and "knows d ''Ctx''"
    and "knows d ''ScriptingEngineCtx''"
    and "knows d ''ScriptingEngineDebuggerCommand''"
    and "knows d ''String''"
  shows "defs_ok d valkey_types_debug_callbacks"
  using assms by (simp add: valkey_types_debug_callbacks_def field_names_def)

lemma valkey_types_methods_ok [names]:
  assumes "completes d ''ScriptingEngineCallFunctionFunc''"
    and "completes d ''ScriptingEngineCompileCodeFunc''"
    and "completes d ''ScriptingEngineCompileCodeFuncV1''"
    and "completes d ''ScriptingEngineDebuggerDisableFunc''"
    and "completes d ''ScriptingEngineDebuggerEnableFunc''"
    and "completes d ''ScriptingEngineDebuggerEndFunc''"
    and "completes d ''ScriptingEngineDebuggerStartFunc''"
    and "completes d ''ScriptingEngineFreeFunctionFunc''"
    and "completes d ''ScriptingEngineGetFunctionMemoryOverheadFunc''"
    and "completes d ''ScriptingEngineGetMemoryInfoFunc''"
    and "completes d ''ScriptingEngineResetEnvFunc''"
    and "completes d ''ScriptingEngineResetEvalFuncV2''"
  shows "defs_ok d valkey_types_methods"
  using assms by (simp add: valkey_types_methods_def script_methods_v3_def field_names_def)

lemma valkey_types_incomplete_ok [names]: "defs_ok d valkey_types_incomplete"
  by (simp add: valkey_types_incomplete_def field_names_def)

lemma valkey_types_module_ok [names]:
  assumes "knows d ''BlockedClient''"
    and "knows d ''CallReply''"
    and "knows d ''CommandFilterCtx''"
    and "knows d ''Ctx''"
    and "knows d ''DefragCtx''"
    and "knows d ''Digest''"
    and "knows d ''IO''"
    and "knows d ''Key''"
    and "knows d ''KeyOptCtx''"
    and "knows d ''String''"
  shows "defs_ok d valkey_types_module"
  using assms by (simp add: valkey_types_module_def field_names_def)

lemma valkey_defs_ok: "defs_ok nothing_declared valkey_types"
  by (simp add: valkey_types_def defs_ok_append names declare_defs_keep)

lemma valkey_names_distinct: "distinct (declared_names valkey_types)"
  by (rule distinct_names)
    (simp add: declared_names_def name_number_def valkey_types_def
      valkey_types_strings_def valkey_types_stream_def valkey_types_timer_def valkey_types_args_def valkey_types_specs_def valkey_types_command_def valkey_types_info_def valkey_types_loop_def valkey_types_event_def valkey_types_server_def valkey_types_auth_def valkey_types_functions_def valkey_types_script_def valkey_types_callbacks_def valkey_types_debugger_def valkey_types_debug_callbacks_def valkey_types_methods_def valkey_types_incomplete_def valkey_types_module_def)

lemma valkey_well_declared: "well_declared valkey_types"
  by (simp add: well_declared_def valkey_defs_ok valkey_names_distinct)

lemma valkey_known [names]:
  "completes (declares valkey_types) ''ACLLogEntryReason''"
  "completes (declares valkey_types) ''AuthCallback''"
  "completes (declares valkey_types) ''ClusterMessageReceiver''"
  "completes (declares valkey_types) ''CmdFunc''"
  "completes (declares valkey_types) ''CommandArgType''"
  "completes (declares valkey_types) ''CommandFilterFunc''"
  "completes (declares valkey_types) ''ConfigApplyFunc''"
  "completes (declares valkey_types) ''ConfigGetBoolFunc''"
  "completes (declares valkey_types) ''ConfigGetEnumFunc''"
  "completes (declares valkey_types) ''ConfigGetNumericFunc''"
  "completes (declares valkey_types) ''ConfigGetStringFunc''"
  "completes (declares valkey_types) ''ConfigSetBoolFunc''"
  "completes (declares valkey_types) ''ConfigSetEnumFunc''"
  "completes (declares valkey_types) ''ConfigSetNumericFunc''"
  "completes (declares valkey_types) ''ConfigSetStringFunc''"
  "completes (declares valkey_types) ''DefragFunc''"
  "completes (declares valkey_types) ''DisconnectFunc''"
  "completes (declares valkey_types) ''Event''"
  "completes (declares valkey_types) ''EventCallback''"
  "completes (declares valkey_types) ''EventLoopFunc''"
  "completes (declares valkey_types) ''EventLoopOneShotFunc''"
  "completes (declares valkey_types) ''ForkDoneHandler''"
  "completes (declares valkey_types) ''InfoFunc''"
  "completes (declares valkey_types) ''KeySpecBeginSearchType''"
  "completes (declares valkey_types) ''KeySpecFindKeysType''"
  "completes (declares valkey_types) ''NotificationFunc''"
  "completes (declares valkey_types) ''OnUnblocked''"
  "completes (declares valkey_types) ''PostNotificationJobFunc''"
  "completes (declares valkey_types) ''ScanCB''"
  "completes (declares valkey_types) ''ScanKeyCB''"
  "completes (declares valkey_types) ''ScriptingEngineCallFunctionFunc''"
  "completes (declares valkey_types) ''ScriptingEngineCompileCodeFunc''"
  "completes (declares valkey_types) ''ScriptingEngineCompileCodeFuncV1''"
  "completes (declares valkey_types) ''ScriptingEngineDebuggerDisableFunc''"
  "completes (declares valkey_types) ''ScriptingEngineDebuggerEnableFunc''"
  "completes (declares valkey_types) ''ScriptingEngineDebuggerEnableRet''"
  "completes (declares valkey_types) ''ScriptingEngineDebuggerEndFunc''"
  "completes (declares valkey_types) ''ScriptingEngineDebuggerStartFunc''"
  "completes (declares valkey_types) ''ScriptingEngineExecutionState''"
  "completes (declares valkey_types) ''ScriptingEngineFreeFunctionFunc''"
  "completes (declares valkey_types) ''ScriptingEngineGetFunctionMemoryOverheadFunc''"
  "completes (declares valkey_types) ''ScriptingEngineGetMemoryInfoFunc''"
  "completes (declares valkey_types) ''ScriptingEngineMemoryInfo''"
  "completes (declares valkey_types) ''ScriptingEngineResetEnvFunc''"
  "completes (declares valkey_types) ''ScriptingEngineResetEvalFuncV2''"
  "completes (declares valkey_types) ''ScriptingEngineSubsystemType''"
  "completes (declares valkey_types) ''TimerID''"
  "completes (declares valkey_types) ''TimerProc''"
  "completes (declares valkey_types) ''UserChangedFunc''"
  "knows (declares valkey_types) ''BlockedClient''"
  "knows (declares valkey_types) ''CallReply''"
  "knows (declares valkey_types) ''Command''"
  "knows (declares valkey_types) ''CommandArg''"
  "knows (declares valkey_types) ''CommandFilter''"
  "knows (declares valkey_types) ''CommandFilterCtx''"
  "knows (declares valkey_types) ''CommandHistoryEntry''"
  "knows (declares valkey_types) ''CommandInfo''"
  "knows (declares valkey_types) ''CommandInfoVersion''"
  "knows (declares valkey_types) ''CommandKeySpec''"
  "knows (declares valkey_types) ''Ctx''"
  "knows (declares valkey_types) ''DefragCtx''"
  "knows (declares valkey_types) ''Dict''"
  "knows (declares valkey_types) ''DictIter''"
  "knows (declares valkey_types) ''Digest''"
  "knows (declares valkey_types) ''IO''"
  "knows (declares valkey_types) ''InfoCtx''"
  "knows (declares valkey_types) ''Key''"
  "knows (declares valkey_types) ''KeyOptCtx''"
  "knows (declares valkey_types) ''RdbStream''"
  "knows (declares valkey_types) ''ScanCursor''"
  "knows (declares valkey_types) ''ScriptingEngineCallableLazyEnvReset''"
  "knows (declares valkey_types) ''ScriptingEngineCompiledFunction''"
  "knows (declares valkey_types) ''ScriptingEngineCompiledFunctionV1''"
  "knows (declares valkey_types) ''ScriptingEngineCtx''"
  "knows (declares valkey_types) ''ScriptingEngineDebuggerCommand''"
  "knows (declares valkey_types) ''ScriptingEngineMethods''"
  "knows (declares valkey_types) ''ScriptingEngineServerRuntimeCtx''"
  "knows (declares valkey_types) ''ServerInfoData''"
  "knows (declares valkey_types) ''StreamID''"
  "knows (declares valkey_types) ''String''"
  "knows (declares valkey_types) ''Type''"
  "knows (declares valkey_types) ''TypeMethods''"
  "knows (declares valkey_types) ''User''"
  by (simp_all add: declares_def valkey_types_def names declare_defs_keep)

section \<open>Functions\<close>

lemma redis_api_declared: "list_all (decl_ok (declares redis_types)) redis_api"
  by (simp add: redis_api_def decl_ok_def api_def api_var_def names)

lemma valkey_api_1_declared: "list_all (decl_ok (declares valkey_types)) valkey_api_1"
  by (simp add: valkey_api_1_def decl_ok_def api_def api_var_def names)

lemma valkey_api_2_declared: "list_all (decl_ok (declares valkey_types)) valkey_api_2"
  by (simp add: valkey_api_2_def decl_ok_def api_def api_var_def names)

lemma valkey_api_3_declared: "list_all (decl_ok (declares valkey_types)) valkey_api_3"
  by (simp add: valkey_api_3_def decl_ok_def api_def api_var_def names)

lemma valkey_api_4_declared: "list_all (decl_ok (declares valkey_types)) valkey_api_4"
  by (simp add: valkey_api_4_def decl_ok_def api_def api_var_def names)

lemma valkey_api_5_declared: "list_all (decl_ok (declares valkey_types)) valkey_api_5"
  by (simp add: valkey_api_5_def decl_ok_def api_def api_var_def names)

lemma valkey_api_6_declared: "list_all (decl_ok (declares valkey_types)) valkey_api_6"
  by (simp add: valkey_api_6_def decl_ok_def api_def api_var_def names)

lemma valkey_api_7_declared: "list_all (decl_ok (declares valkey_types)) valkey_api_7"
  by (simp add: valkey_api_7_def decl_ok_def api_def api_var_def names)

lemma valkey_api_8_declared: "list_all (decl_ok (declares valkey_types)) valkey_api_8"
  by (simp add: valkey_api_8_def decl_ok_def api_def api_var_def names)

lemma valkey_api_9_declared: "list_all (decl_ok (declares valkey_types)) valkey_api_9"
  by (simp add: valkey_api_9_def decl_ok_def api_def api_var_def names)

lemma valkey_api_declared: "list_all (decl_ok (declares valkey_types)) valkey_api"
  by (simp add: valkey_api_def valkey_api_1_declared valkey_api_2_declared valkey_api_3_declared valkey_api_4_declared valkey_api_5_declared valkey_api_6_declared valkey_api_7_declared valkey_api_8_declared valkey_api_9_declared)

end
