(* ===== verification/Type_Facts.thy ===== *)
theory Type_Facts
  imports Header_Names Ffi
begin

text \<open>
  What holds of the types that the two headers declare: they and the functions use only names that
  are declared, and the layouts of structures fit together across versions.
\<close>

section \<open>Declarations\<close>

text \<open>A name that is only named stays without a layout.\<close>

lemma completes_declared:
  "completes (fold declare_def xs d) n \<longleftrightarrow>
     completes d n \<or> (\<exists>x \<in> set xs. completes (declare_def x nothing_declared) n)"
proof (induction xs arbitrary: d)
  case (Cons x xs)
  have "completes (declare_def x d) n \<longleftrightarrow> completes d n \<or> completes (declare_def x nothing_declared) n"
    by (cases x) (auto simp: completes_def nothing_declared_def declare_def.simps)
  with Cons show ?case by auto
qed simp

lemma completes_named: "completes (declare_def x nothing_declared) n \<Longrightarrow> n \<in> set (def_names x)"
  by (cases x) (auto simp: completes_def nothing_declared_def declare_def.simps split: if_splits)

lemma opaque_incomplete:
  assumes names: "distinct (declared_names xs)" and n: "D_Opaque n \<in> set xs"
  shows "knows (declares xs) n \<and> \<not> completes (declares xs) n"
proof -
  from n obtain ys zs where xs: "xs = ys @ D_Opaque n # zs" by (auto dest: split_list)
  have "knows (declares xs) n"
    by (simp add: xs declares_def declare_defs_keep)
  moreover have "\<not> completes (declares xs) n"
  proof
    assume "completes (declares xs) n"
    then obtain x where x: "x \<in> set xs" and "completes (declare_def x nothing_declared) n"
      by (auto simp: declares_def completes_declared) (simp add: completes_def nothing_declared_def)
    moreover from this(2) have "n \<in> set (def_names x)" by (rule completes_named)
    ultimately show False using names by (auto simp: xs declared_names_def completes_def nothing_declared_def declare_def.simps)
  qed
  ultimately show ?thesis by simp
qed

lemma redis_in_valkey: "set redis_types \<subseteq> set valkey_types"
proof -
  have "set redis_types_incomplete \<subseteq> set valkey_types_strings \<union> set valkey_types_functions \<union>
      set valkey_types_incomplete"
    by (simp add: redis_types_incomplete_def valkey_types_strings_def valkey_types_functions_def
        valkey_types_incomplete_def)
  moreover have "set redis_types_functions \<subseteq> set valkey_types_module"
    by (simp add: redis_types_functions_def valkey_types_module_def)
  ultimately show ?thesis by (auto simp: redis_types_def valkey_types_def)
qed

text \<open>C21: Each header declares every type once and before its use, completely where a structure or a
  function has it by value, and the functions of the server take and return declared types. What
  the Redis header declares, the Valkey header declares in the same way. The objects that Rust
  knows as empty structures are incomplete types of both headers, and the command function that
  Rust passes has the type that both headers give it.\<close>

theorem types_declared:
  "well_declared redis_types \<and> well_declared valkey_types \<and>
   list_all (decl_ok (declares redis_types)) redis_api \<and>
   list_all (decl_ok (declares valkey_types)) valkey_api \<and>
   set redis_types \<subseteq> set valkey_types \<and>
   list_all (\<lambda>n. list_all (\<lambda>d. knows d n \<and> \<not> completes d n)
     [declares redis_types, declares valkey_types]) rust_opaque_types \<and>
   (\<exists>r ps. D_Type ''CmdFunc'' (C_Fun r ps) \<in> set redis_types \<and>
      agrees (fst rust_cmd_func) r = Agree \<and> list_all2 (\<lambda>t p. agrees t p = Agree) (snd rust_cmd_func) ps)"
proof -
  have "list_all (\<lambda>n. D_Opaque n \<in> set redis_types) rust_opaque_types"
    by (simp add: rust_opaque_types_def redis_types_def redis_types_incomplete_def)
  then have "list_all (\<lambda>n. list_all (\<lambda>d. knows d n \<and> \<not> completes d n)
      [declares redis_types, declares valkey_types]) rust_opaque_types"
    using redis_in_valkey redis_names_distinct valkey_names_distinct
    by (fastforce simp: list_all_iff dest: opaque_incomplete)
  moreover have "\<exists>r ps. D_Type ''CmdFunc'' (C_Fun r ps) \<in> set redis_types \<and>
      agrees (fst rust_cmd_func) r = Agree \<and> list_all2 (\<lambda>t p. agrees t p = Agree) (snd rust_cmd_func) ps"
    by (intro exI [of _ C_Int] exI [of _ "[C_Ptr (C_Api ''Ctx''), C_Ptr (C_Ptr (C_Api ''String'')), C_Int]"])
      (simp add: redis_types_def redis_types_functions_def rust_cmd_func_def agree_if_def unqualified_def)
  ultimately show ?thesis
    by (simp add: redis_well_declared valkey_well_declared redis_api_declared valkey_api_declared
        redis_in_valkey)
qed

section \<open>Versions\<close>

lemma enum_size:
  assumes "\<exists>cs. D_Enum n cs \<in> set valkey_types"
  shows "map_of (layouts valkey_types) n = Some (4, 4)"
  using assms enum_layout [OF valkey_well_declared] by blast

lemma callback_size:
  assumes "\<exists>r ps. D_Type n (C_Fun r ps) \<in> set valkey_types"
  shows "map_of (layouts valkey_types) n = Some (8, 8)"
  using assms function_layout [OF valkey_well_declared] by blast

lemma enum_sizes [simp]:
  "map_of (layouts valkey_types) ''CommandArgType'' = Some (4, 4)"
  "map_of (layouts valkey_types) ''KeySpecBeginSearchType'' = Some (4, 4)"
  "map_of (layouts valkey_types) ''KeySpecFindKeysType'' = Some (4, 4)"
  "map_of (layouts valkey_types) ''AuthenticationResult'' = Some (4, 4)"
  by (rule enum_size; simp add: valkey_types_def valkey_types_args_def valkey_types_specs_def
        valkey_types_auth_def ex_disj_distrib)+

lemma script_callback_sizes:
  "list_all (\<lambda>n. map_of (layouts valkey_types) n = Some (8, 8))
     [''ScriptingEngineCompileCodeFunc'', ''ScriptingEngineCompileCodeFuncV1'',
      ''ScriptingEngineFreeFunctionFunc'', ''ScriptingEngineCallFunctionFunc'',
      ''ScriptingEngineGetFunctionMemoryOverheadFunc'', ''ScriptingEngineResetEvalFuncV2'',
      ''ScriptingEngineResetEnvFunc'', ''ScriptingEngineGetMemoryInfoFunc'']"
  unfolding list.pred_inject
  by (intro conjI; (rule callback_size)?; simp add: valkey_types_def valkey_types_callbacks_def ex_disj_distrib)

lemma debug_callback_sizes:
  "list_all (\<lambda>n. map_of (layouts valkey_types) n = Some (8, 8))
     [''ScriptingEngineDebuggerEnableFunc'', ''ScriptingEngineDebuggerDisableFunc'',
      ''ScriptingEngineDebuggerStartFunc'', ''ScriptingEngineDebuggerEndFunc'',
      ''ScriptingEngineDebuggerCommandHandlerFunc'']"
  unfolding list.pred_inject
  by (intro conjI; (rule callback_size)?; simp add: valkey_types_def valkey_types_debugger_def
      valkey_types_debug_callbacks_def ex_disj_distrib)

lemma type_callback_sizes:
  "list_all (\<lambda>n. map_of (layouts valkey_types) n = Some (8, 8))
     [''TypeLoadFunc'', ''TypeSaveFunc'', ''TypeRewriteFunc'', ''TypeMemUsageFunc'', ''TypeDigestFunc'',
      ''TypeFreeFunc'', ''TypeAuxLoadFunc'', ''TypeAuxSaveFunc'', ''TypeFreeEffortFunc'', ''TypeUnlinkFunc'',
      ''TypeCopyFunc'', ''TypeDefragFunc'', ''TypeMemUsageFunc2'', ''TypeFreeEffortFunc2'', ''TypeUnlinkFunc2'',
      ''TypeCopyFunc2'']"
  unfolding list.pred_inject
  by (intro conjI; (rule callback_size)?; simp add: valkey_types_def valkey_types_module_def ex_disj_distrib)

lemmas callback_sizes [simp] = script_callback_sizes [unfolded list.pred_inject]
  debug_callback_sizes [unfolded list.pred_inject] type_callback_sizes [unfolded list.pred_inject]

lemmas valkey_groups = valkey_types_def
  valkey_types_strings_def valkey_types_stream_def valkey_types_timer_def valkey_types_args_def
  valkey_types_specs_def valkey_types_command_def valkey_types_info_def valkey_types_loop_def
  valkey_types_event_def valkey_types_server_def valkey_types_auth_def valkey_types_functions_def
  valkey_types_script_def valkey_types_callbacks_def valkey_types_debugger_def
  valkey_types_debug_callbacks_def valkey_types_methods_def valkey_types_incomplete_def
  valkey_types_module_def

lemma valkey_current_versions:
  "map snd (current_versions valkey_types) =
     [''ClientInfoV1'', ''ReplicationInfoV1'', ''FlushInfoV1'', ''ModuleChangeV1'', ''ConfigChangeV1'', ''CronLoopV1'',
      ''LoadingProgressV1'', ''SwapDbInfoV1'', ''KeyInfoV1'', ''AuthenticationInfoV1'',
      ''AtomicSlotMigrationInfoV1'', ''ScriptingEngineCompiledFunctionV1'', ''ScriptingEngineMemoryInfoV1'',
      ''ScriptingEngineDebuggerCommandV1'', ''ScriptingEngineMethodsV4'']"
  by (simp add: valkey_types_def current_versions_append valkey_groups)

lemma first_place:
  assumes "\<exists>tag ms. D_Struct tag m (Field ''version'' C_UInt64 # ms) \<in> set valkey_types"
  shows "take 1 (places_of valkey_types m) = [(''version'', 0, 8)]"
  using assms by (auto simp: places_of_struct [OF valkey_well_declared] layout_simps)

lemma versions_first:
  "list_all (\<lambda>m. take 1 (places_of valkey_types m) = [(''version'', 0, 8)]) (map snd (current_versions valkey_types))"
  unfolding valkey_current_versions list.pred_inject
  by (intro conjI; (rule first_place)?; simp add: valkey_types_def valkey_types_server_def valkey_types_auth_def
      valkey_types_script_def valkey_types_debugger_def valkey_types_methods_def ex_disj_distrib)

lemma script_methods_places:
  "places_of valkey_types ''ScriptingEngineMethodsV3'' =
     [(''version'', 0, 8), (''compile_code_v1'', 8, 8), (''compile_code'', 8, 8), (''free_function'', 16, 8),
      (''call_function'', 24, 8), (''get_function_memory_overhead'', 32, 8), (''reset_eval_env_v2'', 40, 8),
      (''reset_env'', 40, 8), (''get_memory_info'', 48, 8)]" (is ?v3)
  "places_of valkey_types ''ScriptingEngineMethodsV4'' = places_of valkey_types ''ScriptingEngineMethodsV3'' @
     [(''debugger_enable'', 56, 8), (''debugger_disable'', 64, 8), (''debugger_start'', 72, 8), (''debugger_end'', 80, 8)]"
     (is ?v4)
proof -
  have "D_Struct ''ScriptingEngineMethods'' ''ScriptingEngineMethodsV3''
      [Field ''version'' C_UInt64, script_methods_v3] \<in> set valkey_types"
    by (simp add: valkey_types_def valkey_types_methods_def)
  note v3_places = places_of_struct [OF valkey_well_declared this]
  show v3: ?v3
    by (simp only: v3_places script_methods_v3_def layout_simps callback_sizes enum_sizes) (simp add: align_up_8)
  have "D_Struct ''ScriptingEngineMethodsV4'' ''ScriptingEngineMethodsV4''
      [Field ''version'' C_UInt64, script_methods_v3,
       Field ''debugger_enable'' (C_Api ''ScriptingEngineDebuggerEnableFunc''),
       Field ''debugger_disable'' (C_Api ''ScriptingEngineDebuggerDisableFunc''),
       Field ''debugger_start'' (C_Api ''ScriptingEngineDebuggerStartFunc''),
       Field ''debugger_end'' (C_Api ''ScriptingEngineDebuggerEndFunc'')] \<in> set valkey_types"
    by (simp add: valkey_types_def valkey_types_methods_def)
  note v4_places = places_of_struct [OF valkey_well_declared this]
  show ?v4
    unfolding v3 by (simp only: v4_places script_methods_v3_def layout_simps callback_sizes enum_sizes) (simp add: align_up_8)
qed

lemma sizeof_struct:
  assumes "members_of g n \<noteq> None" and "set g \<subseteq> set valkey_types"
  shows "sizeof (layouts valkey_types) n = map_option fst (struct_size (layouts valkey_types) (the (members_of g n)))"
proof -
  from assms(1) obtain ms where "members_of g n = Some ms" by blast
  moreover from this assms(2) obtain tag where "D_Struct tag n ms \<in> set valkey_types"
    by (auto dest!: members_of_SomeD)
  moreover obtain x where "struct_size (layouts valkey_types) ms = Some x"
    and "map_of (layouts valkey_types) n = Some x"
    by (rule structure_layout [OF valkey_well_declared \<open>D_Struct tag n ms \<in> set valkey_types\<close>])
  ultimately show ?thesis by (simp add: sizeof_def)
qed

lemma command_info_version:
  "valkey_command_info_version (layouts valkey_types) =
     [(''version'', Some 1), (''sizeof_historyentry'', Some 16), (''sizeof_keyspec'', Some 56), (''sizeof_arg'', Some 72)]"
proof -
  have sz: "sizeof (layouts valkey_types) n =
      map_option fst (struct_size (layouts valkey_types) (the (members_of valkey_types_command n)))"
    if "n \<in> {''CommandHistoryEntry'', ''CommandKeySpec'', ''CommandArg''}" for n
    using that by (intro sizeof_struct) (auto simp: valkey_types_def valkey_types_command_def)
  have "sizeof (layouts valkey_types) ''CommandHistoryEntry'' = Some 16"
    by (simp add: sz valkey_types_command_def) (simp only: layout_simps callback_sizes enum_sizes, simp add: align_up_8)
  moreover have "sizeof (layouts valkey_types) ''CommandKeySpec'' = Some 56"
    by (simp add: sz valkey_types_command_def) (simp only: layout_simps callback_sizes enum_sizes, simp add: align_up_8)
  moreover have "sizeof (layouts valkey_types) ''CommandArg'' = Some 72"
    by (simp add: sz valkey_types_command_def) (simp only: layout_simps callback_sizes enum_sizes, simp add: align_up_8)
  ultimately show ?thesis by (simp add: valkey_command_info_version_def)
qed

lemma valkey_constants_declared:
  "constants valkey_types = [(''CLIENTINFO_VERSION'', 1), (''REPLICATIONINFO_VERSION'', 1), (''FLUSHINFO_VERSION'', 1),
     (''MODULE_CHANGE_VERSION'', 1), (''CONFIGCHANGE_VERSION'', 1), (''CRON_LOOP_VERSION'', 1),
     (''LOADING_PROGRESS_VERSION'', 1), (''SWAPDBINFO_VERSION'', 1), (''KEYINFO_VERSION'', 1),
     (''AUTHENTICATION_INFO_VERSION'', 1), (''ATOMICSLOTMIGRATION_INFO_VERSION'', 1),
     (''SCRIPTING_ENGINE_ABI_COMPILED_FUNCTION_VERSION'', 1), (''SCRIPTING_ENGINE_ABI_MEMORY_INFO_VERSION'', 1),
     (''SCRIPTING_ENGINE_ABI_DEBUGGER_COMMAND_VERSION'', 1), (''SCRIPTING_ENGINE_ABI_VERSION'', 4)]"
  by (simp add: constants_append valkey_groups)

lemma valkey_initialised_fields:
  "fields_of valkey_types ''ClientInfoV1'' = [''version'', ''flags'', ''id'', ''addr'', ''port'', ''db'']"
  "fields_of valkey_types ''AuthenticationInfoV1'' = [''version'', ''client_id'', ''username'', ''module_name'', ''result'']"
  "fields_of valkey_types ''AtomicSlotMigrationInfoV1'' = [''version'', ''job_name'', ''slot_ranges'', ''num_slot_ranges'']"
  "fields_of valkey_types ''ScriptingEngineDebuggerCommandV1'' =
     [''version'', ''name'', ''prefix_len'', ''params'', ''params_len'', ''desc'', ''invisible'', ''handler'', ''context'']"
  by (simp_all add: fields_of_def members_of_append valkey_groups field_names_def)

text \<open>C33: Every initialiser of the Valkey header names only fields of its structure, each once, uses each
  parameter of its macro once and in order, and gives the version the value of that structure's
  version constant; those of the debugger's commands set every field. The sizes that a module
  announces with its command information are those of the structures on a 64-bit machine.\<close>

theorem initialisers_fit:
  "list_all2 (\<lambda>(n, ps, fs) (m, c).
      set (map fst fs) \<subseteq> set (fields_of valkey_types m) \<and>
      (fs = [(''version'', Init_Int 1)] \<or> map fst fs = fields_of valkey_types m) \<and> init_params fs = ps \<and>
      map_of (constants valkey_types) c \<noteq> None \<and>
      Option.bind (map_of fs ''version'') (init_number (constants valkey_types)) = map_of (constants valkey_types) c)
     (initialisers valkey_types)
     [(''ClientInfoV1'', ''CLIENTINFO_VERSION''), (''AuthenticationInfoV1'', ''AUTHENTICATION_INFO_VERSION''),
      (''AtomicSlotMigrationInfoV1'', ''ATOMICSLOTMIGRATION_INFO_VERSION''),
      (''ScriptingEngineDebuggerCommandV1'', ''SCRIPTING_ENGINE_ABI_DEBUGGER_COMMAND_VERSION''),
      (''ScriptingEngineDebuggerCommandV1'', ''SCRIPTING_ENGINE_ABI_DEBUGGER_COMMAND_VERSION'')] \<and>
   valkey_command_info_version (layouts valkey_types) =
     [(''version'', Some 1), (''sizeof_historyentry'', Some 16), (''sizeof_keyspec'', Some 56), (''sizeof_arg'', Some 72)]"
proof -
  have "initialisers valkey_types = initialisers valkey_types_server @ initialisers valkey_types_auth @
      initialisers valkey_types_debugger"
    by (simp add: initialisers_append valkey_groups)
  then show ?thesis
    by (simp add: valkey_initialised_fields valkey_types_server_def valkey_types_auth_def valkey_types_debugger_def valkey_constants_declared
        command_info_version)
qed

text \<open>C32: Every structure of the Valkey header that a macro names as the current version of its type
  begins with a version of eight bytes at offset 0. The methods of a scripting engine in version 4
  are those of version 3 at the same places, with four more behind them, and the former forms of
  two of them share the places of the present ones.\<close>

theorem versions_come_first:
  "list_all (\<lambda>m. take 1 (places_of valkey_types m) = [(''version'', 0, 8)])
     (map snd (current_versions valkey_types)) \<and> length (current_versions valkey_types) = 15 \<and>
   places_of valkey_types ''ScriptingEngineMethodsV3'' =
     [(''version'', 0, 8), (''compile_code_v1'', 8, 8), (''compile_code'', 8, 8), (''free_function'', 16, 8),
      (''call_function'', 24, 8), (''get_function_memory_overhead'', 32, 8), (''reset_eval_env_v2'', 40, 8),
      (''reset_env'', 40, 8), (''get_memory_info'', 48, 8)] \<and>
   places_of valkey_types ''ScriptingEngineMethodsV4'' = places_of valkey_types ''ScriptingEngineMethodsV3'' @
     [(''debugger_enable'', 56, 8), (''debugger_disable'', 64, 8), (''debugger_start'', 72, 8), (''debugger_end'', 80, 8)]"
proof -
  have "length (current_versions valkey_types) = length (map snd (current_versions valkey_types))" by simp
  also have "\<dots> = 15" by (simp only: valkey_current_versions) simp
  finally show ?thesis
    using versions_first script_methods_places by simp
qed

end
