(* ===== verification/Spec2Isabelle.thy ===== *)
theory Spec2Isabelle
  imports Limiter_Edges Redis_Calls Command_Edges Foreign_Facts Type_Facts
begin

text \<open>
  redis-cell is a Redis and Valkey module with one command, \<^verbatim>\<open>CL.THROTTLE\<close>, that
  limits the rate of requests with the generic cell rate algorithm. This development models the
  whole module: the limiter, its stores, the command, the interface to the server and the two C
  headers it is built against.

  \<^bold>\<open>The program.\<close> The server loads the library and calls
  \<^verbatim>\<open>RedisModule_OnLoad\<close> (\<^verbatim>\<open>src/lib.rs\<close>), which runs the C
  initialisation of the header (\<^verbatim>\<open>include/redismodule.h\<close> or
  \<^verbatim>\<open>include/valkeymodule.h\<close>, exported by the stub
  \<^verbatim>\<open>src/redismodule.c\<close> or \<^verbatim>\<open>src/valkeymodule.c\<close>) and registers
  the command. A call of the command enters at \<^verbatim>\<open>Throttle_RedisCommand\<close>; the harness
  of \<^verbatim>\<open>src/redis/mod.rs\<close> reads the arguments, the command parses them, makes a
  store over the server's keyspace (\<^verbatim>\<open>src/cell/store.rs\<close>) and a limiter
  (\<^verbatim>\<open>src/cell/mod.rs\<close>) over it, asks the limiter, and replies five numbers. All calls
  into the server go through \<^verbatim>\<open>src/redis/raw.rs\<close>.

  \<^bold>\<open>Theories.\<close>
  \<^item> \<open>Cell_Prelude\<close>: machine integers with Rust's casts and truncating division, and computations
    \<open>('s, 'e, 'a) io\<close>, a state to an outcome and a state. An outcome is a value (\<open>Ok\<close>), an error
    (\<open>Err\<close>) or a panic (\<open>Panic\<close>); \<open>io_bind\<close> is Rust's \<open>?\<close>, \<open>io_drop\<close> a scope with a destructor.
  \<^item> \<open>Binary64\<close>: the casts between integers and \<open>f64\<close>, and division, correctly rounded; the
    quotient of two integers below \<open>2 ^ 53\<close> truncates to the integer quotient.
  \<^item> \<open>Rust_Std\<close>: parsing and printing integers, checking UTF-8, strings for C.
  \<^item> \<open>Time_Api\<close>: the crate \<open>time\<close> is outside the repository, so its operations are the record
    \<open>time_crate\<close> and what it documents of them the locale \<open>time_laws\<close>; \<open>ns_time\<close>, durations and
    instants as whole nanoseconds, is an instance.
  \<^item> \<open>Cell_Error\<close>: \<^verbatim>\<open>src/error.rs\<close> and the macro \<open>error!\<close>.
  \<^item> \<open>Store\<close>: the trait \<open>Store\<close> as a record of operations, its contract as the locale
    \<open>cell_store\<close>, and the memory and test stores, which meet it, except that they keep no times to
    live: what the contract says of those is empty for them. What a swap of a missing key does is no
    part of the contract, since the trait and the memory store disagree.
  \<^item> \<open>Limiter\<close>: rates, stored times, and \<open>rate_limit\<close> with its loop of at most six passes; the
    loop is total by a measure, so no fuel is needed. \<open>Limiter_Tests\<close>: the unit tests, executable.
  \<^item> \<open>Gcra\<close>: the algorithm on integers, its theory, and the refinement of one pass;
    \<open>Rate_Limit\<close>: a whole call, in the locale \<open>gcra_limiter\<close> over any store and clock;
    \<open>Conformance\<close>: runs of one limiter; \<open>Concurrent\<close>: interleaved limiters, as step relations.
  \<^item> \<open>Raw_Api\<close>, \<open>Redis_Api\<close>: \<^verbatim>\<open>src/redis/raw.rs\<close> and
    \<^verbatim>\<open>src/redis/mod.rs\<close>. The server's functions are the fields of a record over the
    server's state; pointers are numbers with 0 as null.
  \<^item> \<open>Redis_Host\<close>: the documented behaviour of the functions the command calls, as the locale
    \<open>redis_host\<close> over a view of the server: live strings, open keys, values, when each key expires,
    clock, replies.
    \<open>Ref_Host\<close>: a small server that has this behaviour, on which the witnesses run.
  \<^item> \<open>Redis_Store\<close>: \<open>InternalRedisStore\<close>, which meets \<open>cell_store\<close> over any \<open>redis_host\<close>;
    \<open>Redis_Frame\<close>: what its operations leave alone on every outcome, over servers on which setting a
    time to live concerns only the key it is set for (\<open>framed_host\<close>);
    \<open>Throttle\<close>: \<^verbatim>\<open>src/lib.rs\<close>, in the locale \<open>throttle_host\<close>, where every
    fact about limiters holds of the Redis store. \<open>Command_Runs\<close>: repeated calls of the command
    with keys that expire between them, as an inductive relation; \<open>Command_Edges\<close>: calls that
    ask for a negative time to live, of which the documentation says nothing but for - 1.
    \<open>Redis_Calls\<close>: commands that the module calls, over servers that answer or return null
    (\<open>calling_host\<close>).
  \<^item> \<open>C_Api\<close>, \<open>Redis_Header\<close>, \<open>Valkey_Header\<close>: the declared functions of the C headers as data
    and their initialisation; \<open>Header_Constants\<close>: their constants; \<open>Ffi\<close>: the declarations of
    \<^verbatim>\<open>src/redis/raw.rs\<close> compared with them.
  \<^item> \<open>C_Types\<close>: type declarations of C as data, which of them are well formed, and the layout of
    structures where pointers have eight bytes; \<open>Header_Types\<close>: the structures, enumerations,
    callbacks and initialisers of the two headers; \<open>Header_Names\<close>: that these use only names declared
    before, one group after the other.
  \<^item> \<open>Limiter_Facts\<close>, \<open>Limiter_Edges\<close>, \<open>Command_Facts\<close>, \<open>Throttle_Facts\<close>, \<open>Foreign_Facts\<close>,
    \<open>Type_Facts\<close>: the properties, each with its witness.

  \<^bold>\<open>What is shown.\<close> A call of \<open>rate_limit\<close> over any store that keeps the contract is one step of
  the algorithm (\<open>Rate_Limit\<close>); the cost let through on a key is bounded by burst and elapsed time,
  for a single limiter and for any interleaving of several; the reported times and quantities are
  exact (\<open>Limiter_Facts\<close>); the table of the unit test holds at any start
  (\<open>Limiter_Edges\<close>). The command refines the algorithm from its C entry point, gives back
  every handle, and answers wrong input with an error reply, except for the inputs shown to abort
  the process (\<open>Throttle_Facts\<close>). The operations of its store give back every handle on errors and
  panics too (\<open>Command_Facts\<close>). Calls spread over time admit no more than burst and elapsed time
  allow, plus two milliseconds' worth for each expiry of the key, as times to live are cut to whole
  milliseconds (\<open>Command_Runs\<close>); a negative quantity makes the command write a key and then ask for a
  negative time to live, and it ends as the server answers (\<open>Command_Edges\<close>). Calling a command of the
  server that has an answer gives back every string and reply (\<open>Redis_Calls\<close>); nothing is claimed
  of the null pointer that stands for no answer. The headers' initialisations fetch what they declare, loading
  announces the module before it registers the command, and Rust's
  declarations and constants agree with the headers up to the exceptions listed
  (\<open>Foreign_Facts\<close>). Their types are declared before use, and versions of a structure keep their common
  part in place (\<open>Type_Facts\<close>).

  \<^bold>\<open>Bounds.\<close> \<open>gcra_bounds\<close> keeps the emission interval, the tolerance and the cost of a request
  below \<open>2 ^ 61\<close> nanoseconds (73 years) and times before the year 2116, so that no product leaves
  64 bits; \<open>quota_ok\<close> keeps the command's period below 104 days and its count at most \<open>2 ^ 53\<close>, so
  that the floating-point quotient is exact. Over Redis a request must cost at least a
  millisecond, since times to live are sent in whole milliseconds.

  \<^bold>\<open>The server.\<close> \<open>redis_host\<close> is the documented behaviour of the functions that the command calls. Beyond
  the documentation, \<open>Command_Runs\<close> takes the server's milliseconds and the module's clock to be one
  clock (\<open>served\<close>), and \<open>framed_host\<close> takes a time to live that is not positive to concern no
  other key.

  \<^bold>\<open>Build.\<close> The model is of a release build on a 64-bit platform: \<open>log_debug!\<close> is empty, integer
  arithmetic wraps, and a panic aborts at the \<open>extern "C"\<close> boundary.

  \<^bold>\<open>Not modelled.\<close> \<^verbatim>\<open>build.rs\<close> and the containers of
  \<^verbatim>\<open>tests/e2e.rs\<close> do not run in the module. Of the headers, the macros for
  attributes of the compiler, for qualifiers and for renamed symbols are left out. What happens after a foreign
  call whose declaration differs from the header's is undefined, and is not modelled: the
  functions are taken to do what they are documented to do.
\<close>

end
